(* ===== verification/Prelude.thy ===== *)
theory Prelude
  imports
    Main
    "HOL-Library.Char_ord"
    "HOL-Library.List_Lexorder"
    "HOL-Library.Product_Lexorder"
    "HOL-Library.Multiset"
begin

text \<open>
  The shared vocabulary of the development: Python values, exceptions as values, the
  string operations the sources use, and the generic facts the component theories
  rely on.

  A Python value is a \<open>pyval\<close>. The constructors cover what the modelled code inspects:
  \<open>None\<close>, \<open>bool\<close>, \<open>int\<close>, \<open>str\<close>, \<open>list\<close>, \<open>tuple\<close> and \<open>dict\<close> with string keys (an
  association list in insertion order). Floats are not part of the model. A Python
  \<open>str\<close> is an Isabelle \<open>string\<close>, a list of characters; a character is one of the code
  points 0 to 255.

  A Python exception is a value of \<open>py_exc\<close>, one constructor for each exception class
  the sources raise, carrying the message. A function that may raise returns a
  \<open>result\<close>: \<open>Inl\<close> the exception, \<open>Inr\<close> the value.
\<close>

section \<open>Values, exceptions, results\<close>

datatype pyval =
    PyNone
  | PyBool bool
  | PyInt int
  | PyStr string
  | PyList "pyval list"
  | PyTuple "pyval list"
  | PyDict "(string \<times> pyval) list"

datatype py_exc =
    ValueError string
  | TypeError string
  | KeyError string
  | OverflowError string
  | FileNotFoundError string
  | MPRFContractError string
  | MPRFObservabilityError string
  | ProviderRouterContractError string
  | CapabilityLifecycleError string
  | CapabilityLifecycleStoreError string
  | LifecycleBindingError string
  | GateTerminalError string
  | OperatorTurnCheckpointError string
  | ExecutionLifecycleV2Error string
  | AIOfficeContractError string
  | AIOfficeStateStoreError string
  | WorkflowContractError string
  | GovernanceError string
  | CompletionContractError string
  | CompletionContractDriftError string
  | CompletionContractBridgeError string string

type_synonym 'a result = "py_exc + 'a"

definition rbind :: "'a result \<Rightarrow> ('a \<Rightarrow> 'b result) \<Rightarrow> 'b result" where
  "rbind r f = (case r of Inl e \<Rightarrow> Inl e | Inr x \<Rightarrow> f x)"

text \<open>A loop that applies a fallible function to every element and collects the results;
  the first exception ends it.\<close>

fun rmap :: "('a \<Rightarrow> 'b result) \<Rightarrow> 'a list \<Rightarrow> 'b list result" where
  "rmap f [] = Inr []"
| "rmap f (x # xs) = rbind (f x) (\<lambda>y. rbind (rmap f xs) (\<lambda>ys. Inr (y # ys)))"

text \<open>A loop that only checks, in order.\<close>

fun rcheck :: "('a \<Rightarrow> unit result) \<Rightarrow> 'a list \<Rightarrow> unit result" where
  "rcheck f [] = Inr ()"
| "rcheck f (x # xs) = rbind (f x) (\<lambda>_. rcheck f xs)"

text \<open>A sequence of state changes that may each raise; the first exception ends it.\<close>

fun rfold :: "('s \<Rightarrow> 'a \<Rightarrow> 's result) \<Rightarrow> 's \<Rightarrow> 'a list \<Rightarrow> 's result" where
  "rfold step s [] = Inr s"
| "rfold step s (x # xs) = rbind (step s x) (\<lambda>s'. rfold step s' xs)"

text \<open>A sequence of \<open>if condition: raise exception\<close> statements: the first condition that holds
  raises.\<close>

fun guards :: "(bool \<times> py_exc) list \<Rightarrow> unit result" where
  "guards [] = Inr ()"
| "guards ((bad, e) # gs) = (if bad then Inl e else guards gs)"

section \<open>Strings\<close>

text \<open>\<open>str.isspace\<close> on the code points 0 to 255.\<close>

definition py_isspace :: "char \<Rightarrow> bool" where
  "py_isspace c = (let n = (of_char c :: nat) in
     (9 \<le> n \<and> n \<le> 13) \<or> (28 \<le> n \<and> n \<le> 32) \<or> n = 133 \<or> n = 160)"

definition py_lstrip :: "string \<Rightarrow> string" where
  "py_lstrip s = dropWhile py_isspace s"

definition py_strip :: "string \<Rightarrow> string" where
  "py_strip s = rev (dropWhile py_isspace (rev (dropWhile py_isspace s)))"

definition py_lower_char :: "char \<Rightarrow> char" where
  "py_lower_char c = (let n = (of_char c :: nat) in
     if (65 \<le> n \<and> n \<le> 90) \<or> (192 \<le> n \<and> n \<le> 222 \<and> n \<noteq> 215) then char_of (n + 32) else c)"

definition py_lower :: "string \<Rightarrow> string" where
  "py_lower s = map py_lower_char s"

definition ascii_alnum :: "char \<Rightarrow> bool" where
  "ascii_alnum c = (let n = (of_char c :: nat) in
     (48 \<le> n \<and> n \<le> 57) \<or> (65 \<le> n \<and> n \<le> 90) \<or> (97 \<le> n \<and> n \<le> 122))"

text \<open>\<open>str.isalnum\<close> on the code points 0 to 255.\<close>

definition py_isalnum :: "char \<Rightarrow> bool" where
  "py_isalnum c = (ascii_alnum c \<or> (let n = (of_char c :: nat) in
     n = 170 \<or> n = 178 \<or> n = 179 \<or> n = 181 \<or> (185 \<le> n \<and> n \<le> 190 \<and> n \<noteq> 187) \<or>
     (192 \<le> n \<and> n \<noteq> 215 \<and> n \<noteq> 247)))"

definition lower_hex :: "char \<Rightarrow> bool" where
  "lower_hex c = (c \<in> set ''0123456789abcdef'')"

text \<open>\<open>re.fullmatch(r"[A-Za-z0-9][A-Za-z0-9<extra>]{0,n}")\<close>.\<close>

fun re_ident :: "string \<Rightarrow> nat \<Rightarrow> string \<Rightarrow> bool" where
  "re_ident extra n [] = False"
| "re_ident extra n (c # cs) =
     (ascii_alnum c \<and> list_all (\<lambda>d. ascii_alnum d \<or> d \<in> set extra) cs \<and> length cs \<le> n)"

text \<open>\<open>re.fullmatch(r"[0-9a-f]{64}")\<close>.\<close>

definition re_sha256 :: "string \<Rightarrow> bool" where
  "re_sha256 s = (length s = 64 \<and> list_all lower_hex s)"

definition py_startswith :: "string \<Rightarrow> string \<Rightarrow> bool" where
  "py_startswith s p = (take (length p) s = p)"

definition py_endswith :: "string \<Rightarrow> string \<Rightarrow> bool" where
  "py_endswith s p = (length p \<le> length s \<and> drop (length s - length p) s = p)"

text \<open>\<open>p in s\<close>.\<close>

fun py_contains :: "string \<Rightarrow> string \<Rightarrow> bool" where
  "py_contains [] p = (p = [])"
| "py_contains (c # cs) p = (py_startswith (c # cs) p \<or> py_contains cs p)"

fun py_join :: "string \<Rightarrow> string list \<Rightarrow> string" where
  "py_join sep [] = []"
| "py_join sep [x] = x"
| "py_join sep (x # y # ys) = x @ sep @ py_join sep (y # ys)"

text \<open>Decimal text of an integer.\<close>

definition digit_char :: "nat \<Rightarrow> char" where
  "digit_char n = ''0123456789'' ! (n mod 10)"

fun show_nat :: "nat \<Rightarrow> string" where
  "show_nat n = (if n < 10 then [digit_char n] else show_nat (n div 10) @ [digit_char (n mod 10)])"

declare show_nat.simps [simp del]

definition show_int :: "int \<Rightarrow> string" where
  "show_int i = (if i < 0 then CHR ''-'' # show_nat (nat (- i)) else show_nat (nat i))"

section \<open>Python containers\<close>

text \<open>\<open>sorted(set(xs))\<close>: the elements once each, in ascending order.\<close>

definition sorted_set :: "'a::linorder list \<Rightarrow> 'a list" where
  "sorted_set xs = sort (remdups xs)"

text \<open>\<open>len(xs) != len(set(xs))\<close> is \<open>\<not> distinct xs\<close>; \<open>tuple(dict.fromkeys(xs))\<close> keeps the
  first occurrence of every element.\<close>

fun fromkeys :: "'a list \<Rightarrow> 'a list" where
  "fromkeys [] = []"
| "fromkeys (x # xs) = x # filter (\<lambda>y. y \<noteq> x) (fromkeys xs)"

text \<open>A dict as an association list: \<open>d.get(k)\<close> and \<open>d.get(k, v)\<close>.\<close>

definition py_get :: "(string \<times> 'a) list \<Rightarrow> string \<Rightarrow> 'a option" where
  "py_get d k = map_of d k"

definition py_get_or :: "'a \<Rightarrow> (string \<times> 'a) list \<Rightarrow> string \<Rightarrow> 'a" where
  "py_get_or v d k = (case map_of d k of None \<Rightarrow> v | Some x \<Rightarrow> x)"

text \<open>\<open>d[k] = v\<close>: an existing key keeps its place, a new one goes to the end.\<close>

fun py_setitem :: "string \<Rightarrow> 'a \<Rightarrow> (string \<times> 'a) list \<Rightarrow> (string \<times> 'a) list" where
  "py_setitem k v [] = [(k, v)]"
| "py_setitem k v ((k', v') # d) = (if k = k' then (k, v) # d else (k', v') # py_setitem k v d)"

text \<open>Truth of a value in a condition (\<open>not value\<close>, \<open>value or default\<close>).\<close>

fun py_truthy :: "pyval \<Rightarrow> bool" where
  "py_truthy PyNone = False"
| "py_truthy (PyBool b) = b"
| "py_truthy (PyInt i) = (i \<noteq> 0)"
| "py_truthy (PyStr s) = (s \<noteq> [])"
| "py_truthy (PyList vs) = (vs \<noteq> [])"
| "py_truthy (PyTuple vs) = (vs \<noteq> [])"
| "py_truthy (PyDict kvs) = (kvs \<noteq> [])"

text \<open>\<open>repr\<close> and \<open>str\<close> of a value. In a quoted text the code points that Python does not print are escaped.\<close>

definition repr_char :: "char \<Rightarrow> char \<Rightarrow> string" where
  "repr_char q c = (let n = (of_char c :: nat) in
     if c = q \<or> n = 92 then [CHR 0x5C, c]
     else if n = 9 then [CHR 0x5C, CHR ''t''] else if n = 10 then [CHR 0x5C, CHR ''n'']
     else if n = 13 then [CHR 0x5C, CHR ''r'']
     else if n < 32 \<or> (127 \<le> n \<and> n \<le> 160) \<or> n = 173
     then [CHR 0x5C, CHR ''x'', ''0123456789abcdef'' ! (n div 16), ''0123456789abcdef'' ! (n mod 16)]
     else [c])"

definition repr_str :: "string \<Rightarrow> string" where
  "repr_str s = (let q = (if CHR 0x27 \<in> set s \<and> CHR 0x22 \<notin> set s then CHR 0x22 else CHR 0x27) in
     [q] @ concat (map (repr_char q) s) @ [q])"

fun py_repr :: "pyval \<Rightarrow> string" where
  "py_repr PyNone = ''None''"
| "py_repr (PyBool b) = (if b then ''True'' else ''False'')"
| "py_repr (PyInt i) = show_int i"
| "py_repr (PyStr s) = repr_str s"
| "py_repr (PyList vs) = ''['' @ py_join '', '' (map py_repr vs) @ '']''"
| "py_repr (PyTuple vs) = ''('' @ py_join '', '' (map py_repr vs) @ (if length vs = 1 then '',)'' else '')'')"
| "py_repr (PyDict kvs) = ''{'' @ py_join '', '' (map (\<lambda>(k, v). repr_str k @ '': '' @ py_repr v) kvs) @ ''}''"

definition py_str :: "pyval \<Rightarrow> string" where
  "py_str v = (case v of PyStr s \<Rightarrow> s | _ \<Rightarrow> py_repr v)"

text \<open>\<open>str(d.get(k) or "")\<close>.\<close>

definition py_text :: "(string \<times> pyval) list \<Rightarrow> string \<Rightarrow> string" where
  "py_text d k = (case py_get d k of None \<Rightarrow> [] | Some v \<Rightarrow> if py_truthy v then py_str v else [])"

text \<open>\<open>int(v)\<close>: a text is stripped and has an optional sign and digits, single underscores between them allowed;
  \<open>None\<close> where Python raises. \<open>tuple(v)\<close>: the items of a container, the characters of a text, the keys of a dict.\<close>

fun digits_value :: "nat \<Rightarrow> string \<Rightarrow> nat option" where
  "digits_value n [] = Some n"
| "digits_value n [c] = (if c \<in> set ''0123456789'' then Some (10 * n + (of_char c - 48)) else None)"
| "digits_value n (c # d # cs) =
     (if c \<notin> set ''0123456789'' then None
      else if d = CHR ''_'' \<and> cs \<noteq> [] then digits_value (10 * n + (of_char c - 48)) cs
      else digits_value (10 * n + (of_char c - 48)) (d # cs))"

definition int_text :: "string \<Rightarrow> int option" where
  "int_text s =
     (case py_strip s of
        [] \<Rightarrow> None
      | c # cs \<Rightarrow>
          if c = CHR ''-'' then (if cs = [] then None else map_option (\<lambda>n. - int n) (digits_value 0 cs))
          else if c = CHR ''+'' then (if cs = [] then None else map_option int (digits_value 0 cs))
          else map_option int (digits_value 0 (c # cs)))"

fun py_int :: "pyval \<Rightarrow> int option" where
  "py_int (PyInt i) = Some i"
| "py_int (PyBool b) = Some (if b then 1 else 0)"
| "py_int (PyStr s) = int_text s"
| "py_int _ = None"

fun py_iter :: "pyval \<Rightarrow> pyval list option" where
  "py_iter (PyList vs) = Some vs"
| "py_iter (PyTuple vs) = Some vs"
| "py_iter (PyStr s) = Some (map (\<lambda>c. PyStr [c]) s)"
| "py_iter (PyDict kvs) = Some (map (\<lambda>(k, v). PyStr k) kvs)"
| "py_iter _ = None"

text \<open>\<open>a == b\<close> on values: \<open>True\<close> is 1, a list is never a tuple, dicts are compared without regard to order.\<close>

fun eq_norm :: "pyval \<Rightarrow> pyval" where
  "eq_norm PyNone = PyNone"
| "eq_norm (PyBool b) = PyInt (if b then 1 else 0)"
| "eq_norm (PyInt i) = PyInt i"
| "eq_norm (PyStr s) = PyStr s"
| "eq_norm (PyList vs) = PyList (map eq_norm vs)"
| "eq_norm (PyTuple vs) = PyTuple (map eq_norm vs)"
| "eq_norm (PyDict kvs) = PyDict (sort_key fst (map (\<lambda>(k, v). (k, eq_norm v)) kvs))"

definition py_equal :: "pyval \<Rightarrow> pyval \<Rightarrow> bool" where
  "py_equal a b = (eq_norm a = eq_norm b)"

abbreviation strs :: "string list \<Rightarrow> pyval" where
  "strs xs \<equiv> PyList (map PyStr xs)"

section \<open>Automation for results\<close>

named_theorems unfold_checks "definitions of constructor and validator checks"

lemma rbind_Inl [simp]: "rbind (Inl e) f = Inl e"
  by (simp add: rbind_def)

lemma rbind_Inr [simp]: "rbind (Inr x) f = f x"
  by (simp add: rbind_def)

lemma rbind_eq_Inr [simp]: "rbind r f = Inr y \<longleftrightarrow> (\<exists>x. r = Inr x \<and> f x = Inr y)"
  by (cases r) (auto simp: rbind_def)

lemma rbind_eq_Inl: "rbind r f = Inl e \<longleftrightarrow> r = Inl e \<or> (\<exists>x. r = Inr x \<and> f x = Inl e)"
  by (cases r) (auto simp: rbind_def)

lemma guard_eq_Inr [simp]: "(if b then Inl e else r) = Inr y \<longleftrightarrow> \<not> b \<and> r = Inr y"
  by simp

lemma rmap_eq_Inr: "rmap f xs = Inr ys \<longleftrightarrow> list_all2 (\<lambda>x y. f x = Inr y) xs ys"
proof (induction xs arbitrary: ys)
  case Nil
  show ?case by auto
next
  case (Cons x xs)
  show ?case by (cases ys) (auto simp: Cons.IH)
qed

lemma rmap_total: "(\<And>x. x \<in> set xs \<Longrightarrow> f x = Inr (g x)) \<Longrightarrow> rmap f xs = Inr (map g xs)"
  by (induction xs) auto

lemma rcheck_eq_Inr [simp]: "rcheck f xs = Inr u \<longleftrightarrow> (\<forall>x \<in> set xs. f x = Inr ())"
  by (induction xs) auto

lemma guards_eq_Inr: "guards gs = Inr u \<longleftrightarrow> (\<forall>(bad, e) \<in> set gs. \<not> bad)"
  by (induction gs rule: guards.induct) auto

lemma rfold_append: "rfold step s (xs @ ys) = rbind (rfold step s xs) (\<lambda>s'. rfold step s' ys)"
  by (induction xs arbitrary: s) (auto simp: rbind_def split: sum.split)

text \<open>Rule induction over a run: what every step keeps, the run keeps.\<close>

lemma rfold_invariant:
  assumes "rfold step s xs = Inr s'" and "I s"
    and "\<And>s x s'. I s \<Longrightarrow> x \<in> set xs \<Longrightarrow> step s x = Inr s' \<Longrightarrow> I s'"
  shows "I s'"
  using assms
proof (induction xs arbitrary: s)
  case (Cons x xs)
  from Cons.prems(1) obtain t where t: "step s x = Inr t" "rfold step t xs = Inr s'" by auto
  show ?case
    by (rule Cons.IH [OF t(2)]) (use Cons.prems(2,3) t(1) in auto)
qed auto

section \<open>Facts on strings and lists\<close>

lemma set_sorted_set [simp]: "set (sorted_set xs) = set xs"
  by (simp add: sorted_set_def)

lemma distinct_sorted_set [simp]: "distinct (sorted_set xs)"
  by (simp add: sorted_set_def)

lemma sorted_sorted_set [simp]: "sorted (sorted_set xs)"
  by (simp add: sorted_set_def)

lemma sorted_set_cong: "set xs = set ys \<Longrightarrow> sorted_set xs = sorted_set ys"
  by (rule sorted_distinct_set_unique) simp_all

lemma sorted_set_id: "sorted xs \<Longrightarrow> distinct xs \<Longrightarrow> sorted_set xs = xs"
  by (rule sorted_distinct_set_unique) simp_all

lemma sorted_set_idem [simp]: "sorted_set (sorted_set xs) = sorted_set xs"
  by (rule sorted_set_id) simp_all

lemma sorted_set_Nil_iff [simp]: "sorted_set xs = [] \<longleftrightarrow> xs = []"
  by (metis set_empty set_sorted_set)

lemma distinct_map_sort_key: "distinct (map g (sort_key k xs)) \<longleftrightarrow> distinct (map g xs)"
proof -
  have "mset (map g (sort_key k xs)) = mset (map g xs)" by simp
  then show ?thesis by (rule mset_eq_imp_distinct_iff)
qed

text \<open>Lookup by a key in a list whose keys are distinct depends only on the set of elements.\<close>

lemma find_distinct_iff:
  "distinct (map g xs) \<Longrightarrow> find (\<lambda>x. g x = k) xs = Some y \<longleftrightarrow> y \<in> set xs \<and> g y = k"
  by (induction xs) auto

lemma find_distinct_set:
  assumes "distinct (map g fs)" "distinct (map g fs')" "set fs = set fs'"
  shows "find (\<lambda>x. g x = k) fs = find (\<lambda>x. g x = k) fs'"
proof -
  have "find (\<lambda>x. g x = k) fs = Some y \<longleftrightarrow> find (\<lambda>x. g x = k) fs' = Some y" for y
    using find_distinct_iff [OF assms(1)] find_distinct_iff [OF assms(2)] assms(3) by simp
  then show ?thesis by (metis option.exhaust)
qed

lemma distinct_filter_single:
  assumes "distinct xs" "a \<in> set xs" "\<And>x. x \<in> set xs \<Longrightarrow> P x \<longleftrightarrow> x = a"
  shows "filter P xs = [a]"
  using assms
proof (induction xs)
  case (Cons x xs)
  show ?case
  proof (cases "x = a")
    case True
    have "filter P xs = []" using Cons.prems True by (auto simp: filter_empty_conv)
    with True Cons.prems show ?thesis by simp
  next
    case False
    with Cons show ?thesis by auto
  qed
qed simp

lemma find_filter_snoc:
  "find (\<lambda>x. g x = k) (filter (\<lambda>x. g x \<noteq> g f) fs @ [f]) =
     (if k = g f then Some f else find (\<lambda>x. g x = k) fs)"
  by (induction fs) auto

lemma set_fromkeys [simp]: "set (fromkeys xs) = set xs"
  by (induction xs) auto

lemma distinct_fromkeys [simp]: "distinct (fromkeys xs)"
  by (induction xs) auto

lemma fromkeys_id: "distinct xs \<Longrightarrow> fromkeys xs = xs"
  by (induction xs) (auto intro: filter_True)

lemma dropWhile_idem [simp]: "dropWhile P (dropWhile P xs) = dropWhile P xs"
  by (induction xs) auto

lemma dropWhile_rev_last:
  "\<not> P y \<Longrightarrow> \<exists>zs. dropWhile P (ys @ [y]) = zs @ [y]"
  by (induction ys) auto

lemma dropWhile_rev_dropWhile:
  "dropWhile P (rev (dropWhile P (rev (dropWhile P xs)))) = rev (dropWhile P (rev (dropWhile P xs)))"
proof (cases "dropWhile P xs")
  case Nil
  show ?thesis unfolding Nil by simp
next
  case (Cons y ys)
  have ny: "\<not> P y"
    using hd_dropWhile [of P xs] unfolding Cons by simp
  obtain zs where zs: "dropWhile P (rev ys @ [y]) = zs @ [y]"
    using dropWhile_rev_last [of P y "rev ys"] ny by blast
  show ?thesis
    unfolding Cons by (simp only: rev.simps zs rev_append append.simps dropWhile.simps ny if_False)
qed

lemma py_strip_idem [simp]: "py_strip (py_strip s) = py_strip s"
  by (simp add: py_strip_def dropWhile_rev_dropWhile)

lemma py_strip_Nil [simp]: "py_strip [] = []"
  by (simp add: py_strip_def)

lemma py_equal_refl [simp]: "py_equal v v"
  by (simp add: py_equal_def)

lemma py_equal_PyStr [simp]: "py_equal v (PyStr s) \<longleftrightarrow> v = PyStr s" "py_equal (PyStr s) v \<longleftrightarrow> v = PyStr s"
  by (cases v; auto simp: py_equal_def) (cases v; auto simp: py_equal_def)

lemma py_str_PyStr [simp]: "py_str (PyStr s) = s"
  by (simp add: py_str_def)

lemma py_text_str: "py_get d k = Some (PyStr s) \<Longrightarrow> py_text d k = s"
  by (simp add: py_text_def)

lemma map_of_py_setitem: "map_of (py_setitem k v d) = (map_of d)(k \<mapsto> v)"
  by (induction k v d rule: py_setitem.induct) (auto simp: fun_eq_iff)

lemma py_get_setitem [simp]: "py_get (py_setitem k v d) k' = (if k' = k then Some v else py_get d k')"
  by (simp add: py_get_def map_of_py_setitem)

lemma keys_py_setitem: "map fst (py_setitem k v d) = (if k \<in> fst ` set d then map fst d else map fst d @ [k])"
  by (induction k v d rule: py_setitem.induct) auto

lemma distinct_py_setitem: "distinct (map fst d) \<Longrightarrow> distinct (map fst (py_setitem k v d))"
  by (auto simp: keys_py_setitem)

end
