(* ===== verification/Execution_Modes.thy ===== *)
theory Execution_Modes
  imports Prelude
begin

text \<open>
  \<open>runtime/orchestrator/execution_modes.py\<close>: the execution mode a run is started in,
  its normalisation from user input and what each mode permits.
\<close>

definition MOCK :: string where "MOCK = ''mock''"
definition MANUAL :: string where "MANUAL = ''manual''"
definition CODEX_CLI :: string where "CODEX_CLI = ''codex-cli''"
definition NVIDIA :: string where "NVIDIA = ''nvidia''"
definition HYBRID :: string where "HYBRID = ''hybrid''"

definition SUPPORTED_EXECUTION_MODES :: "string list" where
  "SUPPORTED_EXECUTION_MODES = [MOCK, MANUAL, CODEX_CLI, NVIDIA, HYBRID]"

record execution_mode_info =
  mi_mode :: string
  mi_description :: string
  mi_codex_cli_eligible :: bool
  mi_manual_fallback :: bool

definition py_str_opt :: "string option \<Rightarrow> string" where
  "py_str_opt mode = (case mode of None \<Rightarrow> ''None'' | Some s \<Rightarrow> s)"

definition normalize_execution_mode :: "string option \<Rightarrow> string result" where
  "normalize_execution_mode mode =
     (let raw = (case mode of None \<Rightarrow> MOCK | Some s \<Rightarrow> if s = [] then MOCK else s);
          normalized = map (\<lambda>c. if c = CHR ''_'' then CHR ''-'' else c) (py_lower (py_strip raw));
          normalized = (if normalized \<in> {''codex'', ''codexcli''} then CODEX_CLI else normalized);
          normalized = (if normalized \<in> {''nvidia-hosted'', ''nvidia_api'', ''nvidia-api''} then NVIDIA
                        else normalized)
      in if normalized \<notin> set SUPPORTED_EXECUTION_MODES
         then Inl (ValueError (''Unsupported execution mode: '' @ py_str_opt mode))
         else Inr normalized)"

definition mode_info :: "string option \<Rightarrow> execution_mode_info result" where
  "mode_info mode = rbind (normalize_execution_mode mode) (\<lambda>normalized.
     if normalized = MOCK then
       Inr \<lparr>mi_mode = normalized,
            mi_description = ''Local mock workers execute task slices in-process.'',
            mi_codex_cli_eligible = False, mi_manual_fallback = False\<rparr>
     else if normalized = MANUAL then
       Inr \<lparr>mi_mode = normalized,
            mi_description = ''Codex prompts are generated for human-driven execution.'',
            mi_codex_cli_eligible = False, mi_manual_fallback = True\<rparr>
     else if normalized = NVIDIA then
       Inr \<lparr>mi_mode = normalized,
            mi_description = ''Read-only NVIDIA hosted reasoning execution.'',
            mi_codex_cli_eligible = False, mi_manual_fallback = False\<rparr>
     else if normalized = HYBRID then
       Inr \<lparr>mi_mode = normalized,
            mi_description = ''Capability-based governed provider routing; state effects remain in the Execution Backend.'',
            mi_codex_cli_eligible = True, mi_manual_fallback = True\<rparr>
     else
       Inr \<lparr>mi_mode = normalized,
            mi_description = ''Best-effort Codex CLI execution with manual fallback.'',
            mi_codex_cli_eligible = True, mi_manual_fallback = True\<rparr>)"

lemmas mode_defs = MOCK_def MANUAL_def CODEX_CLI_def NVIDIA_def HYBRID_def

lemma supported_modes_distinct: "distinct SUPPORTED_EXECUTION_MODES"
  by (simp add: SUPPORTED_EXECUTION_MODES_def mode_defs)

lemma normalize_supported:
  "normalize_execution_mode mode = Inr m \<Longrightarrow> m \<in> set SUPPORTED_EXECUTION_MODES"
  unfolding normalize_execution_mode_def Let_def by (auto split: if_splits)

lemma supported_cases:
  assumes "m \<in> set SUPPORTED_EXECUTION_MODES"
  obtains "m = MOCK" | "m = MANUAL" | "m = CODEX_CLI" | "m = NVIDIA" | "m = HYBRID"
  using assms by (auto simp: SUPPORTED_EXECUTION_MODES_def)

text \<open>The normal forms are fixed points, so normalising twice changes nothing.\<close>

lemma normalize_fixed:
  "m \<in> set SUPPORTED_EXECUTION_MODES \<Longrightarrow> normalize_execution_mode (Some m) = Inr m"
  by (erule supported_cases)
    (simp_all add: normalize_execution_mode_def SUPPORTED_EXECUTION_MODES_def mode_defs
      py_strip_def py_isspace_def py_lower_def py_lower_char_def Let_def)

lemma normalize_idem:
  "normalize_execution_mode mode = Inr m \<Longrightarrow> normalize_execution_mode (Some m) = Inr m"
  using normalize_supported normalize_fixed by blast

end
