(* ===== verification/Sha256.thy ===== *)
theory Sha256
  imports Prelude "HOL-Library.Word"
begin

unbundle bit_operations_syntax

text \<open>
  The part of Python's standard library the sources use for digests:
  \<open>str.encode("utf-8")\<close> and \<open>hashlib.sha256(data).hexdigest()\<close>, the latter as the
  FIPS 180-4 algorithm on 32-bit words. The development needs three facts of it: the
  function is total, its text form is 64 lowercase hexadecimal digits, and equal
  digests of different byte strings are collisions, named as such in every statement
  that depends on the absence of collisions.
\<close>

section \<open>UTF-8\<close>

text \<open>Bytes are natural numbers below 256. A code point below 256 takes one or two bytes.\<close>

definition utf8_char :: "char \<Rightarrow> nat list" where
  "utf8_char c = (let n = of_char c in if n < 128 then [n] else [192 + n div 64, 128 + n mod 64])"

definition utf8 :: "string \<Rightarrow> nat list" where
  "utf8 s = concat (map utf8_char s)"

section \<open>SHA-256\<close>

type_synonym u32 = "32 word"
type_synonym sha_state = "u32 list"

definition rotr :: "nat \<Rightarrow> u32 \<Rightarrow> u32" where
  "rotr n x = (drop_bit n x OR push_bit (32 - n) x)"

definition sha_K :: "u32 list" where
  "sha_K =
    [1116352408, 1899447441, 3049323471, 3921009573, 961987163, 1508970993,
     2453635748, 2870763221, 3624381080, 310598401, 607225278, 1426881987,
     1925078388, 2162078206, 2614888103, 3248222580, 3835390401, 4022224774,
     264347078, 604807628, 770255983, 1249150122, 1555081692, 1996064986,
     2554220882, 2821834349, 2952996808, 3210313671, 3336571891, 3584528711,
     113926993, 338241895, 666307205, 773529912, 1294757372, 1396182291,
     1695183700, 1986661051, 2177026350, 2456956037, 2730485921, 2820302411,
     3259730800, 3345764771, 3516065817, 3600352804, 4094571909, 275423344,
     430227734, 506948616, 659060556, 883997877, 958139571, 1322822218,
     1537002063, 1747873779, 1955562222, 2024104815, 2227730452, 2361852424,
     2428436474, 2756734187, 3204031479, 3329325298]"

definition sha_H0 :: sha_state where
  "sha_H0 =
    [1779033703, 3144134277, 1013904242, 2773480762,
     1359893119, 2600822924, 528734635, 1541459225]"

definition sha_pad :: "nat list \<Rightarrow> nat list" where
  "sha_pad msg = (let n = length msg; bits = 8 * n in
     msg @ [128] @ replicate ((119 - n mod 64) mod 64) 0 @
     map (\<lambda>i. bits div 256 ^ (7 - i) mod 256) [0..<8])"

fun be_words :: "nat list \<Rightarrow> u32 list" where
  "be_words (a # b # c # d # bs) = of_nat (((a * 256 + b) * 256 + c) * 256 + d) # be_words bs"
| "be_words _ = []"

text \<open>The message schedule, newest word first.\<close>

fun sha_schedule :: "nat \<Rightarrow> u32 list \<Rightarrow> u32 list" where
  "sha_schedule 0 w = w"
| "sha_schedule (Suc n) w =
     (let w2 = w ! 1; w7 = w ! 6; w15 = w ! 14; w16 = w ! 15;
          s0 = rotr 7 w15 XOR rotr 18 w15 XOR drop_bit 3 w15;
          s1 = rotr 17 w2 XOR rotr 19 w2 XOR drop_bit 10 w2
      in sha_schedule n ((w16 + s0 + w7 + s1) # w))"

fun sha_round :: "(u32 \<times> u32) \<Rightarrow> sha_state \<Rightarrow> sha_state" where
  "sha_round (k, w) [a, b, c, d, e, f, g, h] =
     (let s1 = rotr 6 e XOR rotr 11 e XOR rotr 25 e;
          ch = (e AND f) XOR (NOT e AND g);
          t1 = h + s1 + ch + k + w;
          s0 = rotr 2 a XOR rotr 13 a XOR rotr 22 a;
          maj = (a AND b) XOR (a AND c) XOR (b AND c);
          t2 = s0 + maj
      in [t1 + t2, a, b, c, d + t1, e, f, g])"
| "sha_round _ st = st"

definition sha_compress :: "u32 list \<Rightarrow> sha_state \<Rightarrow> sha_state" where
  "sha_compress block st =
     map2 (+) st (fold sha_round (zip sha_K (rev (sha_schedule 48 (rev block)))) st)"

fun sha_blocks :: "u32 list \<Rightarrow> sha_state \<Rightarrow> sha_state" where
  "sha_blocks ws st =
     (if length ws < 16 then st else sha_blocks (drop 16 ws) (sha_compress (take 16 ws) st))"

declare sha_blocks.simps [simp del]

definition hex_digit :: "nat \<Rightarrow> char" where
  "hex_digit n = ''0123456789abcdef'' ! (n mod 16)"

definition hex_u32 :: "u32 \<Rightarrow> string" where
  "hex_u32 w = map (\<lambda>i. hex_digit (unat w div 16 ^ (7 - i))) [0..<8]"

definition sha256_hex :: "nat list \<Rightarrow> string" where
  "sha256_hex msg = concat (map hex_u32 (sha_blocks (be_words (sha_pad msg)) sha_H0))"

text \<open>Two different byte strings with the same digest.\<close>

definition sha_collision :: "nat list \<Rightarrow> nat list \<Rightarrow> bool" where
  "sha_collision a b = (a \<noteq> b \<and> sha256_hex a = sha256_hex b)"

section \<open>The digest text is well formed\<close>

lemma length_sha_round [simp]: "length (sha_round kw st) = length st"
  by (induction kw st rule: sha_round.induct) (simp_all add: Let_def)

lemma length_fold_sha_round [simp]: "length (fold sha_round kws st) = length st"
  by (induction kws arbitrary: st) simp_all

lemma length_sha_compress [simp]: "length (sha_compress block st) = length st"
  by (simp add: sha_compress_def)

lemma length_sha_blocks [simp]: "length (sha_blocks ws st) = length st"
proof (induction ws st rule: sha_blocks.induct)
  case (1 ws st)
  then show ?case by (subst sha_blocks.simps) simp
qed

lemma lower_hex_digit [simp]: "lower_hex (hex_digit n)"
proof -
  have "n mod 16 < length ''0123456789abcdef''" by simp
  then show ?thesis
    unfolding lower_hex_def hex_digit_def by (rule nth_mem)
qed

lemma length_concat_const: "(\<And>x. x \<in> set xs \<Longrightarrow> length (f x) = n) \<Longrightarrow> length (concat (map f xs)) = n * length xs"
  by (induction xs) auto

lemma re_sha256_hex [simp, intro]: "re_sha256 (sha256_hex msg)"
proof -
  have "length (sha256_hex msg) = 8 * length (sha_blocks (be_words (sha_pad msg)) sha_H0)"
    unfolding sha256_hex_def by (rule length_concat_const) (simp add: hex_u32_def)
  moreover have "list_all lower_hex (sha256_hex msg)"
    by (auto simp: sha256_hex_def hex_u32_def list_all_iff)
  ultimately show ?thesis by (simp add: re_sha256_def sha_H0_def)
qed

lemma sha256_hex_nonempty [simp]: "sha256_hex msg \<noteq> []"
  using re_sha256_hex [of msg] by (auto simp: re_sha256_def)

section \<open>UTF-8 is injective\<close>

lemma utf8_char_nonempty [simp]: "utf8_char c \<noteq> []"
  by (simp add: utf8_char_def Let_def)

lemma utf8_Nil [simp]: "utf8 [] = []"
  by (simp add: utf8_def)

lemma utf8_Cons [simp]: "utf8 (c # s) = utf8_char c @ utf8 s"
  by (simp add: utf8_def)

lemma utf8_append [simp]: "utf8 (s @ t) = utf8 s @ utf8 t"
  by (simp add: utf8_def)

lemma utf8_two_bytes_inj:
  fixes m n :: nat
  assumes "[192 + m div 64, 128 + m mod 64] @ r = [192 + n div 64, 128 + n mod 64] @ s"
  shows "m = n \<and> r = s"
proof -
  from assms have "m div 64 = n div 64" "m mod 64 = n mod 64" "r = s" by simp_all
  then show ?thesis by (metis div_mult_mod_eq)
qed

lemma utf8_char_cases:
  obtains (one) "(of_char c :: nat) < 128" "utf8_char c = [of_char c]"
    | (two) "utf8_char c = [192 + of_char c div 64, 128 + of_char c mod 64]"
  by (cases "(of_char c :: nat) < 128") (simp_all add: utf8_char_def Let_def)

lemma utf8_char_inj:
  assumes eq: "utf8_char c @ r = utf8_char d @ s"
  shows "c = d \<and> r = s"
proof -
  have lead: "192 + x = y \<Longrightarrow> y < 128 \<Longrightarrow> False" for x y :: nat by simp
  have "(of_char c :: nat) = of_char d \<and> r = s"
  proof (cases c rule: utf8_char_cases)
    case one
    note c = this
    show ?thesis
    proof (cases d rule: utf8_char_cases)
      case one
      with c eq show ?thesis by simp
    next
      case two
      with c eq have "192 + of_char d div 64 = (of_char c :: nat)" by simp
      with c(1) lead show ?thesis by blast
    qed
  next
    case two
    note c = this
    show ?thesis
    proof (cases d rule: utf8_char_cases)
      case one
      with c eq have "192 + of_char c div 64 = (of_char d :: nat)" by simp
      with one(1) lead show ?thesis by blast
    next
      case two
      with eq c show ?thesis by (metis utf8_two_bytes_inj)
    qed
  qed
  then show ?thesis by simp
qed

lemma utf8_inj: "utf8 s = utf8 t \<longleftrightarrow> s = t"
proof
  show "utf8 s = utf8 t \<Longrightarrow> s = t"
  proof (induction s arbitrary: t)
    case Nil
    then show ?case by (cases t) auto
  next
    case (Cons c s)
    then obtain d t' where t: "t = d # t'" by (cases t) auto
    with Cons.prems have "c = d \<and> utf8 s = utf8 t'" using utf8_char_inj by simp
    with Cons.IH t show ?case by simp
  qed
qed simp

end
