(* ===== verification/Canonical_Json.thy ===== *)
theory Canonical_Json
  imports Sha256
begin

text \<open>
  \<open>json.dumps(value, sort_keys=True, separators=(",", ":"), ensure_ascii=False)\<close>, the
  canonical text every digest of the sources is taken over, and the digest itself
  (\<open>lifecycle_binding.canonical_bytes\<close>, \<open>lifecycle_binding.sha256\<close> and the private
  \<open>_digest\<close> and \<open>_canonical_digest\<close> of the other modules, which are the same function).

  The main result is that the text determines the value up to what JSON cannot
  express: tuples are written as lists and the order of the keys of a dict is lost
  (\<open>dumps_eq_iff\<close>). So equal digests mean equal content or a collision of SHA-256.
\<close>

section \<open>The encoder\<close>

definition hex4 :: "nat \<Rightarrow> string" where
  "hex4 n = map (\<lambda>i. hex_digit (n div 16 ^ (3 - i))) [0..<4]"

definition json_escape :: "char \<Rightarrow> string" where
  "json_escape c = (let n = (of_char c :: nat) in
     if n = 34 then [CHR 0x5C, CHR 0x22]
     else if n = 92 then [CHR 0x5C, CHR 0x5C]
     else if n = 10 then CHR 0x5C # ''n''
     else if n = 13 then CHR 0x5C # ''r''
     else if n = 9 then CHR 0x5C # ''t''
     else if n = 12 then CHR 0x5C # ''f''
     else if n = 8 then CHR 0x5C # ''b''
     else if n < 32 then CHR 0x5C # CHR ''u'' # hex4 n
     else [c])"

abbreviation quote_char :: char where
  "quote_char \<equiv> CHR 0x22"

definition json_str :: "string \<Rightarrow> string" where
  "json_str s = quote_char # concat (map json_escape s) @ [quote_char]"

fun dumps :: "pyval \<Rightarrow> string" where
  "dumps PyNone = ''null''"
| "dumps (PyBool b) = (if b then ''true'' else ''false'')"
| "dumps (PyInt i) = show_int i"
| "dumps (PyStr s) = json_str s"
| "dumps (PyList vs) = ''['' @ py_join '','' (map dumps vs) @ '']''"
| "dumps (PyTuple vs) = ''['' @ py_join '','' (map dumps vs) @ '']''"
| "dumps (PyDict kvs) =
     ''{'' @ py_join '','' (map (\<lambda>(k, t). json_str k @ '':'' @ t)
       (sort_key fst (map (\<lambda>(k, v). (k, dumps v)) kvs))) @ ''}''"

definition canonical_bytes :: "pyval \<Rightarrow> nat list" where
  "canonical_bytes v = utf8 (dumps v)"

definition digest :: "pyval \<Rightarrow> string" where
  "digest v = sha256_hex (canonical_bytes v)"

text \<open>The content JSON can express: lists for tuples, keys in order.\<close>

fun json_norm :: "pyval \<Rightarrow> pyval" where
  "json_norm PyNone = PyNone"
| "json_norm (PyBool b) = PyBool b"
| "json_norm (PyInt i) = PyInt i"
| "json_norm (PyStr s) = PyStr s"
| "json_norm (PyList vs) = PyList (map json_norm vs)"
| "json_norm (PyTuple vs) = PyList (map json_norm vs)"
| "json_norm (PyDict kvs) = PyDict (sort_key fst (map (\<lambda>(k, v). (k, json_norm v)) kvs))"

text \<open>The encoder without sorting, for values already in that form.\<close>

fun emit :: "pyval \<Rightarrow> string" where
  "emit PyNone = ''null''"
| "emit (PyBool b) = (if b then ''true'' else ''false'')"
| "emit (PyInt i) = show_int i"
| "emit (PyStr s) = json_str s"
| "emit (PyList vs) = ''['' @ py_join '','' (map emit vs) @ '']''"
| "emit (PyTuple vs) = ''['' @ py_join '','' (map emit vs) @ '']''"
| "emit (PyDict kvs) = ''{'' @ py_join '','' (map (\<lambda>(k, v). json_str k @ '':'' @ emit v) kvs) @ ''}''"

section \<open>Sorting before or after encoding\<close>

lemma insort_key_map_snd:
  "insort_key fst (k, f v) (map (\<lambda>(k, v). (k, f v)) xs) = map (\<lambda>(k, v). (k, f v)) (insort_key fst (k, v) xs)"
  by (induction xs) auto

lemma sort_key_map_snd:
  "sort_key fst (map (\<lambda>(k, v). (k, f v)) xs) = map (\<lambda>(k, v). (k, f v)) (sort_key fst xs)"
  by (induction xs) (auto simp: insort_key_map_snd)

lemma dumps_emit: "dumps v = emit (json_norm v)"
proof (induction v)
  case (PyDict kvs)
  have "map (\<lambda>(k, v). (k, dumps v)) kvs = map (\<lambda>(k, t). (k, emit t)) (map (\<lambda>(k, v). (k, json_norm v)) kvs)"
    using PyDict by (auto simp: snds.simps)
  then have "sort_key fst (map (\<lambda>(k, v). (k, dumps v)) kvs) =
      map (\<lambda>(k, t). (k, emit t)) (sort_key fst (map (\<lambda>(k, v). (k, json_norm v)) kvs))"
    by (simp only: sort_key_map_snd [of emit])
  then show ?case by (simp add: comp_def case_prod_unfold)
qed (auto simp: comp_def cong: map_cong)

section \<open>Strings and numbers can be read back\<close>

definition hex_value :: "char \<Rightarrow> nat" where
  "hex_value c = (let n = of_char c in if n < 58 then n - 48 else n - 87)"

fun json_unescape :: "string \<Rightarrow> (char \<times> string) option" where
  "json_unescape [] = None"
| "json_unescape (c # r) =
    (if c \<noteq> CHR 0x5C then Some (c, r)
     else case r of
       [] \<Rightarrow> None
     | d # r' \<Rightarrow>
        if d = CHR ''n'' then Some (CHR 0x0A, r')
        else if d = CHR ''r'' then Some (CHR 0x0D, r')
        else if d = CHR ''t'' then Some (CHR 0x09, r')
        else if d = CHR ''f'' then Some (CHR 0x0C, r')
        else if d = CHR ''b'' then Some (CHR 0x08, r')
        else if d = CHR ''u'' then
          (case r' of _ # _ # h # l # r'' \<Rightarrow> Some (char_of (16 * hex_value h + hex_value l), r'') | _ \<Rightarrow> None)
        else Some (d, r'))"

lemma json_unescape_control:
  assumes "(n::nat) < 32"
  shows "json_unescape (json_escape (char_of n) @ r) = Some (char_of n, r)"
proof -
  have "n \<in> {0, 1, 2, 3, 4, 5, 6, 7, 8, 9, 10, 11, 12, 13, 14, 15, 16, 17, 18, 19, 20, 21, 22, 23, 24, 25, 26, 27, 28, 29, 30, 31}"
    unfolding insert_iff empty_iff using assms by presburger
  then show ?thesis
    by (elim insertE emptyE) (simp_all add: json_escape_def hex4_def hex_digit_def hex_value_def upt_rec char_of_eq_iff eq_commute [of _ "char_of _"])
qed

lemma json_unescape_escape: "json_unescape (json_escape c @ r) = Some (c, r)"
proof -
  define n where "n = (of_char c :: nat)"
  then have c: "c = char_of n" by simp
  consider "n < 32" | "n = 34" | "n = 92" | "\<not> n < 32" "n \<noteq> 34" "n \<noteq> 92" by blast
  then show ?thesis
  proof cases
    case 1
    then show ?thesis unfolding c by (rule json_unescape_control)
  next
    case 4
    then have "json_escape c = [c]" by (simp add: json_escape_def n_def Let_def)
    moreover have "c \<noteq> CHR 0x5C" using 4(3) unfolding n_def by auto
    ultimately show ?thesis by simp
  qed (simp_all add: c json_escape_def char_of_eq_iff eq_commute [of _ "char_of _"])
qed

lemma json_str_inj:
  assumes "json_str s @ r = json_str t @ r'"
  shows "s = t \<and> r = r'"
proof -
  have quote: "json_escape c @ x \<noteq> quote_char # y" for c x y
    using json_unescape_escape [of c x] by (auto simp: json_escape_def Let_def split: if_splits)
  have "concat (map json_escape s) @ quote_char # r = concat (map json_escape t) @ quote_char # r' \<Longrightarrow>
      s = t \<and> r = r'"
  proof (induction s arbitrary: t)
    case Nil
    then show ?case by (cases t) (use quote in \<open>auto dest: sym\<close>)
  next
    case (Cons c s)
    then obtain d t' where t: "t = d # t'" by (cases t) (use quote in auto)
    let ?x = "concat (map json_escape s) @ quote_char # r" and ?y = "concat (map json_escape t') @ quote_char # r'"
    from Cons.prems t have "json_unescape (json_escape c @ ?x) = json_unescape (json_escape d @ ?y)" by simp
    then have "c = d \<and> ?x = ?y" by (simp only: json_unescape_escape option.inject prod.inject)
    with Cons.IH [of t'] t show ?case by simp
  qed
  with assms show ?thesis by (simp add: json_str_def)
qed

abbreviation number_chars :: "char set" where
  "number_chars \<equiv> set ''-0123456789''"

definition read_nat :: "string \<Rightarrow> nat" where
  "read_nat = foldl (\<lambda>a c. 10 * a + (of_char c - 48)) 0"

lemma of_char_digit: "n < 10 \<Longrightarrow> of_char (digit_char n) = 48 + n"
proof -
  assume "n < 10"
  then have "n \<in> {0, 1, 2, 3, 4, 5, 6, 7, 8, 9}" unfolding insert_iff empty_iff by presburger
  then show ?thesis by (elim insertE emptyE) (simp_all add: digit_char_def)
qed

lemma read_show_nat: "read_nat (show_nat n) = n"
proof (induction n rule: show_nat.induct)
  case (1 n)
  then show ?case
    by (subst show_nat.simps) (auto simp: read_nat_def of_char_digit)
qed

lemma digit_char_number: "digit_char n \<in> set ''0123456789''"
proof -
  have "n mod 10 < length ''0123456789''" by simp
  then show ?thesis unfolding digit_char_def by (rule nth_mem)
qed

lemma show_nat_digits: "set (show_nat n) \<subseteq> set ''0123456789''"
proof (induction n rule: show_nat.induct)
  case (1 n)
  show ?case
  proof (cases "n < 10")
    case True
    then show ?thesis using digit_char_number [of n] by (subst show_nat.simps) simp
  next
    case False
    then show ?thesis using 1 digit_char_number [of "n mod 10"] by (subst show_nat.simps) simp
  qed
qed

lemma show_nat_nonempty [simp]: "show_nat n \<noteq> []"
  by (subst show_nat.simps) simp

lemma show_int_number: "set (show_int i) \<subseteq> number_chars"
proof -
  have "set (show_int i) \<subseteq> insert CHR ''-'' (set ''0123456789'')"
    using show_nat_digits [of "nat i"] show_nat_digits [of "nat (- i)"]
    by (cases "i < 0") (simp_all only: show_int_def if_True if_False list.set insert_mono subset_insertI2)
  then show ?thesis by simp
qed

lemma show_int_nonempty [simp]: "show_int i \<noteq> []"
  by (simp add: show_int_def)

lemma show_nat_inj: "show_nat m = show_nat n \<longleftrightarrow> m = n"
  by (metis read_show_nat)

lemma show_nat_no_minus: "show_nat n \<noteq> CHR ''-'' # x"
proof
  assume "show_nat n = CHR ''-'' # x"
  then have "CHR ''-'' \<in> set (show_nat n)" by simp
  with show_nat_digits [of n] have "CHR ''-'' \<in> set ''0123456789''" by blast
  then show False by simp
qed

lemma show_int_inj: "show_int i = show_int j \<longleftrightarrow> i = j"
  using show_nat_no_minus [symmetric]
  by (cases "i < 0"; cases "j < 0") (auto simp: show_int_def show_nat_inj show_nat_no_minus)

section \<open>The text determines the content\<close>

fun tuple_free :: "pyval \<Rightarrow> bool" where
  "tuple_free (PyList vs) = list_all tuple_free vs"
| "tuple_free (PyTuple vs) = False"
| "tuple_free (PyDict kvs) = list_all (\<lambda>(k, v). tuple_free v) kvs"
| "tuple_free v = True"

lemma tuple_free_norm: "tuple_free (json_norm v)"
  by (induction v) (auto simp: list_all_iff snds.simps)

text \<open>What may follow a value in canonical text.\<close>

definition rest_ok :: "string \<Rightarrow> bool" where
  "rest_ok r = (case r of [] \<Rightarrow> True | c # _ \<Rightarrow> c \<in> set '',]}'')"

lemma rest_ok_simps [simp]: "rest_ok []" "rest_ok (CHR '','' # r)" "rest_ok (CHR '']'' # r)" "rest_ok (CHR ''}'' # r)"
  by (simp_all add: rest_ok_def)

text \<open>\<open>prefix_inj f A x\<close>: the text of \<open>x\<close> can be told from the text of every element of \<open>A\<close>
  and ends where it ends.\<close>

definition prefix_inj :: "('a \<Rightarrow> string) \<Rightarrow> ('a \<Rightarrow> bool) \<Rightarrow> 'a \<Rightarrow> bool" where
  "prefix_inj f A x = (\<forall>y r s. A y \<longrightarrow> rest_ok r \<longrightarrow> rest_ok s \<longrightarrow> f x @ r = f y @ s \<longrightarrow> x = y \<and> r = s)"

lemma prefix_injD:
  "prefix_inj f A x \<Longrightarrow> A y \<Longrightarrow> rest_ok r \<Longrightarrow> rest_ok s \<Longrightarrow> f x @ r = f y @ s \<Longrightarrow> x = y \<and> r = s"
  by (simp add: prefix_inj_def)

lemma py_join_Cons: "py_join sep (x # xs) = x @ (if xs = [] then [] else sep @ py_join sep xs)"
  by (cases xs) simp_all

lemma join_inj:
  assumes "\<forall>x \<in> set xs. prefix_inj f A x" and "\<forall>y \<in> set ys. A y"
    and start: "\<And>x. f x \<noteq> [] \<and> hd (f x) \<notin> {CHR '']'', CHR ''}''}"
    and z: "z \<in> {CHR '']'', CHR ''}''}"
    and "py_join '','' (map f xs) @ z # r = py_join '','' (map f ys) @ z # s"
  shows "xs = ys \<and> r = s"
  using assms(1,2,5)
proof (induction xs arbitrary: ys)
  case Nil
  show ?case
  proof (cases ys)
    case (Cons y ys')
    with Nil.prems(3) start [of y] z show ?thesis by (cases "f y") (auto simp: py_join_Cons)
  qed (use Nil in simp)
next
  case (Cons x xs)
  obtain y ys' where ys: "ys = y # ys'"
  proof (cases ys)
    case Nil
    with Cons.prems(3) start [of x] z show ?thesis by (cases "f x") (auto simp: py_join_Cons)
  qed
  let ?t = "\<lambda>xs r. (if xs = [] then z # r else '','' @ py_join '','' (map f xs) @ z # r)"
  have ok: "rest_ok (?t us u)" for us u using z by auto
  have "f x @ ?t xs r = f y @ ?t ys' s"
    using Cons.prems(3) ys by (simp add: py_join_Cons split: if_splits)
  with Cons.prems(1,2) ys ok have xy: "x = y" and rest: "?t xs r = ?t ys' s"
    by (auto dest!: prefix_injD)
  show ?case
  proof (cases "xs = [] \<or> ys' = []")
    case True
    with rest z have "xs = [] \<and> ys' = [] \<and> r = s" by (auto split: if_splits)
    with xy ys show ?thesis by simp
  next
    case False
    with rest have "py_join '','' (map f xs) @ z # r = py_join '','' (map f ys') @ z # s" by simp
    with Cons.IH [of ys'] Cons.prems(1,2) ys xy show ?thesis by simp
  qed
qed

fun head_ok :: "pyval \<Rightarrow> char \<Rightarrow> bool" where
  "head_ok PyNone c = (c = CHR ''n'')"
| "head_ok (PyBool b) c = (c = (if b then CHR ''t'' else CHR ''f''))"
| "head_ok (PyInt i) c = (c \<in> number_chars)"
| "head_ok (PyStr s) c = (c = quote_char)"
| "head_ok (PyList vs) c = (c = CHR ''['')"
| "head_ok (PyTuple vs) c = (c = CHR ''['')"
| "head_ok (PyDict kvs) c = (c = CHR ''{'')"

lemma emit_head: "\<exists>c t. emit v = c # t \<and> head_ok v c"
proof (cases v)
  case (PyInt i)
  have "hd (show_int i) \<in> set (show_int i)" by simp
  with show_int_number [of i] have "hd (show_int i) \<in> number_chars" by blast
  then show ?thesis using PyInt by (metis emit.simps(3) head_ok.simps(3) list.exhaust_sel show_int_nonempty)
qed (simp_all add: json_str_def)

lemma emit_start: "emit v \<noteq> [] \<and> hd (emit v) \<notin> {CHR '']'', CHR ''}''}"
  using emit_head [of v] by (cases v) auto

lemma same_head:
  assumes "emit v @ r = emit w @ s"
  obtains c where "head_ok v c" "head_ok w c"
  using assms emit_head [of v] emit_head [of w] by fastforce

lemma takeWhile_number:
  assumes "rest_ok r"
  shows "takeWhile (\<lambda>c. c \<in> number_chars) (show_int i @ r) = show_int i"
proof -
  have "takeWhile (\<lambda>c. c \<in> number_chars) r = []"
    using assms by (cases r) (auto simp: rest_ok_def)
  moreover have "\<forall>c \<in> set (show_int i). c \<in> number_chars"
    using show_int_number by blast
  ultimately show ?thesis by (simp only: takeWhile_append2 append_Nil2)
qed

lemma prefix_injI:
  assumes "\<And>w r s c. A w \<Longrightarrow> rest_ok r \<Longrightarrow> rest_ok s \<Longrightarrow> emit v @ r = emit w @ s \<Longrightarrow>
      head_ok v c \<Longrightarrow> head_ok w c \<Longrightarrow> v = w \<and> r = s"
  shows "prefix_inj emit A v"
  unfolding prefix_inj_def using assms same_head by metis

lemma emit_inj_atom: "v = PyNone \<or> v = PyBool b \<Longrightarrow> prefix_inj emit A v"
  by (rule prefix_injI) (auto elim!: head_ok.elims split: if_splits)

lemma emit_inj_int: "prefix_inj emit A (PyInt i)"
proof (rule prefix_injI)
  fix w r s c
  assume eq: "emit (PyInt i) @ r = emit w @ s" and ok: "rest_ok r" "rest_ok s"
    and "head_ok (PyInt i) c" "head_ok w c"
  then obtain j where w: "w = PyInt j" by (cases w) (auto split: if_splits)
  with eq have eq': "show_int i @ r = show_int j @ s" by simp
  then have "show_int i = show_int j" using takeWhile_number ok by metis
  with eq' w show "PyInt i = w \<and> r = s" by (simp add: show_int_inj)
qed

lemma emit_inj_str: "prefix_inj emit A (PyStr x)"
proof (rule prefix_injI)
  fix w r s c
  assume eq: "emit (PyStr x) @ r = emit w @ s" and "head_ok (PyStr x) c" "head_ok w c"
  then obtain y where w: "w = PyStr y" by (cases w) (auto split: if_splits)
  with eq show "PyStr x = w \<and> r = s" by (auto dest: json_str_inj)
qed

lemma emit_inj_list:
  assumes "\<forall>x \<in> set vs. prefix_inj emit tuple_free x"
  shows "prefix_inj emit tuple_free (PyList vs)"
proof (rule prefix_injI)
  fix w r s c
  assume eq: "emit (PyList vs) @ r = emit w @ s" and tf: "tuple_free w"
    and "head_ok (PyList vs) c" "head_ok w c"
  with tf obtain ws where w: "w = PyList ws" by (cases w) (auto split: if_splits)
  have "vs = ws \<and> r = s"
  proof (rule join_inj [where f = emit and A = tuple_free and z = "CHR '']''"])
    show "py_join '','' (map emit vs) @ CHR '']'' # r = py_join '','' (map emit ws) @ CHR '']'' # s"
      using eq w by simp
  qed (use assms tf w emit_start in \<open>auto simp: list_all_iff\<close>)
  with w show "PyList vs = w \<and> r = s" by simp
qed

lemma emit_inj_dict:
  assumes vals: "\<forall>(k, v) \<in> set kvs. prefix_inj emit tuple_free v"
  shows "prefix_inj emit tuple_free (PyDict kvs)"
proof (rule prefix_injI)
  let ?f = "\<lambda>(k, v). json_str k @ '':'' @ emit v" and ?A = "\<lambda>(k :: string, v). tuple_free v"
  fix w r s c
  assume eq: "emit (PyDict kvs) @ r = emit w @ s" and tf: "tuple_free w"
    and "head_ok (PyDict kvs) c" "head_ok w c"
  then obtain kws where w: "w = PyDict kws" by (cases w) (auto split: if_splits)
  have "kvs = kws \<and> r = s"
  proof (rule join_inj [where f = ?f and A = ?A and z = "CHR ''}''"])
    show "\<forall>x \<in> set kvs. prefix_inj ?f ?A x"
      using vals by (fastforce simp: prefix_inj_def dest!: json_str_inj)
    show "py_join '','' (map ?f kvs) @ CHR ''}'' # r = py_join '','' (map ?f kws) @ CHR ''}'' # s"
      using eq w by simp
    show "?f x \<noteq> [] \<and> hd (?f x) \<notin> {CHR '']'', CHR ''}''}" for x
      by (auto simp: json_str_def split: prod.splits)
  qed (use tf w in \<open>auto simp: list_all_iff\<close>)
  with w show "PyDict kvs = w \<and> r = s" by simp
qed

lemma emit_prefix_inj: "tuple_free v \<Longrightarrow> prefix_inj emit tuple_free v"
proof (induction v)
  case (PyList vs)
  then show ?case by (auto simp: list_all_iff intro: emit_inj_list)
next
  case (PyDict kvs)
  then show ?case by (fastforce simp: list_all_iff snds.simps intro: emit_inj_dict)
qed (auto intro: emit_inj_atom emit_inj_int emit_inj_str)

theorem dumps_eq_iff: "dumps v = dumps w \<longleftrightarrow> json_norm v = json_norm w"
proof
  assume "dumps v = dumps w"
  then have "emit (json_norm v) @ [] = emit (json_norm w) @ []" by (simp add: dumps_emit)
  then show "json_norm v = json_norm w"
    using prefix_injD [OF emit_prefix_inj] tuple_free_norm rest_ok_simps(1) by blast
qed (simp add: dumps_emit)

lemma canonical_bytes_eq_iff: "canonical_bytes v = canonical_bytes w \<longleftrightarrow> json_norm v = json_norm w"
  by (simp add: canonical_bytes_def utf8_inj dumps_eq_iff)

lemma digest_norm_cong: "json_norm v = json_norm w \<Longrightarrow> digest v = digest w"
  by (simp add: digest_def flip: canonical_bytes_eq_iff)

lemma digest_eqD:
  "digest v = digest w \<Longrightarrow> json_norm v = json_norm w \<or> sha_collision (canonical_bytes v) (canonical_bytes w)"
  by (auto simp: digest_def sha_collision_def canonical_bytes_eq_iff)

lemma re_sha256_digest [simp, intro]: "re_sha256 (digest v)"
  by (simp add: digest_def)

lemma digest_nonempty [simp]: "digest v \<noteq> []"
  by (simp add: digest_def)

section \<open>Dicts with the same keys\<close>

lemma distinct_keys_sort_key: "distinct (map fst (sort_key fst kvs)) = distinct (map fst kvs)"
proof (rule mset_eq_imp_distinct_iff)
  show "mset (map fst (sort_key fst kvs)) = mset (map fst kvs)" by (simp only: mset_map mset_sort)
qed

lemma map_of_sort_key: "distinct (map fst kvs) \<Longrightarrow> map_of (sort_key fst kvs) = map_of kvs"
  by (rule map_of_inject_set [THEN iffD2]) (simp_all add: distinct_keys_sort_key)

definition norm_values :: "(string \<times> pyval) list \<Rightarrow> (string \<times> pyval) list" where
  "norm_values kvs = map (\<lambda>(k, v). (k, json_norm v)) kvs"

lemma json_norm_dict: "json_norm (PyDict kvs) = PyDict (sort_key fst (norm_values kvs))"
  by (simp add: norm_values_def)

lemma json_norm_dict_cong: "norm_values kvs = norm_values kws \<Longrightarrow> json_norm (PyDict kvs) = json_norm (PyDict kws)"
  by (simp only: json_norm_dict)

lemma norm_values_simps [simp]:
  "norm_values [] = []"
  "norm_values ((k, v) # kvs) = (k, json_norm v) # norm_values kvs"
  "norm_values (kvs @ kws) = norm_values kvs @ norm_values kws"
  by (simp_all add: norm_values_def)

lemma keys_norm_values [simp]: "map fst (norm_values kvs) = map fst kvs"
  by (induction kvs) (auto simp: norm_values_def)

lemma map_of_norm_values: "map_of (norm_values kvs) k = map_option json_norm (map_of kvs k)"
  by (induction kvs) (auto simp: norm_values_def)

lemma json_norm_dict_map_of:
  assumes eq: "json_norm (PyDict kvs) = json_norm (PyDict kws)"
    and d: "distinct (map fst kvs)" "distinct (map fst kws)"
  shows "map_option json_norm (map_of kvs k) = map_option json_norm (map_of kws k)"
proof -
  have "map_of (norm_values kvs) = map_of (norm_values kws)"
    using eq d map_of_sort_key [of "norm_values kvs"] map_of_sort_key [of "norm_values kws"]
    by (simp only: json_norm_dict pyval.inject keys_norm_values)
  then show ?thesis by (simp only: flip: map_of_norm_values)
qed

lemma json_norm_dict_same_keys:
  assumes eq: "json_norm (PyDict kvs) = json_norm (PyDict kws)"
    and keys: "map fst kvs = map fst kws" and d: "distinct (map fst kvs)"
  shows "map (json_norm \<circ> snd) kvs = map (json_norm \<circ> snd) kws"
proof (rule nth_equalityI)
  from keys show len: "length (map (json_norm \<circ> snd) kvs) = length (map (json_norm \<circ> snd) kws)"
    by (metis length_map)
  fix i assume i: "i < length (map (json_norm \<circ> snd) kvs)"
  let ?k = "map fst kvs ! i"
  have "map_of kvs ?k = Some (snd (kvs ! i))"
    using i d by (simp add: map_of_eq_Some_iff)
  moreover have "map_of kws ?k = Some (snd (kws ! i))"
    unfolding keys using i len d keys by (simp add: map_of_eq_Some_iff)
  ultimately have "json_norm (snd (kvs ! i)) = json_norm (snd (kws ! i))"
    using json_norm_dict_map_of [OF eq d, of ?k] d keys by simp
  with i len show "map (json_norm \<circ> snd) kvs ! i = map (json_norm \<circ> snd) kws ! i" by simp
qed

lemma json_norm_dict_perm:
  assumes "mset kvs = mset kws" and d: "distinct (map fst kvs)"
  shows "json_norm (PyDict kvs) = json_norm (PyDict kws)"
proof -
  have m: "mset (norm_values kvs) = mset (norm_values kws)"
    using assms(1) by (simp only: norm_values_def mset_map)
  have "inj_on fst (set (norm_values kvs))"
    using d by (metis distinct_map keys_norm_values)
  then have "sort_key fst (norm_values kvs) = sort_key fst (norm_values kws)"
    by (intro sort_key_inj_key_eq) (simp_all add: m)
  then show ?thesis by (simp only: json_norm_dict)
qed

section \<open>Line separators\<close>

text \<open>U+0085 in the text of a value: the one line separator of \<open>str.splitlines\<close> that the encoder leaves as it is (the others below
  U+0100 are control characters, which it escapes).\<close>

fun no_nel :: "pyval \<Rightarrow> bool" where
  "no_nel (PyStr s) = (CHR 0x85 \<notin> set s)"
| "no_nel (PyList vs) = list_all no_nel vs"
| "no_nel (PyTuple vs) = list_all no_nel vs"
| "no_nel (PyDict kvs) = list_all (\<lambda>(k, v). CHR 0x85 \<notin> set k \<and> no_nel v) kvs"
| "no_nel v = True"

lemma nel_escape: "CHR 0x85 \<in> set (json_escape c) \<Longrightarrow> c = CHR 0x85"
proof -
  have "CHR 0x85 \<notin> set (hex4 n)" for n
  proof
    assume "CHR 0x85 \<in> set (hex4 n)"
    then obtain m where "hex_digit m = CHR 0x85" by (auto simp: hex4_def)
    then show False using lower_hex_digit [of m] by (simp add: lower_hex_def)
  qed
  then show "CHR 0x85 \<in> set (json_escape c) \<Longrightarrow> c = CHR 0x85"
    by (auto simp: json_escape_def Let_def split: if_splits)
qed

lemma nel_json_str: "CHR 0x85 \<notin> set s \<Longrightarrow> CHR 0x85 \<notin> set (json_str s)"
  by (auto simp: json_str_def dest: nel_escape)

lemma set_py_join: "c \<in> set (py_join sep xs) \<Longrightarrow> c \<in> set sep \<or> (\<exists>x \<in> set xs. c \<in> set x)"
  by (induction sep xs rule: py_join.induct) auto

lemma nel_show_int: "CHR 0x85 \<notin> set (show_int i)"
  using show_int_number [of i] by auto

lemma dumps_no_nel: "no_nel v \<Longrightarrow> CHR 0x85 \<notin> set (dumps v)"
proof (induction v)
  case (PyList vs)
  then show ?case by (auto simp: list_all_iff dest!: set_py_join)
next
  case (PyTuple vs)
  then show ?case by (auto simp: list_all_iff dest!: set_py_join)
next
  case (PyDict kvs)
  have "CHR 0x85 \<notin> set (dumps v)" if "(k, v) \<in> set kvs" for k v
    using PyDict that by (force simp: list_all_iff snds.simps)
  moreover have "CHR 0x85 \<notin> set (json_str k)" if "(k, v) \<in> set kvs" for k v
    using PyDict.prems that by (intro nel_json_str) (force simp: list_all_iff)
  ultimately show ?case by (auto dest!: set_py_join)
qed (auto simp: nel_json_str nel_show_int)

lemma sha256_no_nel: "re_sha256 s \<Longrightarrow> CHR 0x85 \<notin> set s"
proof
  assume "re_sha256 s" "CHR 0x85 \<in> set s"
  then have "lower_hex CHR 0x85" by (simp add: re_sha256_def list_all_iff)
  then show False by (simp add: lower_hex_def)
qed

lemma nel_json_str_in: "CHR 0x85 \<in> set s \<Longrightarrow> CHR 0x85 \<in> set (json_str s)"
  by (auto simp: json_str_def json_escape_def Let_def intro!: bexI [of _ "CHR 0x85"])

lemma set_py_join_in: "x \<in> set xs \<Longrightarrow> c \<in> set x \<Longrightarrow> c \<in> set (py_join sep xs)"
  by (induction sep xs rule: py_join.induct) auto

lemma nel_dict_in:
  assumes "(k, v) \<in> set kvs" "CHR 0x85 \<in> set (dumps v)"
  shows "CHR 0x85 \<in> set (dumps (PyDict kvs))"
proof -
  let ?xs = "map (\<lambda>(k, t). json_str k @ '':'' @ t) (sort_key fst (map (\<lambda>(k, v). (k, dumps v)) kvs))"
  have "json_str k @ '':'' @ dumps v \<in> set ?xs" using assms(1) by force
  from set_py_join_in [OF this] assms(2) have "CHR 0x85 \<in> set (py_join '','' ?xs)" by simp
  then show ?thesis by simp
qed

lemma nel_key_in:
  assumes "(k, v) \<in> set kvs" "CHR 0x85 \<in> set k"
  shows "CHR 0x85 \<in> set (dumps (PyDict kvs))"
proof -
  let ?xs = "map (\<lambda>(k, t). json_str k @ '':'' @ t) (sort_key fst (map (\<lambda>(k, v). (k, dumps v)) kvs))"
  have "json_str k @ '':'' @ dumps v \<in> set ?xs" using assms(1) by force
  from set_py_join_in [OF this] nel_json_str_in [OF assms(2)] have "CHR 0x85 \<in> set (py_join '','' ?xs)" by simp
  then show ?thesis by simp
qed

lemma dumps_nel_iff: "CHR 0x85 \<in> set (dumps v) \<longleftrightarrow> \<not> no_nel v"
proof
  show "CHR 0x85 \<in> set (dumps v) \<Longrightarrow> \<not> no_nel v" using dumps_no_nel by blast
next
  show "\<not> no_nel v \<Longrightarrow> CHR 0x85 \<in> set (dumps v)"
  proof (induction v)
    case (PyList vs)
    then obtain v where "v \<in> set vs" "CHR 0x85 \<in> set (dumps v)" by (auto simp: list_all_iff)
    then show ?case using set_py_join_in [of "dumps v" "map dumps vs" "CHR 0x85" "'',''"] by simp
  next
    case (PyTuple vs)
    then obtain v where "v \<in> set vs" "CHR 0x85 \<in> set (dumps v)" by (auto simp: list_all_iff)
    then show ?case using set_py_join_in [of "dumps v" "map dumps vs" "CHR 0x85" "'',''"] by simp
  next
    case (PyDict kvs)
    then obtain k v where kv: "(k, v) \<in> set kvs" "CHR 0x85 \<in> set k \<or> \<not> no_nel v" by (auto simp: list_all_iff)
    then show ?case
    proof (cases "CHR 0x85 \<in> set k")
      case True
      then show ?thesis by (rule nel_key_in [OF kv(1)])
    next
      case False
      then have "CHR 0x85 \<in> set (dumps v)" using kv PyDict.IH by (force simp: snds.simps)
      then show ?thesis by (rule nel_dict_in [OF kv(1)])
    qed
  qed (auto simp: nel_json_str_in)
qed

end
