(* ===== verification/Sealing.thy ===== *)
theory Sealing
  imports Canonical_Json
begin

text \<open>
  The contract of a sealed artifact. Checkpoints, capability lifecycle records,
  envelopes and Gate states all carry the digest of their other fields in one field of
  their own, and are accepted only while that digest still matches. The locale
  \<open>sealed\<close> states that contract once; the component theories interpret it on their
  own records. The locale \<open>digest_chain\<close> is the contract of a journal of such artifacts.

  \<open>unsigned\<close> is the dict the digest is taken over, \<open>stored\<close> the digest field and
  \<open>reseal\<close> the replacement of that field. \<open>intact\<close> is the check the code performs.
\<close>

locale sealed =
  fixes unsigned :: "'r \<Rightarrow> pyval"
    and stored :: "'r \<Rightarrow> string"
    and reseal :: "string \<Rightarrow> 'r \<Rightarrow> 'r"
    and intact :: "'r \<Rightarrow> bool"
  assumes unsigned_reseal: "unsigned (reseal d r) = unsigned r"
    and stored_reseal: "stored (reseal d r) = d"
    and intact_iff: "intact r \<longleftrightarrow> stored r = digest (unsigned r)"
begin

lemma intact_reseal: "intact (reseal (digest (unsigned r)) r)"
  by (simp add: intact_iff unsigned_reseal stored_reseal)

lemma intact_reseal_iff: "intact (reseal d r) \<longleftrightarrow> d = digest (unsigned r)"
  by (auto simp: intact_iff unsigned_reseal stored_reseal)

lemma intact_stored_sha256: "intact r \<Longrightarrow> re_sha256 (stored r)"
  by (simp add: intact_iff)

text \<open>Two intact artifacts with the same digest have the same content, or exhibit a
  collision of SHA-256.\<close>

lemma intact_same_digest:
  assumes "intact r" "intact r'" "stored r = stored r'"
  shows "json_norm (unsigned r) = json_norm (unsigned r') \<or>
    sha_collision (canonical_bytes (unsigned r)) (canonical_bytes (unsigned r'))"
  using assms by (intro digest_eqD) (simp add: intact_iff)

end

text \<open>The content determines the whole artifact but for its digest.\<close>

locale sealed_injective = sealed +
  assumes unsigned_inj: "json_norm (unsigned r) = json_norm (unsigned r') \<Longrightarrow> stored r = stored r' \<Longrightarrow> r = r'"
begin

lemma intact_determined:
  assumes "intact r" "intact r'" "stored r = stored r'"
  shows "r = r' \<or> sha_collision (canonical_bytes (unsigned r)) (canonical_bytes (unsigned r'))"
  using intact_same_digest [OF assms] unsigned_inj assms(3) by blast

end

text \<open>
  A journal whose lines are chained by digests. \<open>accept e s l\<close> reads the line \<open>l\<close> of a journal with identity \<open>e\<close> after the
  lines that led to \<open>s\<close>; \<open>tip\<close> is the digest the next line has to name and \<open>content\<close> what the digest of a line is taken over.
  Lines with the same content name the same predecessor.
\<close>

locale digest_chain =
  fixes accept :: "'e \<Rightarrow> 's \<Rightarrow> 'l \<Rightarrow> 's result"
    and start :: 's
    and tip :: "'s \<Rightarrow> string"
    and content :: "'l \<Rightarrow> pyval"
  assumes tip_start: "tip start = []"
    and tip_accept: "accept e s l = Inr s' \<Longrightarrow> tip s' = digest (content l)"
    and content_predecessor: "accept e s l = Inr s' \<Longrightarrow> accept f t m = Inr t' \<Longrightarrow> json_norm (content l) = json_norm (content m) \<Longrightarrow>
      list_all lower_hex (tip s) \<Longrightarrow> list_all lower_hex (tip t) \<Longrightarrow> tip s = tip t"
begin

lemma tip_digest:
  assumes "rfold (accept e) start ls = Inr s"
  shows "list_all lower_hex (tip s)" "tip s = [] \<longleftrightarrow> ls = []"
proof -
  have "list_all lower_hex (tip s) \<and> (tip s = [] \<longleftrightarrow> ls = [])"
  proof (cases ls rule: rev_cases)
    case (snoc xs x)
    then obtain t where "accept e t x = Inr s" using assms by (auto simp: rfold_append)
    then have "tip s = digest (content x)" by (rule tip_accept)
    then show ?thesis using snoc re_sha256_digest [of "content x"] by (simp add: re_sha256_def)
  qed (use assms tip_start in auto)
  then show "list_all lower_hex (tip s)" "tip s = [] \<longleftrightarrow> ls = []" by simp_all
qed

text \<open>Two journals with the same tip have the same content, or two lines at the same distance from the end exhibit a
  collision of SHA-256.\<close>

lemma chain_determined:
  assumes "rfold (accept e) start ls = Inr s" "rfold (accept f) start ms = Inr t" "tip s = tip t"
  shows "map (\<lambda>l. json_norm (content l)) ls = map (\<lambda>l. json_norm (content l)) ms \<or>
    (\<exists>k < min (length ls) (length ms). sha_collision (canonical_bytes (content (rev ls ! k))) (canonical_bytes (content (rev ms ! k))))"
  using assms
proof (induction ls arbitrary: ms s t rule: rev_induct)
  case Nil
  then show ?case using tip_digest(2) [OF Nil(2)] tip_start by auto
next
  case (snoc x xs)
  from snoc.prems(1) obtain u where x: "rfold (accept e) start xs = Inr u" "accept e u x = Inr s" by (auto simp: rfold_append)
  have "ms \<noteq> []" using tip_digest(2) [OF snoc.prems(1)] tip_digest(2) [OF snoc.prems(2)] snoc.prems(3) by auto
  then obtain ys y where ms: "ms = ys @ [y]" by (cases ms rule: rev_cases) auto
  with snoc.prems(2) obtain v where y: "rfold (accept f) start ys = Inr v" "accept f v y = Inr t" by (auto simp: rfold_append)
  have "digest (content x) = digest (content y)" using tip_accept [OF x(2)] tip_accept [OF y(2)] snoc.prems(3) by simp
  then consider (collision) "sha_collision (canonical_bytes (content x)) (canonical_bytes (content y))"
    | (same) "json_norm (content x) = json_norm (content y)" using digest_eqD by blast
  then show ?case
  proof cases
    case collision
    then show ?thesis unfolding ms by (intro disjI2 exI [of _ 0]) simp
  next
    case same
    have "tip u = tip v" by (rule content_predecessor [OF x(2) y(2) same tip_digest(1) [OF x(1)] tip_digest(1) [OF y(1)]])
    from snoc.IH [OF x(1) y(1) this] show ?thesis
    proof
      assume "\<exists>k < min (length xs) (length ys).
        sha_collision (canonical_bytes (content (rev xs ! k))) (canonical_bytes (content (rev ys ! k)))"
      then obtain k where "k < min (length xs) (length ys)"
        "sha_collision (canonical_bytes (content (rev xs ! k))) (canonical_bytes (content (rev ys ! k)))" by blast
      then show ?thesis unfolding ms by (intro disjI2 exI [of _ "Suc k"]) simp
    qed (simp add: ms same)
  qed
qed

end

lemma json_norm_strs_eq_iff: "json_norm (strs xs) = json_norm (strs ys) \<longleftrightarrow> xs = ys"
proof
  assume "json_norm (strs xs) = json_norm (strs ys)"
  then have "map PyStr xs = map PyStr ys" by (simp add: comp_def)
  then show "xs = ys" by (metis inj_map_eq_map inj_def pyval.inject(3))
qed simp

end
