(* ===== verification/Provider_Router.thy ===== *)
theory Provider_Router
  imports Execution_Modes Sealing
begin

text \<open>
  \<open>runtime/orchestrator/provider_router.py\<close>: the only authority that selects a provider
  and a model. The legacy mode router (\<open>route_provider\<close>), the eligibility snapshot, the
  governed request and decision contracts and the governed router (\<open>route_request\<close>).

  A frozen dataclass is a record; its constructor is the function \<open><record>_init\<close>, the
  translation of \<open>__post_init__\<close> on the raw field values: it raises, or returns the
  record with the fields the code overwrites. Mappings are association lists in
  insertion order. The readers of untyped mappings
  (\<open>eligibility_snapshot_from_mapping\<close>, \<open>router_request_from_mapping\<close>,
  \<open>validate_router_envelope\<close>) are not modelled here.
\<close>

section \<open>Identities and capability classes\<close>

definition CODEX_PROVIDER :: string where "CODEX_PROVIDER = ''codex''"
definition LOCAL_PROVIDER :: string where "LOCAL_PROVIDER = ''local''"
definition MANUAL_PROVIDER :: string where "MANUAL_PROVIDER = ''manual''"
definition NVIDIA_PROVIDER :: string where "NVIDIA_PROVIDER = ''nvidia''"

definition BUILTIN_PROVIDER_IDS :: "string set" where
  "BUILTIN_PROVIDER_IDS = {CODEX_PROVIDER, NVIDIA_PROVIDER}"

definition valid_provider_id :: "string \<Rightarrow> bool" where
  "valid_provider_id value = re_ident ''._:-'' 127 value"

definition STATE_CHANGING_CAPABILITIES :: "string set" where
  "STATE_CHANGING_CAPABILITIES =
     {''filesystem_write'', ''shell'', ''test'', ''test_execution'', ''git'', ''implementation'',
      ''implementation_apply'', ''integration'', ''activation''}"

definition READ_ONLY_CAPABILITIES :: "string set" where
  "READ_ONLY_CAPABILITIES =
     {''read_only'', ''reasoning'', ''evidence_analysis'', ''code_generation'', ''patch_generation'',
      ''test_design'', ''implementation_generation'', ''review'', ''diagnostics'', ''documentation'',
      ''security_review''}"

section \<open>The legacy mode router\<close>

record provider_route_decision =
  pr_provider :: string
  pr_mode :: string
  pr_reason_code :: string
  pr_required_capabilities :: "string list"
  pr_eligible :: bool

definition legacy_capabilities :: "string list \<Rightarrow> string list" where
  "legacy_capabilities caps = sorted_set (filter (\<lambda>c. c \<noteq> []) (map py_strip caps))"

definition state_changing :: "string list \<Rightarrow> bool" where
  "state_changing caps = list_ex (\<lambda>c. c \<in> STATE_CHANGING_CAPABILITIES) caps"

definition route_provider :: "string option \<Rightarrow> string list \<Rightarrow> provider_route_decision result" where
  "route_provider mode required = rbind (normalize_execution_mode mode) (\<lambda>normalized_mode.
     let capabilities = legacy_capabilities required;
         has_state_change = state_changing capabilities;
         read_only = (''read_only'' \<in> set capabilities \<and> \<not> has_state_change)
     in
     if normalized_mode = MOCK then
       Inr (provider_route_decision.make LOCAL_PROVIDER normalized_mode ''mode_mock_local'' capabilities True)
     else if normalized_mode = MANUAL then
       Inr (provider_route_decision.make MANUAL_PROVIDER normalized_mode ''mode_manual'' capabilities True)
     else if normalized_mode = CODEX_CLI then
       Inr (provider_route_decision.make CODEX_PROVIDER normalized_mode ''mode_codex_cli'' capabilities True)
     else if normalized_mode = NVIDIA then
       (if read_only then
          Inr (provider_route_decision.make NVIDIA_PROVIDER normalized_mode ''nvidia_read_only'' capabilities True)
        else
          Inr (provider_route_decision.make MANUAL_PROVIDER normalized_mode ''nvidia_rejects_state_changing''
            capabilities False))
     else if normalized_mode = HYBRID then
       (if read_only then
          Inr (provider_route_decision.make NVIDIA_PROVIDER normalized_mode ''hybrid_read_only_to_nvidia''
            capabilities True)
        else
          Inr (provider_route_decision.make MANUAL_PROVIDER normalized_mode
            ''hybrid_state_change_requires_governed_router'' capabilities False))
     else Inl (ValueError (''Unsupported execution mode: '' @ py_str_opt mode)))"

section \<open>Contracts of the governed router\<close>

definition ROUTER_REQUEST_SCHEMA_V2 :: string where
  "ROUTER_REQUEST_SCHEMA_V2 = ''orchestration.router-request.v2''"
definition ROUTER_DECISION_SCHEMA_V2 :: string where
  "ROUTER_DECISION_SCHEMA_V2 = ''orchestration.router-decision.v2''"
definition ELIGIBILITY_SCHEMA_V1 :: string where
  "ELIGIBILITY_SCHEMA_V1 = ''orchestration.provider-eligibility-snapshot.v1''"
definition GOVERNED_POLICY_V1 :: string where
  "GOVERNED_POLICY_V1 = ''NVIDIA_PRIMARY_CODEX_SECONDARY_V1''"
definition ROUTER_REQUEST_SOURCE_V2 :: string where "ROUTER_REQUEST_SOURCE_V2 = ''governed_v2''"
definition LEGACY_REQUEST_SOURCE_V1 :: string where
  "LEGACY_REQUEST_SOURCE_V1 = ''legacy_v1_mode_capabilities''"
definition MPRF_REROUTE_SOURCE_V1 :: string where "MPRF_REROUTE_SOURCE_V1 = ''mprf_reroute_v1''"

definition FAILURE_CLASSES_V1 :: "string set" where
  "FAILURE_CLASSES_V1 =
     {''TASK_FAILURE'', ''MODEL_FAILURE'', ''PROVIDER_FAILURE'', ''AUTH_FAILURE'', ''RATE_LIMIT'',
      ''QUOTA_EXHAUSTION'', ''NETWORK_FAILURE'', ''INVALID_RESPONSE'', ''POLICY_REJECTION'',
      ''CHECKPOINT_FAILURE'', ''EXECUTION_BACKEND_FAILURE'', ''ACTION_SIDE_EFFECT_AMBIGUOUS'',
      ''RECOVERY_REQUIRED'', ''UNKNOWN_FAILURE''}"

definition EXECUTION_PROFILE_NATIVE_TOOL :: string where "EXECUTION_PROFILE_NATIVE_TOOL = ''NATIVE_TOOL''"
definition EXECUTION_PROFILE_PROVIDER_GENERATION :: string where
  "EXECUTION_PROFILE_PROVIDER_GENERATION = ''PROVIDER_GENERATION''"
definition EXECUTION_PROFILES_V1 :: "string set" where
  "EXECUTION_PROFILES_V1 = {EXECUTION_PROFILE_NATIVE_TOOL, EXECUTION_PROFILE_PROVIDER_GENERATION}"

definition REROUTE_ELIGIBLE_FAILURE_CLASSES_V1 :: "string set" where
  "REROUTE_ELIGIBLE_FAILURE_CLASSES_V1 =
     {''MODEL_FAILURE'', ''PROVIDER_FAILURE'', ''RATE_LIMIT'', ''QUOTA_EXHAUSTION'', ''NETWORK_FAILURE'',
      ''INVALID_RESPONSE''}"

definition LEGACY_CAPABILITY_ALIASES_V2 :: "string \<Rightarrow> string" where
  "LEGACY_CAPABILITY_ALIASES_V2 c =
     (if c = ''test'' then ''test_execution''
      else if c = ''implementation'' then ''implementation_apply'' else c)"

definition READ_ONLY_HOST_VALIDATION_CAPABILITIES :: "string set" where
  "READ_ONLY_HOST_VALIDATION_CAPABILITIES = {''shell'', ''test_execution'', ''integration''}"

definition READ_ONLY_PROVIDER_ALIASES_V2 :: "string \<Rightarrow> string" where
  "READ_ONLY_PROVIDER_ALIASES_V2 c = (if c = ''independent_review'' then ''review'' else c)"

definition normalize_capabilities_v2 :: "string list \<Rightarrow> string list" where
  "normalize_capabilities_v2 required =
     sorted_set (map LEGACY_CAPABILITY_ALIASES_V2 (filter (\<lambda>c. c \<noteq> []) (map py_strip required)))"

text \<open>The loop of \<open>project_read_only_provider_capabilities\<close>, with the accumulated set.\<close>

fun project_caps :: "string list \<Rightarrow> string list \<Rightarrow> string list result" where
  "project_caps projected [] = Inr projected"
| "project_caps projected (capability # rest) =
     (if capability \<in> READ_ONLY_HOST_VALIDATION_CAPABILITIES then project_caps projected rest
      else let capability = READ_ONLY_PROVIDER_ALIASES_V2 capability in
        if capability \<in> STATE_CHANGING_CAPABILITIES
        then Inl (ProviderRouterContractError ''read-only provider projection contains state-changing capability'')
        else project_caps (capability # projected) rest)"

definition project_read_only_provider_capabilities :: "string list \<Rightarrow> string list result" where
  "project_read_only_provider_capabilities required =
     rbind (project_caps [''read_only'', ''reasoning''] (normalize_capabilities_v2 required))
       (\<lambda>projected. Inr (sorted_set projected))"

subsection \<open>The eligibility snapshot\<close>

record eligibility_snapshot =
  es_schema_version :: string
  es_snapshot_id :: string
  es_provider_eligible :: "(string \<times> bool) list"
  es_model_refs :: "(string \<times> string) list"
  es_evidence_refs :: "string list"
  es_failure_classes :: "(string \<times> string) list option"
  es_model_fallback_refs :: "(string \<times> string list) list option"
  es_provider_capabilities :: "(string \<times> string list) list option"

definition dict_or_empty :: "(string \<times> 'a) list option \<Rightarrow> (string \<times> 'a) list" where
  "dict_or_empty d = (case d of None \<Rightarrow> [] | Some kvs \<Rightarrow> kvs)"

definition check_capability_binding :: "string \<times> string list \<Rightarrow> unit result" where
  "check_capability_binding pr = (let refs = snd pr;
       normalized_caps = sorted_set (filter (\<lambda>c. c \<noteq> []) (map py_strip refs))
     in if normalized_caps = [] \<or> length normalized_caps \<noteq> length refs
        then Inl (ProviderRouterContractError ''invalid provider capability binding'') else Inr ())"

definition check_fallback_binding :: "(string \<times> string) list \<Rightarrow> string \<times> string list \<Rightarrow> unit result" where
  "check_fallback_binding model_refs pr = (let provider = fst pr; normalized = map py_strip (snd pr) in
     if [] \<in> set normalized \<or> \<not> distinct normalized
     then Inl (ProviderRouterContractError ''invalid provider fallback model binding'')
     else let primary = py_strip (py_get_or [] model_refs provider) in
       if primary \<noteq> [] \<and> primary \<in> set normalized
       then Inl (ProviderRouterContractError ''primary model cannot repeat in fallback binding'')
       else Inr ())"

definition eligibility_snapshot_init :: "eligibility_snapshot \<Rightarrow> eligibility_snapshot result" where
  "eligibility_snapshot_init s =
     (if es_schema_version s \<noteq> ELIGIBILITY_SCHEMA_V1 \<or> es_snapshot_id s = []
      then Inl (ProviderRouterContractError ''invalid eligibility snapshot'')
      else if \<not> list_all (valid_provider_id \<circ> fst) (es_provider_eligible s)
      then Inl (ProviderRouterContractError ''invalid provider in eligibility snapshot'')
      else if \<not> list_all (valid_provider_id \<circ> fst) (es_model_refs s)
      then Inl (ProviderRouterContractError ''invalid provider model binding'')
      else let fallbacks = dict_or_empty (es_model_fallback_refs s);
               provider_caps = dict_or_empty (es_provider_capabilities s) in
        if \<not> list_all (valid_provider_id \<circ> fst) provider_caps
        then Inl (ProviderRouterContractError ''invalid provider capability binding'')
        else rbind (rcheck check_capability_binding provider_caps) (\<lambda>_.
          if \<not> list_all (valid_provider_id \<circ> fst) fallbacks
          then Inl (ProviderRouterContractError ''invalid provider fallback binding'')
          else rbind (rcheck (check_fallback_binding (es_model_refs s)) fallbacks) (\<lambda>_. Inr s)))"

definition bool_dict :: "(string \<times> bool) list \<Rightarrow> pyval" where
  "bool_dict d = PyDict (map (\<lambda>(k, v). (k, PyBool v)) d)"

definition str_dict :: "(string \<times> string) list \<Rightarrow> pyval" where
  "str_dict d = PyDict (map (\<lambda>(k, v). (k, PyStr v)) d)"

definition strs_dict :: "(string \<times> string list) list \<Rightarrow> pyval" where
  "strs_dict d = PyDict (map (\<lambda>(k, v). (k, strs v)) (filter (\<lambda>(k, v). v \<noteq> []) d))"

definition eligibility_snapshot_to_dict :: "eligibility_snapshot \<Rightarrow> pyval" where
  "eligibility_snapshot_to_dict s = PyDict (
     [(''schema_version'', PyStr (es_schema_version s)),
      (''snapshot_id'', PyStr (es_snapshot_id s)),
      (''provider_eligible'', bool_dict (es_provider_eligible s)),
      (''model_refs'', str_dict (es_model_refs s)),
      (''evidence_refs'', strs (es_evidence_refs s)),
      (''failure_classes'', str_dict (dict_or_empty (es_failure_classes s)))] @
     (if dict_or_empty (es_model_fallback_refs s) \<noteq> []
      then [(''model_fallback_refs'', strs_dict (dict_or_empty (es_model_fallback_refs s)))] else []) @
     (if dict_or_empty (es_provider_capabilities s) \<noteq> []
      then [(''provider_capabilities'', strs_dict (dict_or_empty (es_provider_capabilities s)))] else []))"

definition snapshot_digest :: "eligibility_snapshot \<Rightarrow> string" where
  "snapshot_digest s = digest (eligibility_snapshot_to_dict s)"

subsection \<open>The request\<close>

record router_request =
  rq_schema_version :: string
  rq_request_id :: string
  rq_project_id :: string
  rq_run_id :: string
  rq_task_id :: string
  rq_task_execution_id :: string
  rq_directive_digest :: string
  rq_stage :: string
  rq_required_capabilities :: "string list"
  rq_state_change_required :: bool
  rq_policy_profile :: string
  rq_eligibility_snapshot :: eligibility_snapshot
  rq_eligibility_snapshot_ref :: string
  rq_eligibility_snapshot_digest :: string
  rq_request_source :: string
  rq_failure_class :: string
  rq_failover_request_ref :: string
  rq_failed_provider_ref :: string
  rq_failed_model_ref :: string

definition router_request_check :: "router_request \<Rightarrow> unit result" where
  "router_request_check r = guards
     [(rq_schema_version r \<noteq> ROUTER_REQUEST_SCHEMA_V2,
       ProviderRouterContractError ''unsupported RouterRequest schema''),
      (\<not> list_all (\<lambda>x. x \<noteq> []) [rq_request_id r, rq_project_id r, rq_run_id r, rq_task_id r,
         rq_task_execution_id r, rq_directive_digest r],
       ProviderRouterContractError ''RouterRequest identity is incomplete''),
      (rq_stage r \<notin> {''PREPARE'', ''ACTION'', ''VERIFY'', ''REVIEW''},
       ProviderRouterContractError ''RouterRequest stage is invalid''),
      (rq_policy_profile r \<noteq> GOVERNED_POLICY_V1,
       ProviderRouterContractError ''RouterRequest policy is unsupported''),
      (rq_request_source r \<notin> {ROUTER_REQUEST_SOURCE_V2, LEGACY_REQUEST_SOURCE_V1, MPRF_REROUTE_SOURCE_V1},
       ProviderRouterContractError ''RouterRequest source is unsupported''),
      (rq_stage r = ''ACTION'' \<and> \<not> rq_state_change_required r,
       ProviderRouterContractError ''ACTION requires state_change_required''),
      (rq_failure_class r \<noteq> [] \<and> rq_failure_class r \<notin> FAILURE_CLASSES_V1,
       ProviderRouterContractError ''unknown FailureClass.v1 value''),
      (rq_failover_request_ref r \<noteq> [] \<and> rq_failure_class r = [],
       ProviderRouterContractError ''failover request requires failure_class''),
      (rq_failover_request_ref r \<noteq> [] \<and> rq_request_source r \<noteq> MPRF_REROUTE_SOURCE_V1,
       ProviderRouterContractError ''failover request requires MPRF reroute source''),
      (rq_request_source r = MPRF_REROUTE_SOURCE_V1 \<and>
         (rq_failover_request_ref r = [] \<or> \<not> valid_provider_id (rq_failed_provider_ref r) \<or>
          rq_failed_model_ref r = []),
       ProviderRouterContractError ''MPRF reroute requires failed provider/model binding''),
      (rq_request_source r \<noteq> MPRF_REROUTE_SOURCE_V1 \<and>
         (rq_failed_provider_ref r \<noteq> [] \<or> rq_failed_model_ref r \<noteq> []),
       ProviderRouterContractError ''failed provider/model binding requires MPRF reroute source'')]"

text \<open>The fields the constructor overwrites.\<close>

definition router_request_fill :: "router_request \<Rightarrow> router_request" where
  "router_request_fill r = r
     \<lparr>rq_required_capabilities := normalize_capabilities_v2 (rq_required_capabilities r),
      rq_eligibility_snapshot_ref :=
        (if rq_eligibility_snapshot_ref r = [] then es_snapshot_id (rq_eligibility_snapshot r)
         else rq_eligibility_snapshot_ref r),
      rq_eligibility_snapshot_digest :=
        (if rq_eligibility_snapshot_digest r = [] then snapshot_digest (rq_eligibility_snapshot r)
         else rq_eligibility_snapshot_digest r)\<rparr>"

definition router_request_init :: "router_request \<Rightarrow> router_request result" where
  "router_request_init r = rbind (router_request_check r) (\<lambda>_. Inr (router_request_fill r))"

definition eligibility_binding_valid :: "router_request \<Rightarrow> bool" where
  "eligibility_binding_valid r =
     (rq_eligibility_snapshot_ref r = es_snapshot_id (rq_eligibility_snapshot r) \<and>
      rq_eligibility_snapshot_digest r = snapshot_digest (rq_eligibility_snapshot r))"

definition router_request_to_dict :: "router_request \<Rightarrow> pyval" where
  "router_request_to_dict r = PyDict
     [(''schema_version'', PyStr (rq_schema_version r)), (''request_id'', PyStr (rq_request_id r)),
      (''project_id'', PyStr (rq_project_id r)), (''run_id'', PyStr (rq_run_id r)),
      (''task_id'', PyStr (rq_task_id r)),
      (''task_execution_id'', PyStr (rq_task_execution_id r)),
      (''directive_digest'', PyStr (rq_directive_digest r)),
      (''stage'', PyStr (rq_stage r)), (''required_capabilities'', strs (rq_required_capabilities r)),
      (''state_change_required'', PyBool (rq_state_change_required r)),
      (''policy_profile'', PyStr (rq_policy_profile r)),
      (''eligibility_snapshot_ref'', PyStr (rq_eligibility_snapshot_ref r)),
      (''eligibility_snapshot_digest'', PyStr (rq_eligibility_snapshot_digest r)),
      (''eligibility_snapshot'', eligibility_snapshot_to_dict (rq_eligibility_snapshot r)),
      (''request_source'', PyStr (rq_request_source r)), (''failure_class'', PyStr (rq_failure_class r)),
      (''failover_request_ref'', PyStr (rq_failover_request_ref r)),
      (''failed_provider_ref'', PyStr (rq_failed_provider_ref r)),
      (''failed_model_ref'', PyStr (rq_failed_model_ref r))]"

definition request_digest :: "router_request \<Rightarrow> string" where
  "request_digest r = digest (router_request_to_dict r)"

definition normalize_legacy_hybrid_request ::
  "string list \<Rightarrow> eligibility_snapshot \<Rightarrow> string \<Rightarrow> string \<Rightarrow> string \<Rightarrow> string \<Rightarrow> string \<Rightarrow> string \<Rightarrow> string \<Rightarrow>
   router_request result" where
  "normalize_legacy_hybrid_request required snapshot request_id project_id run_id task_id task_execution_id
     directive_digest policy_profile =
     (let capabilities = normalize_capabilities_v2 required;
          state_change_required = state_changing capabilities;
          stage = (if state_change_required then ''ACTION'' else ''PREPARE'')
      in router_request_init
        \<lparr>rq_schema_version = ROUTER_REQUEST_SCHEMA_V2, rq_request_id = request_id, rq_project_id = project_id,
         rq_run_id = run_id, rq_task_id = task_id, rq_task_execution_id = task_execution_id,
         rq_directive_digest = directive_digest, rq_stage = stage,
         rq_required_capabilities = capabilities, rq_state_change_required = state_change_required,
         rq_policy_profile = policy_profile, rq_eligibility_snapshot = snapshot,
         rq_eligibility_snapshot_ref = [], rq_eligibility_snapshot_digest = [],
         rq_request_source = LEGACY_REQUEST_SOURCE_V1, rq_failure_class = [], rq_failover_request_ref = [],
         rq_failed_provider_ref = [], rq_failed_model_ref = []\<rparr>)"

definition d15_recovery_nvidia_read_only_request ::
  "string \<Rightarrow> string \<Rightarrow> string \<Rightarrow> string \<Rightarrow> string \<Rightarrow> string \<Rightarrow> string \<Rightarrow> string list \<Rightarrow> string list \<Rightarrow>
   router_request result" where
  "d15_recovery_nvidia_read_only_request request_id project_id run_id task_id task_execution_id
     directive_digest model_ref evidence_refs required =
     (let capabilities = normalize_capabilities_v2 required in
      if ''read_only'' \<notin> set capabilities \<or> state_changing capabilities
      then Inl (ProviderRouterContractError ''D1.5 NVIDIA recovery helper is read-only only'')
      else rbind (eligibility_snapshot_init
        \<lparr>es_schema_version = ELIGIBILITY_SCHEMA_V1,
         es_snapshot_id = request_id @ '':nvidia-read-only'',
         es_provider_eligible = [(NVIDIA_PROVIDER, True), (CODEX_PROVIDER, False)],
         es_model_refs = [(NVIDIA_PROVIDER, model_ref)],
         es_evidence_refs = evidence_refs, es_failure_classes = None, es_model_fallback_refs = None,
         es_provider_capabilities = Some
           [(NVIDIA_PROVIDER, [''reasoning'', ''read_only'', ''evidence_analysis'', ''review'', ''diagnostics'',
             ''version_control''])]\<rparr>) (\<lambda>snapshot.
        router_request_init
        \<lparr>rq_schema_version = ROUTER_REQUEST_SCHEMA_V2, rq_request_id = request_id, rq_project_id = project_id,
         rq_run_id = run_id, rq_task_id = task_id, rq_task_execution_id = task_execution_id,
         rq_directive_digest = directive_digest, rq_stage = ''PREPARE'',
         rq_required_capabilities = capabilities, rq_state_change_required = False,
         rq_policy_profile = GOVERNED_POLICY_V1, rq_eligibility_snapshot = snapshot,
         rq_eligibility_snapshot_ref = [], rq_eligibility_snapshot_digest = [],
         rq_request_source = ROUTER_REQUEST_SOURCE_V2, rq_failure_class = [], rq_failover_request_ref = [],
         rq_failed_provider_ref = [], rq_failed_model_ref = []\<rparr>))"

subsection \<open>The decision\<close>

record router_decision =
  rd_schema_version :: string
  rd_decision_id :: string
  rd_request_digest :: string
  rd_stage :: string
  rd_provider_ref :: string
  rd_model_ref :: string
  rd_reason_code :: string
  rd_required_capabilities :: "string list"
  rd_eligible :: bool
  rd_eligibility_evidence_refs :: "string list"
  rd_policy_version :: string
  rd_action_state :: string
  rd_model_fallback_refs :: "string list"
  rd_execution_profile :: string

definition router_decision_init :: "router_decision \<Rightarrow> router_decision result" where
  "router_decision_init d = rbind (guards
     [(rd_schema_version d \<noteq> ROUTER_DECISION_SCHEMA_V2,
       ProviderRouterContractError ''unsupported RouterDecision schema''),
      (rd_eligible d \<and> (\<not> valid_provider_id (rd_provider_ref d) \<or> rd_model_ref d = []),
       ProviderRouterContractError ''eligible RouterDecision requires provider/model binding''),
      (\<not> rd_eligible d \<and> (rd_provider_ref d \<noteq> [] \<or> rd_model_ref d \<noteq> []),
       ProviderRouterContractError ''blocked RouterDecision cannot bind a provider/model''),
      (\<not> distinct (rd_model_fallback_refs d),
       ProviderRouterContractError ''duplicate RouterDecision fallback model''),
      (rd_model_ref d \<noteq> [] \<and> rd_model_ref d \<in> set (rd_model_fallback_refs d),
       ProviderRouterContractError ''RouterDecision fallback repeats primary model''),
      (rd_execution_profile d \<noteq> [] \<and> rd_execution_profile d \<notin> EXECUTION_PROFILES_V1,
       ProviderRouterContractError ''RouterDecision execution profile is invalid'')]) (\<lambda>_. Inr d)"

definition router_decision_unsigned_dict :: "router_decision \<Rightarrow> pyval" where
  "router_decision_unsigned_dict d = PyDict (
     [(''schema_version'', PyStr (rd_schema_version d)), (''decision_id'', PyStr (rd_decision_id d)),
      (''request_digest'', PyStr (rd_request_digest d)), (''stage'', PyStr (rd_stage d)),
      (''provider_ref'', PyStr (rd_provider_ref d)), (''model_ref'', PyStr (rd_model_ref d)),
      (''reason_code'', PyStr (rd_reason_code d)),
      (''required_capabilities'', strs (rd_required_capabilities d)),
      (''eligible'', PyBool (rd_eligible d)),
      (''eligibility_evidence_refs'', strs (rd_eligibility_evidence_refs d)),
      (''policy_version'', PyStr (rd_policy_version d)), (''action_state'', PyStr (rd_action_state d))] @
     (if rd_model_fallback_refs d \<noteq> [] then [(''model_fallback_refs'', strs (rd_model_fallback_refs d))] else []) @
     (if rd_execution_profile d \<noteq> [] then [(''execution_profile'', PyStr (rd_execution_profile d))] else []))"

definition decision_digest :: "router_decision \<Rightarrow> string" where
  "decision_digest d = digest (router_decision_unsigned_dict d)"

section \<open>The governed router\<close>

definition EFFECT_ONLY_CAPABILITIES :: "string set" where
  "EFFECT_ONLY_CAPABILITIES = {''filesystem_write'', ''shell'', ''git'', ''activation''}"

definition ACTION_GENERATION_ALIASES :: "string \<Rightarrow> string" where
  "ACTION_GENERATION_ALIASES c =
     (if c = ''implementation_apply'' then ''implementation_generation''
      else if c = ''test_execution'' then ''test_design'' else c)"

definition ACTION_PROPOSAL_CAPABILITY :: string where "ACTION_PROPOSAL_CAPABILITY = ''patch_generation''"

definition provider_generation_requirements :: "router_request \<Rightarrow> string list" where
  "provider_generation_requirements r = sorted_set
     (map ACTION_GENERATION_ALIASES (filter (\<lambda>c. c \<notin> EFFECT_ONLY_CAPABILITIES) (rq_required_capabilities r)) @
      (if rq_stage r = ''ACTION'' then [ACTION_PROPOSAL_CAPABILITY] else []))"

definition legacy_provider_capabilities :: "string \<Rightarrow> string set" where
  "legacy_provider_capabilities provider =
     (if provider \<notin> BUILTIN_PROVIDER_IDS then {}
      else let base = READ_ONLY_CAPABILITIES \<union> {''integration'', ''implementation_generation'', ''test_design''};
               base = (if provider = NVIDIA_PROVIDER then base - {ACTION_PROPOSAL_CAPABILITY} else base)
           in if provider = CODEX_PROVIDER then insert ACTION_PROPOSAL_CAPABILITY base else base)"

definition provider_capability_set :: "eligibility_snapshot \<Rightarrow> string \<Rightarrow> string set" where
  "provider_capability_set s provider =
     (case py_get (dict_or_empty (es_provider_capabilities s)) provider of
        None \<Rightarrow> legacy_provider_capabilities provider
      | Some supplied \<Rightarrow> if supplied \<noteq> [] then set supplied else legacy_provider_capabilities provider)"

definition candidate_rank :: "router_request \<Rightarrow> string \<Rightarrow> string \<Rightarrow> string" where
  "candidate_rank r provider model = sha256_hex (utf8 (request_digest r @ '':'' @ provider @ '':'' @ model))"

definition snapshot_model :: "eligibility_snapshot \<Rightarrow> string \<Rightarrow> string" where
  "snapshot_model s provider = py_strip (py_get_or [] (es_model_refs s) provider)"

definition candidate_ok :: "router_request \<Rightarrow> string \<times> bool \<Rightarrow> bool" where
  "candidate_ok r pe = (let s = rq_eligibility_snapshot r in
     snd pe \<and> snapshot_model s (fst pe) \<noteq> [] \<and>
     set (provider_generation_requirements r) \<subseteq> provider_capability_set s (fst pe))"

definition candidates :: "router_request \<Rightarrow> (string \<times> string \<times> string) list" where
  "candidates r = (let s = rq_eligibility_snapshot r in
     map (\<lambda>pe. let model = snapshot_model s (fst pe) in (candidate_rank r (fst pe) model, fst pe, model))
       (filter (candidate_ok r) (es_provider_eligible s)))"

fun py_min :: "'a::linorder list \<Rightarrow> 'a" where
  "py_min (x # xs) = fold min xs x"

definition pick_winner :: "(string \<times> string \<times> string) list \<Rightarrow> (string \<times> string) option" where
  "pick_winner cs =
     (if cs = [] then None
      else let best_rank = py_min (map fst cs);
               winners = map snd (filter (\<lambda>c. fst c = best_rank) cs)
           in if length winners \<noteq> 1 then None else Some (hd winners))"

definition select_provider :: "router_request \<Rightarrow> (string \<times> string) option" where
  "select_provider r = pick_winner (candidates r)"

definition blocked_decision :: "router_request \<Rightarrow> string \<Rightarrow> string \<Rightarrow> router_decision result" where
  "blocked_decision r reason state = router_decision_init
     \<lparr>rd_schema_version = ROUTER_DECISION_SCHEMA_V2,
      rd_decision_id = ''decision-'' @ rq_request_id r, rd_request_digest = request_digest r,
      rd_stage = rq_stage r, rd_provider_ref = [], rd_model_ref = [], rd_reason_code = reason,
      rd_required_capabilities = rq_required_capabilities r, rd_eligible = False,
      rd_eligibility_evidence_refs = es_evidence_refs (rq_eligibility_snapshot r),
      rd_policy_version = GOVERNED_POLICY_V1, rd_action_state = state,
      rd_model_fallback_refs = [], rd_execution_profile = []\<rparr>"

definition blocked_state :: "router_request \<Rightarrow> string" where
  "blocked_state r = (if rq_stage r = ''ACTION'' then ''ACTION_PROVIDER_BLOCKED'' else ''ROUTE_BLOCKED'')"

definition selected_decision :: "router_request \<Rightarrow> string \<Rightarrow> string \<Rightarrow> router_decision result" where
  "selected_decision r provider model_ref =
     (let s = rq_eligibility_snapshot r;
          reroute = (rq_failover_request_ref r \<noteq> []);
          fallback_refs = py_get_or [] (dict_or_empty (es_model_fallback_refs s)) provider;
          reason = (if reroute then ''governed_reroute_by_neutral_rank''
                    else if rq_stage r = ''ACTION'' then ''governed_action_by_neutral_rank''
                    else ''governed_read_by_neutral_rank'');
          action_state = (if rq_stage r = ''ACTION'' then ''ACTION_PENDING'' else rq_stage r @ ''_PENDING'');
          provider_caps = py_get_or [] (dict_or_empty (es_provider_capabilities s)) provider;
          execution_profile = (if ''native_tool_action'' \<in> set provider_caps
                               then EXECUTION_PROFILE_NATIVE_TOOL else EXECUTION_PROFILE_PROVIDER_GENERATION)
      in router_decision_init
        \<lparr>rd_schema_version = ROUTER_DECISION_SCHEMA_V2,
         rd_decision_id = ''decision-'' @ rq_request_id r, rd_request_digest = request_digest r,
         rd_stage = rq_stage r, rd_provider_ref = provider, rd_model_ref = model_ref, rd_reason_code = reason,
         rd_required_capabilities = rq_required_capabilities r, rd_eligible = True,
         rd_eligibility_evidence_refs = es_evidence_refs s,
         rd_policy_version = GOVERNED_POLICY_V1, rd_action_state = action_state,
         rd_model_fallback_refs = fallback_refs, rd_execution_profile = execution_profile\<rparr>)"

text \<open>The early returns of \<open>route_request\<close>: the reason and action state of the blocked
  decision, if one of them applies.\<close>

definition route_precheck :: "router_request \<Rightarrow> (string \<times> string) option" where
  "route_precheck r =
     (let s = rq_eligibility_snapshot r;
          reroute = (rq_failover_request_ref r \<noteq> []);
          state_caps = state_changing (rq_required_capabilities r)
      in
      if \<not> eligibility_binding_valid r
      then Some (''eligibility_snapshot_binding_mismatch'', blocked_state r)
      else if reroute \<and> rq_failure_class r \<notin> REROUTE_ELIGIBLE_FAILURE_CLASSES_V1
      then Some (''reroute_failure_class_prohibited'', blocked_state r)
      else if reroute \<and> py_get_or False (es_provider_eligible s) (rq_failed_provider_ref r) \<and>
        snapshot_model s (rq_failed_provider_ref r) = rq_failed_model_ref r
      then Some (''reroute_failed_provider_not_excluded'', blocked_state r)
      else if rq_stage r \<noteq> ''ACTION'' \<and> state_caps
      then Some (''state_change_capability_outside_action_stage'', ''ROUTE_BLOCKED'')
      else if rq_stage r = ''ACTION'' \<and> \<not> state_caps
      then Some (''action_stage_without_state_change_capability'', ''ACTION_PROVIDER_BLOCKED'')
      else None)"

definition unselected_reason :: "router_request \<Rightarrow> string" where
  "unselected_reason r =
     (if \<not> list_ex snd (es_provider_eligible (rq_eligibility_snapshot r))
      then (if rq_stage r = ''ACTION'' then ''action_provider_unavailable'' else ''read_provider_unavailable'')
      else ''provider_capability_mismatch'')"

definition route_request :: "router_request \<Rightarrow> router_decision result" where
  "route_request r =
     (case route_precheck r of
        Some (reason, state) \<Rightarrow> blocked_decision r reason state
      | None \<Rightarrow>
        (case select_provider r of
           None \<Rightarrow> blocked_decision r (unselected_reason r) (blocked_state r)
         | Some (provider, model_ref) \<Rightarrow>
             if rq_failover_request_ref r \<noteq> [] \<and> provider = rq_failed_provider_ref r \<and>
               model_ref = rq_failed_model_ref r
             then blocked_decision r ''reroute_failed_candidate_reselected'' (blocked_state r)
             else selected_decision r provider model_ref))"

end
