(* ===== verification/Router_Correct.thy ===== *)
theory Router_Correct
  imports Provider_Router
begin

text \<open>
  Correctness of the governed router: the constructors accept exactly well-formed
  values and are idempotent, the router always returns a decision, an eligible
  decision is backed by the snapshot, a reroute never returns to the failed model, and
  the order in which a snapshot lists its providers has no influence.
\<close>

section \<open>Constructors\<close>

lemma eligibility_snapshot_init_same: "eligibility_snapshot_init s = Inr s' \<Longrightarrow> s' = s"
  by (auto simp: eligibility_snapshot_init_def Let_def)

lemma check_fallback_bindingD:
  assumes "check_fallback_binding ms (p, refs) = Inr u"
  shows "distinct (map py_strip refs)" "py_strip (py_get_or [] ms p) \<noteq> [] \<Longrightarrow>
    py_strip (py_get_or [] ms p) \<notin> set (map py_strip refs)"
  using assms by (auto simp: check_fallback_binding_def Let_def)

lemma eligibility_snapshot_initD:
  assumes "eligibility_snapshot_init s = Inr s'"
  shows "\<And>p e. (p, e) \<in> set (es_provider_eligible s) \<Longrightarrow> valid_provider_id p"
    and "\<And>p refs. (p, refs) \<in> set (dict_or_empty (es_model_fallback_refs s)) \<Longrightarrow>
      check_fallback_binding (es_model_refs s) (p, refs) = Inr ()"
  using assms by (auto simp: eligibility_snapshot_init_def Let_def list_all_iff)

lemma alias_stripped: "py_strip c = c \<Longrightarrow> py_strip (LEGACY_CAPABILITY_ALIASES_V2 c) = LEGACY_CAPABILITY_ALIASES_V2 c"
  by (simp add: LEGACY_CAPABILITY_ALIASES_V2_def py_strip_def py_isspace_def)

lemma alias_nonempty: "c \<noteq> [] \<Longrightarrow> LEGACY_CAPABILITY_ALIASES_V2 c \<noteq> []"
  by (simp add: LEGACY_CAPABILITY_ALIASES_V2_def)

lemma alias_idem: "LEGACY_CAPABILITY_ALIASES_V2 (LEGACY_CAPABILITY_ALIASES_V2 c) = LEGACY_CAPABILITY_ALIASES_V2 c"
  by (simp add: LEGACY_CAPABILITY_ALIASES_V2_def)

lemma normalize_capabilities_elem:
  assumes "c \<in> set (normalize_capabilities_v2 xs)"
  shows "py_strip c = c" "c \<noteq> []" "LEGACY_CAPABILITY_ALIASES_V2 c = c"
  using assms by (auto simp: normalize_capabilities_v2_def alias_stripped alias_nonempty alias_idem)

lemma normalize_capabilities_idem:
  "normalize_capabilities_v2 (normalize_capabilities_v2 xs) = normalize_capabilities_v2 xs"
proof -
  let ?n = "normalize_capabilities_v2 xs"
  have "map py_strip ?n = ?n" by (rule map_idI) (rule normalize_capabilities_elem)
  moreover have "filter (\<lambda>c. c \<noteq> []) ?n = ?n" by (rule filter_True) (blast dest: normalize_capabilities_elem(2))
  moreover have "map LEGACY_CAPABILITY_ALIASES_V2 ?n = ?n" by (rule map_idI) (rule normalize_capabilities_elem)
  moreover have "sorted_set ?n = ?n" by (simp add: normalize_capabilities_v2_def)
  ultimately show ?thesis by (subst normalize_capabilities_v2_def) simp
qed

lemma snapshot_digest_nonempty [simp]: "snapshot_digest s \<noteq> []"
  by (simp add: snapshot_digest_def)

lemma router_request_init_iff:
  "router_request_init r = Inr r' \<longleftrightarrow> router_request_check r = Inr () \<and> r' = router_request_fill r"
  by (auto simp: router_request_init_def)

lemma router_request_fill_simps [simp]:
  "rq_required_capabilities (router_request_fill r) = normalize_capabilities_v2 (rq_required_capabilities r)"
  "rq_eligibility_snapshot (router_request_fill r) = rq_eligibility_snapshot r"
  "rq_stage (router_request_fill r) = rq_stage r"
  "rq_request_id (router_request_fill r) = rq_request_id r"
  "rq_state_change_required (router_request_fill r) = rq_state_change_required r"
  "rq_failure_class (router_request_fill r) = rq_failure_class r"
  "rq_failover_request_ref (router_request_fill r) = rq_failover_request_ref r"
  "rq_failed_provider_ref (router_request_fill r) = rq_failed_provider_ref r"
  "rq_failed_model_ref (router_request_fill r) = rq_failed_model_ref r"
  by (simp_all add: router_request_fill_def)

lemma router_request_check_fill: "router_request_check (router_request_fill r) = router_request_check r"
  by (simp add: router_request_check_def router_request_fill_def)

lemma router_request_fill_idem: "router_request_fill (router_request_fill r) = router_request_fill r"
  by (cases r) (simp add: router_request_fill_def normalize_capabilities_idem)

lemma router_request_init_idem:
  "router_request_init r = Inr r' \<Longrightarrow> router_request_init r' = Inr r'"
  by (auto simp: router_request_init_iff router_request_check_fill router_request_fill_idem)

section \<open>The router returns a decision\<close>

lemma blocked_decision_eq:
  "\<exists>d. blocked_decision r reason state = Inr d \<and> \<not> rd_eligible d \<and> rd_provider_ref d = [] \<and> rd_model_ref d = [] \<and>
    rd_reason_code d = reason \<and> rd_action_state d = state \<and> rd_stage d = rq_stage r \<and>
    rd_request_digest d = request_digest r"
  by (simp add: blocked_decision_def router_decision_init_def)

lemma blocked_decisionD:
  assumes "blocked_decision r reason state = Inr d"
  shows "\<not> rd_eligible d" "rd_reason_code d = reason" "rd_action_state d = state"
  using assms blocked_decision_eq [of r reason state] by auto

lemma selected_decisionD:
  assumes "selected_decision r p m = Inr d"
  shows "rd_eligible d" "rd_provider_ref d = p" "rd_model_ref d = m" "rd_stage d = rq_stage r"
    "rd_request_digest d = request_digest r" "rd_required_capabilities d = rq_required_capabilities r"
    "rd_reason_code d \<in> {''governed_reroute_by_neutral_rank'', ''governed_action_by_neutral_rank'',
      ''governed_read_by_neutral_rank''}"
  using assms by (auto simp: selected_decision_def router_decision_init_def Let_def split: if_splits)

lemma py_min_Min: "xs \<noteq> [] \<Longrightarrow> py_min xs = Min (set xs)"
  by (cases xs) (simp_all only: py_min.simps Min.set_eq_fold)

lemma pick_winner_SomeD:
  assumes "pick_winner cs = Some pm"
  shows "\<exists>rank. (rank, pm) \<in> set cs \<and> (\<forall>c \<in> set cs. rank \<le> fst c \<and> (fst c = rank \<longrightarrow> snd c = pm))"
proof -
  let ?best = "py_min (map fst cs)" and ?w = "filter (\<lambda>c. fst c = py_min (map fst cs)) cs"
  from assms have ne: "cs \<noteq> []" and len: "length ?w = 1" and pm: "pm = hd (map snd ?w)"
    by (auto simp: pick_winner_def Let_def split: if_splits)
  from len obtain c where w: "?w = [c]" by (auto simp: length_Suc_conv)
  have pm': "pm = snd c" using pm unfolding w by simp
  have "c \<in> set ?w" unfolding w by simp
  then have c: "c \<in> set cs" "fst c = ?best" by simp_all
  have low: "?best \<le> fst x" if "x \<in> set cs" for x
    using that ne by (simp add: py_min_Min)
  have uniq: "snd x = pm" if "x \<in> set cs" "fst x = ?best" for x
  proof -
    have "x \<in> set ?w" using that by simp
    then show ?thesis unfolding w pm' by simp
  qed
  have "(?best, pm) \<in> set cs" using c pm' by (metis prod.collapse)
  with low uniq show ?thesis by blast
qed

lemma candidatesD:
  assumes "(rank, p, m) \<in> set (candidates r)"
  shows "(p, True) \<in> set (es_provider_eligible (rq_eligibility_snapshot r))"
    "m = snapshot_model (rq_eligibility_snapshot r) p" "m \<noteq> []"
    "set (provider_generation_requirements r) \<subseteq> provider_capability_set (rq_eligibility_snapshot r) p"
    "rank = candidate_rank r p m"
  using assms by (auto simp: candidates_def candidate_ok_def Let_def)

lemma select_providerD:
  assumes "select_provider r = Some (p, m)"
  shows "(p, True) \<in> set (es_provider_eligible (rq_eligibility_snapshot r))"
    "m = snapshot_model (rq_eligibility_snapshot r) p" "m \<noteq> []"
    "set (provider_generation_requirements r) \<subseteq> provider_capability_set (rq_eligibility_snapshot r) p"
    "\<And>p' m' rank. (rank, p', m') \<in> set (candidates r) \<Longrightarrow> candidate_rank r p m \<le> rank"
proof -
  from assms obtain rank where c: "(rank, p, m) \<in> set (candidates r)"
    and low: "\<forall>c \<in> set (candidates r). rank \<le> fst c"
    unfolding select_provider_def by (blast dest: pick_winner_SomeD)
  from c low show "(p, True) \<in> set (es_provider_eligible (rq_eligibility_snapshot r))"
    "m = snapshot_model (rq_eligibility_snapshot r) p" "m \<noteq> []"
    "set (provider_generation_requirements r) \<subseteq> provider_capability_set (rq_eligibility_snapshot r) p"
    "\<And>p' m' rank. (rank, p', m') \<in> set (candidates r) \<Longrightarrow> candidate_rank r p m \<le> rank"
    using candidatesD [OF c] by auto
qed

lemma selected_decision_total:
  assumes snap: "eligibility_snapshot_init (rq_eligibility_snapshot r) = Inr s"
    and sel: "select_provider r = Some (p, m)"
  shows "\<exists>d. selected_decision r p m = Inr d"
proof -
  let ?s = "rq_eligibility_snapshot r"
  let ?fb = "py_get_or [] (dict_or_empty (es_model_fallback_refs ?s)) p"
  have m: "m = snapshot_model ?s p" "m \<noteq> []" and p: "valid_provider_id p"
    using select_providerD [OF sel] eligibility_snapshot_initD(1) [OF snap] by blast+
  have fb: "distinct (map py_strip ?fb) \<and> m \<notin> set (map py_strip ?fb)"
  proof (cases "map_of (dict_or_empty (es_model_fallback_refs ?s)) p")
    case None
    then show ?thesis by (simp add: py_get_or_def)
  next
    case (Some refs)
    then have "check_fallback_binding (es_model_refs ?s) (p, refs) = Inr ()"
      using eligibility_snapshot_initD(2) [OF snap] map_of_SomeD by fast
    from check_fallback_bindingD [OF this] show ?thesis
      using m Some by (simp add: py_get_or_def snapshot_model_def)
  qed
  have "py_strip m = m" by (simp add: m(1) snapshot_model_def)
  with fb have "m \<notin> set ?fb" by (metis image_eqI list.set_map)
  moreover have "distinct ?fb" using fb by (auto simp: distinct_map)
  ultimately show ?thesis
    using p m(2) by (simp add: selected_decision_def router_decision_init_def Let_def EXECUTION_PROFILES_V1_def)
qed

lemma route_request_total:
  assumes "eligibility_snapshot_init (rq_eligibility_snapshot r) = Inr s"
  shows "\<exists>d. route_request r = Inr d"
proof (cases "select_provider r")
  case None
  then show ?thesis
    using blocked_decision_eq by (fastforce simp: route_request_def split: option.splits)
next
  case (Some pm)
  then obtain d where "selected_decision r (fst pm) (snd pm) = Inr d"
    using selected_decision_total [OF assms] by (metis prod.collapse)
  with Some show ?thesis
    using blocked_decision_eq [of r] by (cases pm) (auto simp: route_request_def split: option.splits)
qed

lemma route_request_eligible:
  assumes "route_request r = Inr d"
  shows "rd_eligible d \<longleftrightarrow> (\<exists>p m. route_precheck r = None \<and> select_provider r = Some (p, m) \<and>
    \<not> (rq_failover_request_ref r \<noteq> [] \<and> p = rq_failed_provider_ref r \<and> m = rq_failed_model_ref r) \<and>
    selected_decision r p m = Inr d)"
  using assms selected_decisionD(1) blocked_decisionD(1)
  by (auto simp: route_request_def split: option.splits if_splits)

lemma route_precheck_None:
  assumes "route_precheck r = None"
  shows "eligibility_binding_valid r"
    "rq_stage r = ''ACTION'' \<longleftrightarrow> state_changing (rq_required_capabilities r)"
    "rq_failover_request_ref r \<noteq> [] \<Longrightarrow> rq_failure_class r \<in> REROUTE_ELIGIBLE_FAILURE_CLASSES_V1"
    "rq_failover_request_ref r \<noteq> [] \<Longrightarrow>
      \<not> (py_get_or False (es_provider_eligible (rq_eligibility_snapshot r)) (rq_failed_provider_ref r) \<and>
         snapshot_model (rq_eligibility_snapshot r) (rq_failed_provider_ref r) = rq_failed_model_ref r)"
  using assms unfolding route_precheck_def Let_def by (auto split: if_splits)

section \<open>The failed candidate is never selected again\<close>

lemma select_not_failed:
  assumes "route_precheck r = None" "select_provider r = Some (p, m)" "rq_failover_request_ref r \<noteq> []"
    and d: "distinct (map fst (es_provider_eligible (rq_eligibility_snapshot r)))"
  shows "\<not> (p = rq_failed_provider_ref r \<and> m = rq_failed_model_ref r)"
proof
  assume "p = rq_failed_provider_ref r \<and> m = rq_failed_model_ref r"
  moreover have "map_of (es_provider_eligible (rq_eligibility_snapshot r)) p = Some True"
    using select_providerD(1) [OF assms(2)] d by (simp add: map_of_eq_Some_iff)
  ultimately show False
    using route_precheck_None(4) [OF assms(1,3)] select_providerD(2) [OF assms(2)]
    by (auto simp: py_get_or_def)
qed

lemma dead_reselection_branch:
  assumes "route_request r = Inr d"
    and "distinct (map fst (es_provider_eligible (rq_eligibility_snapshot r)))"
  shows "rd_reason_code d \<noteq> ''reroute_failed_candidate_reselected''"
proof (cases "route_precheck r")
  case pre: None
  show ?thesis
  proof (cases "select_provider r")
    case None
    with pre assms(1) have "blocked_decision r (unselected_reason r) (blocked_state r) = Inr d"
      by (simp add: route_request_def)
    then have "rd_reason_code d = unselected_reason r" by (rule blocked_decisionD)
    then show ?thesis by (simp add: unselected_reason_def)
  next
    case (Some pm)
    with pre assms have "selected_decision r (fst pm) (snd pm) = Inr d"
      using select_not_failed [OF pre, of "fst pm" "snd pm"]
      by (cases pm) (auto simp: route_request_def split: if_splits)
    then show ?thesis using selected_decisionD(7) by fastforce
  qed
next
  case (Some rs)
  then have "fst rs \<noteq> ''reroute_failed_candidate_reselected''"
    unfolding route_precheck_def Let_def by (auto split: if_splits)
  then show ?thesis using assms(1) Some blocked_decisionD(2)
    by (cases rs) (auto simp: route_request_def)
qed

section \<open>The order of a snapshot is irrelevant\<close>

text \<open>Two snapshots that differ only in the insertion order of their mappings.\<close>

definition same_snapshot :: "eligibility_snapshot \<Rightarrow> eligibility_snapshot \<Rightarrow> bool" where
  "same_snapshot s t \<longleftrightarrow>
     es_schema_version s = es_schema_version t \<and> es_snapshot_id s = es_snapshot_id t \<and>
     mset (es_provider_eligible s) = mset (es_provider_eligible t) \<and>
     mset (es_model_refs s) = mset (es_model_refs t) \<and>
     es_evidence_refs s = es_evidence_refs t \<and>
     mset (dict_or_empty (es_failure_classes s)) = mset (dict_or_empty (es_failure_classes t)) \<and>
     mset (dict_or_empty (es_model_fallback_refs s)) = mset (dict_or_empty (es_model_fallback_refs t)) \<and>
     mset (dict_or_empty (es_provider_capabilities s)) = mset (dict_or_empty (es_provider_capabilities t))"

text \<open>No mapping of the snapshot has a key twice, as in every Python dict.\<close>

definition snapshot_keys_distinct :: "eligibility_snapshot \<Rightarrow> bool" where
  "snapshot_keys_distinct s \<longleftrightarrow>
     distinct (map fst (es_provider_eligible s)) \<and> distinct (map fst (es_model_refs s)) \<and>
     distinct (map fst (dict_or_empty (es_failure_classes s))) \<and>
     distinct (map fst (dict_or_empty (es_model_fallback_refs s))) \<and>
     distinct (map fst (dict_or_empty (es_provider_capabilities s)))"

lemma mset_keys_distinct: "mset xs = mset ys \<Longrightarrow> distinct (map fst xs) = distinct (map fst ys)"
  by (rule mset_eq_imp_distinct_iff) (simp only: mset_map)

lemma map_of_mset: "mset xs = mset ys \<Longrightarrow> distinct (map fst xs) \<Longrightarrow> map_of xs = map_of ys"
  using map_of_inject_set mset_eq_setD mset_keys_distinct by blast

lemma json_norm_map_dict_perm:
  assumes "mset d = mset e" "distinct (map fst d)"
  shows "json_norm (PyDict (map (\<lambda>(k, v). (k, f v)) d)) = json_norm (PyDict (map (\<lambda>(k, v). (k, f v)) e))"
proof (rule json_norm_dict_perm)
  show "mset (map (\<lambda>(k, v). (k, f v)) d) = mset (map (\<lambda>(k, v). (k, f v)) e)"
    using assms(1) by (simp only: mset_map)
  show "distinct (map fst (map (\<lambda>(k, v). (k, f v)) d))"
    using assms(2) by (simp add: comp_def case_prod_unfold)
qed

lemma json_norm_strs_dict_perm:
  assumes "mset d = mset e" "distinct (map fst d)"
  shows "json_norm (strs_dict d) = json_norm (strs_dict e)"
  unfolding strs_dict_def
  by (rule json_norm_map_dict_perm) (use assms in \<open>simp_all add: distinct_map_filter\<close>)

lemma empty_iff_mset: "mset xs = mset ys \<Longrightarrow> xs = [] \<longleftrightarrow> ys = []"
  by (metis mset_zero_iff)

lemma snapshot_digest_perm:
  assumes "same_snapshot s t" "snapshot_keys_distinct s"
  shows "json_norm (eligibility_snapshot_to_dict s) = json_norm (eligibility_snapshot_to_dict t)"
proof -
  have "json_norm (bool_dict (es_provider_eligible s)) = json_norm (bool_dict (es_provider_eligible t))"
    "json_norm (str_dict (es_model_refs s)) = json_norm (str_dict (es_model_refs t))"
    "json_norm (str_dict (dict_or_empty (es_failure_classes s))) =
     json_norm (str_dict (dict_or_empty (es_failure_classes t)))"
    "json_norm (strs_dict (dict_or_empty (es_model_fallback_refs s))) =
     json_norm (strs_dict (dict_or_empty (es_model_fallback_refs t)))"
    "json_norm (strs_dict (dict_or_empty (es_provider_capabilities s))) =
     json_norm (strs_dict (dict_or_empty (es_provider_capabilities t)))"
    using assms unfolding bool_dict_def str_dict_def same_snapshot_def snapshot_keys_distinct_def
    by (blast intro: json_norm_map_dict_perm json_norm_strs_dict_perm)+
  moreover have "dict_or_empty (es_model_fallback_refs s) = [] \<longleftrightarrow> dict_or_empty (es_model_fallback_refs t) = []"
    by (rule empty_iff_mset) (use assms(1) in \<open>simp add: same_snapshot_def\<close>)
  moreover have "dict_or_empty (es_provider_capabilities s) = [] \<longleftrightarrow> dict_or_empty (es_provider_capabilities t) = []"
    by (rule empty_iff_mset) (use assms(1) in \<open>simp add: same_snapshot_def\<close>)
  ultimately show ?thesis
    using assms(1) unfolding same_snapshot_def eligibility_snapshot_to_dict_def
    by (intro json_norm_dict_cong) simp
qed

lemma same_snapshot_maps:
  assumes "same_snapshot s t" "snapshot_keys_distinct s"
  shows "map_of (es_model_refs t) = map_of (es_model_refs s)"
    and "map_of (es_provider_eligible t) = map_of (es_provider_eligible s)"
    and "map_of (dict_or_empty (es_model_fallback_refs t)) = map_of (dict_or_empty (es_model_fallback_refs s))"
    and "map_of (dict_or_empty (es_provider_capabilities t)) = map_of (dict_or_empty (es_provider_capabilities s))"
  by (rule sym, rule map_of_mset; use assms in \<open>simp add: same_snapshot_def snapshot_keys_distinct_def\<close>)+

lemma same_snapshot_lookups:
  assumes "same_snapshot s t" "snapshot_keys_distinct s"
  shows "snapshot_digest t = snapshot_digest s"
    and "snapshot_model t p = snapshot_model s p"
    and "provider_capability_set t p = provider_capability_set s p"
    and "py_get_or False (es_provider_eligible t) p = py_get_or False (es_provider_eligible s) p"
    and "py_get_or [] (dict_or_empty (es_model_fallback_refs t)) p = py_get_or [] (dict_or_empty (es_model_fallback_refs s)) p"
    and "py_get_or [] (dict_or_empty (es_provider_capabilities t)) p = py_get_or [] (dict_or_empty (es_provider_capabilities s)) p"
    and "list_ex snd (es_provider_eligible t) = list_ex snd (es_provider_eligible s)"
proof -
  show "snapshot_digest t = snapshot_digest s"
    using digest_norm_cong [OF snapshot_digest_perm [OF assms]] by (simp add: snapshot_digest_def)
  have "set (es_provider_eligible t) = set (es_provider_eligible s)"
    by (rule mset_eq_setD) (use assms(1) in \<open>simp add: same_snapshot_def\<close>)
  then show "list_ex snd (es_provider_eligible t) = list_ex snd (es_provider_eligible s)"
    by (simp add: list_ex_iff)
qed (simp_all add: snapshot_model_def provider_capability_set_def py_get_or_def py_get_def
    same_snapshot_maps [OF assms])

lemma pick_winner_perm:
  assumes "mset cs = mset ds"
  shows "pick_winner cs = pick_winner ds"
proof -
  let ?w = "\<lambda>xs b. map snd (filter (\<lambda>c. fst c = b) xs)"
  have ne: "cs = [] \<longleftrightarrow> ds = []" using assms by (rule empty_iff_mset)
  have set: "set cs = set ds" using assms by (rule mset_eq_setD)
  have best: "py_min (map fst cs) = py_min (map fst ds)" if "cs \<noteq> []"
    using that ne set by (simp add: py_min_Min)
  have mw: "mset (?w cs b) = mset (?w ds b)" for b using assms by simp
  then have len: "length (?w cs b) = length (?w ds b)" for b by (metis size_mset)
  have "hd (?w cs b) = hd (?w ds b)" if "length (?w cs b) = 1" for b
    using that mw [of b] len [of b] by (metis (no_types, lifting) One_nat_def length_0_conv length_Suc_conv
        mset_single_iff mset_single_iff_right)
  then show ?thesis using ne best len by (simp add: pick_winner_def Let_def)
qed

lemma candidates_perm:
  assumes "same_snapshot (rq_eligibility_snapshot r) t" "snapshot_keys_distinct (rq_eligibility_snapshot r)"
    and "request_digest (r\<lparr>rq_eligibility_snapshot := t\<rparr>) = request_digest r"
  shows "mset (candidates (r\<lparr>rq_eligibility_snapshot := t\<rparr>)) = mset (candidates r)"
proof -
  let ?r = "r\<lparr>rq_eligibility_snapshot := t\<rparr>"
  have ok: "candidate_ok ?r = candidate_ok r"
    by (rule ext) (simp add: candidate_ok_def provider_generation_requirements_def Let_def
        same_snapshot_lookups [OF assms(1,2)])
  have rank: "candidate_rank ?r p m = candidate_rank r p m" for p m
    by (simp add: candidate_rank_def assms(3))
  have "mset (es_provider_eligible t) = mset (es_provider_eligible (rq_eligibility_snapshot r))"
    using assms(1) by (simp add: same_snapshot_def)
  then show ?thesis
    by (simp add: candidates_def ok rank Let_def same_snapshot_lookups [OF assms(1,2)])
qed

lemma request_digest_perm:
  assumes "same_snapshot (rq_eligibility_snapshot r) t" "snapshot_keys_distinct (rq_eligibility_snapshot r)"
  shows "request_digest (r\<lparr>rq_eligibility_snapshot := t\<rparr>) = request_digest r"
  unfolding request_digest_def router_request_to_dict_def
  by (rule digest_norm_cong, rule json_norm_dict_cong) (simp add: snapshot_digest_perm [OF assms])

lemma route_request_perm:
  assumes "same_snapshot (rq_eligibility_snapshot r) t" "snapshot_keys_distinct (rq_eligibility_snapshot r)"
  shows "route_request (r\<lparr>rq_eligibility_snapshot := t\<rparr>) = route_request r"
proof -
  let ?r = "r\<lparr>rq_eligibility_snapshot := t\<rparr>"
  note look = same_snapshot_lookups [OF assms]
  have dig: "request_digest ?r = request_digest r" by (rule request_digest_perm [OF assms])
  have ids: "es_snapshot_id t = es_snapshot_id (rq_eligibility_snapshot r)"
    "es_evidence_refs t = es_evidence_refs (rq_eligibility_snapshot r)"
    using assms(1) by (simp_all add: same_snapshot_def)
  have "route_precheck ?r = route_precheck r"
    unfolding route_precheck_def Let_def blocked_state_def eligibility_binding_valid_def
    by (simp add: ids look cong: if_cong)
  moreover have "select_provider ?r = select_provider r"
    unfolding select_provider_def by (rule pick_winner_perm) (rule candidates_perm [OF assms dig])
  moreover have "blocked_decision ?r = blocked_decision r"
    by (intro ext) (simp add: blocked_decision_def dig ids)
  moreover have "selected_decision ?r = selected_decision r"
    unfolding selected_decision_def Let_def by (intro ext) (simp add: dig ids look cong: if_cong)
  moreover have "unselected_reason ?r = unselected_reason r" "blocked_state ?r = blocked_state r"
    by (simp_all add: unselected_reason_def blocked_state_def look)
  ultimately show ?thesis by (simp add: route_request_def split: option.split)
qed

section \<open>A concrete request\<close>

definition ex_snapshot :: eligibility_snapshot where
  "ex_snapshot =
     \<lparr>es_schema_version = ELIGIBILITY_SCHEMA_V1, es_snapshot_id = ''snap-1'',
      es_provider_eligible = [(''nvidia'', True), (''codex'', False)],
      es_model_refs = [(''nvidia'', ''model-a''), (''codex'', ''model-b'')],
      es_evidence_refs = [''evidence-1''], es_failure_classes = None,
      es_model_fallback_refs = Some [(''nvidia'', [''model-c''])], es_provider_capabilities = None\<rparr>"

definition ex_snapshot_reordered :: eligibility_snapshot where
  "ex_snapshot_reordered = ex_snapshot
     \<lparr>es_provider_eligible := [(''codex'', False), (''nvidia'', True)],
      es_model_refs := [(''codex'', ''model-b''), (''nvidia'', ''model-a'')]\<rparr>"

definition ex_request_raw :: router_request where
  "ex_request_raw =
     \<lparr>rq_schema_version = ROUTER_REQUEST_SCHEMA_V2, rq_request_id = ''request-1'', rq_project_id = ''project-1'',
      rq_run_id = ''run-1'', rq_task_id = ''task-1'', rq_task_execution_id = ''exec-1'',
      rq_directive_digest = ''directive'', rq_stage = ''PREPARE'',
      rq_required_capabilities = ['' reasoning ''], rq_state_change_required = False,
      rq_policy_profile = GOVERNED_POLICY_V1, rq_eligibility_snapshot = ex_snapshot,
      rq_eligibility_snapshot_ref = [], rq_eligibility_snapshot_digest = [],
      rq_request_source = ROUTER_REQUEST_SOURCE_V2, rq_failure_class = [], rq_failover_request_ref = [],
      rq_failed_provider_ref = [], rq_failed_model_ref = []\<rparr>"

definition ex_request :: router_request where
  "ex_request = router_request_fill ex_request_raw"

definition ex_reroute :: router_request where
  "ex_reroute = router_request_fill (ex_request_raw
     \<lparr>rq_request_source := MPRF_REROUTE_SOURCE_V1, rq_failure_class := ''RATE_LIMIT'',
      rq_failover_request_ref := ''mprf-reroute://x'', rq_failed_provider_ref := ''codex'',
      rq_failed_model_ref := ''model-b''\<rparr>)"

lemma ex_caps: "normalize_capabilities_v2 ['' reasoning ''] = [''reasoning'']"
  by (simp add: normalize_capabilities_v2_def py_strip_def py_isspace_def LEGACY_CAPABILITY_ALIASES_V2_def
      sorted_set_def)

lemma ex_snapshot_init: "eligibility_snapshot_init ex_snapshot = Inr ex_snapshot"
  by (simp add: eligibility_snapshot_init_def ex_snapshot_def valid_provider_id_def ascii_alnum_def
      dict_or_empty_def check_fallback_binding_def py_strip_def py_isspace_def py_get_or_def)

lemma ex_request_init: "router_request_init ex_request_raw = Inr ex_request"
  by (simp add: router_request_init_iff ex_request_def router_request_check_def ex_request_raw_def
      ROUTER_REQUEST_SOURCE_V2_def LEGACY_REQUEST_SOURCE_V1_def MPRF_REROUTE_SOURCE_V1_def)

lemma ex_select:
  assumes "rq_eligibility_snapshot r = ex_snapshot" "rq_required_capabilities r = [''reasoning'']"
    "rq_stage r = ''PREPARE''"
  shows "select_provider r = Some (''nvidia'', ''model-a'')"
  by (simp add: select_provider_def candidates_def candidate_ok_def assms provider_generation_requirements_def
      pick_winner_def snapshot_model_def provider_capability_set_def ex_snapshot_def sorted_set_def
      EFFECT_ONLY_CAPABILITIES_def ACTION_GENERATION_ALIASES_def dict_or_empty_def py_get_def py_get_or_def
      legacy_provider_capabilities_def BUILTIN_PROVIDER_IDS_def NVIDIA_PROVIDER_def CODEX_PROVIDER_def
      READ_ONLY_CAPABILITIES_def ACTION_PROPOSAL_CAPABILITY_def py_strip_def py_isspace_def Let_def)

lemma ex_precheck: "route_precheck ex_request = None" "route_precheck ex_reroute = None"
  by (simp_all add: route_precheck_def ex_request_def ex_reroute_def ex_request_raw_def
      router_request_fill_def eligibility_binding_valid_def ex_caps state_changing_def
      STATE_CHANGING_CAPABILITIES_def REROUTE_ELIGIBLE_FAILURE_CLASSES_V1_def ex_snapshot_def py_get_or_def)

lemma ex_selects: "select_provider ex_request = Some (''nvidia'', ''model-a'')"
    "select_provider ex_reroute = Some (''nvidia'', ''model-a'')"
  by (rule ex_select; simp add: ex_request_def ex_reroute_def ex_request_raw_def ex_caps)+

lemma route_request_selected:
  assumes "route_precheck r = None" "select_provider r = Some (p, m)"
    and "rq_failover_request_ref r = [] \<or> p \<noteq> rq_failed_provider_ref r"
    and "eligibility_snapshot_init (rq_eligibility_snapshot r) = Inr s"
  shows "\<exists>d. route_request r = Inr d \<and> rd_eligible d"
proof -
  obtain d where d: "selected_decision r p m = Inr d"
    using selected_decision_total [OF assms(4,2)] by blast
  have "route_request r = selected_decision r p m"
    using assms(1-3) by (auto simp: route_request_def)
  with d selected_decisionD(1) [OF d] show ?thesis by simp
qed

lemma ex_routes:
  "\<exists>d. route_request ex_request = Inr d \<and> rd_eligible d"
  "\<exists>d. route_request ex_reroute = Inr d \<and> rd_eligible d"
  by (rule route_request_selected [OF ex_precheck(1) ex_selects(1)],
      simp_all add: ex_request_def ex_request_raw_def ex_snapshot_init)
    (rule route_request_selected [OF ex_precheck(2) ex_selects(2)],
      simp_all add: ex_reroute_def ex_request_raw_def ex_snapshot_init)

section \<open>Properties\<close>

text \<open>C29. The governed router never raises: for every snapshot its constructor accepts, routing a
  request over it returns a decision, and the decision meets the decision contract (its constructor
  accepts it unchanged), carries the digest of the request and keeps the request's stage.\<close>

theorem route_request_returns_decision:
  assumes "eligibility_snapshot_init (rq_eligibility_snapshot r) = Inr s"
  shows "\<exists>d. route_request r = Inr d \<and> router_decision_init d = Inr d \<and>
    rd_request_digest d = request_digest r \<and> rd_stage d = rq_stage r"
proof -
  from route_request_total [OF assms] obtain d where d: "route_request r = Inr d" ..
  then have "(\<exists>p m. selected_decision r p m = Inr d) \<or> (\<exists>reason state. blocked_decision r reason state = Inr d)"
    unfolding route_request_def by (auto split: option.splits prod.splits if_splits; blast)
  then have "router_decision_init d = Inr d \<and> rd_request_digest d = request_digest r \<and> rd_stage d = rq_stage r"
    by (auto simp: selected_decision_def blocked_decision_def router_decision_init_def Let_def)
  with d show ?thesis by blast
qed

theorem route_request_returns_decision_witness:
  "eligibility_snapshot_init (rq_eligibility_snapshot ex_request) = Inr ex_snapshot \<and>
   (\<exists>d. route_request ex_request = Inr d \<and> router_decision_init d = Inr d \<and>
      rd_request_digest d = request_digest ex_request \<and> rd_stage d = rq_stage ex_request)"
proof -
  have h: "eligibility_snapshot_init (rq_eligibility_snapshot ex_request) = Inr ex_snapshot"
    using ex_snapshot_init by (simp add: ex_request_def ex_request_raw_def)
  from h route_request_returns_decision [OF h] show ?thesis by blast
qed

text \<open>C1. An eligible decision is backed by the snapshot: the provider is marked eligible there, the model
  is the one the snapshot binds to it, the provider's capabilities cover what the request needs from a
  model, the snapshot is the one the request was bound to, the stage is ACTION exactly when a
  state-changing capability is required, and no other candidate has a smaller rank.\<close>

theorem route_request_eligible_sound:
  assumes "route_request r = Inr d" and "rd_eligible d"
  shows "(rd_provider_ref d, True) \<in> set (es_provider_eligible (rq_eligibility_snapshot r)) \<and>
    rd_model_ref d = snapshot_model (rq_eligibility_snapshot r) (rd_provider_ref d) \<and> rd_model_ref d \<noteq> [] \<and>
    set (provider_generation_requirements r) \<subseteq>
      provider_capability_set (rq_eligibility_snapshot r) (rd_provider_ref d) \<and>
    eligibility_binding_valid r \<and>
    (rq_stage r = ''ACTION'' \<longleftrightarrow> state_changing (rq_required_capabilities r)) \<and>
    (\<forall>(rank, p, m) \<in> set (candidates r). candidate_rank r (rd_provider_ref d) (rd_model_ref d) \<le> rank)"
proof -
  from assms route_request_eligible obtain p m where pre: "route_precheck r = None"
    and sel: "select_provider r = Some (p, m)" and dec: "selected_decision r p m = Inr d" by blast
  show ?thesis
    using route_precheck_None [OF pre] select_providerD [OF sel] selected_decisionD [OF dec] by auto
qed

theorem route_request_eligible_sound_witness:
  "\<exists>d. route_request ex_request = Inr d \<and> rd_eligible d \<and>
     (rd_provider_ref d, True) \<in> set (es_provider_eligible (rq_eligibility_snapshot ex_request))"
proof -
  from ex_routes(1) obtain d where "route_request ex_request = Inr d" "rd_eligible d" by blast
  with route_request_eligible_sound [OF this] show ?thesis by blast
qed

text \<open>C30. A reroute request never gets back the provider and model that failed, and its failure class is one
  of those a reroute is permitted for; the later check for a reselected candidate is never reached.\<close>

theorem reroute_excludes_failed_model:
  assumes "route_request r = Inr d" and "rq_failover_request_ref r \<noteq> []"
    and "distinct (map fst (es_provider_eligible (rq_eligibility_snapshot r)))"
  shows "rd_reason_code d \<noteq> ''reroute_failed_candidate_reselected'' \<and>
    (rd_eligible d \<longrightarrow> rq_failure_class r \<in> REROUTE_ELIGIBLE_FAILURE_CLASSES_V1 \<and>
      \<not> (rd_provider_ref d = rq_failed_provider_ref r \<and> rd_model_ref d = rq_failed_model_ref r))"
proof (intro conjI impI)
  show "rd_reason_code d \<noteq> ''reroute_failed_candidate_reselected''"
    using assms(1,3) by (rule dead_reselection_branch)
  assume "rd_eligible d"
  with assms route_request_eligible obtain p m where pre: "route_precheck r = None"
    and sel: "select_provider r = Some (p, m)" and dec: "selected_decision r p m = Inr d" by blast
  show "rq_failure_class r \<in> REROUTE_ELIGIBLE_FAILURE_CLASSES_V1"
    using route_precheck_None(3) [OF pre] assms(2) by blast
  show "\<not> (rd_provider_ref d = rq_failed_provider_ref r \<and> rd_model_ref d = rq_failed_model_ref r)"
    using select_not_failed [OF pre sel assms(2,3)] selected_decisionD [OF dec] by simp
qed

theorem reroute_excludes_failed_model_witness:
  "\<exists>d. route_request ex_reroute = Inr d \<and> rd_eligible d \<and>
     \<not> (rd_provider_ref d = rq_failed_provider_ref ex_reroute \<and> rd_model_ref d = rq_failed_model_ref ex_reroute)"
proof -
  from ex_routes(2) obtain d where d: "route_request ex_reroute = Inr d" "rd_eligible d" by blast
  have "rq_failover_request_ref ex_reroute \<noteq> []"
    "distinct (map fst (es_provider_eligible (rq_eligibility_snapshot ex_reroute)))"
    by (simp_all add: ex_reroute_def ex_request_raw_def ex_snapshot_def)
  from reroute_excludes_failed_model [OF d(1) this] d show ?thesis by blast
qed

text \<open>C34. Selection is neutral: listing the entries of any mapping of the snapshot in another order gives the
  same decision, for the rank of a candidate is a digest of the request, the provider and the model and
  the digest does not see the order of a dict.\<close>

theorem route_request_order_neutral:
  assumes "same_snapshot (rq_eligibility_snapshot r) t"
    and "snapshot_keys_distinct (rq_eligibility_snapshot r)"
  shows "route_request (r\<lparr>rq_eligibility_snapshot := t\<rparr>) = route_request r"
  using assms by (rule route_request_perm)

theorem route_request_order_neutral_witness:
  "ex_snapshot_reordered \<noteq> ex_snapshot \<and>
   route_request (ex_request\<lparr>rq_eligibility_snapshot := ex_snapshot_reordered\<rparr>) = route_request ex_request"
proof -
  have snap: "rq_eligibility_snapshot ex_request = ex_snapshot"
    by (simp add: ex_request_def ex_request_raw_def)
  have "same_snapshot (rq_eligibility_snapshot ex_request) ex_snapshot_reordered"
    "snapshot_keys_distinct (rq_eligibility_snapshot ex_request)"
    unfolding snap
    by (simp_all add: same_snapshot_def snapshot_keys_distinct_def ex_snapshot_def ex_snapshot_reordered_def
        dict_or_empty_def)
  from route_request_order_neutral [OF this] show ?thesis
    by (simp add: ex_snapshot_def ex_snapshot_reordered_def)
qed

text \<open>Constructing a request from the fields of a constructed request changes nothing: the capability list
  is normalised once and for all and the snapshot binding is kept.\<close>

theorem router_request_init_idempotent:
  assumes "router_request_init r = Inr r'"
  shows "router_request_init r' = Inr r' \<and>
    normalize_capabilities_v2 (rq_required_capabilities r') = rq_required_capabilities r'"
  using assms router_request_init_idem [OF assms]
  by (auto simp: router_request_init_iff normalize_capabilities_idem)

theorem router_request_init_idempotent_witness:
  "router_request_init ex_request_raw = Inr ex_request \<and> ex_request \<noteq> ex_request_raw \<and>
   router_request_init ex_request = Inr ex_request"
proof -
  have "ex_request \<noteq> ex_request_raw"
    by (simp add: ex_request_def router_request_fill_def ex_request_raw_def ex_snapshot_def)
  with ex_request_init router_request_init_idempotent [OF ex_request_init] show ?thesis by blast
qed

end
