(* ===== verification/Mprf_Contracts.thy ===== *)
theory Mprf_Contracts
  imports Prelude
begin

text \<open>
  The admission contracts of the multi-provider runtime, \<open>src/runtime/mprf/contracts.py\<close>.
  The validators take any Python value and so have their \<open>isinstance\<close> branches; the records have
  the field types of the source's annotations. A record \<open>r\<close> is one the constructor lets through
  when \<open><record>_init r = Inr r\<close>.
\<close>

section \<open>Constants\<close>

definition PROVIDER_RECORD_SCHEMA_V1 :: string where "PROVIDER_RECORD_SCHEMA_V1 = ''mprf.provider-record.v1''"
definition MODEL_RECORD_SCHEMA_V1 :: string where "MODEL_RECORD_SCHEMA_V1 = ''mprf.model-record.v1''"
definition ADMISSION_RECORD_SCHEMA_V1 :: string where "ADMISSION_RECORD_SCHEMA_V1 = ''mprf.admission-record.v1''"
definition ELIGIBILITY_FACT_SCHEMA_V1 :: string where "ELIGIBILITY_FACT_SCHEMA_V1 = ''mprf.eligibility-fact.v1''"

definition ADMISSION_ADMITTED :: string where "ADMISSION_ADMITTED = ''ADMITTED''"
definition ADMISSION_DISABLED :: string where "ADMISSION_DISABLED = ''DISABLED''"
definition ADMISSION_STATES_V1 :: "string set" where
  "ADMISSION_STATES_V1 = {ADMISSION_ADMITTED, ADMISSION_DISABLED}"

definition ELIGIBLE_REASON :: string where "ELIGIBLE_REASON = ''ADMITTED''"
definition INELIGIBLE_REASONS_V1 :: "string set" where
  "INELIGIBLE_REASONS_V1 = {''UNKNOWN_PROVIDER'', ''UNKNOWN_MODEL'', ''NO_ADMISSION'',
     ''ADMISSION_DISABLED'', ''STALE_ADMISSION''}"

section \<open>Validators\<close>

definition require_text :: "pyval \<Rightarrow> string \<Rightarrow> unit result" where
  "require_text value field =
     (case value of
        PyStr s \<Rightarrow> if py_strip s = [] then Inl (MPRFContractError (field @ '' must be a non-empty string''))
                   else Inr ()
      | _ \<Rightarrow> Inl (MPRFContractError (field @ '' must be a non-empty string'')))"

definition provider_id_re :: "string \<Rightarrow> bool" where
  "provider_id_re s = re_ident ''._:-'' 127 s"

definition validate_provider_id :: "pyval \<Rightarrow> string result" where
  "validate_provider_id value =
     (case value of
        PyStr s \<Rightarrow> if provider_id_re s then Inr s else Inl (MPRFContractError ''provider_id is invalid'')
      | _ \<Rightarrow> Inl (MPRFContractError ''provider_id is invalid''))"

definition require_version :: "pyval \<Rightarrow> string \<Rightarrow> unit result" where
  "require_version value field =
     (case value of
        PyInt i \<Rightarrow> if i < 1 then Inl (MPRFContractError (field @ '' must be a positive integer'')) else Inr ()
      | _ \<Rightarrow> Inl (MPRFContractError (field @ '' must be a positive integer'')))"

lemma require_text_iff [simp]: "require_text v f = Inr u \<longleftrightarrow> (\<exists>s. v = PyStr s \<and> py_strip s \<noteq> [])"
  by (cases v) (simp_all add: require_text_def)

lemma validate_provider_id_iff [simp]:
  "validate_provider_id v = Inr s \<longleftrightarrow> v = PyStr s \<and> provider_id_re s"
  by (cases v) (auto simp: validate_provider_id_def)

lemma require_version_iff [simp]: "require_version v f = Inr u \<longleftrightarrow> (\<exists>i. v = PyInt i \<and> 1 \<le> i)"
  by (cases v) (auto simp: require_version_def)

lemma strip_Nil_iff: "py_strip s = [] \<longleftrightarrow> list_all py_isspace s"
proof -
  have dw: "dropWhile P xs = [] \<longleftrightarrow> list_all P xs" for P and xs :: string
    by (auto simp: list_all_iff dropWhile_eq_Nil_conv)
  show ?thesis by (auto simp: py_strip_def dw list_all_iff dest: set_dropWhileD intro: ccontr)
    (metis dw dropWhile_eq_Nil_conv hd_dropWhile in_set_conv_nth list.set_sel(1) list_all_iff set_rev)
qed

lemma provider_id_stripped: "provider_id_re s \<Longrightarrow> py_strip s \<noteq> []"
  by (cases s) (auto simp: provider_id_re_def strip_Nil_iff ascii_alnum_def py_isspace_def Let_def)

section \<open>Records\<close>

record provider_record =
  pr_schema_version :: string
  pr_provider_id :: string
  pr_record_version :: int

definition provider_record_init :: "provider_record \<Rightarrow> provider_record result" where
  "provider_record_init r =
     (if pr_schema_version r \<noteq> PROVIDER_RECORD_SCHEMA_V1
      then Inl (MPRFContractError ''unsupported provider record schema'')
      else rbind (validate_provider_id (PyStr (pr_provider_id r))) (\<lambda>_.
        rbind (require_version (PyInt (pr_record_version r)) ''record_version'') (\<lambda>_. Inr r)))"

definition provider_record_to_dict :: "provider_record \<Rightarrow> pyval" where
  "provider_record_to_dict r = PyDict
     [(''schema_version'', PyStr (pr_schema_version r)), (''provider_id'', PyStr (pr_provider_id r)),
      (''record_version'', PyInt (pr_record_version r))]"

record model_record =
  mr_schema_version :: string
  mr_provider_id :: string
  mr_model_ref :: string
  mr_record_version :: int

definition model_record_init :: "model_record \<Rightarrow> model_record result" where
  "model_record_init r =
     (if mr_schema_version r \<noteq> MODEL_RECORD_SCHEMA_V1
      then Inl (MPRFContractError ''unsupported model record schema'')
      else rbind (validate_provider_id (PyStr (mr_provider_id r))) (\<lambda>_.
        rbind (require_text (PyStr (mr_model_ref r)) ''model_ref'') (\<lambda>_.
        rbind (require_version (PyInt (mr_record_version r)) ''record_version'') (\<lambda>_. Inr r))))"

definition model_record_to_dict :: "model_record \<Rightarrow> pyval" where
  "model_record_to_dict r = PyDict
     [(''schema_version'', PyStr (mr_schema_version r)), (''provider_id'', PyStr (mr_provider_id r)),
      (''model_ref'', PyStr (mr_model_ref r)), (''record_version'', PyInt (mr_record_version r))]"

record admission_record =
  ar_schema_version :: string
  ar_admission_id :: string
  ar_provider_id :: string
  ar_model_ref :: string
  ar_registry_version :: int
  ar_state :: string

definition admission_record_init :: "admission_record \<Rightarrow> admission_record result" where
  "admission_record_init r =
     (if ar_schema_version r \<noteq> ADMISSION_RECORD_SCHEMA_V1
      then Inl (MPRFContractError ''unsupported admission record schema'')
      else rbind (require_text (PyStr (ar_admission_id r)) ''admission_id'') (\<lambda>_.
        rbind (validate_provider_id (PyStr (ar_provider_id r))) (\<lambda>_.
        rbind (require_text (PyStr (ar_model_ref r)) ''model_ref'') (\<lambda>_.
        rbind (require_version (PyInt (ar_registry_version r)) ''registry_version'') (\<lambda>_.
        if ar_state r \<notin> ADMISSION_STATES_V1 then Inl (MPRFContractError ''unknown admission state'')
        else Inr r)))))"

definition admission_record_to_dict :: "admission_record \<Rightarrow> pyval" where
  "admission_record_to_dict r = PyDict
     [(''schema_version'', PyStr (ar_schema_version r)), (''admission_id'', PyStr (ar_admission_id r)),
      (''provider_id'', PyStr (ar_provider_id r)), (''model_ref'', PyStr (ar_model_ref r)),
      (''registry_version'', PyInt (ar_registry_version r)), (''state'', PyStr (ar_state r))]"

record eligibility_fact_v1 =
  ef_schema_version :: string
  ef_provider_id :: string
  ef_model_ref :: string
  ef_registry_version :: int
  ef_eligible :: bool
  ef_reason_code :: string
  ef_admission_id :: string

definition eligibility_fact_init :: "eligibility_fact_v1 \<Rightarrow> eligibility_fact_v1 result" where
  "eligibility_fact_init r =
     (if ef_schema_version r \<noteq> ELIGIBILITY_FACT_SCHEMA_V1
      then Inl (MPRFContractError ''unsupported eligibility fact schema'')
      else rbind (require_text (PyStr (ef_provider_id r)) ''provider_id'') (\<lambda>_.
        rbind (require_version (PyInt (ef_registry_version r)) ''registry_version'') (\<lambda>_.
        if ef_eligible r
        then if ef_reason_code r \<noteq> ELIGIBLE_REASON \<or> ef_model_ref r = [] \<or> ef_admission_id r = []
             then Inl (MPRFContractError ''eligible fact is incomplete'') else Inr r
        else if ef_reason_code r \<notin> INELIGIBLE_REASONS_V1
             then Inl (MPRFContractError ''unknown ineligible reason'') else Inr r)))"

definition eligibility_fact_to_dict :: "eligibility_fact_v1 \<Rightarrow> pyval" where
  "eligibility_fact_to_dict r = PyDict
     [(''schema_version'', PyStr (ef_schema_version r)), (''provider_id'', PyStr (ef_provider_id r)),
      (''model_ref'', PyStr (ef_model_ref r)), (''registry_version'', PyInt (ef_registry_version r)),
      (''eligible'', PyBool (ef_eligible r)), (''reason_code'', PyStr (ef_reason_code r)),
      (''admission_id'', PyStr (ef_admission_id r))]"

section \<open>What a constructed record satisfies\<close>

lemma provider_record_init_iff:
  "provider_record_init r = Inr r' \<longleftrightarrow> r' = r \<and> pr_schema_version r = PROVIDER_RECORD_SCHEMA_V1 \<and>
     provider_id_re (pr_provider_id r) \<and> 1 \<le> pr_record_version r"
  by (auto simp: provider_record_init_def)

lemma model_record_init_iff:
  "model_record_init r = Inr r' \<longleftrightarrow> r' = r \<and> mr_schema_version r = MODEL_RECORD_SCHEMA_V1 \<and>
     provider_id_re (mr_provider_id r) \<and> py_strip (mr_model_ref r) \<noteq> [] \<and> 1 \<le> mr_record_version r"
  by (auto simp: model_record_init_def)

lemma admission_record_init_iff:
  "admission_record_init r = Inr r' \<longleftrightarrow> r' = r \<and> ar_schema_version r = ADMISSION_RECORD_SCHEMA_V1 \<and>
     py_strip (ar_admission_id r) \<noteq> [] \<and> provider_id_re (ar_provider_id r) \<and>
     py_strip (ar_model_ref r) \<noteq> [] \<and> 1 \<le> ar_registry_version r \<and> ar_state r \<in> ADMISSION_STATES_V1"
  by (auto simp: admission_record_init_def)

lemma eligibility_fact_init_iff:
  "eligibility_fact_init r = Inr r' \<longleftrightarrow> r' = r \<and> ef_schema_version r = ELIGIBILITY_FACT_SCHEMA_V1 \<and>
     py_strip (ef_provider_id r) \<noteq> [] \<and> 1 \<le> ef_registry_version r \<and>
     (if ef_eligible r
      then ef_reason_code r = ELIGIBLE_REASON \<and> ef_model_ref r \<noteq> [] \<and> ef_admission_id r \<noteq> []
      else ef_reason_code r \<in> INELIGIBLE_REASONS_V1)"
  by (auto simp: eligibility_fact_init_def)

end
