(* ===== verification/Mprf_Checkpoint.thy ===== *)
theory Mprf_Checkpoint
  imports Mprf_Contracts Sealing
begin

text \<open>
  Recovery checkpoints, \<open>src/runtime/mprf/checkpoint.py\<close>: construction, sealing with the digest of the
  other fields, and validation against the lineage the caller expects. The theory interprets
  \<open>sealed_injective\<close> on the checkpoint record.
\<close>

definition CHECKPOINT_SCHEMA_V1 :: string where "CHECKPOINT_SCHEMA_V1 = ''mprf.checkpoint.v1''"
definition CHECKPOINT_VALIDATION_SCHEMA_V1 :: string where
  "CHECKPOINT_VALIDATION_SCHEMA_V1 = ''mprf.checkpoint-validation.v1''"
definition CHECKPOINT_VALID :: string where "CHECKPOINT_VALID = ''VALID''"
definition RECOVERY_REQUIRED :: string where "RECOVERY_REQUIRED = ''RECOVERY_REQUIRED''"

definition checkpoint_text :: "string \<Rightarrow> string \<Rightarrow> string result" where
  "checkpoint_text value name =
     (if py_strip value = [] then Inl (MPRFContractError (name @ '' must be a non-empty string''))
      else Inr (py_strip value))"

definition checkpoint_refs :: "string list \<Rightarrow> string \<Rightarrow> string list result" where
  "checkpoint_refs values name =
     (let result = map py_strip values in
      if list_ex (\<lambda>item. item = []) result \<or> \<not> distinct result
      then Inl (MPRFContractError (name @ '' references are invalid'')) else Inr result)"

record checkpoint =
  ck_schema_version :: string
  ck_project_id :: string
  ck_run_id :: string
  ck_task_id :: string
  ck_task_execution_id :: string
  ck_stage :: string
  ck_provider_runtime_state_version :: int
  ck_artifact_digest_refs :: "string list"
  ck_router_decision_refs :: "string list"
  ck_effect_reconciliation_refs :: "string list"
  ck_authorization_ref :: string
  ck_parent_checkpoint_ref :: string
  ck_integrity_digest :: string

definition checkpoint_init :: "checkpoint \<Rightarrow> checkpoint result" where
  "checkpoint_init c =
     (if ck_schema_version c \<noteq> CHECKPOINT_SCHEMA_V1
      then Inl (MPRFContractError ''unsupported MPRF checkpoint schema'')
      else rbind (rcheck (\<lambda>(value, name). rbind (checkpoint_text value name) (\<lambda>_. Inr ()))
        [(ck_project_id c, ''project_id''), (ck_run_id c, ''run_id''), (ck_task_id c, ''task_id''),
         (ck_task_execution_id c, ''task_execution_id''), (ck_stage c, ''stage''),
         (ck_authorization_ref c, ''authorization_ref'')]) (\<lambda>_.
      if ck_provider_runtime_state_version c < 1
      then Inl (MPRFContractError ''provider_runtime_state_version must be positive'')
      else rbind (checkpoint_refs (ck_artifact_digest_refs c) ''artifact'') (\<lambda>artifacts.
        rbind (checkpoint_refs (ck_router_decision_refs c) ''Router decision'') (\<lambda>decisions.
        rbind (checkpoint_refs (ck_effect_reconciliation_refs c) ''effect reconciliation'') (\<lambda>effects.
        if \<not> re_sha256 (ck_integrity_digest c)
        then Inl (MPRFContractError ''checkpoint integrity digest must be lowercase SHA-256'')
        else Inr (c\<lparr>ck_artifact_digest_refs := artifacts, ck_router_decision_refs := decisions,
               ck_effect_reconciliation_refs := effects\<rparr>))))))"

definition checkpoint_unsigned_dict :: "checkpoint \<Rightarrow> pyval" where
  "checkpoint_unsigned_dict c = PyDict
     [(''schema_version'', PyStr (ck_schema_version c)), (''project_id'', PyStr (ck_project_id c)),
      (''run_id'', PyStr (ck_run_id c)), (''task_id'', PyStr (ck_task_id c)),
      (''task_execution_id'', PyStr (ck_task_execution_id c)), (''stage'', PyStr (ck_stage c)),
      (''provider_runtime_state_version'', PyInt (ck_provider_runtime_state_version c)),
      (''artifact_digest_refs'', strs (ck_artifact_digest_refs c)),
      (''router_decision_refs'', strs (ck_router_decision_refs c)),
      (''effect_reconciliation_refs'', strs (ck_effect_reconciliation_refs c)),
      (''authorization_ref'', PyStr (ck_authorization_ref c)),
      (''parent_checkpoint_ref'', PyStr (ck_parent_checkpoint_ref c))]"

definition expected_integrity_digest :: "checkpoint \<Rightarrow> string" where
  "expected_integrity_digest c = digest (checkpoint_unsigned_dict c)"

definition checkpoint_ref :: "checkpoint \<Rightarrow> string" where
  "checkpoint_ref c =
     ''mprf-checkpoint://'' @ ck_task_execution_id c @ ''/'' @ ck_stage c @ ''#'' @ ck_integrity_digest c"

record checkpoint_validation =
  cv_schema_version :: string
  cv_status :: string
  cv_reason_code :: string
  cv_checkpoint_ref :: string

definition checkpoint_validation_init :: "checkpoint_validation \<Rightarrow> checkpoint_validation result" where
  "checkpoint_validation_init v =
     (if cv_schema_version v \<noteq> CHECKPOINT_VALIDATION_SCHEMA_V1
      then Inl (MPRFContractError ''unsupported checkpoint validation schema'')
      else if cv_status v \<notin> {CHECKPOINT_VALID, RECOVERY_REQUIRED}
      then Inl (MPRFContractError ''unknown checkpoint validation status'')
      else rbind (checkpoint_text (cv_reason_code v) ''reason_code'') (\<lambda>_. Inr v))"

text \<open>\<open>seal_checkpoint\<close> takes the fields of \<open>c\<close> except the schema and the digest.\<close>

definition seal_checkpoint :: "checkpoint \<Rightarrow> checkpoint result" where
  "seal_checkpoint c =
     rbind (checkpoint_init (c\<lparr>ck_schema_version := CHECKPOINT_SCHEMA_V1,
              ck_integrity_digest := replicate 64 CHR ''0''\<rparr>)) (\<lambda>provisional.
     checkpoint_init (provisional\<lparr>ck_integrity_digest := expected_integrity_digest provisional\<rparr>))"

definition validate_checkpoint ::
  "checkpoint \<Rightarrow> string \<Rightarrow> string \<Rightarrow> string \<Rightarrow> string \<Rightarrow> string \<Rightarrow> checkpoint_validation result" where
  "validate_checkpoint c project_id run_id task_id task_execution_id expected_parent_checkpoint_ref =
     (let (valid, reason) =
        (if ck_integrity_digest c \<noteq> expected_integrity_digest c then (False, ''CHECKPOINT_INTEGRITY_CORRUPT'')
         else if (ck_project_id c, ck_run_id c, ck_task_id c, ck_task_execution_id c) \<noteq>
           (project_id, run_id, task_id, task_execution_id)
         then (False, ''CHECKPOINT_LINEAGE_MISMATCH'')
         else if ck_parent_checkpoint_ref c \<noteq> expected_parent_checkpoint_ref
         then (False, ''CHECKPOINT_PARENT_LINEAGE_MISMATCH'')
         else (True, ''CHECKPOINT_VALID''))
      in checkpoint_validation_init
        \<lparr>cv_schema_version = CHECKPOINT_VALIDATION_SCHEMA_V1,
         cv_status = (if valid then CHECKPOINT_VALID else RECOVERY_REQUIRED),
         cv_reason_code = reason, cv_checkpoint_ref = checkpoint_ref c\<rparr>)"

section \<open>Sealing\<close>

definition checkpoint_intact :: "checkpoint \<Rightarrow> bool" where
  "checkpoint_intact c = (ck_integrity_digest c = expected_integrity_digest c)"

definition checkpoint_reseal :: "string \<Rightarrow> checkpoint \<Rightarrow> checkpoint" where
  "checkpoint_reseal d c = c\<lparr>ck_integrity_digest := d\<rparr>"

lemma checkpoint_unsigned_inj:
  assumes eq: "json_norm (checkpoint_unsigned_dict c) = json_norm (checkpoint_unsigned_dict c')"
    and d: "ck_integrity_digest c = ck_integrity_digest c'"
  shows "c = c'"
proof -
  have strs: "map (json_norm \<circ> PyStr) xs = map (json_norm \<circ> PyStr) ys \<longleftrightarrow> xs = ys" for xs ys
    using json_norm_strs_eq_iff [of xs ys] by simp
  from json_norm_dict_same_keys [OF eq [unfolded checkpoint_unsigned_dict_def]] d show ?thesis
    by (simp add: strs)
qed

interpretation checkpoint: sealed_injective
  checkpoint_unsigned_dict ck_integrity_digest checkpoint_reseal checkpoint_intact
proof unfold_locales
  show "checkpoint_unsigned_dict (checkpoint_reseal d r) = checkpoint_unsigned_dict r" for d r
    by (simp add: checkpoint_unsigned_dict_def checkpoint_reseal_def)
  show "ck_integrity_digest (checkpoint_reseal d r) = d" for d r
    by (simp add: checkpoint_reseal_def)
  show "checkpoint_intact r \<longleftrightarrow> ck_integrity_digest r = digest (checkpoint_unsigned_dict r)" for r
    by (simp add: checkpoint_intact_def expected_integrity_digest_def)
qed (rule checkpoint_unsigned_inj)

lemma checkpoint_text_iff [simp]: "checkpoint_text v n = Inr s \<longleftrightarrow> py_strip v \<noteq> [] \<and> s = py_strip v"
  by (auto simp: checkpoint_text_def)

lemma checkpoint_refs_iff: "checkpoint_refs vs n = Inr rs \<longleftrightarrow> rs = map py_strip vs \<and> [] \<notin> set rs \<and> distinct rs"
  by (auto simp: checkpoint_refs_def list_ex_iff Let_def)

lemma map_strip_idem: "map py_strip (map py_strip vs) = map py_strip vs"
  by (simp add: comp_def)

lemma checkpoint_init_reseal:
  assumes "checkpoint_init c = Inr c'" "re_sha256 d"
  shows "checkpoint_init (c'\<lparr>ck_integrity_digest := d\<rparr>) = Inr (c'\<lparr>ck_integrity_digest := d\<rparr>)"
proof -
  obtain as ds es where refs: "checkpoint_refs (ck_artifact_digest_refs c) ''artifact'' = Inr as"
    "checkpoint_refs (ck_router_decision_refs c) ''Router decision'' = Inr ds"
    "checkpoint_refs (ck_effect_reconciliation_refs c) ''effect reconciliation'' = Inr es"
    and c': "c' = c\<lparr>ck_artifact_digest_refs := as, ck_router_decision_refs := ds, ck_effect_reconciliation_refs := es\<rparr>"
    using assms(1) by (auto simp: checkpoint_init_def)
  have idem: "checkpoint_refs rs n = Inr rs" if "checkpoint_refs vs m = Inr rs" for vs rs n m
    using that by (auto simp: checkpoint_refs_iff comp_def)
  show ?thesis
    using assms idem [OF refs(1)] idem [OF refs(2)] idem [OF refs(3)]
    by (simp add: checkpoint_init_def c' del: checkpoint_text_iff)
qed

lemma seal_checkpoint_intact:
  assumes "seal_checkpoint c = Inr s"
  shows "checkpoint_intact s" "checkpoint_init s = Inr s"
proof -
  obtain p where p: "checkpoint_init (c\<lparr>ck_schema_version := CHECKPOINT_SCHEMA_V1,
      ck_integrity_digest := replicate 64 CHR ''0''\<rparr>) = Inr p"
    and s: "checkpoint_init (p\<lparr>ck_integrity_digest := expected_integrity_digest p\<rparr>) = Inr s"
    using assms by (auto simp: seal_checkpoint_def)
  have "re_sha256 (expected_integrity_digest p)" by (simp add: expected_integrity_digest_def)
  from checkpoint_init_reseal [OF p this] s have eq: "s = checkpoint_reseal (expected_integrity_digest p) p"
    by (simp add: checkpoint_reseal_def)
  show "checkpoint_intact s"
    unfolding eq expected_integrity_digest_def by (rule checkpoint.intact_reseal)
  show "checkpoint_init s = Inr s"
    using checkpoint_init_reseal [OF p, of "expected_integrity_digest p"] eq
    by (simp add: checkpoint_reseal_def expected_integrity_digest_def)
qed

lemma seal_checkpoint_fields:
  assumes "seal_checkpoint c = Inr s"
  shows "ck_project_id s = ck_project_id c" "ck_run_id s = ck_run_id c" "ck_task_id s = ck_task_id c"
    "ck_task_execution_id s = ck_task_execution_id c" "ck_parent_checkpoint_ref s = ck_parent_checkpoint_ref c"
    "ck_stage s = ck_stage c"
  using assms by (auto simp: seal_checkpoint_def checkpoint_init_def)

lemma strip_literals:
  "py_strip ''CHECKPOINT_VALID'' \<noteq> []" "py_strip ''CHECKPOINT_INTEGRITY_CORRUPT'' \<noteq> []"
  "py_strip ''CHECKPOINT_LINEAGE_MISMATCH'' \<noteq> []" "py_strip ''CHECKPOINT_PARENT_LINEAGE_MISMATCH'' \<noteq> []"
  by (simp_all add: py_strip_def py_isspace_def)

lemma validate_checkpoint_total:
  "\<exists>v. validate_checkpoint c p r t e parent = Inr v \<and> cv_checkpoint_ref v = checkpoint_ref c \<and>
     cv_reason_code v \<noteq> [] \<and> cv_status v \<in> {CHECKPOINT_VALID, RECOVERY_REQUIRED} \<and>
     (cv_status v = CHECKPOINT_VALID \<longleftrightarrow> checkpoint_intact c \<and> ck_project_id c = p \<and> ck_run_id c = r \<and>
        ck_task_id c = t \<and> ck_task_execution_id c = e \<and> ck_parent_checkpoint_ref c = parent)"
  by (auto simp: validate_checkpoint_def checkpoint_validation_init_def checkpoint_intact_def strip_literals
      CHECKPOINT_VALID_def RECOVERY_REQUIRED_def)

section \<open>Properties\<close>

text \<open>Validation never raises, and reports VALID exactly for a checkpoint whose digest matches its content and whose
  project, run, task, execution and parent are the expected ones. A checkpoint that
  \<open>seal_checkpoint\<close> returns passes validation against its own lineage.\<close>

theorem checkpoint_seal_validates:
  assumes "seal_checkpoint c = Inr s"
  shows "(\<exists>v. validate_checkpoint s project run task execution parent = Inr v \<and>
      (cv_status v = CHECKPOINT_VALID \<longleftrightarrow>
         ck_project_id c = project \<and> ck_run_id c = run \<and> ck_task_id c = task \<and>
         ck_task_execution_id c = execution \<and> ck_parent_checkpoint_ref c = parent)) \<and>
    checkpoint_init s = Inr s"
  using validate_checkpoint_total [of s project run task execution parent] seal_checkpoint_intact [OF assms]
  by (auto simp: seal_checkpoint_fields [OF assms])

text \<open>C31. A checkpoint cannot be altered under a digest that validates: two checkpoints that both validate and carry the
  same integrity digest are equal in every field, unless their contents are a collision of SHA-256.\<close>

theorem checkpoint_tamper_evident:
  assumes "validate_checkpoint c p r t e parent = Inr v" "cv_status v = CHECKPOINT_VALID"
    and "validate_checkpoint c' p' r' t' e' parent' = Inr v'" "cv_status v' = CHECKPOINT_VALID"
    and "ck_integrity_digest c = ck_integrity_digest c'"
  shows "c = c' \<or>
    sha_collision (canonical_bytes (checkpoint_unsigned_dict c)) (canonical_bytes (checkpoint_unsigned_dict c'))"
proof (rule checkpoint.intact_determined)
  show "checkpoint_intact c" using validate_checkpoint_total [of c p r t e parent] assms(1,2) by auto
  show "checkpoint_intact c'" using validate_checkpoint_total [of c' p' r' t' e' parent'] assms(3,4) by auto
qed (rule assms(5))

definition ex_checkpoint_raw :: checkpoint where
  "ex_checkpoint_raw =
     \<lparr>ck_schema_version = CHECKPOINT_SCHEMA_V1, ck_project_id = ''project-1'', ck_run_id = ''run-1'',
      ck_task_id = ''task-1'', ck_task_execution_id = ''exec-1'', ck_stage = ''ACTION'',
      ck_provider_runtime_state_version = 1, ck_artifact_digest_refs = ['' artifact ''],
      ck_router_decision_refs = [''decision''], ck_effect_reconciliation_refs = [],
      ck_authorization_ref = ''auth'', ck_parent_checkpoint_ref = [], ck_integrity_digest = []\<rparr>"

definition ex_checkpoint :: checkpoint where
  "ex_checkpoint = (let c = ex_checkpoint_raw\<lparr>ck_artifact_digest_refs := [''artifact'']\<rparr>
     in c\<lparr>ck_integrity_digest := expected_integrity_digest c\<rparr>)"

lemma ex_seal: "seal_checkpoint ex_checkpoint_raw = Inr ex_checkpoint"
proof -
  have zero: "re_sha256 (replicate 64 CHR ''0'')" by (simp add: re_sha256_def lower_hex_def list_all_iff)
  have e: "re_sha256 (expected_integrity_digest c)" for c by (simp add: expected_integrity_digest_def)
  have d: "expected_integrity_digest (c\<lparr>ck_integrity_digest := x\<rparr>) = expected_integrity_digest c" for c x
    by (simp add: expected_integrity_digest_def checkpoint_unsigned_dict_def)
  have first: "checkpoint_init (ex_checkpoint_raw\<lparr>ck_schema_version := CHECKPOINT_SCHEMA_V1,
      ck_integrity_digest := replicate 64 CHR ''0''\<rparr>) =
    Inr (ex_checkpoint_raw\<lparr>ck_artifact_digest_refs := [''artifact''], ck_integrity_digest := replicate 64 CHR ''0''\<rparr>)"
    using zero by (simp add: checkpoint_init_def ex_checkpoint_raw_def py_strip_def py_isspace_def checkpoint_refs_def)
  have eq: "(ex_checkpoint_raw\<lparr>ck_artifact_digest_refs := [''artifact''],
        ck_integrity_digest := replicate 64 CHR ''0''\<rparr>)
      \<lparr>ck_integrity_digest := expected_integrity_digest (ex_checkpoint_raw\<lparr>ck_artifact_digest_refs := [''artifact''],
        ck_integrity_digest := replicate 64 CHR ''0''\<rparr>)\<rparr> = ex_checkpoint"
    unfolding d by (simp add: ex_checkpoint_def Let_def)
  show ?thesis
    unfolding seal_checkpoint_def first rbind_Inr eq [symmetric]
    by (rule checkpoint_init_reseal [OF first e])
qed

theorem checkpoint_seal_validates_witness:
  "seal_checkpoint ex_checkpoint_raw = Inr ex_checkpoint \<and>
   (\<exists>v. validate_checkpoint ex_checkpoint ''project-1'' ''run-1'' ''task-1'' ''exec-1'' [] = Inr v \<and>
      cv_status v = CHECKPOINT_VALID) \<and>
   (\<exists>v. validate_checkpoint ex_checkpoint ''project-1'' ''run-2'' ''task-1'' ''exec-1'' [] = Inr v \<and>
      cv_status v \<noteq> CHECKPOINT_VALID)"
  using checkpoint_seal_validates [OF ex_seal, of "''project-1''" "''run-1''" "''task-1''" "''exec-1''" "[]"]
    checkpoint_seal_validates [OF ex_seal, of "''project-1''" "''run-2''" "''task-1''" "''exec-1''" "[]"] ex_seal
  by (auto simp: ex_checkpoint_raw_def)

lemma ex_checkpoint_validates:
  "\<exists>v. validate_checkpoint ex_checkpoint ''project-1'' ''run-1'' ''task-1'' ''exec-1'' [] = Inr v \<and>
     cv_status v = CHECKPOINT_VALID"
  using validate_checkpoint_total [of ex_checkpoint "''project-1''" "''run-1''" "''task-1''" "''exec-1''" "[]"]
    seal_checkpoint_intact(1) [OF ex_seal]
  by (auto simp: seal_checkpoint_fields [OF ex_seal] ex_checkpoint_raw_def)

theorem checkpoint_tamper_evident_witness:
  "\<exists>v. validate_checkpoint ex_checkpoint ''project-1'' ''run-1'' ''task-1'' ''exec-1'' [] = Inr v \<and>
     cv_status v = CHECKPOINT_VALID \<and>
     (ex_checkpoint = ex_checkpoint \<or>
      sha_collision (canonical_bytes (checkpoint_unsigned_dict ex_checkpoint))
        (canonical_bytes (checkpoint_unsigned_dict ex_checkpoint)))"
proof -
  obtain v where v: "validate_checkpoint ex_checkpoint ''project-1'' ''run-1'' ''task-1'' ''exec-1'' [] = Inr v"
    "cv_status v = CHECKPOINT_VALID" using ex_checkpoint_validates by blast
  from checkpoint_tamper_evident [OF v v refl] v show ?thesis by blast
qed

end
