(* ===== verification/Mprf_Failure.thy ===== *)
theory Mprf_Failure
  imports Mprf_Contracts
begin

text \<open>
  The closed failure taxonomy and the failover rule, \<open>src/runtime/mprf/failure.py\<close>. The enumeration
  is a datatype with its string values; \<open>failure_class\<close> is the constructor call on a string.
\<close>

definition FAILOVER_PREREQUISITES_SCHEMA_V1 :: string where
  "FAILOVER_PREREQUISITES_SCHEMA_V1 = ''mprf.failover-prerequisites.v1''"
definition FAILURE_DISPOSITION_SCHEMA_V1 :: string where
  "FAILURE_DISPOSITION_SCHEMA_V1 = ''mprf.failure-disposition.v1''"
definition FAILOVER_POLICY_VERSION_V1 :: string where "FAILOVER_POLICY_VERSION_V1 = ''MPRF_FAILOVER_V1''"
definition EFFECT_STATE_UNKNOWN :: string where "EFFECT_STATE_UNKNOWN = ''UNKNOWN''"
definition EFFECT_STATE_NO_EFFECT :: string where "EFFECT_STATE_NO_EFFECT = ''CONFIRMED_NO_EFFECT''"
definition EFFECT_STATE_EFFECT_CONFIRMED :: string where "EFFECT_STATE_EFFECT_CONFIRMED = ''CONFIRMED_EFFECT''"
definition EFFECT_STATES_V1 :: "string set" where
  "EFFECT_STATES_V1 = {EFFECT_STATE_UNKNOWN, EFFECT_STATE_NO_EFFECT, EFFECT_STATE_EFFECT_CONFIRMED}"

datatype FailureClassV1 =
    TASK_FAILURE | MODEL_FAILURE | PROVIDER_FAILURE | AUTH_FAILURE | RATE_LIMIT | QUOTA_EXHAUSTION
  | NETWORK_FAILURE | INVALID_RESPONSE | POLICY_REJECTION | CHECKPOINT_FAILURE | EXECUTION_BACKEND_FAILURE
  | ACTION_SIDE_EFFECT_AMBIGUOUS | RECOVERY_REQUIRED_FAILURE | UNKNOWN_FAILURE

fun failure_value :: "FailureClassV1 \<Rightarrow> string" where
  "failure_value TASK_FAILURE = ''TASK_FAILURE''"
| "failure_value MODEL_FAILURE = ''MODEL_FAILURE''"
| "failure_value PROVIDER_FAILURE = ''PROVIDER_FAILURE''"
| "failure_value AUTH_FAILURE = ''AUTH_FAILURE''"
| "failure_value RATE_LIMIT = ''RATE_LIMIT''"
| "failure_value QUOTA_EXHAUSTION = ''QUOTA_EXHAUSTION''"
| "failure_value NETWORK_FAILURE = ''NETWORK_FAILURE''"
| "failure_value INVALID_RESPONSE = ''INVALID_RESPONSE''"
| "failure_value POLICY_REJECTION = ''POLICY_REJECTION''"
| "failure_value CHECKPOINT_FAILURE = ''CHECKPOINT_FAILURE''"
| "failure_value EXECUTION_BACKEND_FAILURE = ''EXECUTION_BACKEND_FAILURE''"
| "failure_value ACTION_SIDE_EFFECT_AMBIGUOUS = ''ACTION_SIDE_EFFECT_AMBIGUOUS''"
| "failure_value RECOVERY_REQUIRED_FAILURE = ''RECOVERY_REQUIRED''"
| "failure_value UNKNOWN_FAILURE = ''UNKNOWN_FAILURE''"

instantiation FailureClassV1 :: enum
begin

definition "enum_FailureClassV1 =
  [TASK_FAILURE, MODEL_FAILURE, PROVIDER_FAILURE, AUTH_FAILURE, RATE_LIMIT, QUOTA_EXHAUSTION,
   NETWORK_FAILURE, INVALID_RESPONSE, POLICY_REJECTION, CHECKPOINT_FAILURE, EXECUTION_BACKEND_FAILURE,
   ACTION_SIDE_EFFECT_AMBIGUOUS, RECOVERY_REQUIRED_FAILURE, UNKNOWN_FAILURE]"
definition "enum_all_FailureClassV1 P = list_all P (enum_class.enum :: FailureClassV1 list)"
definition "enum_ex_FailureClassV1 P = list_ex P (enum_class.enum :: FailureClassV1 list)"

instance
proof
  have all: "x \<in> set (enum_class.enum :: FailureClassV1 list)" for x
    by (cases x) (simp_all add: enum_FailureClassV1_def)
  show univ: "UNIV = set (enum_class.enum :: FailureClassV1 list)" using all by blast
  show "distinct (enum_class.enum :: FailureClassV1 list)" by (simp add: enum_FailureClassV1_def)
  show "enum_class.enum_all P \<longleftrightarrow> Ball UNIV P" for P :: "FailureClassV1 \<Rightarrow> bool"
    using all by (auto simp: enum_all_FailureClassV1_def list_all_iff)
  show "enum_class.enum_ex P \<longleftrightarrow> Bex UNIV P" for P :: "FailureClassV1 \<Rightarrow> bool"
    using all by (auto simp: enum_ex_FailureClassV1_def list_ex_iff)
qed

end

definition ELIGIBLE_BASE_CLASSES_V1 :: "FailureClassV1 set" where
  "ELIGIBLE_BASE_CLASSES_V1 = {MODEL_FAILURE, PROVIDER_FAILURE, RATE_LIMIT, QUOTA_EXHAUSTION, NETWORK_FAILURE}"

fun FAILURE_DISPOSITIONS_V1 :: "FailureClassV1 \<Rightarrow> string" where
  "FAILURE_DISPOSITIONS_V1 TASK_FAILURE = ''TASK_FAILURE_RECLASSIFICATION_REQUIRED''"
| "FAILURE_DISPOSITIONS_V1 MODEL_FAILURE = ''ELIGIBLE_AFTER_RECOVERY_CHECKS''"
| "FAILURE_DISPOSITIONS_V1 PROVIDER_FAILURE = ''ELIGIBLE_AFTER_RECOVERY_CHECKS''"
| "FAILURE_DISPOSITIONS_V1 AUTH_FAILURE = ''AUTH_FAILURE_REROUTE_PROHIBITED''"
| "FAILURE_DISPOSITIONS_V1 RATE_LIMIT = ''ELIGIBLE_AFTER_RECOVERY_CHECKS''"
| "FAILURE_DISPOSITIONS_V1 QUOTA_EXHAUSTION = ''ELIGIBLE_AFTER_RECOVERY_CHECKS''"
| "FAILURE_DISPOSITIONS_V1 NETWORK_FAILURE = ''NETWORK_SAFE_POLICY_REQUIRED''"
| "FAILURE_DISPOSITIONS_V1 INVALID_RESPONSE = ''INVALID_RESPONSE_REROUTE_PROHIBITED''"
| "FAILURE_DISPOSITIONS_V1 POLICY_REJECTION = ''POLICY_REJECTION_REROUTE_PROHIBITED''"
| "FAILURE_DISPOSITIONS_V1 CHECKPOINT_FAILURE = ''CHECKPOINT_RECOVERY_REQUIRED''"
| "FAILURE_DISPOSITIONS_V1 EXECUTION_BACKEND_FAILURE = ''EXECUTION_BACKEND_REROUTE_PROHIBITED''"
| "FAILURE_DISPOSITIONS_V1 ACTION_SIDE_EFFECT_AMBIGUOUS = ''EFFECT_RECONCILIATION_REQUIRED''"
| "FAILURE_DISPOSITIONS_V1 RECOVERY_REQUIRED_FAILURE = ''RECOVERY_REQUIRED_REROUTE_PROHIBITED''"
| "FAILURE_DISPOSITIONS_V1 UNKNOWN_FAILURE = ''UNKNOWN_FAILURE_CLASSIFICATION_REQUIRED''"

text \<open>\<open>failure_class(value)\<close> for a string; a member of the enumeration passes as its value.\<close>

definition failure_class :: "string \<Rightarrow> FailureClassV1 result" where
  "failure_class value =
     (case find (\<lambda>fc. failure_value fc = value) enum_class.enum of
        None \<Rightarrow> Inl (MPRFContractError ''unknown FailureClass.v1 value'') | Some fc \<Rightarrow> Inr fc)"

record failover_prerequisites =
  fp_schema_version :: string
  fp_checkpoint_integrity_ref :: string
  fp_artifact_integrity_ref :: string
  fp_effect_reconciliation_ref :: string
  fp_authorization_validation_ref :: string
  fp_policy_validation_ref :: string
  fp_network_safe_policy_evidence_ref :: string
  fp_effect_state :: string

definition failover_prerequisites_init :: "failover_prerequisites \<Rightarrow> failover_prerequisites result" where
  "failover_prerequisites_init p =
     (if fp_schema_version p \<noteq> FAILOVER_PREREQUISITES_SCHEMA_V1
      then Inl (MPRFContractError ''unsupported failover prerequisite schema'')
      else if fp_effect_state p \<notin> EFFECT_STATES_V1
      then Inl (MPRFContractError ''unknown effect reconciliation state'')
      else Inr p)"

definition recovery_checks_complete :: "failover_prerequisites \<Rightarrow> bool" where
  "recovery_checks_complete p =
     list_all (\<lambda>s. s \<noteq> []) [fp_checkpoint_integrity_ref p, fp_artifact_integrity_ref p,
       fp_effect_reconciliation_ref p, fp_authorization_validation_ref p, fp_policy_validation_ref p]"

record failure_disposition =
  fd_schema_version :: string
  fd_failure_class :: FailureClassV1
  fd_reroute_eligible :: bool
  fd_reason_code :: string
  fd_recovery_checks_complete :: bool

definition failure_disposition_init :: "failure_disposition \<Rightarrow> failure_disposition result" where
  "failure_disposition_init d =
     (if fd_schema_version d \<noteq> FAILURE_DISPOSITION_SCHEMA_V1
      then Inl (MPRFContractError ''unsupported failure disposition schema'')
      else if fd_reason_code d = [] then Inl (MPRFContractError ''failure disposition reason is missing'')
      else Inr d)"

definition failure_disposition_to_dict :: "failure_disposition \<Rightarrow> pyval" where
  "failure_disposition_to_dict d = PyDict
     [(''schema_version'', PyStr (fd_schema_version d)), (''failure_class'', PyStr (failure_value (fd_failure_class d))),
      (''reroute_eligible'', PyBool (fd_reroute_eligible d)), (''reason_code'', PyStr (fd_reason_code d)),
      (''recovery_checks_complete'', PyBool (fd_recovery_checks_complete d))]"

definition disposition :: "FailureClassV1 \<Rightarrow> bool \<Rightarrow> string \<Rightarrow> bool \<Rightarrow> failure_disposition result" where
  "disposition fc eligible reason complete = failure_disposition_init
     \<lparr>fd_schema_version = FAILURE_DISPOSITION_SCHEMA_V1, fd_failure_class = fc, fd_reroute_eligible = eligible,
      fd_reason_code = reason, fd_recovery_checks_complete = complete\<rparr>"

definition evaluate_failover :: "string \<Rightarrow> failover_prerequisites \<Rightarrow> bool \<Rightarrow> failure_disposition result" where
  "evaluate_failover value prerequisites permission_related_auth =
     rbind (failure_class value) (\<lambda>fc.
     let complete = recovery_checks_complete prerequisites in
     if fc = INVALID_RESPONSE then
       (if \<not> complete then disposition fc False ''RECOVERY_PREREQUISITES_INCOMPLETE'' False
        else if fp_effect_state prerequisites \<noteq> EFFECT_STATE_NO_EFFECT
        then disposition fc False ''INVALID_RESPONSE_NO_EFFECT_REQUIRED'' True
        else disposition fc True ''REROUTE_REQUEST_ELIGIBLE'' True)
     else if fc \<notin> ELIGIBLE_BASE_CLASSES_V1 then
       disposition fc False
         (if fc = AUTH_FAILURE \<and> permission_related_auth then ''PERMISSION_AUTH_FAILURE_REROUTE_PROHIBITED''
          else FAILURE_DISPOSITIONS_V1 fc) complete
     else if \<not> complete then disposition fc False ''RECOVERY_PREREQUISITES_INCOMPLETE'' False
     else if fc = NETWORK_FAILURE \<and> fp_network_safe_policy_evidence_ref prerequisites = []
     then disposition fc False ''NETWORK_SAFE_POLICY_REQUIRED'' True
     else disposition fc True ''REROUTE_REQUEST_ELIGIBLE'' True)"

section \<open>The failover rule\<close>

lemma failure_value_inj [simp]: "failure_value a = failure_value b \<longleftrightarrow> a = b"
  by (cases a; cases b) simp_all

lemma failure_class_value [simp]: "failure_class (failure_value fc) = Inr fc"
  by (cases fc) (simp_all add: failure_class_def enum_FailureClassV1_def)

lemma failure_class_iff: "failure_class v = Inr fc \<longleftrightarrow> v = failure_value fc"
proof
  assume "failure_class v = Inr fc"
  then show "v = failure_value fc"
    by (auto simp: failure_class_def find_Some_iff split: option.splits)
qed simp

lemma disposition_Inr [simp]:
  "disposition fc e reason c = Inr d \<longleftrightarrow> reason \<noteq> [] \<and> d = \<lparr>fd_schema_version = FAILURE_DISPOSITION_SCHEMA_V1,
     fd_failure_class = fc, fd_reroute_eligible = e, fd_reason_code = reason, fd_recovery_checks_complete = c\<rparr>"
  by (auto simp: disposition_def failure_disposition_init_def)

lemma dispositions_nonempty [simp]: "FAILURE_DISPOSITIONS_V1 fc \<noteq> []"
  by (cases fc) simp_all

text \<open>When a failure may be rerouted.\<close>

definition reroute_permitted :: "FailureClassV1 \<Rightarrow> failover_prerequisites \<Rightarrow> bool" where
  "reroute_permitted fc p = (recovery_checks_complete p \<and>
     (fc \<in> {MODEL_FAILURE, PROVIDER_FAILURE, RATE_LIMIT, QUOTA_EXHAUSTION} \<or>
      fc = NETWORK_FAILURE \<and> fp_network_safe_policy_evidence_ref p \<noteq> [] \<or>
      fc = INVALID_RESPONSE \<and> fp_effect_state p = EFFECT_STATE_NO_EFFECT))"

lemma evaluate_failover_total: "\<exists>d. evaluate_failover (failure_value fc) p auth = Inr d"
  by (simp add: evaluate_failover_def Let_def)

lemma evaluate_failover_eligible:
  "evaluate_failover v p auth = Inr d \<Longrightarrow> fd_reroute_eligible d \<longleftrightarrow> reroute_permitted (fd_failure_class d) p"
  "evaluate_failover v p auth = Inr d \<Longrightarrow> v = failure_value (fd_failure_class d)"
  "evaluate_failover v p auth = Inr d \<Longrightarrow> fd_recovery_checks_complete d = recovery_checks_complete p"
  "evaluate_failover v p auth = Inr d \<Longrightarrow> fd_reason_code d \<noteq> []"
  by (auto simp: evaluate_failover_def failure_class_iff reroute_permitted_def ELIGIBLE_BASE_CLASSES_V1_def
      Let_def split: if_splits)

text \<open>Every class of the failure taxonomy gets a disposition, and the disposition allows a reroute exactly
  when all five recovery references are present and the class is one of model, provider, rate-limit or
  quota failure, a network failure with network-safe evidence, or an invalid response confirmed to
  have had no effect. Any other string is rejected.\<close>

theorem evaluate_failover_spec:
  "(\<exists>d. evaluate_failover (failure_value fc) p auth = Inr d \<and> fd_failure_class d = fc \<and>
      (fd_reroute_eligible d \<longleftrightarrow> reroute_permitted fc p) \<and>
      fd_recovery_checks_complete d = recovery_checks_complete p \<and> fd_reason_code d \<noteq> []) \<and>
   (v \<notin> range failure_value \<longrightarrow>
      evaluate_failover v p auth = Inl (MPRFContractError ''unknown FailureClass.v1 value''))"
proof
  obtain d where d: "evaluate_failover (failure_value fc) p auth = Inr d" using evaluate_failover_total by blast
  with evaluate_failover_eligible [OF d]
  show "\<exists>d. evaluate_failover (failure_value fc) p auth = Inr d \<and> fd_failure_class d = fc \<and>
      (fd_reroute_eligible d \<longleftrightarrow> reroute_permitted fc p) \<and>
      fd_recovery_checks_complete d = recovery_checks_complete p \<and> fd_reason_code d \<noteq> []" by auto
next
  have "failure_class v = Inl (MPRFContractError ''unknown FailureClass.v1 value'')" if "v \<notin> range failure_value"
    using that by (auto simp: failure_class_def find_Some_iff split: option.split)
  then show "v \<notin> range failure_value \<longrightarrow>
      evaluate_failover v p auth = Inl (MPRFContractError ''unknown FailureClass.v1 value'')"
    by (simp add: evaluate_failover_def)
qed

definition ex_prereq :: failover_prerequisites where
  "ex_prereq = \<lparr>fp_schema_version = FAILOVER_PREREQUISITES_SCHEMA_V1, fp_checkpoint_integrity_ref = ''c'',
     fp_artifact_integrity_ref = ''a'', fp_effect_reconciliation_ref = ''e'',
     fp_authorization_validation_ref = ''z'', fp_policy_validation_ref = ''p'',
     fp_network_safe_policy_evidence_ref = [], fp_effect_state = EFFECT_STATE_UNKNOWN\<rparr>"

theorem evaluate_failover_spec_witness:
  "(\<exists>d. evaluate_failover ''RATE_LIMIT'' ex_prereq False = Inr d \<and> fd_reroute_eligible d) \<and>
   (\<exists>d. evaluate_failover ''NETWORK_FAILURE'' ex_prereq False = Inr d \<and> \<not> fd_reroute_eligible d) \<and>
   evaluate_failover ''DISK_FULL'' ex_prereq False = Inl (MPRFContractError ''unknown FailureClass.v1 value'')"
proof -
  have "''DISK_FULL'' \<notin> range failure_value"
  proof
    assume "''DISK_FULL'' \<in> range failure_value"
    then obtain fc where "''DISK_FULL'' = failure_value fc" by blast
    then show False by (cases fc) simp_all
  qed
  with evaluate_failover_spec [of RATE_LIMIT ex_prereq False "''DISK_FULL''"]
    evaluate_failover_spec [of NETWORK_FAILURE ex_prereq False "''DISK_FULL''"]
  show ?thesis by (auto simp: reroute_permitted_def recovery_checks_complete_def ex_prereq_def)
qed

end
