(* ===== verification/Mprf_Router_Client.thy ===== *)
theory Mprf_Router_Client
  imports Mprf_Failure Router_Correct
begin

text \<open>
  The reroute request client, \<open>src/runtime/mprf/router_client.py\<close>: a reroute request is built from the
  failed decision and the recovery evidence, and turned into a request to the governed router.
\<close>

definition REROUTE_REQUEST_SCHEMA_V1 :: string where "REROUTE_REQUEST_SCHEMA_V1 = ''mprf.reroute-request.v1''"

definition reroute_text :: "string \<Rightarrow> string \<Rightarrow> string result" where
  "reroute_text value name =
     (if py_strip value = [] then Inl (MPRFContractError (name @ '' must be a non-empty string''))
      else Inr (py_strip value))"

record reroute_request =
  rr_schema_version :: string
  rr_request_id :: string
  rr_project_id :: string
  rr_run_id :: string
  rr_task_id :: string
  rr_task_execution_id :: string
  rr_original_router_decision_digest :: string
  rr_original_provider_ref :: string
  rr_original_model_ref :: string
  rr_original_stage :: string
  rr_failure_class :: FailureClassV1
  rr_requested_capabilities :: "string list"
  rr_checkpoint_integrity_ref :: string
  rr_artifact_integrity_ref :: string
  rr_effect_reconciliation_ref :: string
  rr_authorization_validation_ref :: string
  rr_policy_validation_ref :: string
  rr_failover_policy_version :: string

definition check_texts :: "(string \<times> string) list \<Rightarrow> unit result" where
  "check_texts = rcheck (\<lambda>(value, name). rbind (reroute_text value name) (\<lambda>_. Inr ()))"

definition reroute_request_init :: "reroute_request \<Rightarrow> reroute_request result" where
  "reroute_request_init r =
     (if rr_schema_version r \<noteq> REROUTE_REQUEST_SCHEMA_V1
      then Inl (MPRFContractError ''unsupported reroute request schema'')
      else rbind (check_texts
        [(rr_request_id r, ''request_id''), (rr_project_id r, ''project_id''), (rr_run_id r, ''run_id''),
         (rr_task_id r, ''task_id''), (rr_task_execution_id r, ''task_execution_id''),
         (rr_original_router_decision_digest r, ''original_router_decision_digest''),
         (rr_original_provider_ref r, ''original_provider_ref''),
         (rr_original_model_ref r, ''original_model_ref'')]) (\<lambda>_.
      rbind (guards
        [(rr_original_stage r \<notin> {''PREPARE'', ''ACTION'', ''VERIFY'', ''REVIEW''},
          MPRFContractError ''reroute request stage is invalid''),
         (rr_failover_policy_version r \<noteq> FAILOVER_POLICY_VERSION_V1,
          MPRFContractError ''unsupported failover policy version''),
         (rr_requested_capabilities r = [] \<or> list_ex (\<lambda>c. c = []) (rr_requested_capabilities r),
          MPRFContractError ''reroute request capabilities are invalid''),
         (\<not> distinct (rr_requested_capabilities r),
          MPRFContractError ''reroute request capabilities contain duplicates'')]) (\<lambda>_.
      rbind (check_texts
        [(rr_checkpoint_integrity_ref r, ''checkpoint_integrity_ref''),
         (rr_artifact_integrity_ref r, ''artifact_integrity_ref''),
         (rr_effect_reconciliation_ref r, ''effect_reconciliation_ref''),
         (rr_authorization_validation_ref r, ''authorization_validation_ref''),
         (rr_policy_validation_ref r, ''policy_validation_ref'')]) (\<lambda>_. Inr r))))"

definition reroute_request_to_dict :: "reroute_request \<Rightarrow> pyval" where
  "reroute_request_to_dict r = PyDict
     [(''schema_version'', PyStr (rr_schema_version r)), (''request_id'', PyStr (rr_request_id r)),
      (''project_id'', PyStr (rr_project_id r)), (''run_id'', PyStr (rr_run_id r)),
      (''task_id'', PyStr (rr_task_id r)), (''task_execution_id'', PyStr (rr_task_execution_id r)),
      (''original_router_decision_digest'', PyStr (rr_original_router_decision_digest r)),
      (''original_provider_ref'', PyStr (rr_original_provider_ref r)),
      (''original_model_ref'', PyStr (rr_original_model_ref r)),
      (''original_stage'', PyStr (rr_original_stage r)),
      (''failure_class'', PyStr (failure_value (rr_failure_class r))),
      (''requested_capabilities'', strs (rr_requested_capabilities r)),
      (''checkpoint_integrity_ref'', PyStr (rr_checkpoint_integrity_ref r)),
      (''artifact_integrity_ref'', PyStr (rr_artifact_integrity_ref r)),
      (''effect_reconciliation_ref'', PyStr (rr_effect_reconciliation_ref r)),
      (''authorization_validation_ref'', PyStr (rr_authorization_validation_ref r)),
      (''policy_validation_ref'', PyStr (rr_policy_validation_ref r)),
      (''failover_policy_version'', PyStr (rr_failover_policy_version r))]"

definition reroute_request_digest :: "reroute_request \<Rightarrow> string" where
  "reroute_request_digest r = digest (reroute_request_to_dict r)"

definition router_reference :: "reroute_request \<Rightarrow> string" where
  "router_reference r = ''mprf-reroute://'' @ rr_request_id r @ ''#'' @ reroute_request_digest r"

definition build_reroute_request ::
  "string \<Rightarrow> string \<Rightarrow> string \<Rightarrow> string \<Rightarrow> string \<Rightarrow> router_decision \<Rightarrow> string \<Rightarrow> failover_prerequisites \<Rightarrow> bool \<Rightarrow>
   reroute_request result" where
  "build_reroute_request request_id project_id run_id task_id task_execution_id decision failure prerequisites
     permission_related_auth =
     rbind (evaluate_failover failure prerequisites permission_related_auth) (\<lambda>disposition.
     if \<not> fd_reroute_eligible disposition
     then Inl (MPRFContractError (''reroute prohibited: '' @ fd_reason_code disposition))
     else
       rbind (reroute_text request_id ''request_id'') (\<lambda>request_id.
       rbind (reroute_text project_id ''project_id'') (\<lambda>project_id.
       rbind (reroute_text run_id ''run_id'') (\<lambda>run_id.
       rbind (reroute_text task_id ''task_id'') (\<lambda>task_id.
       rbind (reroute_text task_execution_id ''task_execution_id'') (\<lambda>task_execution_id.
       rbind (reroute_text (rd_provider_ref decision) ''original_provider_ref'') (\<lambda>provider_ref.
       rbind (reroute_text (rd_model_ref decision) ''original_model_ref'') (\<lambda>model_ref.
       rbind (failure_class failure) (\<lambda>fc.
       reroute_request_init
         \<lparr>rr_schema_version = REROUTE_REQUEST_SCHEMA_V1, rr_request_id = request_id, rr_project_id = project_id,
          rr_run_id = run_id, rr_task_id = task_id, rr_task_execution_id = task_execution_id,
          rr_original_router_decision_digest = decision_digest decision,
          rr_original_provider_ref = provider_ref, rr_original_model_ref = model_ref,
          rr_original_stage = rd_stage decision, rr_failure_class = fc,
          rr_requested_capabilities = sorted_set (rd_required_capabilities decision),
          rr_checkpoint_integrity_ref = fp_checkpoint_integrity_ref prerequisites,
          rr_artifact_integrity_ref = fp_artifact_integrity_ref prerequisites,
          rr_effect_reconciliation_ref = fp_effect_reconciliation_ref prerequisites,
          rr_authorization_validation_ref = fp_authorization_validation_ref prerequisites,
          rr_policy_validation_ref = fp_policy_validation_ref prerequisites,
          rr_failover_policy_version = FAILOVER_POLICY_VERSION_V1\<rparr>)))))))))"

definition to_router_request_v2 ::
  "reroute_request \<Rightarrow> string \<Rightarrow> eligibility_snapshot \<Rightarrow> router_request result" where
  "to_router_request_v2 reroute directive_digest snapshot =
     rbind (reroute_text directive_digest ''directive_digest'') (\<lambda>directive.
     router_request_init
       \<lparr>rq_schema_version = ROUTER_REQUEST_SCHEMA_V2, rq_request_id = ''router-'' @ rr_request_id reroute,
        rq_project_id = rr_project_id reroute, rq_run_id = rr_run_id reroute, rq_task_id = rr_task_id reroute,
        rq_task_execution_id = rr_task_execution_id reroute, rq_directive_digest = directive,
        rq_stage = rr_original_stage reroute, rq_required_capabilities = rr_requested_capabilities reroute,
        rq_state_change_required = (rr_original_stage reroute = ''ACTION''),
        rq_policy_profile = GOVERNED_POLICY_V1, rq_eligibility_snapshot = snapshot,
        rq_eligibility_snapshot_ref = [], rq_eligibility_snapshot_digest = [],
        rq_request_source = MPRF_REROUTE_SOURCE_V1,
        rq_failure_class = failure_value (rr_failure_class reroute),
        rq_failover_request_ref = router_reference reroute,
        rq_failed_provider_ref = rr_original_provider_ref reroute,
        rq_failed_model_ref = rr_original_model_ref reroute\<rparr>)"

section \<open>Facts\<close>

lemma reroute_text_iff [simp]: "reroute_text v n = Inr s \<longleftrightarrow> py_strip v \<noteq> [] \<and> s = py_strip v"
  by (auto simp: reroute_text_def)

lemma check_texts_iff [simp]: "check_texts vs = Inr u \<longleftrightarrow> (\<forall>(v, n) \<in> set vs. py_strip v \<noteq> [])"
  by (auto simp: check_texts_def)

lemma reroute_request_init_same: "reroute_request_init r = Inr r' \<Longrightarrow> r' = r"
  by (auto simp: reroute_request_init_def)

lemma reroute_request_init_self: "reroute_request_init r = Inr r' \<Longrightarrow> reroute_request_init r' = Inr r'"
  using reroute_request_init_same by blast

lemma router_reference_nonempty [simp]: "router_reference r \<noteq> []"
  by (simp add: router_reference_def)

lemma build_reroute_requestD:
  assumes "build_reroute_request i p r t e d failure pre auth = Inr rr"
  shows "failure = failure_value (rr_failure_class rr)" "reroute_permitted (rr_failure_class rr) pre"
    "rr_requested_capabilities rr = sorted_set (rd_required_capabilities d)" "rr_original_stage rr = rd_stage d"
    "rr_original_provider_ref rr = py_strip (rd_provider_ref d)" "rr_original_model_ref rr = py_strip (rd_model_ref d)"
    "rr_original_router_decision_digest rr = decision_digest d"
    "rr_request_id rr = py_strip i" "rr_project_id rr = py_strip p" "rr_run_id rr = py_strip r"
    "rr_task_id rr = py_strip t" "rr_task_execution_id rr = py_strip e"
    "rr_checkpoint_integrity_ref rr = fp_checkpoint_integrity_ref pre"
  using assms evaluate_failover_eligible [of failure pre auth]
  by (auto simp: build_reroute_request_def failure_class_iff dest!: reroute_request_init_same)

lemma build_reroute_request_ok:
  "build_reroute_request i p r t e d failure pre auth = Inr rr \<Longrightarrow> reroute_request_init rr = Inr rr"
  by (auto simp: build_reroute_request_def intro: reroute_request_init_self)

lemma to_router_request_v2D:
  assumes "to_router_request_v2 rr directive snap = Inr q"
  shows "rq_stage q = rr_original_stage rr"
    "rq_required_capabilities q = normalize_capabilities_v2 (rr_requested_capabilities rr)"
    "rq_eligibility_snapshot q = snap" "rq_failover_request_ref q = router_reference rr"
    "rq_failed_provider_ref q = rr_original_provider_ref rr" "rq_failed_model_ref q = rr_original_model_ref rr"
    "rq_failure_class q = failure_value (rr_failure_class rr)" "rq_request_source q = MPRF_REROUTE_SOURCE_V1"
    "eligibility_binding_valid q"
  using assms
  by (auto simp: to_router_request_v2_def router_request_init_iff eligibility_binding_valid_def router_request_fill_def)

lemma failure_values_known: "failure_value fc \<in> FAILURE_CLASSES_V1"
  by (cases fc) (simp_all add: FAILURE_CLASSES_V1_def)

lemma failure_value_nonempty [simp]: "failure_value fc \<noteq> []"
  by (cases fc) simp_all

lemma py_strip_nonempty: "py_strip s \<noteq> [] \<Longrightarrow> s \<noteq> []"
  by auto

lemma to_router_request_v2_total:
  assumes "reroute_request_init rr = Inr rr" "valid_provider_id (rr_original_provider_ref rr)"
    and "py_strip directive \<noteq> []"
  shows "\<exists>q. to_router_request_v2 rr directive snap = Inr q"
  using assms
  by (auto simp: to_router_request_v2_def router_request_init_iff router_request_check_def guards_eq_Inr
      reroute_request_init_def failure_values_known dest: py_strip_nonempty)

text \<open>A reroute request is only ever built for a failure the failover rule permits, and it is bound to the failed
  decision: its digest, stage, provider, model and capability set. Turned into a router request it is accepted whenever
  the failed provider identifier is well formed and a directive digest is given, and the router request names the failed
  provider and model and refers to the reroute request by its digest.\<close>

theorem reroute_request_bound:
  assumes "build_reroute_request i p r t e d failure pre auth = Inr rr"
    and "valid_provider_id (rr_original_provider_ref rr)" "py_strip directive \<noteq> []"
  shows "reroute_permitted (rr_failure_class rr) pre \<and> failure = failure_value (rr_failure_class rr) \<and>
    rr_original_router_decision_digest rr = decision_digest d \<and>
    set (rr_requested_capabilities rr) = set (rd_required_capabilities d) \<and>
    (\<exists>q. to_router_request_v2 rr directive snap = Inr q \<and> rq_stage q = rd_stage d \<and>
       rq_failed_provider_ref q = py_strip (rd_provider_ref d) \<and> rq_failed_model_ref q = py_strip (rd_model_ref d) \<and>
       rq_failover_request_ref q = router_reference rr \<and> eligibility_binding_valid q)"
proof -
  note b = build_reroute_requestD [OF assms(1)]
  obtain q where q: "to_router_request_v2 rr directive snap = Inr q"
    using to_router_request_v2_total [OF build_reroute_request_ok [OF assms(1)] assms(2,3)] by blast
  show ?thesis using b to_router_request_v2D [OF q] q by auto
qed

definition ex_failed_decision :: router_decision where
  "ex_failed_decision =
     \<lparr>rd_schema_version = ROUTER_DECISION_SCHEMA_V2, rd_decision_id = ''decision-1'', rd_request_digest = ''q'',
      rd_stage = ''PREPARE'', rd_provider_ref = ''codex'', rd_model_ref = ''model-b'', rd_reason_code = ''r'',
      rd_required_capabilities = [''reasoning''], rd_eligible = True, rd_eligibility_evidence_refs = [],
      rd_policy_version = GOVERNED_POLICY_V1, rd_action_state = ''PREPARE_PENDING'',
      rd_model_fallback_refs = [], rd_execution_profile = []\<rparr>"

lemma ex_strip: "py_strip ''codex'' = ''codex''" "py_strip ''model-b'' = ''model-b''" "py_strip ''reroute-1'' = ''reroute-1''"
  "py_strip ''project-1'' = ''project-1''" "py_strip ''run-1'' = ''run-1''" "py_strip ''task-1'' = ''task-1''"
  "py_strip ''exec-1'' = ''exec-1''" "py_strip ''a'' = ''a''" "py_strip ''c'' = ''c''" "py_strip ''e'' = ''e''"
  "py_strip ''z'' = ''z''" "py_strip ''p'' = ''p''"
  by (simp_all add: py_strip_def py_isspace_def)

lemma digest_strip [simp]: "py_strip (digest v) \<noteq> []"
proof -
  have "re_sha256 (digest v)" by simp
  then obtain c cs where d: "digest v = c # cs" "lower_hex c" by (cases "digest v") (auto simp: re_sha256_def)
  then have "\<not> py_isspace c" by (auto simp: lower_hex_def py_isspace_def)
  with d show ?thesis by (simp add: strip_Nil_iff)
qed

lemma build_reroute_request_total:
  assumes "reroute_permitted fc pre"
    and "\<And>v. v \<in> {i, p, r, t, e, rd_provider_ref d, rd_model_ref d, fp_checkpoint_integrity_ref pre,
      fp_artifact_integrity_ref pre, fp_effect_reconciliation_ref pre, fp_authorization_validation_ref pre,
      fp_policy_validation_ref pre} \<Longrightarrow> py_strip v \<noteq> []"
    and "rd_stage d \<in> {''PREPARE'', ''ACTION'', ''VERIFY'', ''REVIEW''}"
    and "rd_required_capabilities d \<noteq> []" "[] \<notin> set (rd_required_capabilities d)"
  shows "\<exists>rr. build_reroute_request i p r t e d (failure_value fc) pre auth = Inr rr"
proof -
  obtain disp where disp: "evaluate_failover (failure_value fc) pre auth = Inr disp"
    using evaluate_failover_total by blast
  with evaluate_failover_eligible [OF disp] assms(1) have "fd_reroute_eligible disp" by simp
  moreover have "\<not> list_ex (\<lambda>c. c = []) (sorted_set (rd_required_capabilities d))"
    using assms(5) by (auto simp: list_ex_iff)
  ultimately show ?thesis
    using assms disp by (simp add: build_reroute_request_def reroute_request_init_def guards_eq_Inr decision_digest_def)
qed

lemma ex_reroute_built:
  "\<exists>rr. build_reroute_request ''reroute-1'' ''project-1'' ''run-1'' ''task-1'' ''exec-1'' ex_failed_decision
     ''RATE_LIMIT'' ex_prereq False = Inr rr \<and> rr_original_provider_ref rr = ''codex''"
proof -
  have "reroute_permitted RATE_LIMIT ex_prereq"
    by (simp add: reroute_permitted_def recovery_checks_complete_def ex_prereq_def)
  then have "\<exists>rr. build_reroute_request ''reroute-1'' ''project-1'' ''run-1'' ''task-1'' ''exec-1'' ex_failed_decision
      (failure_value RATE_LIMIT) ex_prereq False = Inr rr"
    by (rule build_reroute_request_total) (auto simp: ex_failed_decision_def ex_prereq_def ex_strip)
  then obtain rr where rr: "build_reroute_request ''reroute-1'' ''project-1'' ''run-1'' ''task-1'' ''exec-1''
      ex_failed_decision ''RATE_LIMIT'' ex_prereq False = Inr rr" by auto
  from rr build_reroute_requestD(5) [OF rr] show ?thesis by (simp add: ex_failed_decision_def ex_strip)
qed

theorem reroute_request_bound_witness:
  "\<exists>rr q. build_reroute_request ''reroute-1'' ''project-1'' ''run-1'' ''task-1'' ''exec-1'' ex_failed_decision
     ''RATE_LIMIT'' ex_prereq False = Inr rr \<and> to_router_request_v2 rr ''p'' ex_snapshot = Inr q \<and>
     rq_failed_provider_ref q = ''codex''"
proof -
  obtain rr where rr: "build_reroute_request ''reroute-1'' ''project-1'' ''run-1'' ''task-1'' ''exec-1'' ex_failed_decision
     ''RATE_LIMIT'' ex_prereq False = Inr rr" "rr_original_provider_ref rr = ''codex''" using ex_reroute_built by blast
  have "valid_provider_id (rr_original_provider_ref rr)"
    by (simp add: rr(2) valid_provider_id_def ascii_alnum_def)
  from reroute_request_bound [OF rr(1) this, of "''p''" ex_snapshot] rr(1) show ?thesis
    by (auto simp: ex_strip ex_failed_decision_def)
qed

end
