(* ===== verification/Mprf_Recovery.thy ===== *)
theory Mprf_Recovery
  imports Mprf_Checkpoint Mprf_Router_Client
begin

text \<open>
  The ordered recovery sequence, \<open>execute_recovery_sequence\<close> of \<open>src/runtime/mprf/execution_client.py\<close>.
  The two callbacks are parameters that act on a world \<open>'w\<close>: \<open>router_exchange\<close> may raise or
  return an object, of which the code reads five attributes (a missing one reads as \<open>None\<close>);
  \<open>resume_exchange\<close> returns a value compared with \<open>True\<close>. The sequence threads the world through,
  so that what it calls, and when, is part of its result.

  The code up to the first callback is \<open>recovery_local\<close>; \<open>recovery_finish\<close> is what follows the
  router's answer.
\<close>

definition RECOVERY_SEQUENCE_SCHEMA_V1 :: string where
  "RECOVERY_SEQUENCE_SCHEMA_V1 = ''mprf.recovery-sequence-result.v1''"
definition RESUMED :: string where "RESUMED = ''RESUMED''"
definition EFFECT_CONFIRMED :: string where "EFFECT_CONFIRMED = ''CONFIRMED''"
definition EFFECT_AMBIGUOUS :: string where "EFFECT_AMBIGUOUS = ''AMBIGUOUS''"
definition EFFECT_FAILED :: string where "EFFECT_FAILED = ''FAILED''"
definition RECOVERY_STAGES_V1 :: "string list" where
  "RECOVERY_STAGES_V1 = [''CHECKPOINT'', ''ARTIFACT'', ''EFFECT_RECONCILIATION'', ''AUTHORIZATION'',
     ''FAILOVER_POLICY'', ''ROUTER'', ''RESUME'']"

definition recovery_text :: "string \<Rightarrow> string \<Rightarrow> string result" where
  "recovery_text value name =
     (if py_strip value = [] then Inl (MPRFContractError (name @ '' must be a non-empty string''))
      else Inr (py_strip value))"

record recovery_result =
  rs_schema_version :: string
  rs_status :: string
  rs_completed_stages :: "string list"
  rs_blocked_stage :: string
  rs_reason_code :: string
  rs_checkpoint_ref :: string
  rs_reroute_request_ref :: string
  rs_router_decision_ref :: string

definition recovery_result_init :: "recovery_result \<Rightarrow> recovery_result result" where
  "recovery_result_init s = rbind (guards
     [(rs_schema_version s \<noteq> RECOVERY_SEQUENCE_SCHEMA_V1,
       MPRFContractError ''unsupported recovery sequence result schema''),
      (rs_status s \<notin> {RECOVERY_REQUIRED, RESUMED}, MPRFContractError ''unknown recovery sequence status''),
      (list_ex (\<lambda>stage. stage \<notin> set RECOVERY_STAGES_V1) (rs_completed_stages s),
       MPRFContractError ''unknown recovery stage in trace''),
      (take (length (rs_completed_stages s)) RECOVERY_STAGES_V1 \<noteq> rs_completed_stages s,
       MPRFContractError ''recovery stages are not an ordered prefix''),
      (rs_blocked_stage s \<noteq> [] \<and> rs_blocked_stage s \<notin> set RECOVERY_STAGES_V1,
       MPRFContractError ''unknown blocked recovery stage'')]) (\<lambda>_.
     rbind (recovery_text (rs_reason_code s) ''reason_code'') (\<lambda>_. Inr s))"

definition blocked_recovery ::
  "string list \<Rightarrow> string \<Rightarrow> string \<Rightarrow> string \<Rightarrow> string \<Rightarrow> string \<Rightarrow> recovery_result result" where
  "blocked_recovery completed stage reason check_ref reroute_ref decision_ref = recovery_result_init
     \<lparr>rs_schema_version = RECOVERY_SEQUENCE_SCHEMA_V1, rs_status = RECOVERY_REQUIRED,
      rs_completed_stages = completed, rs_blocked_stage = stage, rs_reason_code = reason,
      rs_checkpoint_ref = check_ref, rs_reroute_request_ref = reroute_ref,
      rs_router_decision_ref = decision_ref\<rparr>"

text \<open>The keyword arguments other than the callbacks. The three flags are checked to be \<open>bool\<close>, so
  they are Python values here.\<close>

record recovery_args =
  ra_checkpoint :: checkpoint
  ra_project_id :: string
  ra_run_id :: string
  ra_task_id :: string
  ra_task_execution_id :: string
  ra_expected_parent_checkpoint_ref :: string
  ra_artifact_integrity_ref :: string
  ra_artifact_valid :: pyval
  ra_effect_reconciliation_ref :: string
  ra_effect_status :: string
  ra_authorization_validation_ref :: string
  ra_authorization_valid :: pyval
  ra_policy_validation_ref :: string
  ra_policy_valid :: pyval
  ra_failure :: string
  ra_original_router_decision :: router_decision
  ra_reroute_request_id :: string
  ra_network_safe_policy_evidence_ref :: string
  ra_permission_related_auth :: bool
  ra_effect_state :: string

text \<open>The attributes \<open>getattr(decision, name, None)\<close> reads off the router's answer.\<close>

record decision_view =
  dv_eligible :: pyval
  dv_stage :: pyval
  dv_required_capabilities :: pyval
  dv_decision_id :: pyval
  dv_decision_digest :: pyval

definition flag_fails :: "pyval \<Rightarrow> string \<Rightarrow> bool" where
  "flag_fails flag ref =
     (case flag of PyBool b \<Rightarrow> \<not> b \<or> ref = [] | _ \<Rightarrow> True)"

definition recovery_prerequisites :: "recovery_args \<Rightarrow> string \<Rightarrow> failover_prerequisites" where
  "recovery_prerequisites a check_ref =
     \<lparr>fp_schema_version = ''mprf.failover-prerequisites.v1'', fp_checkpoint_integrity_ref = check_ref,
      fp_artifact_integrity_ref = ra_artifact_integrity_ref a,
      fp_effect_reconciliation_ref = ra_effect_reconciliation_ref a,
      fp_authorization_validation_ref = ra_authorization_validation_ref a,
      fp_policy_validation_ref = ra_policy_validation_ref a,
      fp_network_safe_policy_evidence_ref = ra_network_safe_policy_evidence_ref a,
      fp_effect_state = ra_effect_state a\<rparr>"

text \<open>From the failover policy to the reroute request.\<close>

definition recovery_policy ::
  "recovery_args \<Rightarrow> string list \<Rightarrow> string \<Rightarrow> (recovery_result + reroute_request) result" where
  "recovery_policy a completed check_ref =
     (if flag_fails (ra_policy_valid a) (ra_policy_validation_ref a)
      then rbind (blocked_recovery completed ''FAILOVER_POLICY'' ''FAILOVER_POLICY_INVALID'' check_ref [] [])
             (\<lambda>s. Inr (Inl s))
      else rbind (failover_prerequisites_init (recovery_prerequisites a check_ref)) (\<lambda>prerequisites.
        rbind (evaluate_failover (ra_failure a) prerequisites (ra_permission_related_auth a)) (\<lambda>disposition.
        if \<not> fd_reroute_eligible disposition
        then rbind (blocked_recovery completed ''FAILOVER_POLICY'' (fd_reason_code disposition) check_ref [] [])
               (\<lambda>s. Inr (Inl s))
        else rbind (recovery_text (ra_reroute_request_id a) ''reroute_request_id'') (\<lambda>request_id.
          rbind (build_reroute_request request_id (ra_project_id a) (ra_run_id a) (ra_task_id a)
                   (ra_task_execution_id a) (ra_original_router_decision a) (ra_failure a) prerequisites
                   (ra_permission_related_auth a)) (\<lambda>reroute. Inr (Inr reroute))))))"

text \<open>Everything before the router is called: the result if the sequence is blocked, otherwise the
  reroute request and the checkpoint reference.\<close>

definition recovery_local :: "recovery_args \<Rightarrow> (recovery_result + reroute_request \<times> string) result" where
  "recovery_local a =
     rbind (validate_checkpoint (ra_checkpoint a) (ra_project_id a) (ra_run_id a) (ra_task_id a)
              (ra_task_execution_id a) (ra_expected_parent_checkpoint_ref a)) (\<lambda>check.
     let check_ref = cv_checkpoint_ref check;
         blocked = (\<lambda>completed stage reason.
           rbind (blocked_recovery completed stage reason check_ref [] []) (\<lambda>s. Inr (Inl s)))
     in
     if cv_status check \<noteq> CHECKPOINT_VALID then blocked [] ''CHECKPOINT'' (cv_reason_code check)
     else if flag_fails (ra_artifact_valid a) (ra_artifact_integrity_ref a)
     then blocked [''CHECKPOINT''] ''ARTIFACT'' ''ARTIFACT_INTEGRITY_INVALID''
     else if ra_effect_status a \<notin> {EFFECT_CONFIRMED, EFFECT_AMBIGUOUS, EFFECT_FAILED} \<or>
       ra_effect_reconciliation_ref a = []
     then blocked [''CHECKPOINT'', ''ARTIFACT''] ''EFFECT_RECONCILIATION'' ''EFFECT_RECONCILIATION_INVALID''
     else if ra_effect_status a \<noteq> EFFECT_CONFIRMED
     then blocked [''CHECKPOINT'', ''ARTIFACT''] ''EFFECT_RECONCILIATION''
            (if ra_effect_status a = EFFECT_AMBIGUOUS then ''ACTION_SIDE_EFFECT_AMBIGUOUS''
             else ''EFFECT_RECONCILIATION_FAILED'')
     else if flag_fails (ra_authorization_valid a) (ra_authorization_validation_ref a)
     then blocked [''CHECKPOINT'', ''ARTIFACT'', ''EFFECT_RECONCILIATION''] ''AUTHORIZATION''
            ''AUTHORIZATION_REVALIDATION_FAILED''
     else rbind (recovery_policy a [''CHECKPOINT'', ''ARTIFACT'', ''EFFECT_RECONCILIATION'', ''AUTHORIZATION''] check_ref)
       (\<lambda>r. Inr (map_sum (\<lambda>s. s) (\<lambda>reroute. (reroute, check_ref)) r)))"

definition decision_usable :: "decision_view \<Rightarrow> bool" where
  "decision_usable dv =
     (dv_eligible dv = PyBool True \<and>
      (case dv_decision_id dv of PyStr i \<Rightarrow> i \<noteq> [] | _ \<Rightarrow> False) \<and>
      (case dv_decision_digest dv of PyStr _ \<Rightarrow> True | _ \<Rightarrow> False))"

definition decision_binds :: "reroute_request \<Rightarrow> decision_view \<Rightarrow> bool" where
  "decision_binds reroute dv =
     (dv_stage dv = PyStr (rr_original_stage reroute) \<and>
      dv_required_capabilities dv = PyTuple (map PyStr (rr_requested_capabilities reroute)))"

fun py_str_of :: "pyval \<Rightarrow> string" where
  "py_str_of (PyStr s) = s"
| "py_str_of _ = []"

definition decision_ref :: "decision_view \<Rightarrow> string" where
  "decision_ref dv =
     ''router-decision://'' @ py_str_of (dv_decision_id dv) @ ''#'' @ py_str_of (dv_decision_digest dv)"

definition recovery_finish ::
  "reroute_request \<Rightarrow> string \<Rightarrow> decision_view \<Rightarrow> (string \<Rightarrow> 'w \<Rightarrow> pyval \<times> 'w) \<Rightarrow> 'w \<Rightarrow> recovery_result result \<times> 'w" where
  "recovery_finish reroute check_ref dv resume_exchange w =
     (let completed = take 5 RECOVERY_STAGES_V1; reroute_ref = router_reference reroute in
      if \<not> decision_usable dv
      then (blocked_recovery completed ''ROUTER'' ''ROUTER_DECISION_BLOCKED'' check_ref reroute_ref [], w)
      else if \<not> decision_binds reroute dv
      then (blocked_recovery completed ''ROUTER'' ''ROUTER_DECISION_BINDING_MISMATCH'' check_ref reroute_ref [], w)
      else let (answer, w') = resume_exchange (decision_ref dv) w in
        if answer \<noteq> PyBool True
        then (blocked_recovery (completed @ [''ROUTER'']) ''RESUME'' ''RESUME_REJECTED'' check_ref reroute_ref
                (decision_ref dv), w')
        else (recovery_result_init
          \<lparr>rs_schema_version = RECOVERY_SEQUENCE_SCHEMA_V1, rs_status = RESUMED,
           rs_completed_stages = completed @ [''ROUTER'', ''RESUME''], rs_blocked_stage = [],
           rs_reason_code = ''RESUME_COMPLETED'', rs_checkpoint_ref = check_ref,
           rs_reroute_request_ref = reroute_ref, rs_router_decision_ref = decision_ref dv\<rparr>, w'))"

definition execute_recovery_sequence ::
  "recovery_args \<Rightarrow> (reroute_request \<Rightarrow> 'w \<Rightarrow> decision_view result \<times> 'w) \<Rightarrow> (string \<Rightarrow> 'w \<Rightarrow> pyval \<times> 'w) \<Rightarrow> 'w \<Rightarrow>
   recovery_result result \<times> 'w" where
  "execute_recovery_sequence a router_exchange resume_exchange w =
     (case recovery_local a of
        Inl e \<Rightarrow> (Inl e, w)
      | Inr (Inl blocked) \<Rightarrow> (Inr blocked, w)
      | Inr (Inr (reroute, check_ref)) \<Rightarrow>
          (case router_exchange reroute w of
             (Inl e, w') \<Rightarrow> (Inl e, w')
           | (Inr dv, w') \<Rightarrow> recovery_finish reroute check_ref dv resume_exchange w'))"

section \<open>The trace of a recovery\<close>

text \<open>A result whose trace stops after \<open>n\<close> stages, blocked at the next one.\<close>

definition blocked_at :: "nat \<Rightarrow> recovery_result \<Rightarrow> bool" where
  "blocked_at n s = (n < 7 \<and> rs_status s = RECOVERY_REQUIRED \<and> rs_completed_stages s = take n RECOVERY_STAGES_V1 \<and>
     rs_blocked_stage s = RECOVERY_STAGES_V1 ! n)"

lemma recovery_result_init_same: "recovery_result_init s = Inr s' \<Longrightarrow> s' = s"
  by (auto simp: recovery_result_init_def)

lemma blocked_recovery_at:
  assumes "blocked_recovery completed stage reason c r d = Inr s"
    and "completed = take n RECOVERY_STAGES_V1" "stage = RECOVERY_STAGES_V1 ! n" "n < 7"
  shows "blocked_at n s"
  using assms recovery_result_init_same by (fastforce simp: blocked_recovery_def blocked_at_def)

lemma blocked_recovery_fields:
  assumes "blocked_recovery completed stage reason c r d = Inr s"
  shows "rs_reason_code s = reason" "rs_reroute_request_ref s = r" "rs_status s = RECOVERY_REQUIRED"
  using assms recovery_result_init_same by (fastforce simp: blocked_recovery_def)+

lemma stages_prefixes:
  "take 0 RECOVERY_STAGES_V1 = []" "take (Suc 0) RECOVERY_STAGES_V1 = [''CHECKPOINT'']"
  "take 2 RECOVERY_STAGES_V1 = [''CHECKPOINT'', ''ARTIFACT'']"
  "take 3 RECOVERY_STAGES_V1 = [''CHECKPOINT'', ''ARTIFACT'', ''EFFECT_RECONCILIATION'']"
  "take 4 RECOVERY_STAGES_V1 = [''CHECKPOINT'', ''ARTIFACT'', ''EFFECT_RECONCILIATION'', ''AUTHORIZATION'']"
  "take 6 RECOVERY_STAGES_V1 = take 5 RECOVERY_STAGES_V1 @ [''ROUTER'']"
  "take 5 RECOVERY_STAGES_V1 @ [''ROUTER'', ''RESUME''] = RECOVERY_STAGES_V1"
  "RECOVERY_STAGES_V1 ! 0 = ''CHECKPOINT''" "RECOVERY_STAGES_V1 ! Suc 0 = ''ARTIFACT''"
  "RECOVERY_STAGES_V1 ! 2 = ''EFFECT_RECONCILIATION''" "RECOVERY_STAGES_V1 ! 3 = ''AUTHORIZATION''"
  "RECOVERY_STAGES_V1 ! 4 = ''FAILOVER_POLICY''" "RECOVERY_STAGES_V1 ! 5 = ''ROUTER''"
  "RECOVERY_STAGES_V1 ! 6 = ''RESUME''"
  by (simp_all add: RECOVERY_STAGES_V1_def)

lemma recovery_policy_blocked:
  assumes "recovery_policy a (take 4 RECOVERY_STAGES_V1) c = Inr (Inl s)"
  shows "blocked_at 4 s"
proof -
  obtain reason where "blocked_recovery (take 4 RECOVERY_STAGES_V1) ''FAILOVER_POLICY'' reason c [] [] = Inr s"
    using assms by (auto simp: recovery_policy_def split: if_splits)
  then show ?thesis by (rule blocked_recovery_at) (simp_all add: stages_prefixes)
qed

lemma map_sum_eq_iff:
  "map_sum (\<lambda>s. s) f r = Inl s \<longleftrightarrow> r = Inl s" "map_sum (\<lambda>s. s) f r = Inr x \<longleftrightarrow> (\<exists>y. r = Inr y \<and> f y = x)"
  by (cases r; auto)+

lemma recovery_local_blocked:
  assumes "recovery_local a = Inr (Inl s)"
  shows "\<exists>n \<le> 4. blocked_at n s"
proof -
  consider (policy) c where "recovery_policy a (take 4 RECOVERY_STAGES_V1) c = Inr (Inl s)"
    | (stage) n reason c where "n \<le> 3"
      "blocked_recovery (take n RECOVERY_STAGES_V1) (RECOVERY_STAGES_V1 ! n) reason c [] [] = Inr s"
  proof -
    have pol: thesis if "recovery_policy a [''CHECKPOINT'', ''ARTIFACT'', ''EFFECT_RECONCILIATION'', ''AUTHORIZATION''] c =
        Inr (Inl s)" for c
      using policy [of c] that by (simp only: stages_prefixes)
    have st: thesis if "n \<le> 3" "blocked_recovery (take n RECOVERY_STAGES_V1) (RECOVERY_STAGES_V1 ! n) reason c [] [] = Inr s"
      for n reason c using stage that by blast
    obtain v where v: "validate_checkpoint (ra_checkpoint a) (ra_project_id a) (ra_run_id a) (ra_task_id a)
        (ra_task_execution_id a) (ra_expected_parent_checkpoint_ref a) = Inr v"
      using validate_checkpoint_total by blast
    show thesis
      using assms pol [of "cv_checkpoint_ref v"]
        st [of 0 _ "cv_checkpoint_ref v"] st [of "Suc 0" _ "cv_checkpoint_ref v"] st [of 2 _ "cv_checkpoint_ref v"]
        st [of 3 _ "cv_checkpoint_ref v"]
      by (auto simp: recovery_local_def v Let_def stages_prefixes map_sum_eq_iff split: if_splits)
  qed
  then show ?thesis
  proof cases
    case policy
    then show ?thesis using recovery_policy_blocked by blast
  next
    case stage
    then have "blocked_at n s" by (intro blocked_recovery_at) auto
    with stage(1) show ?thesis by (intro exI [of _ n]) simp
  qed
qed

text \<open>What has been established when the sequence reaches the router.\<close>

definition recovery_ready :: "recovery_args \<Rightarrow> bool" where
  "recovery_ready a =
     (checkpoint_intact (ra_checkpoint a) \<and> ck_project_id (ra_checkpoint a) = ra_project_id a \<and>
      ck_run_id (ra_checkpoint a) = ra_run_id a \<and> ck_task_id (ra_checkpoint a) = ra_task_id a \<and>
      ck_task_execution_id (ra_checkpoint a) = ra_task_execution_id a \<and>
      ck_parent_checkpoint_ref (ra_checkpoint a) = ra_expected_parent_checkpoint_ref a \<and>
      ra_artifact_valid a = PyBool True \<and> ra_artifact_integrity_ref a \<noteq> [] \<and>
      ra_effect_status a = EFFECT_CONFIRMED \<and> ra_effect_reconciliation_ref a \<noteq> [] \<and>
      ra_authorization_valid a = PyBool True \<and> ra_authorization_validation_ref a \<noteq> [] \<and>
      ra_policy_valid a = PyBool True \<and> ra_policy_validation_ref a \<noteq> [] \<and>
      (\<exists>fc. ra_failure a = failure_value fc \<and>
         reroute_permitted fc (recovery_prerequisites a (checkpoint_ref (ra_checkpoint a)))))"

lemma flag_fails_iff: "\<not> flag_fails v ref \<longleftrightarrow> v = PyBool True \<and> ref \<noteq> []"
  by (cases v) (auto simp: flag_fails_def)

lemma failover_prerequisites_init_same: "failover_prerequisites_init p = Inr p' \<Longrightarrow> p' = p"
  by (auto simp: failover_prerequisites_init_def split: if_splits)

lemma recovery_text_iff [simp]: "recovery_text v n = Inr s \<longleftrightarrow> py_strip v \<noteq> [] \<and> s = py_strip v"
  by (auto simp: recovery_text_def)

lemma recovery_policy_ready:
  assumes "recovery_policy a completed c = Inr (Inr rr)"
  shows "ra_policy_valid a = PyBool True" "ra_policy_validation_ref a \<noteq> []"
    "build_reroute_request (py_strip (ra_reroute_request_id a)) (ra_project_id a) (ra_run_id a) (ra_task_id a)
       (ra_task_execution_id a) (ra_original_router_decision a) (ra_failure a) (recovery_prerequisites a c)
       (ra_permission_related_auth a) = Inr rr"
proof -
  have "\<not> flag_fails (ra_policy_valid a) (ra_policy_validation_ref a)"
    using assms by (auto simp: recovery_policy_def split: if_splits)
  then show "ra_policy_valid a = PyBool True" "ra_policy_validation_ref a \<noteq> []"
    by (simp_all add: flag_fails_iff)
  show "build_reroute_request (py_strip (ra_reroute_request_id a)) (ra_project_id a) (ra_run_id a) (ra_task_id a)
       (ra_task_execution_id a) (ra_original_router_decision a) (ra_failure a) (recovery_prerequisites a c)
       (ra_permission_related_auth a) = Inr rr"
    using assms by (auto simp: recovery_policy_def split: if_splits dest!: failover_prerequisites_init_same)
qed

lemma recovery_local_ready:
  assumes "recovery_local a = Inr (Inr (rr, c))"
  shows "recovery_ready a" "c = checkpoint_ref (ra_checkpoint a)"
    "build_reroute_request (py_strip (ra_reroute_request_id a)) (ra_project_id a) (ra_run_id a) (ra_task_id a)
       (ra_task_execution_id a) (ra_original_router_decision a) (ra_failure a) (recovery_prerequisites a c)
       (ra_permission_related_auth a) = Inr rr"
proof -
  obtain v where v: "validate_checkpoint (ra_checkpoint a) (ra_project_id a) (ra_run_id a) (ra_task_id a)
      (ra_task_execution_id a) (ra_expected_parent_checkpoint_ref a) = Inr v"
    "cv_checkpoint_ref v = checkpoint_ref (ra_checkpoint a)"
    "cv_status v = CHECKPOINT_VALID \<longleftrightarrow> checkpoint_intact (ra_checkpoint a) \<and>
      ck_project_id (ra_checkpoint a) = ra_project_id a \<and> ck_run_id (ra_checkpoint a) = ra_run_id a \<and>
      ck_task_id (ra_checkpoint a) = ra_task_id a \<and> ck_task_execution_id (ra_checkpoint a) = ra_task_execution_id a \<and>
      ck_parent_checkpoint_ref (ra_checkpoint a) = ra_expected_parent_checkpoint_ref a"
    using validate_checkpoint_total [of "ra_checkpoint a" "ra_project_id a" "ra_run_id a" "ra_task_id a"
        "ra_task_execution_id a" "ra_expected_parent_checkpoint_ref a"] by blast
  have pol: "recovery_policy a [''CHECKPOINT'', ''ARTIFACT'', ''EFFECT_RECONCILIATION'', ''AUTHORIZATION'']
      (checkpoint_ref (ra_checkpoint a)) = Inr (Inr rr)"
    and c: "c = checkpoint_ref (ra_checkpoint a)"
    and gates: "cv_status v = CHECKPOINT_VALID" "\<not> flag_fails (ra_artifact_valid a) (ra_artifact_integrity_ref a)"
      "ra_effect_status a = EFFECT_CONFIRMED" "ra_effect_reconciliation_ref a \<noteq> []"
      "\<not> flag_fails (ra_authorization_valid a) (ra_authorization_validation_ref a)"
    using assms by (auto simp: recovery_local_def v(1,2) Let_def map_sum_eq_iff split: if_splits)
  note p = recovery_policy_ready [OF pol]
  from p(3) show "build_reroute_request (py_strip (ra_reroute_request_id a)) (ra_project_id a) (ra_run_id a)
       (ra_task_id a) (ra_task_execution_id a) (ra_original_router_decision a) (ra_failure a)
       (recovery_prerequisites a c) (ra_permission_related_auth a) = Inr rr" by (simp add: c)
  from build_reroute_requestD(1,2) [OF p(3)]
  have "\<exists>fc. ra_failure a = failure_value fc \<and>
      reroute_permitted fc (recovery_prerequisites a (checkpoint_ref (ra_checkpoint a)))" by blast
  with gates p(1,2) v(3) show "recovery_ready a" by (simp add: recovery_ready_def flag_fails_iff)
  show "c = checkpoint_ref (ra_checkpoint a)" by (rule c)
qed

lemma recovery_finish_cases:
  assumes "recovery_finish rr c dv resume w = (Inr s, w')"
  shows "(blocked_at 5 s \<and> w' = w) \<or>
    (decision_usable dv \<and> decision_binds rr dv \<and> (\<exists>ans. resume (decision_ref dv) w = (ans, w') \<and>
      (if ans = PyBool True then rs_status s = RESUMED \<and> rs_completed_stages s = RECOVERY_STAGES_V1 \<and>
         rs_blocked_stage s = [] \<and> rs_router_decision_ref s = decision_ref dv
       else blocked_at 6 s)))"
proof -
  have b5: "blocked_at 5 s" if "blocked_recovery (take 5 RECOVERY_STAGES_V1) ''ROUTER'' reason c r d = Inr s" for reason r d
    by (rule blocked_recovery_at [OF that]) (simp_all add: stages_prefixes)
  have b6: "blocked_at 6 s"
    if "blocked_recovery (take 5 RECOVERY_STAGES_V1 @ [''ROUTER'']) ''RESUME'' reason c r d = Inr s" for reason r d
    by (rule blocked_recovery_at [OF that]) (simp_all add: stages_prefixes)
  show ?thesis
    using assms b5 b6 by (auto simp: recovery_finish_def Let_def stages_prefixes(7) split: if_splits prod.splits
        dest!: recovery_result_init_same)
qed

lemma execute_recovery_cases:
  assumes "execute_recovery_sequence a router resume w = (Inr s, w')"
  obtains (local) n where "n \<le> 4" "blocked_at n s" "w' = w" "recovery_local a = Inr (Inl s)"
  | (external) rr c dv w1 where "recovery_local a = Inr (Inr (rr, c))" "router rr w = (Inr dv, w1)"
      "recovery_finish rr c dv resume w1 = (Inr s, w')"
proof (cases "recovery_local a")
  case (Inl e)
  with assms show thesis by (simp add: execute_recovery_sequence_def)
next
  case (Inr r)
  show thesis
  proof (cases r)
    case (Inl s')
    with assms Inr have "recovery_local a = Inr (Inl s)" "w' = w" by (simp_all add: execute_recovery_sequence_def)
    then show thesis using recovery_local_blocked local by blast
  next
    fix x assume "r = Inr x"
    then show thesis
      using assms Inr external by (auto simp: execute_recovery_sequence_def split: prod.splits sum.splits)
  qed
qed

end
