(* ===== verification/Recovery_Correct.thy ===== *)
theory Recovery_Correct
  imports Mprf_Recovery
begin

text \<open>
  Correctness of the recovery sequence: the order of its stages, that nothing outside is called before
  every local stage has passed, and what a resumed recovery has established. The locale
  \<open>recovery_router\<close> states what the sequence relies on when it calls a router; it is interpreted on
  the governed router of the orchestrator.
\<close>

section \<open>Running the sequence with a router\<close>

lemma local_stage_not_router: "n \<le> 4 \<Longrightarrow> RECOVERY_STAGES_V1 ! n \<noteq> ''ROUTER''"
  by (auto simp: RECOVERY_STAGES_V1_def nth_Cons')

text \<open>A router keeps the contract if an eligible answer carries an identifier and repeats the stage and
  the capabilities of a request that is well formed for it.\<close>

locale recovery_router =
  fixes exchange :: "reroute_request \<Rightarrow> 'w \<Rightarrow> decision_view result \<times> 'w"
    and well_formed :: "reroute_request \<Rightarrow> bool"
  assumes answer_binds: "well_formed rr \<Longrightarrow> exchange rr w = (Inr dv, w') \<Longrightarrow> dv_eligible dv = PyBool True \<Longrightarrow>
      decision_usable dv \<and> decision_binds rr dv"
begin

lemma finish_router_reason:
  assumes "well_formed rr" "exchange rr w = (Inr dv, w1)" "recovery_finish rr c dv resume w1 = (Inr s, w')"
    and "rs_blocked_stage s = ''ROUTER''"
  shows "rs_reason_code s = ''ROUTER_DECISION_BLOCKED''"
proof (cases "decision_usable dv")
  case False
  with assms(3) show ?thesis by (auto simp: recovery_finish_def Let_def dest: blocked_recovery_fields)
next
  case True
  then have "decision_binds rr dv" using answer_binds [OF assms(1,2)] by (simp add: decision_usable_def)
  with True assms(3,4) show ?thesis
    by (auto simp: recovery_finish_def Let_def blocked_recovery_def split: if_splits prod.splits
        dest!: recovery_result_init_same)
qed

text \<open>With such a router the binding check of the sequence never fails.\<close>

lemma blocked_router_reason:
  assumes "execute_recovery_sequence a exchange resume w = (Inr s, w')"
    and "\<And>rr c. recovery_local a = Inr (Inr (rr, c)) \<Longrightarrow> well_formed rr"
    and "rs_blocked_stage s = ''ROUTER''"
  shows "rs_reason_code s = ''ROUTER_DECISION_BLOCKED''"
  using assms(1)
proof (cases rule: execute_recovery_cases)
  case (local n)
  with assms(3) local_stage_not_router [of n] show ?thesis by (simp add: blocked_at_def)
next
  case (external rr c dv w1)
  with assms(2,3) show ?thesis by (blast intro: finish_router_reason)
qed

end

section \<open>The governed router as the router of the sequence\<close>

definition view_of :: "router_decision \<Rightarrow> decision_view" where
  "view_of d = \<lparr>dv_eligible = PyBool (rd_eligible d), dv_stage = PyStr (rd_stage d),
     dv_required_capabilities = PyTuple (map PyStr (rd_required_capabilities d)),
     dv_decision_id = PyStr (rd_decision_id d), dv_decision_digest = PyStr (decision_digest d)\<rparr>"

definition governed_exchange ::
  "string \<Rightarrow> eligibility_snapshot \<Rightarrow> reroute_request \<Rightarrow> 'w \<Rightarrow> decision_view result \<times> 'w" where
  "governed_exchange directive snapshot rr w =
     (rbind (to_router_request_v2 rr directive snapshot) (\<lambda>q. rbind (route_request q) (\<lambda>d. Inr (view_of d))), w)"

definition normal_capabilities :: "reroute_request \<Rightarrow> bool" where
  "normal_capabilities rr =
     (normalize_capabilities_v2 (rr_requested_capabilities rr) = rr_requested_capabilities rr)"

lemma route_request_fields:
  assumes "route_request q = Inr d" "rd_eligible d"
  shows "rd_stage d = rq_stage q" "rd_required_capabilities d = rq_required_capabilities q"
    "rd_decision_id d = ''decision-'' @ rq_request_id q"
proof -
  obtain p m where sel: "selected_decision q p m = Inr d"
    using route_request_eligible [OF assms(1)] assms(2) by blast
  show "rd_stage d = rq_stage q" "rd_required_capabilities d = rq_required_capabilities q"
    by (rule selected_decisionD [OF sel])+
  show "rd_decision_id d = ''decision-'' @ rq_request_id q"
    using sel by (auto simp: selected_decision_def router_decision_init_def Let_def)
qed

lemma governed_exchangeD:
  assumes "governed_exchange directive snapshot rr w = (Inr dv, w')" "dv_eligible dv = PyBool True"
  obtains q d where "to_router_request_v2 rr directive snapshot = Inr q" "route_request q = Inr d"
    "rd_eligible d" "dv = view_of d" "w' = w"
  using assms by (auto simp: governed_exchange_def view_of_def)

interpretation governed: recovery_router "governed_exchange directive snapshot" normal_capabilities
proof
  fix rr :: reroute_request and w w' :: 'w and dv :: decision_view
  assume n: "normal_capabilities rr" and e: "governed_exchange directive snapshot rr w = (Inr dv, w')"
    "dv_eligible dv = PyBool True"
  from e obtain q d where q: "to_router_request_v2 rr directive snapshot = Inr q" and d: "route_request q = Inr d"
    "rd_eligible d" and dv: "dv = view_of d" by (rule governed_exchangeD)
  show "decision_usable dv \<and> decision_binds rr dv"
    using route_request_fields [OF d] to_router_request_v2D [OF q] d(2) n
    by (simp add: dv view_of_def decision_usable_def decision_binds_def normal_capabilities_def)
qed


section \<open>A concrete recovery\<close>

definition ex_recovery :: recovery_args where
  "ex_recovery =
     \<lparr>ra_checkpoint = ex_checkpoint, ra_project_id = ''project-1'', ra_run_id = ''run-1'', ra_task_id = ''task-1'',
      ra_task_execution_id = ''exec-1'', ra_expected_parent_checkpoint_ref = [], ra_artifact_integrity_ref = ''a'',
      ra_artifact_valid = PyBool True, ra_effect_reconciliation_ref = ''e'', ra_effect_status = EFFECT_CONFIRMED,
      ra_authorization_validation_ref = ''z'', ra_authorization_valid = PyBool True,
      ra_policy_validation_ref = ''p'', ra_policy_valid = PyBool True, ra_failure = ''RATE_LIMIT'',
      ra_original_router_decision = ex_failed_decision, ra_reroute_request_id = ''reroute-1'',
      ra_network_safe_policy_evidence_ref = [], ra_permission_related_auth = False,
      ra_effect_state = EFFECT_STATE_UNKNOWN\<rparr>"

lemma checkpoint_ref_strip: "py_strip (checkpoint_ref c) \<noteq> []"
  by (simp add: checkpoint_ref_def strip_Nil_iff py_isspace_def)

lemma recovery_local_reaches:
  assumes "recovery_ready a" "ra_effect_state a \<in> EFFECT_STATES_V1" "py_strip (ra_reroute_request_id a) \<noteq> []"
    and "build_reroute_request (py_strip (ra_reroute_request_id a)) (ra_project_id a) (ra_run_id a) (ra_task_id a)
       (ra_task_execution_id a) (ra_original_router_decision a) (ra_failure a)
       (recovery_prerequisites a (checkpoint_ref (ra_checkpoint a))) (ra_permission_related_auth a) = Inr rr"
  shows "recovery_local a = Inr (Inr (rr, checkpoint_ref (ra_checkpoint a)))"
proof -
  let ?pre = "recovery_prerequisites a (checkpoint_ref (ra_checkpoint a))"
  obtain v where v: "validate_checkpoint (ra_checkpoint a) (ra_project_id a) (ra_run_id a) (ra_task_id a)
      (ra_task_execution_id a) (ra_expected_parent_checkpoint_ref a) = Inr v"
    "cv_checkpoint_ref v = checkpoint_ref (ra_checkpoint a)" "cv_status v = CHECKPOINT_VALID"
    using validate_checkpoint_total [of "ra_checkpoint a" "ra_project_id a" "ra_run_id a" "ra_task_id a"
        "ra_task_execution_id a" "ra_expected_parent_checkpoint_ref a"] assms(1) by (auto simp: recovery_ready_def)
  have pre: "failover_prerequisites_init ?pre = Inr ?pre"
    using assms(2) by (simp add: failover_prerequisites_init_def recovery_prerequisites_def FAILOVER_PREREQUISITES_SCHEMA_V1_def)
  obtain disp where disp: "evaluate_failover (ra_failure a) ?pre (ra_permission_related_auth a) = Inr disp"
    "fd_reroute_eligible disp"
    using assms(4) by (auto simp: build_reroute_request_def split: if_splits)
  have flags: "\<not> flag_fails (ra_artifact_valid a) (ra_artifact_integrity_ref a)"
    "\<not> flag_fails (ra_authorization_valid a) (ra_authorization_validation_ref a)"
    "\<not> flag_fails (ra_policy_valid a) (ra_policy_validation_ref a)"
    using assms(1) by (simp_all add: recovery_ready_def flag_fails_iff)
  have eff: "ra_effect_status a = EFFECT_CONFIRMED" "ra_effect_reconciliation_ref a \<noteq> []"
    using assms(1) by (simp_all add: recovery_ready_def)
  have "recovery_policy a completed (checkpoint_ref (ra_checkpoint a)) = Inr (Inr rr)" for completed
    using flags(3) pre disp assms(3,4) by (simp add: recovery_policy_def recovery_text_def)
  then show ?thesis using flags(1,2) eff by (simp add: recovery_local_def v Let_def)
qed

lemma ex_recovery_reaches: "\<exists>rr c. recovery_local ex_recovery = Inr (Inr (rr, c)) \<and> normal_capabilities rr \<and>
  valid_provider_id (rr_original_provider_ref rr)"
proof -
  let ?pre = "recovery_prerequisites ex_recovery (checkpoint_ref ex_checkpoint)"
  have perm: "reroute_permitted RATE_LIMIT ?pre"
    by (simp add: reroute_permitted_def recovery_checks_complete_def recovery_prerequisites_def ex_recovery_def
        checkpoint_ref_def)
  have "\<exists>rr. build_reroute_request ''reroute-1'' ''project-1'' ''run-1'' ''task-1'' ''exec-1'' ex_failed_decision
      (failure_value RATE_LIMIT) ?pre False = Inr rr"
    by (rule build_reroute_request_total [OF perm])
      (auto simp: ex_failed_decision_def recovery_prerequisites_def ex_recovery_def ex_strip checkpoint_ref_strip)
  then obtain rr where rr: "build_reroute_request ''reroute-1'' ''project-1'' ''run-1'' ''task-1'' ''exec-1''
      ex_failed_decision ''RATE_LIMIT'' ?pre False = Inr rr" by auto
  have ready: "recovery_ready ex_recovery"
    using perm seal_checkpoint_intact(1) [OF ex_seal] seal_checkpoint_fields [OF ex_seal]
    by (auto simp: recovery_ready_def ex_recovery_def ex_checkpoint_raw_def intro!: exI [of _ RATE_LIMIT])
  have "recovery_local ex_recovery = Inr (Inr (rr, checkpoint_ref (ra_checkpoint ex_recovery)))"
    by (rule recovery_local_reaches [OF ready])
      (use rr in \<open>simp_all add: ex_recovery_def ex_strip EFFECT_STATES_V1_def\<close>)
  moreover have "normal_capabilities rr" "valid_provider_id (rr_original_provider_ref rr)"
    using build_reroute_requestD(3,5) [OF rr]
    by (simp_all add: normal_capabilities_def ex_failed_decision_def normalize_capabilities_v2_def sorted_set_def
        LEGACY_CAPABILITY_ALIASES_V2_def py_strip_def py_isspace_def valid_provider_id_def ascii_alnum_def)
  ultimately show ?thesis by blast
qed

lemma ex_run:
  "\<exists>s. execute_recovery_sequence ex_recovery (governed_exchange ''p'' ex_snapshot) (\<lambda>ref w. (PyBool True, ref # w)) [] =
     (Inr s, [rs_router_decision_ref s]) \<and> rs_status s = RESUMED"
proof -
  obtain rr c where rr: "recovery_local ex_recovery = Inr (Inr (rr, c))" "normal_capabilities rr"
    "valid_provider_id (rr_original_provider_ref rr)" using ex_recovery_reaches by blast
  note built = recovery_local_ready(3) [OF rr(1)]
  obtain q where q: "to_router_request_v2 rr ''p'' ex_snapshot = Inr q"
    using to_router_request_v2_total [OF build_reroute_request_ok [OF built] rr(3), of "''p''"] by (auto simp: ex_strip)
  note qf = to_router_request_v2D [OF q] build_reroute_requestD [OF built]
  have stage: "rq_stage q = ''PREPARE''" and snap: "rq_eligibility_snapshot q = ex_snapshot"
    and caps: "rq_required_capabilities q = [''reasoning'']" and failed: "rq_failed_provider_ref q = ''codex''"
    "rq_failed_model_ref q = ''model-b''"
    and fc: "rq_failure_class q = ''RATE_LIMIT''"
    using qf rr(2) by (simp_all add: normal_capabilities_def ex_recovery_def ex_failed_decision_def sorted_set_def ex_strip)
  have sel: "select_provider q = Some (''nvidia'', ''model-a'')" by (rule ex_select [OF snap caps stage])
  have pre: "route_precheck q = None"
    using qf(9) by (simp add: route_precheck_def snap stage caps failed fc state_changing_def
        STATE_CHANGING_CAPABILITIES_def REROUTE_ELIGIBLE_FAILURE_CLASSES_V1_def py_get_or_def ex_snapshot_def)
  obtain d where d: "route_request q = Inr d" "rd_eligible d"
    using route_request_selected [OF pre sel] ex_snapshot_init by (auto simp: snap failed)
  have ex: "governed_exchange ''p'' ex_snapshot rr ([] :: string list) = (Inr (view_of d), [])"
    by (simp add: governed_exchange_def q d)
  have ok: "decision_usable (view_of d) \<and> decision_binds rr (view_of d)"
    by (rule governed.answer_binds [OF rr(2) ex]) (simp add: view_of_def d(2))
  then show ?thesis
    by (auto simp: execute_recovery_sequence_def rr(1) ex recovery_finish_def Let_def stages_prefixes(7)
        recovery_result_init_def guards_eq_Inr RECOVERY_REQUIRED_def RESUMED_def list_ex_iff py_strip_def py_isspace_def)
      (auto simp: RECOVERY_STAGES_V1_def)
qed

lemma blocked_at_prefix:
  "blocked_at n s \<Longrightarrow> \<exists>n < 7. rs_status s = RECOVERY_REQUIRED \<and> rs_completed_stages s = take n RECOVERY_STAGES_V1 \<and>
     rs_blocked_stage s = RECOVERY_STAGES_V1 ! n"
  by (intro exI [of _ n]) (simp add: blocked_at_def)

section \<open>Properties\<close>

text \<open>A recovery passes its stages in the fixed order and reports exactly how far it came: either it is RESUMED with
  all seven stages completed, or it requires recovery, has completed a proper prefix of the stages
  and names the next stage as the blocked one.\<close>

theorem recovery_stages_in_order:
  assumes "execute_recovery_sequence a router resume w = (Inr s, w')"
  shows "(rs_status s = RESUMED \<and> rs_completed_stages s = RECOVERY_STAGES_V1 \<and> rs_blocked_stage s = []) \<or>
    (\<exists>n < 7. rs_status s = RECOVERY_REQUIRED \<and> rs_completed_stages s = take n RECOVERY_STAGES_V1 \<and>
       rs_blocked_stage s = RECOVERY_STAGES_V1 ! n)"
  using assms
proof (cases rule: execute_recovery_cases)
  case (local n)
  then show ?thesis using blocked_at_prefix by blast
next
  case (external rr c dv w1)
  from recovery_finish_cases [OF external(3)] show ?thesis
    using blocked_at_prefix [of 5 s] blocked_at_prefix [of 6 s] by (auto split: if_splits)
qed

theorem recovery_stages_in_order_witness:
  "\<exists>s w'. execute_recovery_sequence ex_recovery (governed_exchange ''p'' ex_snapshot) (\<lambda>ref w. (PyBool True, ref # w)) [] =
     (Inr s, w') \<and> rs_status s = RESUMED \<and> rs_completed_stages s = RECOVERY_STAGES_V1"
proof -
  obtain s where s: "execute_recovery_sequence ex_recovery (governed_exchange ''p'' ex_snapshot)
      (\<lambda>ref w. (PyBool True, ref # w)) [] = (Inr s, [rs_router_decision_ref s])" "rs_status s = RESUMED"
    using ex_run by blast
  from recovery_stages_in_order [OF s(1)] s show ?thesis by (auto simp: RESUMED_def RECOVERY_REQUIRED_def)
qed

text \<open>Nothing outside is touched before every local stage has passed: unless the checkpoint, artifact, effect,
  authorization and policy conditions all hold, the sequence has one outcome whatever the callbacks would do, and neither
  the router nor the resume callback has acted on the world.\<close>

theorem recovery_blocked_before_external_calls:
  assumes "\<not> recovery_ready a"
  shows "\<exists>r. (\<forall>router resume w. execute_recovery_sequence a router resume w = (r, w)) \<and>
    (\<forall>s. r = Inr s \<longrightarrow> rs_status s = RECOVERY_REQUIRED \<and> length (rs_completed_stages s) \<le> 4)"
proof (cases "recovery_local a")
  case (Inl e)
  then show ?thesis by (intro exI [of _ "Inl e"]) (simp add: execute_recovery_sequence_def)
next
  case (Inr r)
  obtain s where s: "r = Inl s" using recovery_local_ready(1) Inr assms by (cases r) auto
  from recovery_local_blocked [of a s] Inr s have "rs_status s = RECOVERY_REQUIRED \<and> length (rs_completed_stages s) \<le> 4"
    by (auto simp: blocked_at_def)
  then show ?thesis by (intro exI [of _ "Inr s"]) (simp add: execute_recovery_sequence_def Inr s)
qed

theorem recovery_blocked_before_external_calls_witness:
  "\<not> recovery_ready (ex_recovery\<lparr>ra_effect_status := EFFECT_AMBIGUOUS\<rparr>) \<and>
   snd (execute_recovery_sequence (ex_recovery\<lparr>ra_effect_status := EFFECT_AMBIGUOUS\<rparr>) (governed_exchange ''p'' ex_snapshot)
       (\<lambda>ref w. (PyBool True, ref # w)) [''untouched'']) = [''untouched'']"
proof -
  have n: "\<not> recovery_ready (ex_recovery\<lparr>ra_effect_status := EFFECT_AMBIGUOUS\<rparr>)"
    by (simp add: recovery_ready_def EFFECT_AMBIGUOUS_def EFFECT_CONFIRMED_def)
  from recovery_blocked_before_external_calls [OF n] n show ?thesis by (metis snd_conv)
qed

text \<open>C2. A resumed recovery has established everything it reports: the checkpoint is intact and of the expected
  lineage, artifact, authorization and policy were revalidated with a reference, the effect is confirmed, the failure
  class permits a reroute, the router answered the reroute request with an eligible decision of
  the same stage and capabilities, and the resume callback accepted that very decision.\<close>

theorem recovery_resumed_sound:
  assumes "execute_recovery_sequence a router resume w = (Inr s, w')" and "rs_status s = RESUMED"
  shows "recovery_ready a \<and> (\<exists>rr dv w1. router rr w = (Inr dv, w1) \<and> dv_eligible dv = PyBool True \<and>
      dv_stage dv = PyStr (rd_stage (ra_original_router_decision a)) \<and>
      dv_required_capabilities dv =
        PyTuple (map PyStr (sorted_set (rd_required_capabilities (ra_original_router_decision a)))) \<and>
      rs_router_decision_ref s = decision_ref dv \<and> resume (decision_ref dv) w1 = (PyBool True, w'))"
  using assms(1)
proof (cases rule: execute_recovery_cases)
  case (local n)
  with assms(2) show ?thesis by (simp add: blocked_at_def RECOVERY_REQUIRED_def RESUMED_def)
next
  case (external rr c dv w1)
  note ready = recovery_local_ready [OF external(1)]
  from recovery_finish_cases [OF external(3)] assms(2)
  have fin: "decision_usable dv" "decision_binds rr dv" "resume (decision_ref dv) w1 = (PyBool True, w')"
    "rs_router_decision_ref s = decision_ref dv"
    by (auto simp: blocked_at_def RECOVERY_REQUIRED_def RESUMED_def split: if_splits)
  from fin(1,2) have "dv_eligible dv = PyBool True" "dv_stage dv = PyStr (rd_stage (ra_original_router_decision a))"
    "dv_required_capabilities dv =
       PyTuple (map PyStr (sorted_set (rd_required_capabilities (ra_original_router_decision a))))"
    using build_reroute_requestD(3,4) [OF ready(3)] by (simp_all add: decision_usable_def decision_binds_def)
  with fin external(2) ready(1) show ?thesis by blast
qed

theorem recovery_resumed_sound_witness:
  "recovery_ready ex_recovery \<and> (\<exists>s w'. execute_recovery_sequence ex_recovery (governed_exchange ''p'' ex_snapshot)
     (\<lambda>ref w. (PyBool True, ref # w)) [] = (Inr s, w') \<and> rs_status s = RESUMED)"
proof -
  obtain s where s: "execute_recovery_sequence ex_recovery (governed_exchange ''p'' ex_snapshot)
      (\<lambda>ref w. (PyBool True, ref # w)) [] = (Inr s, [rs_router_decision_ref s])" "rs_status s = RESUMED"
    using ex_run by blast
  from recovery_resumed_sound [OF s] s show ?thesis by blast
qed



end
