(* ===== verification/Mprf_Registry.thy ===== *)
theory Mprf_Registry
  imports Mprf_Contracts Provider_Router
begin

text \<open>
  The provider and model registry, \<open>src/runtime/mprf/registry.py\<close>: the constructor with its loop over
  the admissions, the projection of an admission to an eligibility fact, and the export of the
  eligibility snapshot the router reads. A registry \<open>r\<close> with \<open>registry_ok r\<close> is one built by
  the constructor from records built by theirs.
\<close>

definition REGISTRY_SCHEMA_V1 :: string where "REGISTRY_SCHEMA_V1 = ''mprf.provider-model-registry.v1''"

record registry =
  rg_schema_version :: string
  rg_registry_id :: string
  rg_registry_version :: int
  rg_providers :: "provider_record list"
  rg_models :: "model_record list"
  rg_admissions :: "admission_record list"

abbreviation model_key :: "model_record \<Rightarrow> string \<times> string" where
  "model_key m \<equiv> (mr_provider_id m, mr_model_ref m)"

definition admission_key :: "admission_record \<Rightarrow> string \<times> string \<times> int" where
  "admission_key a = (ar_provider_id a, ar_model_ref a, ar_registry_version a)"

text \<open>The loop over the admissions: \<open>admission_keys\<close> and \<open>current_provider_ids\<close> are its two sets.\<close>

fun check_admissions ::
  "int \<Rightarrow> (string \<times> string) set \<Rightarrow> (string \<times> string \<times> int) set \<Rightarrow> string set \<Rightarrow> admission_record list \<Rightarrow>
   unit result" where
  "check_admissions version model_key_set admission_keys current_provider_ids [] = Inr ()"
| "check_admissions version model_key_set admission_keys current_provider_ids (item # items) =
     (if admission_key item \<in> admission_keys then Inl (MPRFContractError ''duplicate admission record'')
      else if (ar_provider_id item, ar_model_ref item) \<notin> model_key_set
      then Inl (MPRFContractError ''admission references unknown model'')
      else if ar_registry_version item > version
      then Inl (MPRFContractError ''future admission version is invalid'')
      else if ar_registry_version item = version
      then if ar_provider_id item \<in> current_provider_ids
           then Inl (MPRFContractError ''conflicting current admission for provider'')
           else check_admissions version model_key_set (insert (admission_key item) admission_keys)
                  (insert (ar_provider_id item) current_provider_ids) items
      else check_admissions version model_key_set (insert (admission_key item) admission_keys)
             current_provider_ids items)"

definition registry_init :: "registry \<Rightarrow> registry result" where
  "registry_init r =
     (let provider_ids = map pr_provider_id (rg_providers r);
          model_keys = map model_key (rg_models r);
          admission_ids = map ar_admission_id (rg_admissions r)
      in rbind (guards
        [(rg_schema_version r \<noteq> REGISTRY_SCHEMA_V1, MPRFContractError ''unsupported registry schema''),
         (py_strip (rg_registry_id r) = [], MPRFContractError ''registry_id must be non-empty''),
         (rg_registry_version r < 1, MPRFContractError ''registry_version must be positive''),
         (provider_ids = [] \<or> \<not> distinct provider_ids,
          MPRFContractError ''registry provider identities must be non-empty and unique''),
         (\<not> distinct model_keys, MPRFContractError ''duplicate model identity''),
         (list_ex (\<lambda>k. fst k \<notin> set provider_ids) model_keys,
          MPRFContractError ''model references unknown provider''),
         (\<not> distinct admission_ids, MPRFContractError ''duplicate admission identity'')]) (\<lambda>_.
      rbind (check_admissions (rg_registry_version r) (set model_keys) {} {} (rg_admissions r)) (\<lambda>_. Inr r)))"

definition historical_admissions :: "registry \<Rightarrow> string \<Rightarrow> string \<Rightarrow> admission_record list" where
  "historical_admissions r provider_id model_ref =
     filter (\<lambda>item. ar_provider_id item = provider_id \<and> (model_ref = [] \<or> ar_model_ref item = model_ref))
       (rg_admissions r)"

definition ineligible :: "registry \<Rightarrow> string \<Rightarrow> string \<Rightarrow> string \<Rightarrow> string \<Rightarrow> eligibility_fact_v1 result" where
  "ineligible r provider_id model_ref reason admission_id = eligibility_fact_init
     \<lparr>ef_schema_version = ELIGIBILITY_FACT_SCHEMA_V1, ef_provider_id = provider_id, ef_model_ref = model_ref,
      ef_registry_version = rg_registry_version r, ef_eligible = False, ef_reason_code = reason,
      ef_admission_id = admission_id\<rparr>"

definition eligibility_fact :: "registry \<Rightarrow> string \<Rightarrow> string \<Rightarrow> eligibility_fact_v1 result" where
  "eligibility_fact r provider_id model_ref =
     (if provider_id \<notin> set (map pr_provider_id (rg_providers r))
      then ineligible r provider_id model_ref ''UNKNOWN_PROVIDER'' []
      else if model_ref \<noteq> [] \<and> (provider_id, model_ref) \<notin> set (map model_key (rg_models r))
      then ineligible r provider_id model_ref ''UNKNOWN_MODEL'' []
      else
        let history = historical_admissions r provider_id model_ref;
            current = filter (\<lambda>item. ar_registry_version item = rg_registry_version r) history
        in case current of
          [] \<Rightarrow>
            let reason = (if history \<noteq> [] then ''STALE_ADMISSION'' else ''NO_ADMISSION'');
                stale_model = (if model_ref \<noteq> [] then model_ref
                               else if history \<noteq> [] then ar_model_ref (last history) else [])
            in ineligible r provider_id stale_model reason []
        | admission # _ \<Rightarrow>
            if ar_state admission = ADMISSION_DISABLED
            then ineligible r provider_id (ar_model_ref admission) ''ADMISSION_DISABLED'' (ar_admission_id admission)
            else if ar_state admission \<noteq> ADMISSION_ADMITTED
            then ineligible r provider_id (ar_model_ref admission) ''NO_ADMISSION'' (ar_admission_id admission)
            else eligibility_fact_init
              \<lparr>ef_schema_version = ELIGIBILITY_FACT_SCHEMA_V1, ef_provider_id = provider_id,
               ef_model_ref = ar_model_ref admission, ef_registry_version = rg_registry_version r,
               ef_eligible = True, ef_reason_code = ''ADMITTED'', ef_admission_id = ar_admission_id admission\<rparr>)"

text \<open>The facts of all providers, in the order of their identifiers.\<close>

definition provider_facts :: "registry \<Rightarrow> (string \<times> eligibility_fact_v1) list result" where
  "provider_facts r =
     rmap (\<lambda>provider. rbind (eligibility_fact r provider []) (\<lambda>f. Inr (provider, f)))
       (sort (map pr_provider_id (rg_providers r)))"

definition registry_export_router_snapshot ::
  "registry \<Rightarrow> string \<Rightarrow> string list \<Rightarrow> eligibility_snapshot result" where
  "registry_export_router_snapshot r snapshot_id evidence_refs =
     (if py_strip snapshot_id = [] then Inl (MPRFContractError ''snapshot_id must be non-empty'')
      else rbind (provider_facts r) (\<lambda>facts.
        eligibility_snapshot_init
          \<lparr>es_schema_version = ELIGIBILITY_SCHEMA_V1, es_snapshot_id = snapshot_id,
           es_provider_eligible = map (\<lambda>pf. (fst pf, ef_eligible (snd pf))) facts,
           es_model_refs = map (\<lambda>pf. (fst pf, ef_model_ref (snd pf))) (filter (\<lambda>pf. ef_eligible (snd pf)) facts),
           es_evidence_refs = evidence_refs, es_failure_classes = None,
           es_model_fallback_refs = None, es_provider_capabilities = None\<rparr>))"

section \<open>The invariant of a registry\<close>

definition registry_ok :: "registry \<Rightarrow> bool" where
  "registry_ok r = (registry_init r = Inr r \<and>
     list_all (\<lambda>p. provider_record_init p = Inr p) (rg_providers r) \<and>
     list_all (\<lambda>m. model_record_init m = Inr m) (rg_models r) \<and>
     list_all (\<lambda>a. admission_record_init a = Inr a) (rg_admissions r))"

lemma check_admissions_iff:
  "check_admissions v ms ks cs as = Inr u \<longleftrightarrow>
     distinct (map admission_key as) \<and> (\<forall>a \<in> set as. admission_key a \<notin> ks) \<and>
     (\<forall>a \<in> set as. (ar_provider_id a, ar_model_ref a) \<in> ms \<and> ar_registry_version a \<le> v) \<and>
     distinct (map ar_provider_id (filter (\<lambda>a. ar_registry_version a = v) as)) \<and>
     (\<forall>a \<in> set as. ar_registry_version a = v \<longrightarrow> ar_provider_id a \<notin> cs)"
  by (induction v ms ks cs as rule: check_admissions.induct) (auto simp: image_iff, metis+)

lemma registry_init_iff:
  "registry_init r = Inr r' \<longleftrightarrow> r' = r \<and> rg_schema_version r = REGISTRY_SCHEMA_V1 \<and>
     py_strip (rg_registry_id r) \<noteq> [] \<and> 1 \<le> rg_registry_version r \<and>
     rg_providers r \<noteq> [] \<and> distinct (map pr_provider_id (rg_providers r)) \<and>
     distinct (map model_key (rg_models r)) \<and>
     (\<forall>m \<in> set (rg_models r). mr_provider_id m \<in> pr_provider_id ` set (rg_providers r)) \<and>
     distinct (map ar_admission_id (rg_admissions r)) \<and>
     distinct (map admission_key (rg_admissions r)) \<and>
     (\<forall>a \<in> set (rg_admissions r). (ar_provider_id a, ar_model_ref a) \<in> model_key ` set (rg_models r) \<and>
        ar_registry_version a \<le> rg_registry_version r) \<and>
     distinct (map ar_provider_id (filter (\<lambda>a. ar_registry_version a = rg_registry_version r) (rg_admissions r)))"
  unfolding registry_init_def Let_def by (auto simp: guards_eq_Inr check_admissions_iff list_ex_iff)

text \<open>The admissions that are in force: current, for this provider and, if given, this model.\<close>

definition admitted :: "registry \<Rightarrow> string \<Rightarrow> string \<Rightarrow> admission_record \<Rightarrow> bool" where
  "admitted r p m a = (a \<in> set (rg_admissions r) \<and> ar_provider_id a = p \<and> (m = [] \<or> ar_model_ref a = m) \<and>
     ar_registry_version a = rg_registry_version r \<and> ar_state a = ADMISSION_ADMITTED)"

lemma current_admission_unique:
  assumes "registry_ok r" "a \<in> set (rg_admissions r)" "b \<in> set (rg_admissions r)"
    "ar_provider_id a = ar_provider_id b" "ar_registry_version a = rg_registry_version r"
    "ar_registry_version b = rg_registry_version r"
  shows "a = b"
proof -
  have "distinct (map ar_provider_id (filter (\<lambda>a. ar_registry_version a = rg_registry_version r) (rg_admissions r)))"
    using assms(1) by (simp add: registry_ok_def registry_init_iff)
  then have "inj_on ar_provider_id {a \<in> set (rg_admissions r). ar_registry_version a = rg_registry_version r}"
    by (simp add: distinct_map)
  then show ?thesis using assms(2-6) by (auto dest: inj_onD)
qed

lemma registry_okD:
  assumes "registry_ok r"
  shows "1 \<le> rg_registry_version r" "distinct (map pr_provider_id (rg_providers r))"
    "p \<in> set (rg_providers r) \<Longrightarrow> provider_id_re (pr_provider_id p)"
    "a \<in> set (rg_admissions r) \<Longrightarrow> (ar_provider_id a, ar_model_ref a) \<in> model_key ` set (rg_models r)"
    "a \<in> set (rg_admissions r) \<Longrightarrow> ar_provider_id a \<in> pr_provider_id ` set (rg_providers r)"
    "a \<in> set (rg_admissions r) \<Longrightarrow> py_strip (ar_model_ref a) \<noteq> [] \<and> py_strip (ar_admission_id a) \<noteq> [] \<and>
       ar_state a \<in> ADMISSION_STATES_V1 \<and> provider_id_re (ar_provider_id a)"
  using assms unfolding registry_ok_def registry_init_iff list_all_iff
    provider_record_init_iff model_record_init_iff admission_record_init_iff by force+

lemma reasons_known [simp]:
  "''UNKNOWN_PROVIDER'' \<in> INELIGIBLE_REASONS_V1" "''UNKNOWN_MODEL'' \<in> INELIGIBLE_REASONS_V1"
  "''STALE_ADMISSION'' \<in> INELIGIBLE_REASONS_V1" "''NO_ADMISSION'' \<in> INELIGIBLE_REASONS_V1"
  "''ADMISSION_DISABLED'' \<in> INELIGIBLE_REASONS_V1"
  by (simp_all add: INELIGIBLE_REASONS_V1_def)

lemma ineligible_total:
  assumes "registry_ok r" "py_strip p \<noteq> []" "reason \<in> INELIGIBLE_REASONS_V1"
  shows "\<exists>f. ineligible r p m reason i = Inr f \<and> \<not> ef_eligible f \<and> ef_provider_id f = p \<and> ef_reason_code f = reason"
  using assms registry_okD(1) [OF assms(1)] by (simp add: ineligible_def eligibility_fact_init_iff)

lemma ineligible_not_eligible: "ineligible r p m reason i = Inr f \<Longrightarrow> \<not> ef_eligible f \<and> ef_provider_id f = p"
  by (auto simp: ineligible_def eligibility_fact_init_iff)

lemma py_strip_ne: "py_strip s \<noteq> [] \<Longrightarrow> s \<noteq> []"
  by auto

text \<open>The fact of a provider with an admission in force.\<close>

definition admitted_fact :: "registry \<Rightarrow> admission_record \<Rightarrow> eligibility_fact_v1" where
  "admitted_fact r a = \<lparr>ef_schema_version = ELIGIBILITY_FACT_SCHEMA_V1, ef_provider_id = ar_provider_id a,
     ef_model_ref = ar_model_ref a, ef_registry_version = rg_registry_version r, ef_eligible = True,
     ef_reason_code = ''ADMITTED'', ef_admission_id = ar_admission_id a\<rparr>"

lemma eligibility_fact_admitted:
  assumes ok: "registry_ok r" and a: "admitted r p m a"
  shows "eligibility_fact r p m = Inr (admitted_fact r a)"
proof -
  have mem: "a \<in> set (rg_admissions r)" and pa: "ar_provider_id a = p" and ma: "m = [] \<or> ar_model_ref a = m"
    and va: "ar_registry_version a = rg_registry_version r" and st: "ar_state a = ADMISSION_ADMITTED"
    using a by (auto simp: admitted_def)
  have dom: "p \<in> set (map pr_provider_id (rg_providers r))" using registry_okD(5) [OF ok mem] pa by simp
  have model: "\<not> (m \<noteq> [] \<and> (p, m) \<notin> set (map model_key (rg_models r)))"
    using registry_okD(4) [OF ok mem] pa ma by auto
  let ?cur = "filter (\<lambda>i. ar_registry_version i = rg_registry_version r) (historical_admissions r p m)"
  have "a \<in> set ?cur" using mem pa ma va by (auto simp: historical_admissions_def)
  moreover have "b = a" if "b \<in> set ?cur" for b
    using that mem pa va by (intro current_admission_unique [OF ok]) (auto simp: historical_admissions_def)
  ultimately obtain bs where cur: "?cur = a # bs" by (cases ?cur) auto
  have init: "eligibility_fact_init (admitted_fact r a) = Inr (admitted_fact r a)"
    using registry_okD(6) [OF ok mem] registry_okD(1) [OF ok] provider_id_stripped py_strip_ne
    by (auto simp: eligibility_fact_init_iff admitted_fact_def ELIGIBLE_REASON_def)
  show ?thesis
    using dom model st init unfolding eligibility_fact_def Let_def cur
    by (auto simp: pa admitted_fact_def ADMISSION_ADMITTED_def ADMISSION_DISABLED_def)
qed

definition is_ineligible :: "registry \<Rightarrow> string \<Rightarrow> eligibility_fact_v1 result \<Rightarrow> bool" where
  "is_ineligible r p x = (\<exists>m reason i. reason \<in> INELIGIBLE_REASONS_V1 \<and> x = ineligible r p m reason i)"

lemma is_ineligibleI [simp]: "reason \<in> INELIGIBLE_REASONS_V1 \<Longrightarrow> is_ineligible r p (ineligible r p m reason i)"
  by (auto simp: is_ineligible_def)

lemma eligibility_fact_cases: "is_ineligible r p (eligibility_fact r p m) \<or> (\<exists>a. admitted r p m a)"
proof (cases "filter (\<lambda>i. ar_registry_version i = rg_registry_version r) (historical_admissions r p m)")
  case Nil
  show ?thesis unfolding eligibility_fact_def Let_def Nil by simp
next
  case (Cons b bs)
  then have "b \<in> set (filter (\<lambda>i. ar_registry_version i = rg_registry_version r) (historical_admissions r p m))"
    by simp
  then have "admitted r p m b" if "ar_state b = ADMISSION_ADMITTED"
    using that by (auto simp: admitted_def historical_admissions_def)
  then show ?thesis unfolding eligibility_fact_def Let_def Cons by auto
qed

lemma eligibility_fact_not_admitted:
  assumes ok: "registry_ok r" and p: "py_strip p \<noteq> []" and a: "\<And>a. \<not> admitted r p m a"
  shows "\<exists>f. eligibility_fact r p m = Inr f \<and> \<not> ef_eligible f \<and> ef_provider_id f = p"
  using eligibility_fact_cases [of r p m] a ineligible_total [OF ok p]
  unfolding is_ineligible_def by metis

lemma eligibility_fact_eligible_iff:
  assumes ok: "registry_ok r"
  shows "eligibility_fact r p m = Inr f \<and> ef_eligible f \<longleftrightarrow> (\<exists>a. admitted r p m a \<and> f = admitted_fact r a)"
proof
  assume f: "eligibility_fact r p m = Inr f \<and> ef_eligible f"
  then obtain a where "admitted r p m a"
    using eligibility_fact_cases [of r p m] ineligible_not_eligible by (auto simp: is_ineligible_def)
  then show "\<exists>a. admitted r p m a \<and> f = admitted_fact r a"
    using eligibility_fact_admitted [OF ok] f by auto
next
  assume "\<exists>a. admitted r p m a \<and> f = admitted_fact r a"
  then show "eligibility_fact r p m = Inr f \<and> ef_eligible f"
    using eligibility_fact_admitted [OF ok] by (auto simp: admitted_fact_def)
qed

section \<open>The exported snapshot\<close>

lemma plain_snapshot_init:
  assumes "es_schema_version s = ELIGIBILITY_SCHEMA_V1" "es_snapshot_id s \<noteq> []"
    and "es_model_fallback_refs s = None" "es_provider_capabilities s = None"
    and "\<And>p. p \<in> fst ` set (es_provider_eligible s) \<union> fst ` set (es_model_refs s) \<Longrightarrow> provider_id_re p"
  shows "eligibility_snapshot_init s = Inr s"
  using assms by (auto simp: eligibility_snapshot_init_def dict_or_empty_def list_all_iff valid_provider_id_def
      provider_id_re_def)

lemma eligibility_fact_total:
  assumes ok: "registry_ok r" and "py_strip p \<noteq> []"
  shows "\<exists>f. eligibility_fact r p m = Inr f"
  using eligibility_fact_admitted [OF ok] eligibility_fact_not_admitted [OF assms] by blast

lemma provider_nonblank:
  "registry_ok r \<Longrightarrow> p \<in> set (map pr_provider_id (rg_providers r)) \<Longrightarrow> py_strip p \<noteq> []"
  using registry_okD(3) provider_id_stripped by auto

definition fact_of :: "registry \<Rightarrow> string \<Rightarrow> eligibility_fact_v1" where
  "fact_of r p = projr (eligibility_fact r p [])"

lemma eligibility_fact_of:
  assumes "registry_ok r" "p \<in> set (map pr_provider_id (rg_providers r))"
  shows "eligibility_fact r p [] = Inr (fact_of r p)"
  using eligibility_fact_total [OF assms(1) provider_nonblank [OF assms], of "[]"] by (auto simp: fact_of_def)

lemma provider_facts_eq:
  assumes ok: "registry_ok r"
  shows "provider_facts r = Inr (map (\<lambda>p. (p, fact_of r p)) (sort (map pr_provider_id (rg_providers r))))"
  unfolding provider_facts_def by (rule rmap_total) (simp add: eligibility_fact_of [OF ok])

lemma fact_of_eligible:
  assumes "registry_ok r" "p \<in> set (map pr_provider_id (rg_providers r))"
  shows "ef_eligible (fact_of r p) \<longleftrightarrow> (\<exists>a. admitted r p [] a)"
    and "admitted r p [] a \<Longrightarrow> fact_of r p = admitted_fact r a"
  using eligibility_fact_eligible_iff [OF assms(1), of p "[]"] eligibility_fact_of [OF assms]
    eligibility_fact_admitted [OF assms(1), of p "[]"] by auto

lemma admitted_provider:
  "registry_ok r \<Longrightarrow> admitted r p m a \<Longrightarrow> p \<in> set (map pr_provider_id (rg_providers r))"
  using registry_okD(5) by (fastforce simp: admitted_def)

lemma admitted_unique: "registry_ok r \<Longrightarrow> admitted r p m a \<Longrightarrow> admitted r p m' b \<Longrightarrow> a = b"
  by (rule current_admission_unique) (auto simp: admitted_def)

lemma admitted_model: "registry_ok r \<Longrightarrow> admitted r p m a \<Longrightarrow> py_strip (ar_model_ref a) \<noteq> []"
  using registry_okD(6) by (fastforce simp: admitted_def)

lemma map_of_map_keys: "map_of (map (\<lambda>k. (k, f k)) ks) k = (if k \<in> set ks then Some (f k) else None)"
  by (induction ks) auto

lemma map_of_map_filter_keys:
  "map_of (map (\<lambda>k. (k, f k)) (filter P ks)) k = (if k \<in> set ks \<and> P k then Some (f k) else None)"
  by (induction ks) auto

lemma registry_export_eq:
  assumes ok: "registry_ok r" and sid: "py_strip snapshot_id \<noteq> []"
  shows "registry_export_router_snapshot r snapshot_id evidence = Inr
    \<lparr>es_schema_version = ELIGIBILITY_SCHEMA_V1, es_snapshot_id = snapshot_id,
     es_provider_eligible = map (\<lambda>p. (p, ef_eligible (fact_of r p))) (sort (map pr_provider_id (rg_providers r))),
     es_model_refs = map (\<lambda>p. (p, ef_model_ref (fact_of r p)))
       (filter (\<lambda>p. ef_eligible (fact_of r p)) (sort (map pr_provider_id (rg_providers r)))),
     es_evidence_refs = evidence, es_failure_classes = None,
     es_model_fallback_refs = None, es_provider_capabilities = None\<rparr>"
proof -
  have id: "snapshot_id \<noteq> []" using sid by auto
  have f: "filter (\<lambda>pf. ef_eligible (snd pf)) (map (\<lambda>p. (p, fact_of r p)) ps) =
      map (\<lambda>p. (p, fact_of r p)) (filter (\<lambda>p. ef_eligible (fact_of r p)) ps)" for ps
    by (induction ps) auto
  show ?thesis
    unfolding registry_export_router_snapshot_def provider_facts_eq [OF ok]
    by (simp add: sid f comp_def)
      (rule plain_snapshot_init, auto simp: id registry_okD(3) [OF ok])
qed

text \<open>C28. The registry answers eligibility queries exactly by the admissions in force: a provider, with or
  without a model named, is eligible exactly when the registry holds an ADMITTED admission of the
  current registry version for it; that admission is then unique and is the one the fact reports.\<close>

theorem eligibility_fact_iff_admitted:
  assumes "registry_ok r"
  shows "(\<exists>f. eligibility_fact r p m = Inr f \<and> ef_eligible f \<and> ef_model_ref f = model \<and> ef_admission_id f = i) \<longleftrightarrow>
    (\<exists>!a. admitted r p m a) \<and> (\<exists>a. admitted r p m a \<and> ar_model_ref a = model \<and> ar_admission_id a = i)"
    (is "?L \<longleftrightarrow> ?R")
proof
  assume ?L
  then obtain f where f: "eligibility_fact r p m = Inr f \<and> ef_eligible f" "ef_model_ref f = model" "ef_admission_id f = i"
    by blast
  then obtain a where a: "admitted r p m a" "f = admitted_fact r a"
    unfolding eligibility_fact_eligible_iff [OF assms] by blast
  then have "\<exists>!a. admitted r p m a" using admitted_unique [OF assms] by blast
  moreover have "ar_model_ref a = model" "ar_admission_id a = i" using f a(2) by (simp_all add: admitted_fact_def)
  ultimately show ?R using a(1) by blast
next
  assume ?R
  then obtain a where a: "admitted r p m a" "ar_model_ref a = model" "ar_admission_id a = i" by blast
  then show ?L
    by (intro exI [of _ "admitted_fact r a"])
      (simp add: eligibility_fact_admitted [OF assms a(1)], simp add: admitted_fact_def)
qed

definition ex_registry :: registry where
  "ex_registry =
     \<lparr>rg_schema_version = REGISTRY_SCHEMA_V1, rg_registry_id = ''reg'', rg_registry_version = 2,
      rg_providers =
        [\<lparr>pr_schema_version = PROVIDER_RECORD_SCHEMA_V1, pr_provider_id = ''nvidia'', pr_record_version = 1\<rparr>,
         \<lparr>pr_schema_version = PROVIDER_RECORD_SCHEMA_V1, pr_provider_id = ''codex'', pr_record_version = 1\<rparr>],
      rg_models =
        [\<lparr>mr_schema_version = MODEL_RECORD_SCHEMA_V1, mr_provider_id = ''nvidia'', mr_model_ref = ''m1'',
          mr_record_version = 1\<rparr>,
         \<lparr>mr_schema_version = MODEL_RECORD_SCHEMA_V1, mr_provider_id = ''codex'', mr_model_ref = ''m2'',
          mr_record_version = 1\<rparr>],
      rg_admissions =
        [\<lparr>ar_schema_version = ADMISSION_RECORD_SCHEMA_V1, ar_admission_id = ''adm-1'', ar_provider_id = ''nvidia'',
          ar_model_ref = ''m1'', ar_registry_version = 2, ar_state = ADMISSION_ADMITTED\<rparr>,
         \<lparr>ar_schema_version = ADMISSION_RECORD_SCHEMA_V1, ar_admission_id = ''adm-2'', ar_provider_id = ''codex'',
          ar_model_ref = ''m2'', ar_registry_version = 1, ar_state = ADMISSION_ADMITTED\<rparr>]\<rparr>"

lemma ex_registry_ok: "registry_ok ex_registry"
  by (simp add: registry_ok_def registry_init_iff ex_registry_def provider_record_init_iff model_record_init_iff
      admission_record_init_iff provider_id_re_def ascii_alnum_def py_strip_def py_isspace_def admission_key_def
      ADMISSION_STATES_V1_def ADMISSION_ADMITTED_def)

theorem eligibility_fact_iff_admitted_witness:
  "registry_ok ex_registry \<and> (\<exists>!a. admitted ex_registry ''nvidia'' [] a) \<and>
   (\<exists>f. eligibility_fact ex_registry ''codex'' [] = Inr f \<and> \<not> ef_eligible f \<and> ef_reason_code f = ''STALE_ADMISSION'')"
proof -
  note ex = ex_registry_def eligibility_fact_def historical_admissions_def ADMISSION_ADMITTED_def ADMISSION_DISABLED_def
    eligibility_fact_init_iff ELIGIBLE_REASON_def py_strip_def py_isspace_def ineligible_def
  have "\<exists>f. eligibility_fact ex_registry ''nvidia'' [] = Inr f \<and> ef_eligible f \<and> ef_model_ref f = ''m1'' \<and>
      ef_admission_id f = ''adm-1''"
    by (simp add: ex)
  then have "\<exists>!a. admitted ex_registry ''nvidia'' [] a"
    unfolding eligibility_fact_iff_admitted [OF ex_registry_ok] ..
  moreover have "\<exists>f. eligibility_fact ex_registry ''codex'' [] = Inr f \<and> \<not> ef_eligible f \<and>
      ef_reason_code f = ''STALE_ADMISSION''"
    by (simp add: ex)
  ultimately show ?thesis using ex_registry_ok by blast
qed

end
