(* ===== verification/Versioned_Store.thy ===== *)
theory Versioned_Store
  imports Prelude
begin

text \<open>
  The contract of a store whose entries carry a version: an accepted update puts its entry under
  its key and leaves every other key alone, and replaces an entry only by a newer one. The
  lifecycle state of the runtime keeps this contract; the consequences for whole histories of updates
  are proved here once.
\<close>

locale versioned_store =
  fixes lookup :: "'s \<Rightarrow> 'k \<Rightarrow> 'v option"
    and key :: "'v \<Rightarrow> 'k"
    and version :: "'v \<Rightarrow> 'n::linorder"
    and step :: "'s \<Rightarrow> 'v \<Rightarrow> 's result"
  assumes lookup_step: "step s v = Inr s' \<Longrightarrow> lookup s' k = (if k = key v then Some v else lookup s k)"
    and step_newer: "step s v = Inr s' \<Longrightarrow> lookup s (key v) = Some w \<Longrightarrow> version w < version v"
begin

lemma run_monotone:
  assumes "rfold step s vs = Inr s'" "lookup s k = Some v"
  shows "\<exists>w. lookup s' k = Some w \<and> (w = v \<or> version v < version w)"
  using assms
proof (induction vs arbitrary: s v)
  case (Cons x xs)
  from Cons.prems(1) obtain t where t: "step s x = Inr t" "rfold step t xs = Inr s'" by auto
  show ?case
  proof (cases "k = key x")
    case True
    then have "lookup t k = Some x" by (simp add: lookup_step [OF t(1)])
    from Cons.IH [OF t(2) this] step_newer [OF t(1)] Cons.prems(2) True
    show ?thesis by (meson less_trans)
  next
    case False
    then have "lookup t k = Some v" using Cons.prems(2) by (simp add: lookup_step [OF t(1)])
    from Cons.IH [OF t(2) this] show ?thesis .
  qed
qed simp

text \<open>The last update of a key is the one the store holds.\<close>

lemma run_lookup:
  assumes "rfold step s vs = Inr s'"
  shows "lookup s' k = (case find (\<lambda>v. key v = k) (rev vs) of None \<Rightarrow> lookup s k | Some v \<Rightarrow> Some v)"
  using assms
proof (induction vs arbitrary: s' rule: rev_induct)
  case (snoc x xs)
  from snoc.prems obtain t where t: "rfold step s xs = Inr t" "step t x = Inr s'"
    by (auto simp: rfold_append)
  show ?case using snoc.IH [OF t(1)] lookup_step [OF t(2), of k] by auto
qed simp

text \<open>No update is accepted a second time in one history.\<close>

lemma run_no_replay:
  assumes "rfold step s vs = Inr s'"
  shows "distinct vs"
  using assms
proof (induction vs arbitrary: s)
  case (Cons x xs)
  from Cons.prems obtain t where t: "step s x = Inr t" "rfold step t xs = Inr s'" by auto
  have "x \<notin> set xs"
  proof
    assume "x \<in> set xs"
    then obtain ys zs where xs: "xs = ys @ x # zs" by (meson split_list)
    obtain u u' where u: "rfold step t ys = Inr u" "step u x = Inr u'"
      using t(2) by (auto simp: xs rfold_append)
    have "lookup t (key x) = Some x" by (simp add: lookup_step [OF t(1)])
    from run_monotone [OF u(1) this] obtain w where "lookup u (key x) = Some w" "w = x \<or> version x < version w"
      by blast
    with step_newer [OF u(2)] show False by fastforce
  qed
  with Cons.IH [OF t(2)] show ?case by simp
qed simp

end

end
