(* ===== verification/Mprf_Lifecycle.thy ===== *)
theory Mprf_Lifecycle
  imports Mprf_Contracts Versioned_Store
begin

text \<open>
  Lifecycle facts and the lifecycle state of the runtime, \<open>src/runtime/mprf/lifecycle.py\<close>. A frozen set of
  capability names is a \<open>string set\<close>; the iterable it is built from is a list of Python values.
  The state is the tuple of facts with its version; \<open>transition\<close> is its only operation. The theory
  interprets \<open>versioned_store\<close> on it.
\<close>

section \<open>Constants\<close>

definition LIFECYCLE_FACT_SCHEMA_V1 :: string where "LIFECYCLE_FACT_SCHEMA_V1 = ''mprf.lifecycle-fact.v1''"
definition LIFECYCLE_STATE_SCHEMA_V1 :: string where "LIFECYCLE_STATE_SCHEMA_V1 = ''mprf.lifecycle-state.v1''"

definition HEALTHY :: string where "HEALTHY = ''HEALTHY''"
definition STALE :: string where "STALE = ''STALE''"
definition UNKNOWN :: string where "UNKNOWN = ''UNKNOWN''"
definition HEALTH_STATES_V1 :: "string set" where "HEALTH_STATES_V1 = {HEALTHY, STALE, UNKNOWN}"

definition QUOTA_AVAILABLE :: string where "QUOTA_AVAILABLE = ''AVAILABLE''"
definition QUOTA_EXHAUSTED :: string where "QUOTA_EXHAUSTED = ''EXHAUSTED''"
definition QUOTA_UNKNOWN :: string where "QUOTA_UNKNOWN = ''UNKNOWN''"
definition QUOTA_STATES_V1 :: "string set" where
  "QUOTA_STATES_V1 = {QUOTA_AVAILABLE, QUOTA_EXHAUSTED, QUOTA_UNKNOWN}"

definition RATE_AVAILABLE :: string where "RATE_AVAILABLE = ''AVAILABLE''"
definition RATE_LIMITED :: string where "RATE_LIMITED = ''LIMITED''"
definition RATE_UNKNOWN :: string where "RATE_UNKNOWN = ''UNKNOWN''"
definition RATE_STATES_V1 :: "string set" where "RATE_STATES_V1 = {RATE_AVAILABLE, RATE_LIMITED, RATE_UNKNOWN}"

definition LIFECYCLE_OK :: string where "LIFECYCLE_OK = ''LIFECYCLE_OK''"
definition STALE_LIFECYCLE_VERSION :: string where "STALE_LIFECYCLE_VERSION = ''STALE_LIFECYCLE_VERSION''"
definition STALE_HEALTH :: string where "STALE_HEALTH = ''STALE_HEALTH''"
definition UNKNOWN_HEALTH :: string where "UNKNOWN_HEALTH = ''UNKNOWN_HEALTH''"
definition QUOTA_EXHAUSTED_REASON :: string where "QUOTA_EXHAUSTED_REASON = ''QUOTA_EXHAUSTED''"
definition UNKNOWN_QUOTA :: string where "UNKNOWN_QUOTA = ''UNKNOWN_QUOTA''"
definition RATE_LIMITED_REASON :: string where "RATE_LIMITED_REASON = ''RATE_LIMITED''"
definition UNKNOWN_RATE :: string where "UNKNOWN_RATE = ''UNKNOWN_RATE''"
definition CAPABILITY_MISSING :: string where "CAPABILITY_MISSING = ''CAPABILITY_MISSING''"

section \<open>Facts\<close>

definition require_positive_int :: "pyval \<Rightarrow> string \<Rightarrow> unit result" where
  "require_positive_int value field =
     (case value of
        PyInt i \<Rightarrow> if i < 1 then Inl (MPRFContractError (field @ '' must be a positive integer'')) else Inr ()
      | _ \<Rightarrow> Inl (MPRFContractError (field @ '' must be a positive integer'')))"

definition lifecycle_require_text :: "pyval \<Rightarrow> string \<Rightarrow> unit result" where
  "lifecycle_require_text value field =
     (case value of
        PyStr s \<Rightarrow> if py_strip s = [] then Inl (MPRFContractError (field @ '' must be a non-empty string''))
                   else Inr ()
      | _ \<Rightarrow> Inl (MPRFContractError (field @ '' must be a non-empty string'')))"

fun normalize_capabilities :: "pyval list \<Rightarrow> string set result" where
  "normalize_capabilities [] = Inr {}"
| "normalize_capabilities (value # values) =
     (case value of
        PyStr s \<Rightarrow> if py_strip s = [] then Inl (MPRFContractError ''capabilities must contain non-empty strings'')
                   else rbind (normalize_capabilities values) (\<lambda>normalized. Inr (insert (py_strip s) normalized))
      | _ \<Rightarrow> Inl (MPRFContractError ''capabilities must contain non-empty strings''))"

record lifecycle_fact =
  lf_schema_version :: string
  lf_provider_id :: string
  lf_model_ref :: string
  lf_registry_version :: int
  lf_lifecycle_version :: int
  lf_health_state :: string
  lf_quota_state :: string
  lf_rate_state :: string
  lf_capabilities :: "string set"

text \<open>The constructor: its argument \<open>capabilities\<close> is an iterable, the field a set; the other fields are
  those of \<open>f\<close>.\<close>

definition lifecycle_fact_init :: "lifecycle_fact \<Rightarrow> pyval list \<Rightarrow> lifecycle_fact result" where
  "lifecycle_fact_init f capabilities =
     (if lf_schema_version f \<noteq> LIFECYCLE_FACT_SCHEMA_V1
      then Inl (MPRFContractError ''unsupported lifecycle fact schema'')
      else rbind (validate_provider_id (PyStr (lf_provider_id f))) (\<lambda>_.
        rbind (lifecycle_require_text (PyStr (lf_model_ref f)) ''model_ref'') (\<lambda>_.
        rbind (require_positive_int (PyInt (lf_registry_version f)) ''registry_version'') (\<lambda>_.
        rbind (require_positive_int (PyInt (lf_lifecycle_version f)) ''lifecycle_version'') (\<lambda>_.
        rbind (guards
          [(lf_health_state f \<notin> HEALTH_STATES_V1, MPRFContractError ''unknown health state''),
           (lf_quota_state f \<notin> QUOTA_STATES_V1, MPRFContractError ''unknown quota state''),
           (lf_rate_state f \<notin> RATE_STATES_V1, MPRFContractError ''unknown rate state'')]) (\<lambda>_.
        rbind (normalize_capabilities capabilities) (\<lambda>caps.
        Inr (f\<lparr>lf_capabilities := caps\<rparr>))))))))"

text \<open>The optional version arguments of \<open>evaluate_lifecycle\<close>: a check that may raise, then a
  comparison.\<close>

definition version_gate :: "pyval option \<Rightarrow> string \<Rightarrow> (int \<Rightarrow> bool) \<Rightarrow> bool result" where
  "version_gate v field stale =
     (case v of None \<Rightarrow> Inr False
      | Some value \<Rightarrow> rbind (require_positive_int value field)
          (\<lambda>_. case value of PyInt i \<Rightarrow> Inr (stale i) | _ \<Rightarrow> Inr False))"

definition fact_verdict :: "lifecycle_fact \<Rightarrow> string set \<Rightarrow> bool \<times> string" where
  "fact_verdict this_fact required =
     (if lf_health_state this_fact = STALE then (False, STALE_HEALTH)
      else if lf_health_state this_fact \<noteq> HEALTHY then (False, UNKNOWN_HEALTH)
      else if lf_quota_state this_fact = QUOTA_EXHAUSTED then (False, QUOTA_EXHAUSTED_REASON)
      else if lf_quota_state this_fact \<noteq> QUOTA_AVAILABLE then (False, UNKNOWN_QUOTA)
      else if lf_rate_state this_fact = RATE_LIMITED then (False, RATE_LIMITED_REASON)
      else if lf_rate_state this_fact \<noteq> RATE_AVAILABLE then (False, UNKNOWN_RATE)
      else if \<not> required \<subseteq> lf_capabilities this_fact then (False, CAPABILITY_MISSING)
      else (True, LIFECYCLE_OK))"

definition evaluate_lifecycle ::
  "lifecycle_fact \<Rightarrow> pyval list \<Rightarrow> pyval option \<Rightarrow> pyval option \<Rightarrow> (bool \<times> string) result" where
  "evaluate_lifecycle this_fact required_capabilities expected_registry_version minimum_lifecycle_version =
     rbind (normalize_capabilities required_capabilities) (\<lambda>required.
     rbind (version_gate expected_registry_version ''expected_registry_version''
              (\<lambda>v. lf_registry_version this_fact \<noteq> v)) (\<lambda>stale.
     if stale then Inr (False, STALE_LIFECYCLE_VERSION)
     else rbind (version_gate minimum_lifecycle_version ''minimum_lifecycle_version''
              (\<lambda>v. lf_lifecycle_version this_fact < v)) (\<lambda>stale.
     if stale then Inr (False, STALE_LIFECYCLE_VERSION)
     else Inr (fact_verdict this_fact required))))"

section \<open>The lifecycle state\<close>

record lifecycle_state =
  ls_schema_version :: string
  ls_state_version :: int
  ls_facts :: "lifecycle_fact list"

abbreviation identity :: "lifecycle_fact \<Rightarrow> string \<times> string" where
  "identity f \<equiv> (lf_provider_id f, lf_model_ref f)"

definition lifecycle_state_init :: "lifecycle_state \<Rightarrow> lifecycle_state result" where
  "lifecycle_state_init s =
     (if ls_schema_version s \<noteq> LIFECYCLE_STATE_SCHEMA_V1
      then Inl (MPRFContractError ''unsupported lifecycle state schema'')
      else rbind (require_positive_int (PyInt (ls_state_version s)) ''state_version'') (\<lambda>_.
        if \<not> distinct (map identity (ls_facts s)) then Inl (MPRFContractError ''duplicate lifecycle identity'')
        else Inr s))"

definition fact_for :: "lifecycle_state \<Rightarrow> string \<Rightarrow> string \<Rightarrow> lifecycle_fact option" where
  "fact_for s provider_id model_ref =
     find (\<lambda>item. lf_provider_id item = provider_id \<and> lf_model_ref item = model_ref) (ls_facts s)"

definition version_check :: "lifecycle_fact option \<Rightarrow> lifecycle_fact \<Rightarrow> unit result" where
  "version_check current next_fact =
     (case current of
        None \<Rightarrow> if lf_lifecycle_version next_fact \<noteq> 1
                then Inl (MPRFContractError ''new lifecycle identity must start at version 1'') else Inr ()
      | Some c \<Rightarrow>
          if lf_registry_version next_fact < lf_registry_version c
          then Inl (MPRFContractError ''registry version cannot move backwards'')
          else if lf_registry_version next_fact = lf_registry_version c
          then if lf_lifecycle_version next_fact \<noteq> lf_lifecycle_version c + 1
               then Inl (MPRFContractError ''lifecycle version must advance exactly once'') else Inr ()
          else if lf_lifecycle_version next_fact \<noteq> 1
          then Inl (MPRFContractError ''new registry binding must reset lifecycle version to 1'')
          else Inr ())"

definition transition :: "lifecycle_state \<Rightarrow> lifecycle_fact \<Rightarrow> lifecycle_state result" where
  "transition s next_fact =
     rbind (version_check (fact_for s (lf_provider_id next_fact) (lf_model_ref next_fact)) next_fact) (\<lambda>_.
     let facts = filter (\<lambda>item. identity item \<noteq> identity next_fact) (ls_facts s) @ [next_fact] in
     lifecycle_state_init
       \<lparr>ls_schema_version = LIFECYCLE_STATE_SCHEMA_V1, ls_state_version = ls_state_version s + 1,
        ls_facts = sort_key identity facts\<rparr>)"

section \<open>Facts about the operations\<close>

lemma require_positive_int_iff [simp]: "require_positive_int v f = Inr u \<longleftrightarrow> (\<exists>i. v = PyInt i \<and> 1 \<le> i)"
  by (cases v) (auto simp: require_positive_int_def)

lemma lifecycle_require_text_iff [simp]:
  "lifecycle_require_text v f = Inr u \<longleftrightarrow> (\<exists>s. v = PyStr s \<and> py_strip s \<noteq> [])"
  by (cases v) (simp_all add: lifecycle_require_text_def)

lemma normalize_capabilities_iff:
  "normalize_capabilities vs = Inr caps \<longleftrightarrow>
     (\<exists>ss. vs = map PyStr ss \<and> (\<forall>s \<in> set ss. py_strip s \<noteq> []) \<and> caps = py_strip ` set ss)"
proof (induction vs arbitrary: caps)
  case (Cons v vs)
  show ?case
  proof (cases v)
    case (PyStr s)
    show ?thesis
    proof
      assume "normalize_capabilities (v # vs) = Inr caps"
      with PyStr Cons.IH obtain ss where "py_strip s \<noteq> []" "vs = map PyStr ss"
        "\<forall>s \<in> set ss. py_strip s \<noteq> []" "caps = insert (py_strip s) (py_strip ` set ss)" by auto
      then show "\<exists>ss. v # vs = map PyStr ss \<and> (\<forall>s \<in> set ss. py_strip s \<noteq> []) \<and> caps = py_strip ` set ss"
        using PyStr by (intro exI [of _ "s # ss"]) simp
    next
      assume "\<exists>ss. v # vs = map PyStr ss \<and> (\<forall>s \<in> set ss. py_strip s \<noteq> []) \<and> caps = py_strip ` set ss"
      then show "normalize_capabilities (v # vs) = Inr caps"
        using PyStr by (auto simp: Cons_eq_map_conv Cons.IH) blast
    qed
  qed auto
qed auto

lemma lifecycle_state_init_iff:
  "lifecycle_state_init s = Inr s' \<longleftrightarrow> s' = s \<and> ls_schema_version s = LIFECYCLE_STATE_SCHEMA_V1 \<and>
     1 \<le> ls_state_version s \<and> distinct (map identity (ls_facts s))"
  by (auto simp: lifecycle_state_init_def)

text \<open>Lookup by identity.\<close>

definition lookup_fact :: "lifecycle_state \<Rightarrow> string \<times> string \<Rightarrow> lifecycle_fact option" where
  "lookup_fact s k = fact_for s (fst k) (snd k)"

definition fact_version :: "lifecycle_fact \<Rightarrow> int \<times> int" where
  "fact_version f = (lf_registry_version f, lf_lifecycle_version f)"

lemma find_identity:
  "find (\<lambda>item. lf_provider_id item = p \<and> lf_model_ref item = m) fs = find (\<lambda>item. identity item = (p, m)) fs"
  by (rule find_cong) auto

lemma transition_facts:
  assumes "transition s f = Inr s'"
  shows "distinct (map identity (ls_facts s'))" "sorted (map identity (ls_facts s'))"
    "set (ls_facts s') = insert f {g \<in> set (ls_facts s). identity g \<noteq> identity f}"
    "ls_state_version s' = ls_state_version s + 1" "ls_schema_version s' = LIFECYCLE_STATE_SCHEMA_V1"
  using assms by (auto simp: transition_def lifecycle_state_init_iff Let_def)

lemma lookup_transition:
  assumes "transition s f = Inr s'"
  shows "lookup_fact s' k = (if k = identity f then Some f else lookup_fact s k)"
proof -
  define g where "g = (\<lambda>f. identity f)"
  have g: "identity x = g x" for x by (simp add: g_def)
  let ?fs = "filter (\<lambda>item. g item \<noteq> g f) (ls_facts s) @ [f]"
  have s': "ls_facts s' = sort_key g ?fs" and d: "distinct (map g (sort_key g ?fs))"
    using assms unfolding transition_def Let_def g by (auto simp: lifecycle_state_init_iff g)
  have "find (\<lambda>x. g x = k) (sort_key g ?fs) = find (\<lambda>x. g x = k) ?fs"
    by (rule find_distinct_set) (use d in \<open>simp_all only: distinct_map_sort_key set_sort\<close>)
  also have "\<dots> = (if k = g f then Some f else find (\<lambda>x. g x = k) (ls_facts s))"
    by (rule find_filter_snoc)
  finally show ?thesis
    by (cases k) (simp add: lookup_fact_def fact_for_def s' find_identity g)
qed

lemma transition_newer:
  assumes "transition s f = Inr s'" "lookup_fact s (identity f) = Some g"
  shows "fact_version g < fact_version f"
  using assms
  by (auto simp: transition_def version_check_def lookup_fact_def fact_version_def less_prod_def split: if_splits)

interpretation lifecycle: versioned_store lookup_fact identity fact_version transition
  by unfold_locales (blast intro: lookup_transition transition_newer)+

text \<open>When \<open>transition\<close> accepts.\<close>

definition next_version_ok :: "lifecycle_fact option \<Rightarrow> lifecycle_fact \<Rightarrow> bool" where
  "next_version_ok current f =
     (case current of None \<Rightarrow> lf_lifecycle_version f = 1
      | Some c \<Rightarrow> (lf_registry_version f = lf_registry_version c \<and>
                   lf_lifecycle_version f = lf_lifecycle_version c + 1) \<or>
                  (lf_registry_version c < lf_registry_version f \<and> lf_lifecycle_version f = 1))"

lemma version_check_iff: "version_check c f = Inr u \<longleftrightarrow> next_version_ok c f"
  by (auto simp: version_check_def next_version_ok_def split: option.split)

lemma distinct_transition_facts:
  assumes "distinct (map identity fs)"
  shows "distinct (map identity (sort_key identity (filter (\<lambda>g. identity g \<noteq> identity f) fs @ [f])))"
  unfolding distinct_map_sort_key using assms by (auto simp: distinct_map inj_on_def)

lemma transition_accepts:
  assumes "lifecycle_state_init s = Inr s"
  shows "(\<exists>s'. transition s f = Inr s') \<longleftrightarrow> next_version_ok (lookup_fact s (identity f)) f"
proof -
  have inv: "1 \<le> ls_state_version s" "distinct (map identity (ls_facts s))"
    using assms by (auto simp: lifecycle_state_init_iff)
  show ?thesis
    using inv(1) distinct_transition_facts [OF inv(2), of f]
    by (simp add: transition_def version_check_iff lifecycle_state_init_iff Let_def lookup_fact_def)
qed

lemma evaluate_lifecycle_iff:
  "evaluate_lifecycle f (map PyStr ss) (Some (PyInt v)) None = Inr (True, reason) \<longleftrightarrow>
     (\<forall>s \<in> set ss. py_strip s \<noteq> []) \<and> 1 \<le> v \<and> lf_registry_version f = v \<and> lf_health_state f = HEALTHY \<and>
     lf_quota_state f = QUOTA_AVAILABLE \<and> lf_rate_state f = RATE_AVAILABLE \<and>
     py_strip ` set ss \<subseteq> lf_capabilities f \<and> reason = LIFECYCLE_OK"
proof -
  have inj: "map PyStr ss = map PyStr ss' \<longleftrightarrow> ss' = ss" for ss'
    by (metis inj_map_eq_map inj_def pyval.inject(3))
  show ?thesis
    by (auto simp: evaluate_lifecycle_def normalize_capabilities_iff inj version_gate_def fact_verdict_def
        HEALTHY_def STALE_def QUOTA_AVAILABLE_def QUOTA_EXHAUSTED_def RATE_AVAILABLE_def RATE_LIMITED_def
        split: if_splits)
qed

section \<open>Histories\<close>

lemma transition_ok: "transition s f = Inr s' \<Longrightarrow> 0 \<le> ls_state_version s \<Longrightarrow> lifecycle_state_init s' = Inr s'"
  using transition_facts [of s f s'] by (simp add: lifecycle_state_init_iff)

lemma run_state_version:
  "rfold transition s fs = Inr s' \<Longrightarrow> ls_state_version s' = ls_state_version s + int (length fs)"
  by (induction fs arbitrary: s) (auto dest: transition_facts(4))

lemma run_ok:
  assumes "rfold transition s fs = Inr s'" "lifecycle_state_init s = Inr s"
  shows "lifecycle_state_init s' = Inr s'"
  by (rule rfold_invariant [where I = "\<lambda>s. lifecycle_state_init s = Inr s", OF assms])
    (rule transition_ok, auto simp: lifecycle_state_init_iff)

text \<open>C4. A history of lifecycle transitions from a state the constructor accepts leads to such a state
  again (one fact per provider and model), advances the state version by one per transition, never
  accepts the same fact twice, holds for every identity the last fact applied to it, and never moves an
  identity back: its fact is unchanged or has a larger pair of registry and lifecycle version.\<close>

theorem lifecycle_history_monotone:
  assumes "lifecycle_state_init s = Inr s" and "rfold transition s fs = Inr s'"
  shows "lifecycle_state_init s' = Inr s' \<and> ls_state_version s' = ls_state_version s + int (length fs) \<and>
    distinct fs \<and>
    (\<forall>p m. fact_for s' p m =
       (case find (\<lambda>f. identity f = (p, m)) (rev fs) of None \<Rightarrow> fact_for s p m | Some f \<Rightarrow> Some f)) \<and>
    (\<forall>p m f. fact_for s p m = Some f \<longrightarrow>
       (\<exists>g. fact_for s' p m = Some g \<and> (g = f \<or> fact_version f < fact_version g)))"
proof (intro conjI allI impI)
  show "lifecycle_state_init s' = Inr s'" by (rule run_ok [OF assms(2,1)])
  show "ls_state_version s' = ls_state_version s + int (length fs)" by (rule run_state_version [OF assms(2)])
  show "distinct fs" by (rule lifecycle.run_no_replay [OF assms(2)])
  show "fact_for s' p m = (case find (\<lambda>f. identity f = (p, m)) (rev fs) of None \<Rightarrow> fact_for s p m | Some f \<Rightarrow> Some f)"
    for p m using lifecycle.run_lookup [OF assms(2), of "(p, m)"]
    by (simp add: lookup_fact_def cong: option.case_cong)
  show "\<exists>g. fact_for s' p m = Some g \<and> (g = f \<or> fact_version f < fact_version g)"
    if "fact_for s p m = Some f" for p m f
    using lifecycle.run_monotone [OF assms(2), of "(p, m)" f] that by (simp add: lookup_fact_def)
qed

definition ex_fact :: "int \<Rightarrow> int \<Rightarrow> lifecycle_fact" where
  "ex_fact r v = \<lparr>lf_schema_version = LIFECYCLE_FACT_SCHEMA_V1, lf_provider_id = ''nvidia'', lf_model_ref = ''m1'',
     lf_registry_version = r, lf_lifecycle_version = v, lf_health_state = HEALTHY,
     lf_quota_state = QUOTA_AVAILABLE, lf_rate_state = RATE_AVAILABLE, lf_capabilities = {''reasoning''}\<rparr>"

definition ex_lifecycle :: "lifecycle_fact list \<Rightarrow> int \<Rightarrow> lifecycle_state" where
  "ex_lifecycle fs v = \<lparr>ls_schema_version = LIFECYCLE_STATE_SCHEMA_V1, ls_state_version = v, ls_facts = fs\<rparr>"

lemma ex_lifecycle_run:
  "rfold transition (ex_lifecycle [ex_fact 1 1] 1) [ex_fact 1 2, ex_fact 2 1] = Inr (ex_lifecycle [ex_fact 2 1] 3)"
  by (simp add: transition_def version_check_def fact_for_def lifecycle_state_init_def require_positive_int_def
      ex_lifecycle_def ex_fact_def Let_def)

theorem lifecycle_history_monotone_witness:
  "lifecycle_state_init (ex_lifecycle [ex_fact 1 1] 1) = Inr (ex_lifecycle [ex_fact 1 1] 1) \<and>
   rfold transition (ex_lifecycle [ex_fact 1 1] 1) [ex_fact 1 2, ex_fact 2 1] = Inr (ex_lifecycle [ex_fact 2 1] 3) \<and>
   distinct [ex_fact 1 2, ex_fact 2 1] \<and> ls_state_version (ex_lifecycle [ex_fact 2 1] 3) = 1 + int (length [ex_fact 1 2, ex_fact 2 1])"
proof -
  have init: "lifecycle_state_init (ex_lifecycle [ex_fact 1 1] 1) = Inr (ex_lifecycle [ex_fact 1 1] 1)"
    by (simp add: lifecycle_state_init_iff ex_lifecycle_def)
  from lifecycle_history_monotone [OF init ex_lifecycle_run] init ex_lifecycle_run show ?thesis
    by (simp add: ex_lifecycle_def)
qed

text \<open>A transition is accepted exactly when the new fact is the next one of its identity: version 1 for a new
  identity, the successor within the same registry version, or version 1 again under a newer registry version.
  Facts of other identities stay as they are.\<close>

theorem lifecycle_transition_accepts_next:
  assumes "lifecycle_state_init s = Inr s"
  shows "((\<exists>s'. transition s f = Inr s') \<longleftrightarrow> next_version_ok (fact_for s (lf_provider_id f) (lf_model_ref f)) f) \<and>
    (\<forall>s' p m. transition s f = Inr s' \<longrightarrow>
      fact_for s' p m = (if (p, m) = identity f then Some f else fact_for s p m) \<and>
      sorted (map identity (ls_facts s')))"
proof (intro conjI allI impI)
  show "(\<exists>s'. transition s f = Inr s') \<longleftrightarrow> next_version_ok (fact_for s (lf_provider_id f) (lf_model_ref f)) f"
    using transition_accepts [OF assms, of f] by (simp add: lookup_fact_def)
  fix s' p m assume t: "transition s f = Inr s'"
  show "fact_for s' p m = (if (p, m) = identity f then Some f else fact_for s p m)"
    using lookup_transition [OF t, of "(p, m)"] by (simp add: lookup_fact_def)
  show "sorted (map identity (ls_facts s'))" by (rule transition_facts(2) [OF t])
qed

theorem lifecycle_transition_accepts_next_witness:
  "(\<exists>s'. transition (ex_lifecycle [ex_fact 1 1] 1) (ex_fact 1 2) = Inr s') \<and>
   \<not> (\<exists>s'. transition (ex_lifecycle [ex_fact 1 1] 1) (ex_fact 1 1) = Inr s') \<and>
   \<not> (\<exists>s'. transition (ex_lifecycle [ex_fact 1 1] 1) (ex_fact 2 2) = Inr s')"
proof -
  have init: "lifecycle_state_init (ex_lifecycle [ex_fact 1 1] 1) = Inr (ex_lifecycle [ex_fact 1 1] 1)"
    by (simp add: lifecycle_state_init_iff ex_lifecycle_def)
  show ?thesis
    unfolding lifecycle_transition_accepts_next [OF init, THEN conjunct1]
    by (simp add: next_version_ok_def fact_for_def ex_lifecycle_def ex_fact_def)
qed

end
