(* ===== verification/Mprf_Observability.thy ===== *)
theory Mprf_Observability
  imports Mprf_Contracts Sealing
begin

text \<open>
  Provider-runtime events and their append-only log, \<open>src/runtime/mprf/observability.py\<close>.

  The log file is the list of its lines as the file iterator of \<open>append\<close> yields them, each with what \<open>json.loads\<close> reads from
  it (\<open>None\<close> for a text it rejects) and from the pieces that \<open>read_all\<close>, which uses \<open>splitlines\<close>, makes of it. A
  line the store writes is the canonical text of an event (\<open>ensure_ascii=False\<close>): as a whole it reads back as the normal
  form of its dict (\<open>json_norm\<close>: keys sorted, tuples as lists), the content that \<open>dumps_eq_iff\<close> shows the text to
  determine; when the text contains U+0085, \<open>splitlines\<close> breaks it. The clock is a parameter. File locking, permissions
  and I/O errors are not modelled, and no fact is a float.
\<close>

definition EVENT_SCHEMA_V1 :: string where "EVENT_SCHEMA_V1 = ''mprf.provider-runtime-event.v1''"
definition CORRELATION_SCHEMA_V1 :: string where "CORRELATION_SCHEMA_V1 = ''mprf.correlation-projection.v1''"
definition SOURCE_DOMAIN :: string where "SOURCE_DOMAIN = ''MPRF_PROVIDER_RUNTIME''"
definition AUTHORITY_SCOPE :: string where "AUTHORITY_SCOPE = ''PROVIDER_RUNTIME_ONLY''"
definition EVENT_TYPES_V1 :: "string set" where
  "EVENT_TYPES_V1 = {''PROVIDER'', ''MODEL'', ''HEALTH'', ''QUOTA'', ''TRANSITION'', ''FAILOVER'', ''RETRY'',
     ''EXCLUSION''}"
definition FORBIDDEN_FACT_KEYS :: "string set" where
  "FORBIDDEN_FACT_KEYS = {''action'', ''action_state'', ''effect'', ''effect_id'', ''result'', ''result_digest'',
     ''receipt'', ''execution_result'', ''validation'', ''validation_result'', ''stdout'', ''stderr'', ''content'',
     ''prompt'', ''response'', ''authorization'', ''credentials'', ''credential'', ''secret'', ''token'', ''api_key'',
     ''commit'', ''push'', ''staged_tree'', ''exit_code''}"

section \<open>Facts\<close>

definition safe_text :: "string \<Rightarrow> string \<Rightarrow> unit result" where
  "safe_text value label =
     (if re_ident ''._:-'' 191 value then Inr () else Inl (MPRFObservabilityError (label @ '' is invalid'')))"

fun is_scalar :: "pyval \<Rightarrow> bool" where
  "is_scalar PyNone = True"
| "is_scalar (PyBool _) = True"
| "is_scalar (PyInt _) = True"
| "is_scalar (PyStr _) = True"
| "is_scalar _ = False"

definition safe_key :: "string \<Rightarrow> bool" where
  "safe_key raw_key =
     (let lowered = py_lower raw_key in
      raw_key \<noteq> [] \<and> lowered \<notin> FORBIDDEN_FACT_KEYS \<and> \<not> py_startswith lowered ''raw_'' \<and>
      \<not> list_ex (py_contains lowered) [''password'', ''credential'', ''secret'', ''token''])"

fun safe_value :: "pyval \<Rightarrow> pyval option" where
  "safe_value PyNone = Some PyNone"
| "safe_value (PyBool b) = Some (PyBool b)"
| "safe_value (PyInt i) = Some (PyInt i)"
| "safe_value (PyStr s) = (if length s \<le> 512 then Some (PyStr s) else None)"
| "safe_value (PyList vs) = (if length vs \<le> 32 \<and> list_all is_scalar vs then Some (PyList vs) else None)"
| "safe_value (PyTuple vs) = (if length vs \<le> 32 \<and> list_all is_scalar vs then Some (PyList vs) else None)"
| "safe_value (PyDict _) = None"

definition safe_item :: "string \<times> pyval \<Rightarrow> (string \<times> pyval) result" where
  "safe_item kv =
     (if \<not> safe_key (fst kv)
      then Inl (MPRFObservabilityError ''provider runtime facts contain action truth or secret material'')
      else case safe_value (snd kv) of
        None \<Rightarrow> Inl (MPRFObservabilityError ''provider runtime fact value is not durable-safe'')
      | Some v \<Rightarrow> Inr (fst kv, v))"

definition safe_facts :: "pyval \<Rightarrow> (string \<times> pyval) list result" where
  "safe_facts value =
     (case value of
        PyNone \<Rightarrow> Inr []
      | PyDict kvs \<Rightarrow> rmap safe_item kvs
      | _ \<Rightarrow> Inl (MPRFObservabilityError ''provider runtime facts must be a mapping''))"

section \<open>Events\<close>

record runtime_event =
  ev_schema_version :: string
  ev_project_id :: string
  ev_project_run_id :: string
  ev_task_id :: string
  ev_task_execution_id :: string
  ev_correlation_id :: string
  ev_operation_request_id :: string
  ev_provider_id :: string
  ev_model_ref :: string
  ev_event_type :: string
  ev_sequence :: int
  ev_occurred_at_utc :: string
  ev_facts :: "(string \<times> pyval) list"
  ev_source_domain :: string
  ev_authority_scope :: string
  ev_event_digest :: string

definition event_unsigned_dict :: "runtime_event \<Rightarrow> pyval" where
  "event_unsigned_dict e = PyDict
     [(''schema_version'', PyStr (ev_schema_version e)), (''project_id'', PyStr (ev_project_id e)),
      (''project_run_id'', PyStr (ev_project_run_id e)), (''task_id'', PyStr (ev_task_id e)),
      (''task_execution_id'', PyStr (ev_task_execution_id e)), (''correlation_id'', PyStr (ev_correlation_id e)),
      (''operation_request_id'', PyStr (ev_operation_request_id e)), (''provider_id'', PyStr (ev_provider_id e)),
      (''model_ref'', PyStr (ev_model_ref e)), (''event_type'', PyStr (ev_event_type e)),
      (''sequence'', PyInt (ev_sequence e)), (''occurred_at_utc'', PyStr (ev_occurred_at_utc e)),
      (''facts'', PyDict (ev_facts e)), (''source_domain'', PyStr (ev_source_domain e)),
      (''authority_scope'', PyStr (ev_authority_scope e))]"

text \<open>The constructor; its argument \<open>facts\<close> is any value, the field a dict.\<close>

definition event_init :: "runtime_event \<Rightarrow> pyval \<Rightarrow> runtime_event result" where
  "event_init e facts =
     (if ev_schema_version e \<noteq> EVENT_SCHEMA_V1
      then Inl (MPRFObservabilityError ''unsupported provider runtime event schema'')
      else rbind (rcheck (\<lambda>(value, label). safe_text value label)
        [(ev_project_id e, ''project_id''), (ev_project_run_id e, ''project_run_id''), (ev_task_id e, ''task_id''),
         (ev_task_execution_id e, ''task_execution_id''), (ev_correlation_id e, ''correlation_id''),
         (ev_operation_request_id e, ''operation_request_id'')]) (\<lambda>_.
      rbind (guards
        [(\<not> re_ident ''._:/-'' 255 (ev_model_ref e), MPRFObservabilityError ''model_ref is invalid''),
         (\<not> provider_id_re (ev_provider_id e), MPRFObservabilityError ''provider_id is invalid''),
         (ev_event_type e \<notin> EVENT_TYPES_V1,
          MPRFObservabilityError ''event_type is outside the closed provider-runtime taxonomy''),
         (ev_sequence e < 1, MPRFObservabilityError ''sequence must be positive''),
         (\<not> py_endswith (ev_occurred_at_utc e) ''Z'', MPRFObservabilityError ''occurred_at_utc is invalid''),
         (ev_source_domain e \<noteq> SOURCE_DOMAIN \<or> ev_authority_scope e \<noteq> AUTHORITY_SCOPE,
          MPRFObservabilityError ''provider runtime authority boundary is invalid'')]) (\<lambda>_.
      rbind (safe_facts facts) (\<lambda>safe.
      let e' = e\<lparr>ev_facts := safe\<rparr>; expected = digest (event_unsigned_dict e') in
      if ev_event_digest e \<noteq> [] \<and> (\<not> re_sha256 (ev_event_digest e) \<or> ev_event_digest e \<noteq> expected)
      then Inl (MPRFObservabilityError ''provider runtime event digest mismatch'')
      else Inr (e'\<lparr>ev_event_digest := expected\<rparr>)))))"

definition event_to_dict :: "runtime_event \<Rightarrow> (string \<times> pyval) list" where
  "event_to_dict e =
     [(''schema_version'', PyStr (ev_schema_version e)), (''project_id'', PyStr (ev_project_id e)),
      (''project_run_id'', PyStr (ev_project_run_id e)), (''task_id'', PyStr (ev_task_id e)),
      (''task_execution_id'', PyStr (ev_task_execution_id e)), (''correlation_id'', PyStr (ev_correlation_id e)),
      (''operation_request_id'', PyStr (ev_operation_request_id e)), (''provider_id'', PyStr (ev_provider_id e)),
      (''model_ref'', PyStr (ev_model_ref e)), (''event_type'', PyStr (ev_event_type e)),
      (''sequence'', PyInt (ev_sequence e)), (''occurred_at_utc'', PyStr (ev_occurred_at_utc e)),
      (''facts'', PyDict (ev_facts e)), (''source_domain'', PyStr (ev_source_domain e)),
      (''authority_scope'', PyStr (ev_authority_scope e)), (''event_digest'', PyStr (ev_event_digest e))]"

section \<open>Reading a line\<close>

text \<open>\<open>ProviderRuntimeEventV1(**existing)\<close>: unknown or missing keyword arguments raise \<open>TypeError\<close>, and so does a
  value of the wrong type sooner or later; the caller turns every exception into the same error.\<close>

definition EVENT_FIELDS :: "string list" where
  "EVENT_FIELDS = [''schema_version'', ''project_id'', ''project_run_id'', ''task_id'', ''task_execution_id'',
     ''correlation_id'', ''operation_request_id'', ''provider_id'', ''model_ref'', ''event_type'', ''sequence'',
     ''occurred_at_utc'', ''facts'', ''source_domain'', ''authority_scope'', ''event_digest'']"

definition arg_str :: "string \<Rightarrow> string option \<Rightarrow> (string \<times> pyval) list \<Rightarrow> string result" where
  "arg_str name dflt kvs =
     (case py_get kvs name of
        Some (PyStr s) \<Rightarrow> Inr s
      | Some _ \<Rightarrow> Inl (TypeError name)
      | None \<Rightarrow> (case dflt of None \<Rightarrow> Inl (TypeError name) | Some s \<Rightarrow> Inr s))"

definition arg_digest :: "(string \<times> pyval) list \<Rightarrow> string result" where
  "arg_digest kvs =
     (case py_get kvs ''event_digest'' of
        None \<Rightarrow> Inr []
      | Some (PyStr s) \<Rightarrow> Inr s
      | Some v \<Rightarrow> if py_truthy v then Inl (TypeError ''event_digest'') else Inr [])"

definition arg_int :: "string \<Rightarrow> (string \<times> pyval) list \<Rightarrow> int result" where
  "arg_int name kvs = (case py_get kvs name of Some (PyInt i) \<Rightarrow> Inr i | _ \<Rightarrow> Inl (TypeError name))"

definition arg_any :: "string \<Rightarrow> (string \<times> pyval) list \<Rightarrow> pyval result" where
  "arg_any name kvs = (case py_get kvs name of Some v \<Rightarrow> Inr v | None \<Rightarrow> Inl (TypeError name))"

definition event_of_mapping :: "pyval \<Rightarrow> runtime_event result" where
  "event_of_mapping existing =
     (case existing of
        PyDict kvs \<Rightarrow>
          if \<not> list_all (\<lambda>kv. fst kv \<in> set EVENT_FIELDS) kvs then Inl (TypeError ''unexpected keyword argument'')
          else
            rbind (arg_str ''schema_version'' None kvs) (\<lambda>schema.
            rbind (arg_str ''project_id'' None kvs) (\<lambda>project.
            rbind (arg_str ''project_run_id'' None kvs) (\<lambda>run.
            rbind (arg_str ''task_id'' None kvs) (\<lambda>task.
            rbind (arg_str ''task_execution_id'' None kvs) (\<lambda>execution.
            rbind (arg_str ''correlation_id'' None kvs) (\<lambda>correlation.
            rbind (arg_str ''operation_request_id'' None kvs) (\<lambda>operation.
            rbind (arg_str ''provider_id'' None kvs) (\<lambda>provider.
            rbind (arg_str ''model_ref'' None kvs) (\<lambda>model.
            rbind (arg_str ''event_type'' None kvs) (\<lambda>event_type.
            rbind (arg_int ''sequence'' kvs) (\<lambda>sequence.
            rbind (arg_str ''occurred_at_utc'' None kvs) (\<lambda>occurred.
            rbind (arg_any ''facts'' kvs) (\<lambda>facts.
            rbind (arg_str ''source_domain'' (Some SOURCE_DOMAIN) kvs) (\<lambda>domain.
            rbind (arg_str ''authority_scope'' (Some AUTHORITY_SCOPE) kvs) (\<lambda>scope.
            rbind (arg_digest kvs) (\<lambda>event_digest.
            event_init
              \<lparr>ev_schema_version = schema, ev_project_id = project, ev_project_run_id = run, ev_task_id = task,
               ev_task_execution_id = execution, ev_correlation_id = correlation,
               ev_operation_request_id = operation, ev_provider_id = provider, ev_model_ref = model,
               ev_event_type = event_type, ev_sequence = sequence, ev_occurred_at_utc = occurred, ev_facts = [],
               ev_source_domain = domain, ev_authority_scope = scope, ev_event_digest = event_digest\<rparr> facts))))))))))))))))
      | _ \<Rightarrow> Inl (TypeError ''argument after ** must be a mapping''))"

section \<open>The log\<close>

text \<open>A line ended by a newline. \<open>Plain\<close>: \<open>splitlines\<close> leaves it in one piece. \<open>Split\<close>: it is JSON with one of the other
  separators of \<open>splitlines\<close>, which can only be inside a string, so that the first piece is not JSON; reading stops there and
  never looks at the other pieces. \<open>Broken\<close>: it has such a separator and is not JSON; its pieces may be.\<close>

datatype log_line = Plain "pyval option" | Split pyval | Broken "pyval option list"

fun whole_line :: "log_line \<Rightarrow> pyval option" where
  "whole_line (Plain v) = v"
| "whole_line (Split v) = Some v"
| "whole_line (Broken vs) = None"

fun line_pieces :: "log_line \<Rightarrow> pyval option list" where
  "line_pieces (Plain v) = [v]"
| "line_pieces (Split v) = [None]"
| "line_pieces (Broken vs) = vs"

definition event_line :: "runtime_event \<Rightarrow> log_line" where
  "event_line e =
     (let v = PyDict (event_to_dict e) in
      if CHR 0x85 \<in> set (dumps v) then Split (json_norm v) else Plain (Some (json_norm v)))"

record event_store =
  st_project_run_id :: string
  st_lines :: "log_line list"

text \<open>The loop of \<open>append\<close> over the existing lines.\<close>

fun last_sequence :: "string \<Rightarrow> int \<Rightarrow> log_line list \<Rightarrow> int result" where
  "last_sequence run sequence [] = Inr sequence"
| "last_sequence run sequence (line # lines) =
     (case whole_line line of
        None \<Rightarrow> Inl (MPRFObservabilityError ''existing provider runtime event log is malformed'')
      | Some existing \<Rightarrow>
          (case event_of_mapping existing of
             Inl _ \<Rightarrow> Inl (MPRFObservabilityError ''existing provider runtime event log is malformed'')
           | Inr event \<Rightarrow>
               if ev_project_run_id event \<noteq> run
               then Inl (MPRFObservabilityError ''existing provider runtime event run identity mismatch'')
               else last_sequence run (max sequence (ev_sequence event)) lines))"

text \<open>The arguments of \<open>append\<close>.\<close>

record event_args =
  ea_project_id :: string
  ea_task_id :: string
  ea_task_execution_id :: string
  ea_correlation_id :: string
  ea_operation_request_id :: string
  ea_provider_id :: string
  ea_model_ref :: string
  ea_event_type :: string
  ea_facts :: pyval

definition append_event :: "string \<Rightarrow> event_store \<Rightarrow> event_args \<Rightarrow> (runtime_event \<times> event_store) result" where
  "append_event now st a =
     rbind (safe_facts (ea_facts a)) (\<lambda>safe.
     rbind (last_sequence (st_project_run_id st) 0 (st_lines st)) (\<lambda>sequence.
     rbind (event_init
       \<lparr>ev_schema_version = EVENT_SCHEMA_V1, ev_project_id = ea_project_id a,
        ev_project_run_id = st_project_run_id st, ev_task_id = ea_task_id a,
        ev_task_execution_id = ea_task_execution_id a, ev_correlation_id = ea_correlation_id a,
        ev_operation_request_id = ea_operation_request_id a, ev_provider_id = ea_provider_id a,
        ev_model_ref = ea_model_ref a, ev_event_type = ea_event_type a, ev_sequence = sequence + 1,
        ev_occurred_at_utc = now, ev_facts = [], ev_source_domain = SOURCE_DOMAIN,
        ev_authority_scope = AUTHORITY_SCOPE, ev_event_digest = []\<rparr> (PyDict safe)) (\<lambda>event.
     Inr (event, st\<lparr>st_lines := st_lines st @ [event_line event]\<rparr>))))"

definition read_line :: "pyval option \<Rightarrow> runtime_event result" where
  "read_line line =
     (case line of
        None \<Rightarrow> Inl (MPRFObservabilityError ''provider runtime event log is malformed'')
      | Some v \<Rightarrow> (case event_of_mapping v of
          Inl _ \<Rightarrow> Inl (MPRFObservabilityError ''provider runtime event log is malformed'') | Inr e \<Rightarrow> Inr e))"

definition read_all :: "event_store \<Rightarrow> runtime_event list result" where
  "read_all st =
     rbind (rmap read_line (concat (map line_pieces (st_lines st)))) (\<lambda>out.
     if map ev_sequence out \<noteq> map int [1..<length out + 1]
     then Inl (MPRFObservabilityError ''provider runtime event sequence is not append-only'')
     else Inr out)"

definition correlation_projection :: "runtime_event \<Rightarrow> (string \<times> string) list" where
  "correlation_projection e =
     [(''schema_version'', CORRELATION_SCHEMA_V1), (''project_id'', ev_project_id e),
      (''project_run_id'', ev_project_run_id e), (''task_id'', ev_task_id e),
      (''task_execution_id'', ev_task_execution_id e), (''correlation_id'', ev_correlation_id e),
      (''operation_request_id'', ev_operation_request_id e), (''source_domain'', SOURCE_DOMAIN),
      (''authority_scope'', AUTHORITY_SCOPE)]"

section \<open>An event reads back\<close>

lemma sort_norm_idem: "json_norm (PyDict (sort_key fst kvs)) = json_norm (PyDict kvs)"
  by (simp only: json_norm.simps sort_key_map_snd sort_key_id_if_sorted sorted_sort_key)

lemma scalar_norm: "is_scalar v \<Longrightarrow> json_norm v = v"
  by (cases v) auto

lemma safe_value_idem: "safe_value v = Some v' \<Longrightarrow> safe_value v' = Some v' \<and> json_norm v' = v'"
  by (cases v) (auto split: if_splits simp: list_all_iff scalar_norm intro!: map_idI)

lemma safe_item_idem:
  "safe_item kv = Inr kv' \<Longrightarrow> safe_item kv' = Inr kv' \<and> json_norm (snd kv') = snd kv' \<and> safe_key (fst kv')"
  using safe_value_idem by (fastforce simp: safe_item_def split: if_splits option.splits)

lemma safe_facts_items:
  assumes "safe_facts v = Inr fs" "kv \<in> set fs"
  shows "safe_item kv = Inr kv \<and> json_norm (snd kv) = snd kv \<and> safe_key (fst kv)"
proof (cases v)
  case (PyDict kvs)
  then have "list_all2 (\<lambda>x y. safe_item x = Inr y) kvs fs" using assms(1) by (simp add: safe_facts_def rmap_eq_Inr)
  moreover obtain i where "i < length fs" "kv = fs ! i" using assms(2) by (auto simp: in_set_conv_nth)
  ultimately have "safe_item (kvs ! i) = Inr kv" by (simp add: list_all2_conv_all_nth)
  then show ?thesis by (rule safe_item_idem)
qed (use assms in \<open>auto simp: safe_facts_def\<close>)

lemma safe_facts_id: "(\<And>kv. kv \<in> set fs \<Longrightarrow> safe_item kv = Inr kv) \<Longrightarrow> safe_facts (PyDict fs) = Inr fs"
  using rmap_total [of fs safe_item id] by (simp add: safe_facts_def)

lemma norm_safe_facts:
  assumes "safe_facts v = Inr fs"
  shows "json_norm (PyDict fs) = PyDict (sort_key fst fs)"
proof -
  have "map (\<lambda>(k, v). (k, json_norm v)) fs = fs"
    using safe_facts_items [OF assms] by (intro map_idI) (auto simp: case_prod_unfold)
  then show ?thesis by (simp only: json_norm.simps)
qed

definition event_header_ok :: "runtime_event \<Rightarrow> bool" where
  "event_header_ok e = (ev_schema_version e = EVENT_SCHEMA_V1 \<and>
     (\<forall>s \<in> {ev_project_id e, ev_project_run_id e, ev_task_id e, ev_task_execution_id e, ev_correlation_id e,
        ev_operation_request_id e}. re_ident ''._:-'' 191 s) \<and>
     re_ident ''._:/-'' 255 (ev_model_ref e) \<and> provider_id_re (ev_provider_id e) \<and>
     ev_event_type e \<in> EVENT_TYPES_V1 \<and> 1 \<le> ev_sequence e \<and> py_endswith (ev_occurred_at_utc e) ''Z'' \<and>
     ev_source_domain e = SOURCE_DOMAIN \<and> ev_authority_scope e = AUTHORITY_SCOPE)"

lemma safe_text_iff [simp]: "safe_text v l = Inr u \<longleftrightarrow> re_ident ''._:-'' 191 v"
  by (simp add: safe_text_def)

lemma event_init_iff:
  "event_init e v = Inr e' \<longleftrightarrow> event_header_ok e \<and> (\<exists>fs. safe_facts v = Inr fs \<and>
     (ev_event_digest e \<noteq> [] \<longrightarrow> ev_event_digest e = digest (event_unsigned_dict (e\<lparr>ev_facts := fs\<rparr>))) \<and>
     e' = e\<lparr>ev_facts := fs, ev_event_digest := digest (event_unsigned_dict (e\<lparr>ev_facts := fs\<rparr>))\<rparr>)"
proof -
  have checks: "rcheck (\<lambda>(value, label). safe_text value label)
        [(ev_project_id e, ''project_id''), (ev_project_run_id e, ''project_run_id''), (ev_task_id e, ''task_id''),
         (ev_task_execution_id e, ''task_execution_id''), (ev_correlation_id e, ''correlation_id''),
         (ev_operation_request_id e, ''operation_request_id'')] = Inr u \<longleftrightarrow>
      (\<forall>s \<in> {ev_project_id e, ev_project_run_id e, ev_task_id e, ev_task_execution_id e, ev_correlation_id e,
        ev_operation_request_id e}. re_ident ''._:-'' 191 s)" for u
    by auto
  show ?thesis
    unfolding event_init_def event_header_ok_def Let_def
    by (auto simp: guards_eq_Inr checks simp del: rcheck_eq_Inr rcheck.simps)
qed

lemma unsigned_dict_digest_irrelevant:
  "event_unsigned_dict (e\<lparr>ev_event_digest := d\<rparr>) = event_unsigned_dict e"
  by (simp add: event_unsigned_dict_def)

lemma unsigned_dict_sorted_facts:
  "digest (event_unsigned_dict (e\<lparr>ev_facts := sort_key fst (ev_facts e)\<rparr>)) = digest (event_unsigned_dict e)"
  unfolding event_unsigned_dict_def
  by (rule digest_norm_cong, rule json_norm_dict_cong) (simp add: sort_norm_idem del: json_norm.simps(7))

text \<open>The dict of a line and what the keyword arguments read from it.\<close>

lemma event_dict_keys: "map fst (event_to_dict e) = EVENT_FIELDS"
  by (simp add: event_to_dict_def EVENT_FIELDS_def)

lemma event_fields_distinct: "distinct EVENT_FIELDS"
  by (simp add: EVENT_FIELDS_def)

lemma line_lookup:
  "py_get (sort_key fst (norm_values (event_to_dict e))) k = map_option json_norm (map_of (event_to_dict e) k)"
proof -
  have "distinct (map fst (norm_values (event_to_dict e)))"
    by (simp only: keys_norm_values event_dict_keys event_fields_distinct)
  then show ?thesis by (simp only: py_get_def map_of_sort_key map_of_norm_values)
qed

lemma line_keys: "list_all (\<lambda>kv. fst kv \<in> set EVENT_FIELDS) (sort_key fst (norm_values (event_to_dict e)))"
proof -
  have "fst ` set (norm_values (event_to_dict e)) = set EVENT_FIELDS"
    using arg_cong [where f = set, OF keys_norm_values [of "event_to_dict e"]] by (simp only: event_dict_keys set_map)
  then show ?thesis by (auto simp: list_all_iff)
qed

lemma event_reads_back:
  assumes "event_init e0 v = Inr e"
  shows "event_of_mapping (json_norm (PyDict (event_to_dict e))) = Inr (e\<lparr>ev_facts := sort_key fst (ev_facts e)\<rparr>)"
proof -
  obtain fs where hd: "event_header_ok e0" and fs: "safe_facts v = Inr fs"
    and e: "e = e0\<lparr>ev_facts := fs, ev_event_digest := digest (event_unsigned_dict (e0\<lparr>ev_facts := fs\<rparr>))\<rparr>"
    using assms by (auto simp: event_init_iff)
  have ef: "ev_facts e = fs" by (simp add: e)
  have dg: "ev_event_digest e = digest (event_unsigned_dict e)"
    by (simp add: e event_unsigned_dict_def)
  have sorted_ok: "safe_facts (PyDict (sort_key fst fs)) = Inr (sort_key fst fs)"
    by (rule safe_facts_id) (use safe_facts_items [OF fs] in auto)
  define L where "L = sort_key fst (norm_values (event_to_dict e))"
  have look: "py_get L k = map_option json_norm (map_of (event_to_dict e) k)" for k
    unfolding L_def by (rule line_lookup)
  have keys: "list_all (\<lambda>kv. fst kv \<in> set EVENT_FIELDS) L" unfolding L_def by (rule line_keys)
  have rec: "\<lparr>ev_schema_version = ev_schema_version e, ev_project_id = ev_project_id e,
      ev_project_run_id = ev_project_run_id e, ev_task_id = ev_task_id e, ev_task_execution_id = ev_task_execution_id e,
      ev_correlation_id = ev_correlation_id e, ev_operation_request_id = ev_operation_request_id e,
      ev_provider_id = ev_provider_id e, ev_model_ref = ev_model_ref e, ev_event_type = ev_event_type e,
      ev_sequence = ev_sequence e, ev_occurred_at_utc = ev_occurred_at_utc e, ev_facts = [],
      ev_source_domain = ev_source_domain e, ev_authority_scope = ev_authority_scope e,
      ev_event_digest = ev_event_digest e\<rparr> = e\<lparr>ev_facts := []\<rparr>" by simp
  have line: "event_of_mapping (PyDict L) = event_init (e\<lparr>ev_facts := []\<rparr>) (PyDict (sort_key fst fs))"
    using keys by (simp add: event_of_mapping_def arg_str_def arg_int_def arg_any_def arg_digest_def look
        event_to_dict_def norm_safe_facts [OF fs] ef rec del: json_norm.simps(7))
  have "event_init (e\<lparr>ev_facts := []\<rparr>) (PyDict (sort_key fst fs)) = Inr (e\<lparr>ev_facts := sort_key fst fs\<rparr>)"
  proof -
    have "event_header_ok (e\<lparr>ev_facts := []\<rparr>)" using hd by (simp add: e event_header_ok_def)
    moreover have "digest (event_unsigned_dict (e\<lparr>ev_facts := sort_key fst fs\<rparr>)) = ev_event_digest e"
      using unsigned_dict_sorted_facts [of e] dg by (simp add: ef)
    ultimately show ?thesis by (simp add: event_init_iff sorted_ok)
  qed
  then show ?thesis by (simp only: json_norm_dict L_def [symmetric] line ef)
qed

section \<open>Histories of the log\<close>

text \<open>Every line reads, as a whole, as an event of the run, numbered from 1.\<close>

abbreviation read_whole :: "log_line \<Rightarrow> runtime_event result" where
  "read_whole line \<equiv> read_line (whole_line line)"

definition log_ok :: "event_store \<Rightarrow> runtime_event list \<Rightarrow> bool" where
  "log_ok st es \<longleftrightarrow> rmap read_whole (st_lines st) = Inr es \<and> map ev_sequence es = map int [1..<length es + 1] \<and>
     list_all (\<lambda>e. ev_project_run_id e = st_project_run_id st) es"

lemma rmap_append: "rmap f (xs @ ys) = rbind (rmap f xs) (\<lambda>us. rbind (rmap f ys) (\<lambda>vs. Inr (us @ vs)))"
  by (induction xs) (auto simp: rbind_def split: sum.split)

lemma rmap_map: "rmap f (map g xs) = rmap (\<lambda>x. f (g x)) xs"
  by (induction xs) auto

lemma rmap_length: "rmap f xs = Inr ys \<Longrightarrow> length ys = length xs"
  by (simp add: rmap_eq_Inr list_all2_lengthD)

lemma read_line_error:
  "read_line l = Inl e \<Longrightarrow> e = MPRFObservabilityError ''provider runtime event log is malformed''"
  by (auto simp: read_line_def split: option.splits sum.splits)

lemma read_lines_error:
  "None \<in> set ls \<Longrightarrow> rmap read_line ls = Inl (MPRFObservabilityError ''provider runtime event log is malformed'')"
proof (induction ls)
  case (Cons l ls)
  show ?case
  proof (cases "read_line l")
    case (Inl e)
    with read_line_error [OF this] show ?thesis by (simp add: rbind_def)
  next
    case (Inr ev)
    then have "l \<noteq> None" by (cases l) (auto simp: read_line_def)
    with Cons Inr show ?thesis by (simp add: rbind_def)
  qed
qed simp

lemma last_sequence_read:
  assumes "rmap read_whole lines = Inr es" "list_all (\<lambda>e. ev_project_run_id e = run) es"
  shows "last_sequence run s lines = Inr (fold max (map ev_sequence es) s)"
  using assms
proof (induction lines arbitrary: es s)
  case (Cons line lines)
  then obtain e fs where "read_whole line = Inr e" "rmap read_whole lines = Inr fs" "es = e # fs" by auto
  with Cons show ?case
    by (auto simp: read_line_def max.commute split: option.splits sum.splits)
qed simp

lemma fold_max_upto: "fold max (map int [1..<n + 1]) 0 = int n"
  by (induction n) auto

lemma last_sequence_whole: "last_sequence run s lines = Inr n \<Longrightarrow> \<forall>l \<in> set lines. whole_line l \<noteq> None"
  by (induction lines arbitrary: s) (auto split: option.splits sum.splits if_splits)

text \<open>When both readers accept a log, they read the same.\<close>

definition split_line :: "log_line \<Rightarrow> bool" where
  "split_line l \<longleftrightarrow> (\<exists>v. l = Split v)"

lemma pieces_whole:
  assumes "\<forall>l \<in> set lines. whole_line l \<noteq> None \<and> \<not> split_line l"
  shows "concat (map line_pieces lines) = map whole_line lines"
  using assms
proof (induction lines)
  case (Cons l lines)
  then show ?case by (cases l) (auto simp: split_line_def)
qed simp

lemma read_all_appendable:
  assumes "read_all st = Inr es" "list_all (\<lambda>e. ev_project_run_id e = st_project_run_id st) es"
    and "last_sequence (st_project_run_id st) 0 (st_lines st) = Inr n"
  shows "log_ok st es \<and> (\<forall>l \<in> set (st_lines st). \<not> split_line l)"
proof -
  have r: "rmap read_line (concat (map line_pieces (st_lines st))) = Inr es"
    "map ev_sequence es = map int [1..<length es + 1]"
    using assms(1) by (auto simp: read_all_def split: if_splits)
  have "None \<notin> set (concat (map line_pieces (st_lines st)))" using read_lines_error r(1) by force
  then have ns: "\<forall>l \<in> set (st_lines st). \<not> split_line l" by (force simp: split_line_def)
  then have "rmap read_whole (st_lines st) = Inr es"
    using r(1) pieces_whole last_sequence_whole [OF assms(3)] by (simp add: rmap_map)
  with r(2) assms(2) ns show ?thesis by (simp add: log_ok_def)
qed

lemma log_ok_read_all:
  assumes "log_ok st es"
  shows "read_all st = (if \<exists>l \<in> set (st_lines st). split_line l
    then Inl (MPRFObservabilityError ''provider runtime event log is malformed'') else Inr es)"
proof (cases "\<exists>l \<in> set (st_lines st). split_line l")
  case True
  then have "None \<in> set (concat (map line_pieces (st_lines st)))" by (force simp: split_line_def)
  from read_lines_error [OF this] True show ?thesis by (simp add: read_all_def rbind_def)
next
  case False
  have "whole_line l \<noteq> None" if "l \<in> set (st_lines st)" for l
    using assms that unfolding log_ok_def rmap_eq_Inr list_all2_conv_all_nth in_set_conv_nth
    by (auto simp: read_line_def split: option.splits)
  with False have "concat (map line_pieces (st_lines st)) = map whole_line (st_lines st)" by (intro pieces_whole) blast
  with False assms show ?thesis by (simp add: read_all_def log_ok_def rmap_map)
qed

text \<open>U+0085 in the line of an event comes from its facts or its timestamp.\<close>

lemma re_ident_no_nel:
  assumes "re_ident extra n s" "CHR 0x85 \<notin> set extra"
  shows "CHR 0x85 \<notin> set s"
proof -
  have "\<not> ascii_alnum CHR 0x85" by (simp add: ascii_alnum_def)
  then show ?thesis using assms by (cases s) (auto simp: list_all_iff)
qed

lemma safe_value_no_nel: "safe_value v = Some w \<Longrightarrow> no_nel w = no_nel v"
  by (cases v) (auto split: if_splits)

lemma safe_facts_no_nel:
  assumes "safe_facts v = Inr fs"
  shows "no_nel (PyDict fs) = no_nel v"
proof (cases v)
  case (PyDict kvs)
  have "fst y = fst x \<and> no_nel (snd y) = no_nel (snd x)" if "safe_item x = Inr y" for x y
    using that safe_value_no_nel by (auto simp: safe_item_def split: if_splits option.splits)
  moreover have "list_all2 (\<lambda>x y. safe_item x = Inr y) kvs fs" using assms PyDict by (simp add: safe_facts_def rmap_eq_Inr)
  ultimately have "list_all2 (\<lambda>x y. fst y = fst x \<and> no_nel (snd y) = no_nel (snd x)) kvs fs"
    by (auto elim: list_all2_mono)
  then have "list_all (\<lambda>(k, v). CHR 0x85 \<notin> set k \<and> no_nel v) fs = list_all (\<lambda>(k, v). CHR 0x85 \<notin> set k \<and> no_nel v) kvs"
    by induction auto
  then show ?thesis by (simp add: PyDict)
qed (use assms in \<open>auto simp: safe_facts_def\<close>)

lemma event_line_split:
  assumes "event_init e0 v = Inr e"
  shows "split_line (event_line e) \<longleftrightarrow> \<not> (CHR 0x85 \<notin> set (ev_occurred_at_utc e0) \<and> no_nel v)"
proof -
  obtain fs where hd: "event_header_ok e0" and fs: "safe_facts v = Inr fs"
    and e: "e = e0\<lparr>ev_facts := fs, ev_event_digest := digest (event_unsigned_dict (e0\<lparr>ev_facts := fs\<rparr>))\<rparr>"
    using assms by (auto simp: event_init_iff)
  have ids: "CHR 0x85 \<notin> set s" if "s \<in> {ev_project_id e0, ev_project_run_id e0, ev_task_id e0, ev_task_execution_id e0,
      ev_correlation_id e0, ev_operation_request_id e0, ev_model_ref e0, ev_provider_id e0}" for s
    using hd that re_ident_no_nel [of "''._:-''" 191 s] re_ident_no_nel [of "''._:/-''" 255 s]
      re_ident_no_nel [of "''._:-''" 127 s] by (auto simp: event_header_ok_def provider_id_re_def)
  have fixed: "CHR 0x85 \<notin> set (ev_schema_version e0)" "CHR 0x85 \<notin> set (ev_event_type e0)"
    "CHR 0x85 \<notin> set (ev_source_domain e0)" "CHR 0x85 \<notin> set (ev_authority_scope e0)"
    using hd by (auto simp: event_header_ok_def EVENT_SCHEMA_V1_def EVENT_TYPES_V1_def SOURCE_DOMAIN_def AUTHORITY_SCOPE_def)
  have "no_nel (PyDict (event_to_dict e)) \<longleftrightarrow> CHR 0x85 \<notin> set (ev_occurred_at_utc e0) \<and> no_nel (PyDict fs)"
    using ids fixed sha256_no_nel [OF re_sha256_digest] by (auto simp: event_to_dict_def e)
  then show ?thesis
    unfolding event_line_def Let_def dumps_nel_iff split_line_def safe_facts_no_nel [OF fs] by auto
qed

lemma event_line_whole: "whole_line (event_line e) = Some (json_norm (PyDict (event_to_dict e)))"
  by (simp add: event_line_def Let_def del: json_norm.simps)

lemma append_event_log:
  assumes ok: "log_ok st es" and app: "append_event now st a = Inr (e, st')"
  shows "log_ok st' (es @ [e\<lparr>ev_facts := sort_key fst (ev_facts e)\<rparr>])" "st_project_run_id st' = st_project_run_id st"
    "st_lines st' = st_lines st @ [event_line e]"
    "split_line (event_line e) \<longleftrightarrow> \<not> (CHR 0x85 \<notin> set now \<and> no_nel (ea_facts a))"
proof -
  have es: "rmap read_whole (st_lines st) = Inr es" "map ev_sequence es = map int [1..<length es + 1]"
    "list_all (\<lambda>e. ev_project_run_id e = st_project_run_id st) es" using ok by (auto simp: log_ok_def)
  have seq: "last_sequence (st_project_run_id st) 0 (st_lines st) = Inr (int (length es))"
    using last_sequence_read [OF es(1,3), of 0] es(2) fold_max_upto [of "length es"] by simp
  obtain h safe where s: "safe_facts (ea_facts a) = Inr safe" and h: "event_init h (PyDict safe) = Inr e"
    "ev_sequence h = int (length es) + 1" "ev_project_run_id h = st_project_run_id st" "ev_occurred_at_utc h = now"
    and st': "st' = st\<lparr>st_lines := st_lines st @ [event_line e]\<rparr>"
    using app by (auto simp: append_event_def seq)
  have e: "ev_sequence e = int (length es) + 1" "ev_project_run_id e = st_project_run_id st"
    using h by (auto simp: event_init_iff)
  show "st_project_run_id st' = st_project_run_id st" "st_lines st' = st_lines st @ [event_line e]" by (simp_all add: st')
  show "split_line (event_line e) \<longleftrightarrow> \<not> (CHR 0x85 \<notin> set now \<and> no_nel (ea_facts a))"
    unfolding event_line_split [OF h(1)] h(4) safe_facts_no_nel [OF s] by (rule refl)
  have "read_whole (event_line e) = Inr (e\<lparr>ev_facts := sort_key fst (ev_facts e)\<rparr>)"
    by (simp add: event_line_whole read_line_def event_reads_back [OF h(1)] del: json_norm.simps)
  then show "log_ok st' (es @ [e\<lparr>ev_facts := sort_key fst (ev_facts e)\<rparr>])"
    using es e by (auto simp: log_ok_def st' rmap_append)
qed

text \<open>A history: the appended events with the clock readings. A clean one has no U+0085 in a fact or a clock reading.\<close>

definition append_step :: "event_store \<Rightarrow> string \<times> event_args \<Rightarrow> event_store result" where
  "append_step st na = rbind (append_event (fst na) st (snd na)) (\<lambda>r. Inr (snd r))"

abbreviation clean_append :: "string \<times> event_args \<Rightarrow> bool" where
  "clean_append na \<equiv> CHR 0x85 \<notin> set (fst na) \<and> no_nel (ea_facts (snd na))"

lemma append_steps:
  assumes "rfold append_step st as = Inr st'" "log_ok st es"
  shows "\<exists>fs new. log_ok st' (es @ fs) \<and> length fs = length as \<and> st_project_run_id st' = st_project_run_id st \<and>
    st_lines st' = st_lines st @ new \<and> length new = length as \<and>
    ((\<exists>l \<in> set new. split_line l) \<longleftrightarrow> (\<exists>a \<in> set as. \<not> clean_append a))"
  using assms
proof (induction as arbitrary: st es)
  case Nil
  then show ?case by (intro exI [of _ "[]"]) simp
next
  case (Cons a as)
  then obtain t where step: "append_step st a = Inr t" and run: "rfold append_step t as = Inr st'" by auto
  then obtain e where t: "append_event (fst a) st (snd a) = Inr (e, t)" by (auto simp: append_step_def)
  note s = append_event_log [OF Cons.prems(2) t]
  from Cons.IH [OF run s(1)] obtain fs new where
    "log_ok st' ((es @ [e\<lparr>ev_facts := sort_key fst (ev_facts e)\<rparr>]) @ fs)" "length fs = length as"
    "st_project_run_id st' = st_project_run_id t" "st_lines st' = st_lines t @ new" "length new = length as"
    "(\<exists>l \<in> set new. split_line l) \<longleftrightarrow> (\<exists>a \<in> set as. \<not> clean_append a)" by blast
  then show ?case
    using s(2-4) by (intro exI [of _ "e\<lparr>ev_facts := sort_key fst (ev_facts e)\<rparr> # fs"] exI [of _ "event_line e # new"]) simp
qed

text \<open>C10. The event log is append-only and gap-free as long as no fact and no clock reading contains U+0085, and only then
  readable: after any history of successful appends to a log that \<open>read_all\<close> reads, the old lines are an unchanged prefix
  and there is one more line per append. If no appended fact (key or text) and no clock reading contains U+0085, \<open>read_all\<close>
  succeeds: the old events come first, one more per append follows, all are of this run and numbered 1, 2, ... in
  order. If one does, the append that wrote it succeeded all the same, and \<open>read_all\<close> raises from then on.\<close>

theorem event_log_append_only:
  assumes "read_all st = Inr es0" "list_all (\<lambda>e. ev_project_run_id e = st_project_run_id st) es0"
    and "rfold append_step st as = Inr st'"
  shows "take (length (st_lines st)) (st_lines st') = st_lines st \<and>
    length (st_lines st') = length (st_lines st) + length as \<and>
    (if \<forall>(now, a) \<in> set as. CHR 0x85 \<notin> set now \<and> no_nel (ea_facts a)
     then \<exists>es. read_all st' = Inr es \<and> take (length es0) es = es0 \<and> length es = length es0 + length as \<and>
       map ev_sequence es = map int [1..<length es + 1] \<and>
       list_all (\<lambda>e. ev_project_run_id e = st_project_run_id st) es
     else read_all st' = Inl (MPRFObservabilityError ''provider runtime event log is malformed''))"
proof (cases as)
  case Nil
  have "map ev_sequence es0 = map int [1..<length es0 + 1]" using assms(1) by (auto simp: read_all_def split: if_splits)
  then show ?thesis using assms Nil by simp
next
  case (Cons a as')
  then obtain e t where "append_event (fst a) st (snd a) = Inr (e, t)" using assms(3) by (auto simp: append_step_def)
  then obtain n where "last_sequence (st_project_run_id st) 0 (st_lines st) = Inr n" by (auto simp: append_event_def)
  note ok = read_all_appendable [OF assms(1,2) this]
  from append_steps [OF assms(3), of es0] ok obtain fs new where h: "log_ok st' (es0 @ fs)" "length fs = length as"
    "st_project_run_id st' = st_project_run_id st" "st_lines st' = st_lines st @ new" "length new = length as"
    "(\<exists>l \<in> set new. split_line l) \<longleftrightarrow> (\<exists>a \<in> set as. \<not> clean_append a)" by blast
  have "(\<exists>l \<in> set (st_lines st'). split_line l) \<longleftrightarrow> \<not> (\<forall>(now, a) \<in> set as. CHR 0x85 \<notin> set now \<and> no_nel (ea_facts a))"
    using h(4,6) ok by (fastforce simp: case_prod_unfold)
  with h log_ok_read_all [OF h(1)] show ?thesis by (auto simp: log_ok_def simp del: upt_Suc)
qed

text \<open>C33. No event can carry action truth or secrets: whatever is passed as facts, a recorded event has no fact whose key
  is one of the forbidden names, starts with \<open>raw_\<close> or contains password, credential, secret or token, in any
  letter case; and the event is stored under the digest of its content.\<close>

theorem event_facts_carry_no_secrets:
  assumes "event_init e facts = Inr e'"
  shows "(\<forall>kv \<in> set (ev_facts e'). py_lower (fst kv) \<notin> FORBIDDEN_FACT_KEYS \<and>
      \<not> py_startswith (py_lower (fst kv)) ''raw_'' \<and>
      \<not> (\<exists>part \<in> {''password'', ''credential'', ''secret'', ''token''}. py_contains (py_lower (fst kv)) part)) \<and>
    ev_event_digest e' = digest (event_unsigned_dict e')"
proof -
  obtain fs where fs: "safe_facts facts = Inr fs"
    and e': "e' = e\<lparr>ev_facts := fs, ev_event_digest := digest (event_unsigned_dict (e\<lparr>ev_facts := fs\<rparr>))\<rparr>"
    using assms by (auto simp: event_init_iff)
  have "safe_key (fst kv)" if "kv \<in> set (ev_facts e')" for kv
    using safe_facts_items [OF fs, of kv] that by (simp add: e')
  then show ?thesis
    by (auto simp: safe_key_def Let_def e' event_unsigned_dict_def)
qed

definition ex_event_args :: event_args where
  "ex_event_args = \<lparr>ea_project_id = ''p'', ea_task_id = ''t'', ea_task_execution_id = ''x'', ea_correlation_id = ''c'',
     ea_operation_request_id = ''o'', ea_provider_id = ''nvidia'', ea_model_ref = ''m1'', ea_event_type = ''HEALTH'',
     ea_facts = PyDict [(''state'', PyStr ''HEALTHY''), (''latency_ms'', PyInt 12)]\<rparr>"

definition ex_event :: runtime_event where
  "ex_event =
     \<lparr>ev_schema_version = EVENT_SCHEMA_V1, ev_project_id = ''p'', ev_project_run_id = ''run'', ev_task_id = ''t'',
      ev_task_execution_id = ''x'', ev_correlation_id = ''c'', ev_operation_request_id = ''o'',
      ev_provider_id = ''nvidia'', ev_model_ref = ''m1'', ev_event_type = ''HEALTH'', ev_sequence = 1,
      ev_occurred_at_utc = ''2026Z'', ev_facts = [], ev_source_domain = SOURCE_DOMAIN,
      ev_authority_scope = AUTHORITY_SCOPE, ev_event_digest = []\<rparr>"

lemma ex_safe_facts:
  "safe_facts (PyDict [(''state'', PyStr ''HEALTHY''), (''latency_ms'', PyInt 12)]) =
     Inr [(''state'', PyStr ''HEALTHY''), (''latency_ms'', PyInt 12)]"
  by (simp add: safe_facts_def safe_item_def safe_key_def FORBIDDEN_FACT_KEYS_def py_lower_def py_lower_char_def
      py_startswith_def Let_def)

lemma ex_event_init: "\<exists>e. event_init ex_event (PyDict [(''state'', PyStr ''HEALTHY''), (''latency_ms'', PyInt 12)]) = Inr e"
  by (simp add: event_init_iff ex_safe_facts event_header_ok_def ex_event_def ascii_alnum_def EVENT_TYPES_V1_def
      py_endswith_def provider_id_re_def)

lemma ex_append:
  "\<exists>e st. append_event ''2026Z'' \<lparr>st_project_run_id = ''run'', st_lines = []\<rparr> ex_event_args = Inr (e, st)"
  using ex_event_init by (simp add: append_event_def ex_event_args_def ex_safe_facts ex_event_def)

text \<open>The same event with a U+0085 in a fact.\<close>

definition ex_nel_args :: event_args where
  "ex_nel_args = ex_event_args\<lparr>ea_facts := PyDict [(''state'', PyStr [CHR ''a'', CHR 0x85, CHR ''b''])]\<rparr>"

lemma ex_append_nel:
  "\<exists>e st. append_event ''2026Z'' \<lparr>st_project_run_id = ''run'', st_lines = []\<rparr> ex_nel_args = Inr (e, st)"
proof -
  have safe: "safe_facts (PyDict [(''state'', PyStr [CHR ''a'', CHR 0x85, CHR ''b''])]) =
      Inr [(''state'', PyStr [CHR ''a'', CHR 0x85, CHR ''b''])]"
    by (simp add: safe_facts_def safe_item_def safe_key_def FORBIDDEN_FACT_KEYS_def py_lower_def py_lower_char_def
        py_startswith_def Let_def)
  have "\<exists>e. event_init ex_event (PyDict [(''state'', PyStr [CHR ''a'', CHR 0x85, CHR ''b''])]) = Inr e"
    by (simp add: event_init_iff safe event_header_ok_def ex_event_def ascii_alnum_def EVENT_TYPES_V1_def py_endswith_def
        provider_id_re_def)
  then show ?thesis by (simp add: append_event_def ex_nel_args_def ex_event_args_def safe ex_event_def)
qed

theorem event_log_append_only_witness:
  "(\<exists>st'. rfold append_step \<lparr>st_project_run_id = ''run'', st_lines = []\<rparr> [(''2026Z'', ex_event_args)] = Inr st' \<and>
     (\<exists>es. read_all st' = Inr es \<and> map ev_sequence es = [1])) \<and>
   (\<exists>st'. rfold append_step \<lparr>st_project_run_id = ''run'', st_lines = []\<rparr> [(''2026Z'', ex_nel_args)] = Inr st' \<and>
     read_all st' = Inl (MPRFObservabilityError ''provider runtime event log is malformed''))"
proof -
  let ?st = "\<lparr>st_project_run_id = ''run'', st_lines = []\<rparr>"
  have empty: "read_all ?st = Inr []" by (simp add: read_all_def)
  obtain e st' where "append_event ''2026Z'' ?st ex_event_args = Inr (e, st')" using ex_append by blast
  then have run: "rfold append_step ?st [(''2026Z'', ex_event_args)] = Inr st'" by (simp add: append_step_def)
  from event_log_append_only [OF empty _ run] obtain es where "read_all st' = Inr es" "length es = 1"
    "map ev_sequence es = map int [1..<length es + 1]" by (auto simp: ex_event_args_def simp del: upt_Suc)
  moreover obtain e2 st2 where "append_event ''2026Z'' ?st ex_nel_args = Inr (e2, st2)" using ex_append_nel by blast
  then have run2: "rfold append_step ?st [(''2026Z'', ex_nel_args)] = Inr st2" by (simp add: append_step_def)
  from event_log_append_only [OF empty _ run2]
  have "read_all st2 = Inl (MPRFObservabilityError ''provider runtime event log is malformed'')"
    by (simp add: ex_nel_args_def)
  ultimately show ?thesis using run run2 by auto
qed

theorem event_facts_carry_no_secrets_witness:
  "\<exists>e. event_init ex_event (PyDict [(''state'', PyStr ''HEALTHY''), (''latency_ms'', PyInt 12)]) = Inr e \<and>
     ev_event_digest e = digest (event_unsigned_dict e)"
proof -
  obtain e where e: "event_init ex_event (PyDict [(''state'', PyStr ''HEALTHY''), (''latency_ms'', PyInt 12)]) = Inr e"
    using ex_event_init by blast
  from event_facts_carry_no_secrets [OF e] e show ?thesis by blast
qed

end
