(* ===== verification/Mprf_Runtime.thy ===== *)
theory Mprf_Runtime
  imports Mprf_Registry Mprf_Lifecycle Mprf_Failure Mprf_Observability Router_Correct
begin

text \<open>
  The runtime facade, \<open>src/runtime/mprf/runtime.py\<close>: it joins the registry's admissions with the lifecycle
  facts and exports the eligibility snapshot the governed router decides on. The theory ends with
  the property that ties the two subsystems together: the router, run on an exported snapshot, only
  selects a provider that is admitted and healthy.
\<close>

definition RUNTIME_SCHEMA_V1 :: string where "RUNTIME_SCHEMA_V1 = ''mprf.runtime.v1''"

record runtime =
  rt_schema_version :: string
  rt_registry :: registry
  rt_lifecycle_state :: "lifecycle_state option"
  rt_observability_store :: "event_store option"

definition runtime_init :: "runtime \<Rightarrow> runtime result" where
  "runtime_init rt =
     (if rt_schema_version rt \<noteq> RUNTIME_SCHEMA_V1 then Inl (MPRFContractError ''unsupported MPRF runtime schema'')
      else Inr rt)"

definition runtime_eligibility_fact :: "runtime \<Rightarrow> string \<Rightarrow> string \<Rightarrow> eligibility_fact_v1 result" where
  "runtime_eligibility_fact rt provider_id model_ref = eligibility_fact (rt_registry rt) provider_id model_ref"

definition lifecycle_eligibility :: "runtime \<Rightarrow> string \<Rightarrow> string \<Rightarrow> pyval list \<Rightarrow> (bool \<times> string) result" where
  "lifecycle_eligibility rt provider_id model_ref required_capabilities =
     rbind (eligibility_fact (rt_registry rt) provider_id model_ref) (\<lambda>admission.
     if \<not> ef_eligible admission then Inr (False, ef_reason_code admission)
     else case rt_lifecycle_state rt of
        None \<Rightarrow> Inr (True, LIFECYCLE_OK)
      | Some state \<Rightarrow>
          (case fact_for state (ef_provider_id admission) (ef_model_ref admission) of
             None \<Rightarrow> Inr (False, UNKNOWN_HEALTH)
           | Some f \<Rightarrow> evaluate_lifecycle f required_capabilities
               (Some (PyInt (rg_registry_version (rt_registry rt)))) None))"

text \<open>One round of the loop over the providers; the state is the pair of dicts.\<close>

definition snapshot_step ::
  "runtime \<Rightarrow> pyval list \<Rightarrow> (string \<times> bool) list \<times> (string \<times> string) list \<Rightarrow> string \<Rightarrow>
   ((string \<times> bool) list \<times> (string \<times> string) list) result" where
  "snapshot_step rt required_capabilities dicts provider_id =
     (let (eligible, model_refs) = dicts in
      rbind (eligibility_fact (rt_registry rt) provider_id []) (\<lambda>admission.
      if \<not> ef_eligible admission then Inr (py_setitem provider_id False eligible, model_refs)
      else rbind (lifecycle_eligibility rt provider_id (ef_model_ref admission) required_capabilities) (\<lambda>verdict.
        let lifecycle_ok = fst verdict in
        Inr (py_setitem provider_id lifecycle_ok eligible,
             if lifecycle_ok then py_setitem provider_id (ef_model_ref admission) model_refs else model_refs))))"

definition runtime_export_router_snapshot ::
  "runtime \<Rightarrow> string \<Rightarrow> string list \<Rightarrow> pyval list \<Rightarrow> eligibility_snapshot result" where
  "runtime_export_router_snapshot rt snapshot_id evidence_refs required_capabilities =
     (case rt_lifecycle_state rt of
        None \<Rightarrow> registry_export_router_snapshot (rt_registry rt) snapshot_id evidence_refs
      | Some _ \<Rightarrow>
          if py_strip snapshot_id = [] then Inl (MPRFContractError ''snapshot_id must be non-empty'')
          else rbind (rfold (snapshot_step rt required_capabilities) ([], [])
                  (sort (map pr_provider_id (rg_providers (rt_registry rt))))) (\<lambda>dicts.
            eligibility_snapshot_init
              \<lparr>es_schema_version = ELIGIBILITY_SCHEMA_V1, es_snapshot_id = snapshot_id,
               es_provider_eligible = fst dicts, es_model_refs = snd dicts, es_evidence_refs = evidence_refs,
               es_failure_classes = None, es_model_fallback_refs = None, es_provider_capabilities = None\<rparr>))"

definition record_provider_runtime_event ::
  "string \<Rightarrow> runtime \<Rightarrow> event_args \<Rightarrow> (runtime_event \<times> event_store) result" where
  "record_provider_runtime_event now rt a =
     (case rt_observability_store rt of
        None \<Rightarrow> Inl (MPRFContractError ''provider runtime observability is not configured'')
      | Some st \<Rightarrow> append_event now st a)"

definition runtime_failure_disposition ::
  "string \<Rightarrow> failover_prerequisites \<Rightarrow> bool \<Rightarrow> failure_disposition result" where
  "runtime_failure_disposition failure prerequisites permission_related_auth =
     evaluate_failover failure prerequisites permission_related_auth"

section \<open>When a provider may be used\<close>

text \<open>The admission in force, with a lifecycle fact of the current registry version that reports a healthy provider with
  quota, no rate limit and the required capabilities (no lifecycle state at all imposes no condition).\<close>

definition lifecycle_good :: "runtime \<Rightarrow> string list \<Rightarrow> string \<Rightarrow> string \<Rightarrow> bool" where
  "lifecycle_good rt required p m =
     (case rt_lifecycle_state rt of None \<Rightarrow> True
      | Some state \<Rightarrow> (case fact_for state p m of None \<Rightarrow> False
          | Some f \<Rightarrow> lf_registry_version f = rg_registry_version (rt_registry rt) \<and> lf_health_state f = HEALTHY \<and>
              lf_quota_state f = QUOTA_AVAILABLE \<and> lf_rate_state f = RATE_AVAILABLE \<and>
              py_strip ` set required \<subseteq> lf_capabilities f))"

definition usable :: "runtime \<Rightarrow> string list \<Rightarrow> string \<Rightarrow> string \<Rightarrow> bool" where
  "usable rt required p m =
     (\<exists>a. admitted (rt_registry rt) p [] a \<and> ar_model_ref a = m \<and> lifecycle_good rt required p m)"

lemma evaluate_lifecycle_current:
  assumes "\<forall>s \<in> set ss. py_strip s \<noteq> []" "1 \<le> v"
  shows "\<exists>reason. evaluate_lifecycle f (map PyStr ss) (Some (PyInt v)) None =
    Inr (lf_registry_version f = v \<and> lf_health_state f = HEALTHY \<and> lf_quota_state f = QUOTA_AVAILABLE \<and>
      lf_rate_state f = RATE_AVAILABLE \<and> py_strip ` set ss \<subseteq> lf_capabilities f, reason)"
proof -
  have "normalize_capabilities (map PyStr ss) = Inr (py_strip ` set ss)"
    using assms(1) by (auto simp: normalize_capabilities_iff)
  then show ?thesis
    using assms(2) by (simp add: evaluate_lifecycle_def version_gate_def require_positive_int_def fact_verdict_def
        HEALTHY_def STALE_def QUOTA_AVAILABLE_def QUOTA_EXHAUSTED_def RATE_AVAILABLE_def RATE_LIMITED_def)
qed

lemma admitted_named: "admitted r p [] a \<Longrightarrow> admitted r p (ar_model_ref a) a"
  by (simp add: admitted_def)

lemma lifecycle_eligibility_admitted:
  assumes ok: "registry_ok (rt_registry rt)" and a: "admitted (rt_registry rt) p [] a"
    and caps: "\<forall>s \<in> set ss. py_strip s \<noteq> []"
  shows "\<exists>reason. lifecycle_eligibility rt p (ar_model_ref a) (map PyStr ss) =
    Inr (lifecycle_good rt ss p (ar_model_ref a), reason)"
proof -
  have p: "ar_provider_id a = p" using a by (simp add: admitted_def)
  have f: "eligibility_fact (rt_registry rt) p (ar_model_ref a) = Inr (admitted_fact (rt_registry rt) a)"
    by (rule eligibility_fact_admitted [OF ok admitted_named [OF a]])
  show ?thesis
    using evaluate_lifecycle_current [OF caps registry_okD(1) [OF ok]]
    by (simp add: lifecycle_eligibility_def f lifecycle_good_def split: option.split)
      (simp add: admitted_fact_def p)
qed

text \<open>The dicts the loop builds.\<close>

lemma rfold_dicts:
  assumes "\<And>e m p. p \<in> set ps \<Longrightarrow> step (e, m) p = Inr (py_setitem p (g p) e, if g p then py_setitem p (h p) m else m)"
  shows "\<exists>e' m'. rfold step (e, m) ps = Inr (e', m') \<and>
    (\<forall>p. map_of e' p = (if p \<in> set ps then Some (g p) else map_of e p)) \<and>
    (\<forall>p. map_of m' p = (if p \<in> set ps \<and> g p then Some (h p) else map_of m p)) \<and>
    (distinct (map fst e) \<longrightarrow> distinct (map fst e')) \<and> (distinct (map fst m) \<longrightarrow> distinct (map fst m'))"
  using assms
proof (induction ps arbitrary: e m)
  case (Cons p ps)
  let ?e = "py_setitem p (g p) e" and ?m = "if g p then py_setitem p (h p) m else m"
  obtain e' m' where em: "rfold step (?e, ?m) ps = Inr (e', m')"
    "\<forall>q. map_of e' q = (if q \<in> set ps then Some (g q) else map_of ?e q)"
    "\<forall>q. map_of m' q = (if q \<in> set ps \<and> g q then Some (h q) else map_of ?m q)"
    "distinct (map fst ?e) \<longrightarrow> distinct (map fst e')" "distinct (map fst ?m) \<longrightarrow> distinct (map fst m')"
    using Cons.IH [of ?e ?m] Cons.prems by auto
  have "rfold step (e, m) (p # ps) = Inr (e', m')" using em(1) Cons.prems [of p e m] by simp
  then show ?case
    using em(2-5) distinct_py_setitem [of e p "g p"] distinct_py_setitem [of m p "h p"]
    by (intro exI [of _ e'] exI [of _ m']) (auto simp: map_of_py_setitem split: if_splits)
qed simp

lemma snapshot_step_eq:
  assumes ok: "registry_ok (rt_registry rt)" and caps: "\<forall>s \<in> set ss. py_strip s \<noteq> []"
    and p: "p \<in> set (map pr_provider_id (rg_providers (rt_registry rt)))"
  shows "snapshot_step rt (map PyStr ss) (e, m) p =
    Inr (py_setitem p (\<exists>m. usable rt ss p m) e,
      if \<exists>m. usable rt ss p m then py_setitem p (ef_model_ref (fact_of (rt_registry rt) p)) m else m)"
proof (cases "\<exists>a. admitted (rt_registry rt) p [] a")
  case False
  then have "\<not> ef_eligible (fact_of (rt_registry rt) p)" "\<not> (\<exists>m. usable rt ss p m)"
    using fact_of_eligible(1) [OF ok p] by (auto simp: usable_def)
  then show ?thesis by (simp add: snapshot_step_def eligibility_fact_of [OF ok p])
next
  case True
  then obtain a where a: "admitted (rt_registry rt) p [] a" by blast
  have f: "fact_of (rt_registry rt) p = admitted_fact (rt_registry rt) a" by (rule fact_of_eligible(2) [OF ok p a])
  have u: "(\<exists>m. usable rt ss p m) \<longleftrightarrow> lifecycle_good rt ss p (ar_model_ref a)"
    unfolding usable_def using a admitted_unique [OF ok a] by metis
  obtain reason where "lifecycle_eligibility rt p (ar_model_ref a) (map PyStr ss) =
      Inr (lifecycle_good rt ss p (ar_model_ref a), reason)"
    using lifecycle_eligibility_admitted [OF ok a caps] by blast
  then show ?thesis by (simp add: snapshot_step_def eligibility_fact_of [OF ok p] f admitted_fact_def u Let_def)
qed

text \<open>What a snapshot has to say about a runtime.\<close>

definition snapshot_of :: "runtime \<Rightarrow> string list \<Rightarrow> eligibility_snapshot \<Rightarrow> bool" where
  "snapshot_of rt required s =
     ((\<forall>p. map_of (es_provider_eligible s) p =
         (if p \<in> pr_provider_id ` set (rg_providers (rt_registry rt)) then Some (\<exists>m. usable rt required p m) else None)) \<and>
      (\<forall>p m. map_of (es_model_refs s) p = Some m \<longleftrightarrow> usable rt required p m) \<and>
      distinct (map fst (es_provider_eligible s)))"

lemma usable_model:
  assumes ok: "registry_ok (rt_registry rt)"
  shows "usable rt ss p m \<Longrightarrow> p \<in> set (map pr_provider_id (rg_providers (rt_registry rt))) \<and>
      m = ef_model_ref (fact_of (rt_registry rt) p)"
proof -
  assume "usable rt ss p m"
  then obtain a where a: "admitted (rt_registry rt) p [] a" "m = ar_model_ref a" by (auto simp: usable_def)
  have p: "p \<in> set (map pr_provider_id (rg_providers (rt_registry rt)))" by (rule admitted_provider [OF ok a(1)])
  show ?thesis using p fact_of_eligible(2) [OF ok p a(1)] a(2) by (simp add: admitted_fact_def)
qed

lemma runtime_export_spec:
  assumes ok: "registry_ok (rt_registry rt)" and caps: "\<forall>s \<in> set ss. py_strip s \<noteq> []" and sid: "py_strip sid \<noteq> []"
  shows "\<exists>s. runtime_export_router_snapshot rt sid evidence (map PyStr ss) = Inr s \<and> snapshot_of rt ss s \<and>
    eligibility_snapshot_init s = Inr s"
proof -
  let ?ids = "sort (map pr_provider_id (rg_providers (rt_registry rt)))"
  let ?g = "\<lambda>p. \<exists>m. usable rt ss p m" and ?h = "\<lambda>p. ef_model_ref (fact_of (rt_registry rt) p)"
  have id: "sid \<noteq> []" using sid by auto
  have models: "(p \<in> set ?ids \<and> ?g p \<and> m = ?h p) \<longleftrightarrow> usable rt ss p m" for p m
    using usable_model [OF ok] by (metis set_sort)
  have init: "eligibility_snapshot_init s = Inr s"
    if "es_schema_version s = ELIGIBILITY_SCHEMA_V1" "es_snapshot_id s = sid" "es_model_fallback_refs s = None"
      "es_provider_capabilities s = None"
      "\<And>p. p \<in> fst ` set (es_provider_eligible s) \<union> fst ` set (es_model_refs s) \<Longrightarrow> p \<in> set ?ids" for s
  proof (rule plain_snapshot_init)
    fix p assume "p \<in> fst ` set (es_provider_eligible s) \<union> fst ` set (es_model_refs s)"
    then have "p \<in> pr_provider_id ` set (rg_providers (rt_registry rt))" using that(5) by simp
    then show "provider_id_re p" using registry_okD(3) [OF ok] by blast
  qed (simp_all add: that id)
  show ?thesis
  proof (cases "rt_lifecycle_state rt")
    case None
    have adm: "ef_eligible (fact_of (rt_registry rt) p) \<longleftrightarrow> ?g p" if "p \<in> set ?ids" for p
      using fact_of_eligible(1) [OF ok, of p] that None by (auto simp: usable_def lifecycle_good_def)
    let ?s = "\<lparr>es_schema_version = ELIGIBILITY_SCHEMA_V1, es_snapshot_id = sid,
       es_provider_eligible = map (\<lambda>p. (p, ef_eligible (fact_of (rt_registry rt) p))) ?ids,
       es_model_refs = map (\<lambda>p. (p, ?h p)) (filter (\<lambda>p. ef_eligible (fact_of (rt_registry rt) p)) ?ids),
       es_evidence_refs = evidence, es_failure_classes = None,
       es_model_fallback_refs = None, es_provider_capabilities = None\<rparr>"
    have "runtime_export_router_snapshot rt sid evidence (map PyStr ss) = Inr ?s"
      using registry_export_eq [OF ok sid] None by (simp add: runtime_export_router_snapshot_def)
    moreover have "snapshot_of rt ss ?s"
      unfolding snapshot_of_def
    proof (intro conjI allI)
      show "map_of (es_provider_eligible ?s) p =
          (if p \<in> pr_provider_id ` set (rg_providers (rt_registry rt)) then Some (?g p) else None)" for p
        using adm [of p] by (simp add: map_of_map_keys)
      show "map_of (es_model_refs ?s) p = Some m \<longleftrightarrow> usable rt ss p m" for p m
        using adm [of p] models [of p m] by (auto simp: map_of_map_filter_keys)
      show "distinct (map fst (es_provider_eligible ?s))"
        using registry_okD(2) [OF ok] by (simp add: comp_def)
    qed
    moreover have "eligibility_snapshot_init ?s = Inr ?s" by (rule init) auto
    ultimately show ?thesis by blast
  next
    case (Some state)
    have "snapshot_step rt (map PyStr ss) (e, m) p = Inr (py_setitem p (?g p) e, if ?g p then py_setitem p (?h p) m else m)"
      if "p \<in> set ?ids" for e m p by (rule snapshot_step_eq [OF ok caps]) (use that in simp)
    from rfold_dicts [of ?ids "snapshot_step rt (map PyStr ss)" ?g ?h "[]" "[]", OF this]
    obtain e m where em: "rfold (snapshot_step rt (map PyStr ss)) ([], []) ?ids = Inr (e, m)"
      "\<forall>p. map_of e p = (if p \<in> set ?ids then Some (?g p) else None)"
      "\<forall>p. map_of m p = (if p \<in> set ?ids \<and> ?g p then Some (?h p) else None)" "distinct (map fst e)" by auto
    let ?s = "\<lparr>es_schema_version = ELIGIBILITY_SCHEMA_V1, es_snapshot_id = sid, es_provider_eligible = e,
       es_model_refs = m, es_evidence_refs = evidence, es_failure_classes = None,
       es_model_fallback_refs = None, es_provider_capabilities = None\<rparr>"
    have dom: "p \<in> set ?ids" if "p \<in> fst ` set e \<union> fst ` set m" for p
      using that em(2,3) by (metis Un_iff map_of_eq_None_iff)
    have i: "eligibility_snapshot_init ?s = Inr ?s" by (rule init) (use dom in auto)
    then have "runtime_export_router_snapshot rt sid evidence (map PyStr ss) = Inr ?s"
      using Some sid em(1) by (simp add: runtime_export_router_snapshot_def)
    moreover have "snapshot_of rt ss ?s"
      unfolding snapshot_of_def
    proof (intro conjI allI)
      show "map_of (es_provider_eligible ?s) p =
          (if p \<in> pr_provider_id ` set (rg_providers (rt_registry rt)) then Some (?g p) else None)" for p
        using em(2) by simp
      show "map_of (es_model_refs ?s) p = Some m \<longleftrightarrow> usable rt ss p m" for p m
        unfolding models [of p m, symmetric] using em(3) by auto
      show "distinct (map fst (es_provider_eligible ?s))" using em(4) by simp
    qed
    ultimately show ?thesis using i by blast
  qed
qed

lemma snapshot_ofD:
  assumes "snapshot_of rt required s"
  shows "map_of (es_model_refs s) p = Some m \<longleftrightarrow> usable rt required p m"
    "map_of (es_provider_eligible s) p = Some True \<longleftrightarrow>
       p \<in> pr_provider_id ` set (rg_providers (rt_registry rt)) \<and> (\<exists>m. usable rt required p m)"
    "distinct (map fst (es_provider_eligible s))"
    "(p, b) \<in> set (es_provider_eligible s) \<longleftrightarrow> map_of (es_provider_eligible s) p = Some b"
proof -
  show d: "distinct (map fst (es_provider_eligible s))" using assms unfolding snapshot_of_def by blast
  show "map_of (es_model_refs s) p = Some m \<longleftrightarrow> usable rt required p m" using assms unfolding snapshot_of_def by blast
  have "map_of (es_provider_eligible s) p =
      (if p \<in> pr_provider_id ` set (rg_providers (rt_registry rt)) then Some (\<exists>m. usable rt required p m) else None)"
    using assms unfolding snapshot_of_def by blast
  then show "map_of (es_provider_eligible s) p = Some True \<longleftrightarrow>
       p \<in> pr_provider_id ` set (rg_providers (rt_registry rt)) \<and> (\<exists>m. usable rt required p m)" by auto
  show "(p, b) \<in> set (es_provider_eligible s) \<longleftrightarrow> map_of (es_provider_eligible s) p = Some b"
    using d by (simp add: map_of_eq_Some_iff)
qed

lemma export_no_capabilities:
  assumes "runtime_export_router_snapshot rt sid ev caps = Inr s" "rt_lifecycle_state rt = Some st"
  shows "es_provider_capabilities s = None"
  using assms by (auto simp: runtime_export_router_snapshot_def dest!: eligibility_snapshot_init_same)

lemma routed_provider_usable:
  assumes snap: "snapshot_of rt required (rq_eligibility_snapshot q)"
    and d: "route_request q = Inr d" "rd_eligible d"
  shows "\<exists>m. usable rt required (rd_provider_ref d) m \<and> rd_model_ref d = py_strip m"
proof -
  obtain p m where sel: "select_provider q = Some (p, m)" and dec: "selected_decision q p m = Inr d"
    using route_request_eligible [OF d(1)] d(2) by blast
  let ?s = "rq_eligibility_snapshot q"
  have "(p, True) \<in> set (es_provider_eligible ?s)" by (rule select_providerD(1) [OF sel])
  then obtain m0 where m0: "usable rt required p m0" using snapshot_ofD(2,4) [OF snap] by blast
  then have "map_of (es_model_refs ?s) p = Some m0" using snapshot_ofD(1) [OF snap] by blast
  moreover have "m = snapshot_model ?s p" by (rule select_providerD(2) [OF sel])
  ultimately show ?thesis
    using m0 selected_decisionD(2,3) [OF dec] by (auto simp: snapshot_model_def py_get_or_def)
qed

section \<open>Properties\<close>

text \<open>The runtime exports a faithful snapshot: for a registry its constructor accepts and any list of non-blank required
  capabilities the export succeeds, the snapshot lists exactly the registered providers, marks a provider eligible exactly
  when it may be used (admission in force and, if lifecycle facts are kept, a healthy current one that covers the
  capabilities), and binds to it the admitted model.\<close>

theorem runtime_snapshot_faithful:
  assumes "registry_ok (rt_registry rt)" "\<forall>c \<in> set required. py_strip c \<noteq> []" "py_strip snapshot_id \<noteq> []"
  shows "\<exists>s. runtime_export_router_snapshot rt snapshot_id evidence (map PyStr required) = Inr s \<and>
    (\<forall>p. map_of (es_provider_eligible s) p =
       (if p \<in> pr_provider_id ` set (rg_providers (rt_registry rt)) then Some (\<exists>m. usable rt required p m) else None)) \<and>
    (\<forall>p m. map_of (es_model_refs s) p = Some m \<longleftrightarrow> usable rt required p m)"
  using runtime_export_spec [OF assms, of evidence] unfolding snapshot_of_def by blast

text \<open>C3. Routing over an exported snapshot respects the runtime's facts: a decision the governed router makes on a request
  whose snapshot the runtime exported either is blocked or names a provider with an ADMITTED admission of the current
  registry version, the admitted model, and (if lifecycle facts are kept) a fact of that version that is healthy, with
  quota, unthrottled and capable of what was required.\<close>

theorem routed_provider_is_admitted_and_healthy:
  assumes "registry_ok (rt_registry rt)" "\<forall>c \<in> set required. py_strip c \<noteq> []" "py_strip snapshot_id \<noteq> []"
    and "runtime_export_router_snapshot rt snapshot_id evidence (map PyStr required) = Inr (rq_eligibility_snapshot q)"
    and "route_request q = Inr d" "rd_eligible d"
  shows "\<exists>a. a \<in> set (rg_admissions (rt_registry rt)) \<and> ar_provider_id a = rd_provider_ref d \<and>
    rd_model_ref d = py_strip (ar_model_ref a) \<and> ar_state a = ADMISSION_ADMITTED \<and>
    ar_registry_version a = rg_registry_version (rt_registry rt) \<and>
    (\<forall>state. rt_lifecycle_state rt = Some state \<longrightarrow>
      (\<exists>f. fact_for state (rd_provider_ref d) (ar_model_ref a) = Some f \<and>
         lf_registry_version f = rg_registry_version (rt_registry rt) \<and> lf_health_state f = HEALTHY \<and>
         lf_quota_state f = QUOTA_AVAILABLE \<and> lf_rate_state f = RATE_AVAILABLE \<and>
         py_strip ` set required \<subseteq> lf_capabilities f))"
proof -
  have "snapshot_of rt required (rq_eligibility_snapshot q)"
    using runtime_export_spec [OF assms(1-3), of evidence] assms(4) by auto
  from routed_provider_usable [OF this assms(5,6)] obtain m a where
    a: "admitted (rt_registry rt) (rd_provider_ref d) [] a" "ar_model_ref a = m" "rd_model_ref d = py_strip m"
      "lifecycle_good rt required (rd_provider_ref d) m" by (auto simp: usable_def)
  show ?thesis
    by (rule exI [of _ a]) (use a in \<open>auto simp: admitted_def lifecycle_good_def split: option.splits\<close>)
qed

definition ex_runtime :: runtime where
  "ex_runtime = \<lparr>rt_schema_version = RUNTIME_SCHEMA_V1, rt_registry = ex_registry,
     rt_lifecycle_state = Some (ex_lifecycle [ex_fact 2 1] 3), rt_observability_store = None\<rparr>"

lemma ex_required: "\<forall>c \<in> set [''reasoning'']. py_strip c \<noteq> []"
  by (simp add: py_strip_def py_isspace_def)

lemma ex_sid: "py_strip ''snap-1'' \<noteq> []"
  by (simp add: py_strip_def py_isspace_def)

lemma ex_usable: "usable ex_runtime [''reasoning''] ''nvidia'' ''m1''"
proof -
  have "\<exists>a. admitted ex_registry ''nvidia'' [] a \<and> ar_model_ref a = ''m1''"
    by (rule exI [of _ "hd (rg_admissions ex_registry)"]) (simp add: admitted_def ex_registry_def)
  moreover have "lifecycle_good ex_runtime [''reasoning''] ''nvidia'' ''m1''"
    by (simp add: lifecycle_good_def ex_runtime_def fact_for_def ex_lifecycle_def ex_fact_def ex_registry_def
        py_strip_def py_isspace_def)
  ultimately show ?thesis by (auto simp: usable_def ex_runtime_def)
qed

theorem runtime_snapshot_faithful_witness:
  "\<exists>s. runtime_export_router_snapshot ex_runtime ''snap-1'' [] (map PyStr [''reasoning'']) = Inr s \<and>
     map_of (es_provider_eligible s) ''nvidia'' = Some True \<and> map_of (es_model_refs s) ''nvidia'' = Some ''m1''"
proof -
  have ok: "registry_ok (rt_registry ex_runtime)" by (simp add: ex_runtime_def ex_registry_ok)
  from runtime_snapshot_faithful [OF ok ex_required ex_sid, of "[]"] obtain s where
    s: "runtime_export_router_snapshot ex_runtime ''snap-1'' [] (map PyStr [''reasoning'']) = Inr s"
    "\<forall>p. map_of (es_provider_eligible s) p =
       (if p \<in> pr_provider_id ` set (rg_providers (rt_registry ex_runtime))
        then Some (\<exists>m. usable ex_runtime [''reasoning''] p m) else None)"
    "\<forall>p m. map_of (es_model_refs s) p = Some m \<longleftrightarrow> usable ex_runtime [''reasoning''] p m" by blast
  have "''nvidia'' \<in> pr_provider_id ` set (rg_providers (rt_registry ex_runtime))"
    by (simp add: ex_runtime_def ex_registry_def)
  then show ?thesis using s ex_usable by auto
qed

definition ex_runtime_request :: "eligibility_snapshot \<Rightarrow> router_request" where
  "ex_runtime_request s = router_request_fill (ex_request_raw\<lparr>rq_eligibility_snapshot := s\<rparr>)"

lemma ex_runtime_routes:
  assumes "snapshot_of ex_runtime [''reasoning''] s" "eligibility_snapshot_init s = Inr s"
    "es_provider_capabilities s = None"
  shows "\<exists>d. route_request (ex_runtime_request s) = Inr d \<and> rd_eligible d"
proof -
  let ?q = "ex_runtime_request s"
  have q: "rq_eligibility_snapshot ?q = s" "rq_required_capabilities ?q = [''reasoning'']" "rq_stage ?q = ''PREPARE''"
    "rq_failover_request_ref ?q = []"
    by (simp_all add: ex_runtime_request_def ex_request_raw_def ex_caps)
  have dom: "set (rg_providers ex_registry) \<noteq> {}" by (simp add: ex_registry_def)
  have el: "map_of (es_provider_eligible s) p = Some True \<longleftrightarrow> p = ''nvidia''" for p
  proof -
    have "\<not> usable ex_runtime [''reasoning''] p m" if "p \<noteq> ''nvidia''" for m
      using that by (auto simp: usable_def ex_runtime_def admitted_def ex_registry_def)
    moreover have "''nvidia'' \<in> pr_provider_id ` set (rg_providers (rt_registry ex_runtime))"
      by (simp add: ex_runtime_def ex_registry_def)
    ultimately show ?thesis unfolding snapshot_ofD(2) [OF assms(1)] using ex_usable by blast
  qed
  have dist: "distinct (map fst (es_provider_eligible s))" by (rule snapshot_ofD(3) [OF assms(1)])
  have "map_of (es_model_refs s) ''nvidia'' = Some ''m1''" using snapshot_ofD(1) [OF assms(1)] ex_usable by blast
  then have model: "snapshot_model s ''nvidia'' = ''m1''"
    by (simp add: snapshot_model_def py_get_or_def py_strip_def py_isspace_def)
  have caps: "set (provider_generation_requirements ?q) \<subseteq> provider_capability_set s ''nvidia''"
    by (simp add: provider_generation_requirements_def q provider_capability_set_def assms(3) dict_or_empty_def py_get_def
        legacy_provider_capabilities_def BUILTIN_PROVIDER_IDS_def NVIDIA_PROVIDER_def CODEX_PROVIDER_def
        READ_ONLY_CAPABILITIES_def ACTION_PROPOSAL_CAPABILITY_def EFFECT_ONLY_CAPABILITIES_def
        ACTION_GENERATION_ALIASES_def sorted_set_def Let_def)
  have "filter (candidate_ok ?q) (es_provider_eligible s) = [(''nvidia'', True)]"
  proof (rule distinct_filter_single)
    show "distinct (es_provider_eligible s)" using dist by (simp add: distinct_map)
    show "(''nvidia'', True) \<in> set (es_provider_eligible s)" by (simp only: snapshot_ofD(4) [OF assms(1)] el)
    show "candidate_ok ?q x \<longleftrightarrow> x = (''nvidia'', True)" if "x \<in> set (es_provider_eligible s)" for x
    proof -
      have "map_of (es_provider_eligible s) (fst x) = Some (snd x)" using that by (simp only: snapshot_ofD(4) [OF assms(1), symmetric] prod.collapse)
      then show ?thesis using el [of "fst x"] model caps
        by (cases x) (auto simp: candidate_ok_def q Let_def)
    qed
  qed
  then have sel: "select_provider ?q = Some (''nvidia'', ''m1'')"
    by (simp add: select_provider_def candidates_def q pick_winner_def model Let_def)
  have pre: "route_precheck ?q = None"
    by (simp add: route_precheck_def q state_changing_def STATE_CHANGING_CAPABILITIES_def)
      (simp add: eligibility_binding_valid_def ex_runtime_request_def ex_request_raw_def router_request_fill_def)
  show ?thesis by (rule route_request_selected [OF pre sel]) (simp_all add: q assms(2))
qed

theorem routed_provider_is_admitted_and_healthy_witness:
  "\<exists>s d. runtime_export_router_snapshot ex_runtime ''snap-1'' [] (map PyStr [''reasoning'']) = Inr s \<and>
     route_request (ex_runtime_request s) = Inr d \<and> rd_eligible d \<and>
     (\<exists>a. a \<in> set (rg_admissions ex_registry) \<and> ar_provider_id a = rd_provider_ref d)"
proof -
  have ok: "registry_ok (rt_registry ex_runtime)" by (simp add: ex_runtime_def ex_registry_ok)
  obtain s where s: "runtime_export_router_snapshot ex_runtime ''snap-1'' [] (map PyStr [''reasoning'']) = Inr s"
    "snapshot_of ex_runtime [''reasoning''] s" "eligibility_snapshot_init s = Inr s"
    using runtime_export_spec [OF ok ex_required ex_sid] by blast
  have "es_provider_capabilities s = None"
    by (rule export_no_capabilities [OF s(1)]) (simp add: ex_runtime_def)
  then obtain d where d: "route_request (ex_runtime_request s) = Inr d" "rd_eligible d"
    using ex_runtime_routes [OF s(2,3)] by blast
  have rq: "rq_eligibility_snapshot (ex_runtime_request s) = s" by (simp add: ex_runtime_request_def)
  have q: "runtime_export_router_snapshot ex_runtime ''snap-1'' [] (map PyStr [''reasoning'']) =
      Inr (rq_eligibility_snapshot (ex_runtime_request s))"
    by (simp only: rq s(1))
  have "\<exists>a. a \<in> set (rg_admissions ex_registry) \<and> ar_provider_id a = rd_provider_ref d"
    using routed_provider_is_admitted_and_healthy [OF ok ex_required ex_sid q d] by (auto simp: ex_runtime_def)
  with s(1) d show ?thesis by blast
qed

end
