(* ===== verification/Capability_Lifecycle.thy ===== *)
theory Capability_Lifecycle
  imports Sealing
begin

text \<open>
  Operational lifecycle of external capabilities, \<open>src/runtime/orchestrator/capability_lifecycle.py\<close>: the contract
  reference, the sealed lifecycle record and the state machine of \<open>transition_capability_lifecycle\<close>. The theory
  interprets \<open>sealed\<close> on the record and proves the invariants of every history of transitions.
\<close>

section \<open>Constants\<close>

definition LIFECYCLE_STATES :: "string set" where
  "LIFECYCLE_STATES = {''DISCOVERED'', ''CANDIDATE'', ''SANDBOX'', ''QUALIFIED'', ''ACTIVE'', ''DEGRADED'',
     ''QUARANTINED'', ''DISABLE_NEW_ASSIGNMENT'', ''DRAINING'', ''SUPERSEDED'', ''DEPRECATED'', ''RETIRED''}"

definition BINDING_KINDS :: "string set" where "BINDING_KINDS = {''MCP_ENDPOINT'', ''ADAPTER'', ''LOCAL_SKILL''}"

definition HEALTH_STATES :: "string set" where
  "HEALTH_STATES = {''HEALTHY'', ''WARN'', ''DEGRADED'', ''UNHEALTHY'', ''UNKNOWN''}"

text \<open>\<open>_ALLOWED.get(state, set())\<close>.\<close>

definition ALLOWED :: "string \<Rightarrow> string set" where
  "ALLOWED state =
     (if state = ''DISCOVERED'' then {''CANDIDATE''}
      else if state = ''CANDIDATE'' then {''SANDBOX'', ''QUARANTINED''}
      else if state = ''SANDBOX'' then {''QUALIFIED'', ''QUARANTINED''}
      else if state = ''QUALIFIED'' then {''ACTIVE'', ''QUARANTINED''}
      else if state = ''ACTIVE'' then {''DEGRADED'', ''QUARANTINED'', ''DISABLE_NEW_ASSIGNMENT'', ''RETIRED''}
      else if state = ''DEGRADED'' then {''ACTIVE'', ''QUARANTINED'', ''DISABLE_NEW_ASSIGNMENT''}
      else if state = ''QUARANTINED'' then {''ACTIVE'', ''DISABLE_NEW_ASSIGNMENT''}
      else if state = ''DISABLE_NEW_ASSIGNMENT'' then {''DRAINING''}
      else if state = ''DRAINING'' then {''SUPERSEDED'', ''DEPRECATED'', ''RETIRED''}
      else if state = ''SUPERSEDED'' then {''RETIRED''}
      else if state = ''DEPRECATED'' then {''RETIRED''}
      else {})"

definition cap_safe :: "bool \<Rightarrow> string \<Rightarrow> string \<Rightarrow> string result" where
  "cap_safe allow_empty value label =
     (let text = py_strip value in
      if allow_empty \<and> text = [] then Inr []
      else if \<not> re_ident ''._:/+-'' 255 text \<or> py_contains text ''..''
      then Inl (CapabilityLifecycleError (''invalid '' @ label))
      else Inr text)"

definition cap_tuple :: "string list \<Rightarrow> string \<Rightarrow> string list result" where
  "cap_tuple values label =
     rbind (rmap (\<lambda>item. cap_safe False item label) values) (\<lambda>result.
     if \<not> distinct result then Inl (CapabilityLifecycleError (''duplicate '' @ label)) else Inr result)"

section \<open>The contract reference\<close>

record contract_ref =
  cc_contract_id :: string
  cc_contract_version :: string
  cc_binding_kind :: string
  cc_endpoint_ref :: string
  cc_stable_asset_identifier :: string
  cc_endpoint_version :: string
  cc_activation_epoch :: int
  cc_allowed_capabilities :: "string list"
  cc_blocked_capabilities :: "string list"
  cc_evidence_refs :: "string list"

definition contract_ref_init :: "contract_ref \<Rightarrow> contract_ref result" where
  "contract_ref_init c =
     rbind (cap_safe False (cc_contract_id c) ''contract ID'') (\<lambda>contract_id.
     rbind (cap_safe False (cc_contract_version c) ''contract version'') (\<lambda>contract_version.
     if cc_binding_kind c \<notin> BINDING_KINDS then Inl (CapabilityLifecycleError ''invalid binding kind'')
     else rbind (cap_safe True (cc_endpoint_ref c) ''endpoint ref'') (\<lambda>endpoint.
     rbind (cap_safe True (cc_stable_asset_identifier c) ''stable asset identifier'') (\<lambda>asset.
     if cc_binding_kind c \<in> {''MCP_ENDPOINT'', ''ADAPTER''} \<and> (endpoint = [] \<or> asset \<noteq> [])
     then Inl (CapabilityLifecycleError ''MCP/Adapter binding requires endpoint ref and forbids installed asset'')
     else if cc_binding_kind c \<notin> {''MCP_ENDPOINT'', ''ADAPTER''} \<and> asset = []
     then Inl (CapabilityLifecycleError ''LOCAL_SKILL binding requires authorized stable asset identifier'')
     else rbind (cap_safe False (cc_endpoint_version c) ''endpoint version'') (\<lambda>endpoint_version.
     if cc_activation_epoch c \<le> 0 then Inl (CapabilityLifecycleError ''activation epoch must be positive'')
     else rbind (cap_tuple (cc_allowed_capabilities c) ''allowed capability'') (\<lambda>allowed.
     rbind (cap_tuple (cc_blocked_capabilities c) ''blocked capability'') (\<lambda>blocked.
     if set allowed \<inter> set blocked \<noteq> {}
     then Inl (CapabilityLifecycleError ''allowed and blocked capabilities overlap'')
     else rbind (cap_tuple (cc_evidence_refs c) ''contract evidence ref'') (\<lambda>evidence.
     Inr \<lparr>cc_contract_id = contract_id, cc_contract_version = contract_version,
         cc_binding_kind = cc_binding_kind c, cc_endpoint_ref = endpoint, cc_stable_asset_identifier = asset,
         cc_endpoint_version = endpoint_version, cc_activation_epoch = cc_activation_epoch c,
         cc_allowed_capabilities = allowed, cc_blocked_capabilities = blocked, cc_evidence_refs = evidence\<rparr>))))))))"

definition contract_ref_asdict :: "contract_ref \<Rightarrow> pyval" where
  "contract_ref_asdict c = PyDict
     [(''contract_id'', PyStr (cc_contract_id c)), (''contract_version'', PyStr (cc_contract_version c)),
      (''binding_kind'', PyStr (cc_binding_kind c)), (''endpoint_ref'', PyStr (cc_endpoint_ref c)),
      (''stable_asset_identifier'', PyStr (cc_stable_asset_identifier c)),
      (''endpoint_version'', PyStr (cc_endpoint_version c)),
      (''activation_epoch'', PyInt (cc_activation_epoch c)),
      (''allowed_capabilities'', PyTuple (map PyStr (cc_allowed_capabilities c))),
      (''blocked_capabilities'', PyTuple (map PyStr (cc_blocked_capabilities c))),
      (''evidence_refs'', PyTuple (map PyStr (cc_evidence_refs c)))]"

section \<open>The lifecycle record\<close>

record capability_record =
  cr_contract :: contract_ref
  cr_state :: string
  cr_health :: string
  cr_active_dependency_ids :: "string list"
  cr_evidence_refs :: "string list"
  cr_record_digest :: string

definition active_dependency_count :: "capability_record \<Rightarrow> nat" where
  "active_dependency_count r = length (cr_active_dependency_ids r)"

definition capability_unsigned_dict :: "capability_record \<Rightarrow> pyval" where
  "capability_unsigned_dict r = PyDict
     [(''contract'', contract_ref_asdict (cr_contract r)), (''state'', PyStr (cr_state r)),
      (''health'', PyStr (cr_health r)),
      (''active_dependency_ids'', PyTuple (map PyStr (cr_active_dependency_ids r))),
      (''evidence_refs'', PyTuple (map PyStr (cr_evidence_refs r)))]"

definition expected_digest :: "capability_record \<Rightarrow> string" where
  "expected_digest r = digest (capability_unsigned_dict r)"

definition record_valid :: "capability_record \<Rightarrow> bool" where
  "record_valid r = (cr_record_digest r = expected_digest r)"

definition capability_create ::
  "contract_ref \<Rightarrow> string \<Rightarrow> string \<Rightarrow> string list \<Rightarrow> string list \<Rightarrow> capability_record result" where
  "capability_create contract state health active_dependency_ids evidence_refs =
     (if state \<notin> LIFECYCLE_STATES then Inl (CapabilityLifecycleError ''invalid lifecycle state'')
      else if health \<notin> HEALTH_STATES then Inl (CapabilityLifecycleError ''invalid health state'')
      else rbind (cap_tuple active_dependency_ids ''dependency ID'') (\<lambda>dependencies.
        rbind (cap_tuple evidence_refs ''lifecycle evidence ref'') (\<lambda>evidence.
        let provisional = \<lparr>cr_contract = contract, cr_state = state, cr_health = health,
              cr_active_dependency_ids = dependencies, cr_evidence_refs = evidence, cr_record_digest = []\<rparr>
        in Inr (provisional\<lparr>cr_record_digest := expected_digest provisional\<rparr>))))"

definition with_dependencies :: "capability_record \<Rightarrow> string list \<Rightarrow> capability_record result" where
  "with_dependencies r dependency_ids =
     (if \<not> record_valid r then Inl (CapabilityLifecycleError ''lifecycle record digest mismatch'')
      else capability_create (cr_contract r) (cr_state r) (cr_health r) dependency_ids (cr_evidence_refs r))"

text \<open>\<open>from_mapping\<close> on a payload whose fields are present with their JSON types; \<open>r\<close> holds them unchecked.\<close>

definition capability_from_mapping :: "capability_record \<Rightarrow> capability_record result" where
  "capability_from_mapping r =
     rbind (case contract_ref_init (cr_contract r) of
              Inl _ \<Rightarrow> Inl (CapabilityLifecycleError ''lifecycle record shape mismatch'') | Inr c \<Rightarrow> Inr c) (\<lambda>contract.
     let record = r\<lparr>cr_contract := contract\<rparr> in
     if cr_state record \<notin> LIFECYCLE_STATES \<or> cr_health record \<notin> HEALTH_STATES
     then Inl (CapabilityLifecycleError ''lifecycle record state is invalid'')
     else rbind (cap_tuple (cr_active_dependency_ids record) ''dependency ID'') (\<lambda>_.
       rbind (cap_tuple (cr_evidence_refs record) ''lifecycle evidence ref'') (\<lambda>_. Inr record)))"

definition transition_capability_lifecycle ::
  "capability_record \<Rightarrow> string \<Rightarrow> string list \<Rightarrow> capability_record result" where
  "transition_capability_lifecycle r target_state evidence_refs =
     (if target_state \<notin> LIFECYCLE_STATES then Inl (CapabilityLifecycleError ''invalid target lifecycle state'')
      else if target_state \<notin> ALLOWED (cr_state r)
      then Inl (CapabilityLifecycleError ''lifecycle transition is not allowed'')
      else if target_state = ''RETIRED'' \<and> active_dependency_count r \<noteq> 0
      then Inl (CapabilityLifecycleError ''cannot retire capability with active dependencies'')
      else rbind (cap_tuple evidence_refs ''transition evidence ref'') (\<lambda>transition_evidence.
        if target_state = ''RETIRED'' \<and> transition_evidence = []
        then Inl (CapabilityLifecycleError ''retire evidence is required'')
        else if \<not> record_valid r then Inl (CapabilityLifecycleError ''lifecycle record digest mismatch'')
        else capability_create (cr_contract r) target_state (cr_health r) (cr_active_dependency_ids r)
               (fromkeys (cr_evidence_refs r @ transition_evidence))))"

section \<open>Facts\<close>

lemma cap_safe_stripped: "cap_safe ae v l = Inr s \<Longrightarrow> s = py_strip v \<and> py_strip s = s \<and> cap_safe ae s l' = Inr s"
  by (auto simp: cap_safe_def Let_def split: if_splits)

lemma cap_tuple_iff:
  "cap_tuple vs l = Inr ss \<longleftrightarrow> ss = map py_strip vs \<and> distinct ss \<and> (\<forall>v \<in> set vs. cap_safe False v l = Inr (py_strip v))"
proof -
  have "rmap (\<lambda>v. cap_safe False v l) vs = Inr ss \<longleftrightarrow> ss = map py_strip vs \<and>
      (\<forall>v \<in> set vs. cap_safe False v l = Inr (py_strip v))" for ss
  proof
    assume "rmap (\<lambda>v. cap_safe False v l) vs = Inr ss"
    then have *: "list_all2 (\<lambda>v s. cap_safe False v l = Inr s) vs ss" by (simp add: rmap_eq_Inr)
    then have "list_all2 (\<lambda>v s. s = py_strip v) vs ss"
      by (rule list_all2_mono) (blast dest: cap_safe_stripped)
    then have "ss = map py_strip vs" by (simp add: list_all2_conv_all_nth list_eq_iff_nth_eq)
    with * show "ss = map py_strip vs \<and> (\<forall>v \<in> set vs. cap_safe False v l = Inr (py_strip v))"
      by (auto simp: list_all2_conv_all_nth in_set_conv_nth)
  qed (auto intro: rmap_total)
  then show ?thesis by (auto simp: cap_tuple_def)
qed

lemma cap_tuple_idem:
  assumes "cap_tuple vs l = Inr ss"
  shows "cap_tuple ss l' = Inr ss"
proof -
  have "py_strip s = s \<and> cap_safe False s l' = Inr s" if s: "s \<in> set ss" for s
  proof -
    obtain v where "cap_safe False v l = Inr s" using s assms by (auto simp: cap_tuple_iff)
    then show ?thesis using cap_safe_stripped by blast
  qed
  moreover have "distinct ss" using assms cap_tuple_iff [of vs l ss] by blast
  ultimately show ?thesis by (auto simp: cap_tuple_iff intro!: map_idI [symmetric])
qed

lemma cap_tuple_subseq:
  assumes "cap_tuple ss l = Inr ss" "set ts \<subseteq> set ss" "distinct ts"
  shows "cap_tuple ts l' = Inr ts"
proof -
  have "py_strip t = t" "cap_safe False t l' = Inr t" if "t \<in> set ts" for t
  proof -
    have "t \<in> set ss" using that assms(2) by blast
    moreover have "map py_strip ss = ss" using assms(1) by (simp add: cap_tuple_iff)
    ultimately show s: "py_strip t = t" by (metis map_eq_conv map_ident)
    have "cap_safe False t l = Inr (py_strip t)" using assms(1) \<open>t \<in> set ss\<close> by (simp add: cap_tuple_iff)
    with s show "cap_safe False t l' = Inr t" using cap_safe_stripped [of False t l t] by simp
  qed
  then show ?thesis using assms(3) by (simp add: cap_tuple_iff map_idI)
qed

lemma contract_ref_init_idem:
  assumes "contract_ref_init c = Inr c'"
  shows "contract_ref_init c' = Inr c'"
proof -
  obtain i v e a ev al bl er where parts:
    "cap_safe False (cc_contract_id c) ''contract ID'' = Inr i"
    "cap_safe False (cc_contract_version c) ''contract version'' = Inr v"
    "cap_safe True (cc_endpoint_ref c) ''endpoint ref'' = Inr e"
    "cap_safe True (cc_stable_asset_identifier c) ''stable asset identifier'' = Inr a"
    "cap_safe False (cc_endpoint_version c) ''endpoint version'' = Inr ev"
    "cap_tuple (cc_allowed_capabilities c) ''allowed capability'' = Inr al"
    "cap_tuple (cc_blocked_capabilities c) ''blocked capability'' = Inr bl"
    "cap_tuple (cc_evidence_refs c) ''contract evidence ref'' = Inr er"
    and ok: "cc_binding_kind c \<in> BINDING_KINDS" "0 < cc_activation_epoch c" "set al \<inter> set bl = {}"
      "\<not> (cc_binding_kind c \<in> {''MCP_ENDPOINT'', ''ADAPTER''} \<and> (e = [] \<or> a \<noteq> []))"
      "\<not> (cc_binding_kind c \<notin> {''MCP_ENDPOINT'', ''ADAPTER''} \<and> a = [])"
    and c': "c' = \<lparr>cc_contract_id = i, cc_contract_version = v, cc_binding_kind = cc_binding_kind c,
         cc_endpoint_ref = e, cc_stable_asset_identifier = a, cc_endpoint_version = ev,
         cc_activation_epoch = cc_activation_epoch c, cc_allowed_capabilities = al,
         cc_blocked_capabilities = bl, cc_evidence_refs = er\<rparr>"
    using assms unfolding contract_ref_init_def rbind_eq_Inr guard_eq_Inr by fastforce
  have safe: "cap_safe ae s l' = Inr s" if "cap_safe ae w l = Inr s" for ae w l s l'
    using cap_safe_stripped [OF that] by blast
  show ?thesis
    unfolding contract_ref_init_def
    using ok parts(1-5) [THEN safe] parts(6-8) [THEN cap_tuple_idem] by (simp add: c')
qed

text \<open>The fields a constructed record has.\<close>

definition record_ok :: "capability_record \<Rightarrow> bool" where
  "record_ok r = (record_valid r \<and> contract_ref_init (cr_contract r) = Inr (cr_contract r) \<and>
     cr_state r \<in> LIFECYCLE_STATES \<and> cr_health r \<in> HEALTH_STATES \<and>
     cap_tuple (cr_active_dependency_ids r) ''dependency ID'' = Inr (cr_active_dependency_ids r) \<and>
     cap_tuple (cr_evidence_refs r) ''lifecycle evidence ref'' = Inr (cr_evidence_refs r))"

definition capability_reseal :: "string \<Rightarrow> capability_record \<Rightarrow> capability_record" where
  "capability_reseal d r = r\<lparr>cr_record_digest := d\<rparr>"

interpretation capability: sealed capability_unsigned_dict cr_record_digest capability_reseal record_valid
  by unfold_locales
    (simp_all add: capability_unsigned_dict_def capability_reseal_def record_valid_def expected_digest_def)

lemma capability_create_iff:
  "capability_create c st h ds es = Inr r \<longleftrightarrow> st \<in> LIFECYCLE_STATES \<and> h \<in> HEALTH_STATES \<and>
     (\<exists>ds' es'. cap_tuple ds ''dependency ID'' = Inr ds' \<and> cap_tuple es ''lifecycle evidence ref'' = Inr es' \<and>
        cr_contract r = c \<and> cr_state r = st \<and> cr_health r = h \<and> cr_active_dependency_ids r = ds' \<and>
        cr_evidence_refs r = es' \<and> record_valid r)"
  (is "?L \<longleftrightarrow> ?R")
proof
  assume ?L
  then show ?R
    by (auto simp: capability_create_def Let_def record_valid_def expected_digest_def capability_unsigned_dict_def)
next
  assume R: ?R
  then obtain ds' es' where e: "cap_tuple ds ''dependency ID'' = Inr ds'" "cap_tuple es ''lifecycle evidence ref'' = Inr es'"
    "r = \<lparr>cr_contract = c, cr_state = st, cr_health = h, cr_active_dependency_ids = ds', cr_evidence_refs = es',
       cr_record_digest = expected_digest r\<rparr>" by (auto simp: record_valid_def)
  have "expected_digest r = expected_digest \<lparr>cr_contract = c, cr_state = st, cr_health = h, cr_active_dependency_ids = ds',
       cr_evidence_refs = es', cr_record_digest = []\<rparr>"
    by (subst e(3)) (simp add: expected_digest_def capability_unsigned_dict_def)
  with e R show ?L by (simp add: capability_create_def)
qed

lemma create_ok:
  "capability_create c st h ds es = Inr r \<Longrightarrow> contract_ref_init c = Inr c \<Longrightarrow> record_ok r"
  by (auto simp: record_ok_def capability_create_iff intro: cap_tuple_idem)

lemma transition_iff:
  "transition_capability_lifecycle r target es = Inr r' \<longleftrightarrow>
     target \<in> LIFECYCLE_STATES \<and> target \<in> ALLOWED (cr_state r) \<and>
     (target = ''RETIRED'' \<longrightarrow> cr_active_dependency_ids r = [] \<and> es \<noteq> []) \<and> record_valid r \<and>
     (\<exists>te. cap_tuple es ''transition evidence ref'' = Inr te \<and>
        capability_create (cr_contract r) target (cr_health r) (cr_active_dependency_ids r)
          (fromkeys (cr_evidence_refs r @ te)) = Inr r')"
  by (auto simp: transition_capability_lifecycle_def active_dependency_count_def cap_tuple_iff)

section \<open>Histories of one record\<close>

text \<open>The operations that change a record: a transition, and the replacement of its dependencies by the store, which adds one
  dependency only while new assignments are allowed.\<close>

definition NO_NEW_ASSIGNMENT :: "string set" where
  "NO_NEW_ASSIGNMENT = {''DISABLE_NEW_ASSIGNMENT'', ''DRAINING'', ''SUPERSEDED'', ''DEPRECATED'', ''RETIRED''}"

inductive capability_step :: "capability_record \<Rightarrow> capability_record \<Rightarrow> bool" where
  move: "transition_capability_lifecycle r target es = Inr r' \<Longrightarrow> capability_step r r'"
| acquire: "cr_state r \<notin> NO_NEW_ASSIGNMENT \<Longrightarrow>
    with_dependencies r (sorted_set (cr_active_dependency_ids r @ [d])) = Inr r' \<Longrightarrow> capability_step r r'"
| release: "with_dependencies r (filter (\<lambda>i. i \<noteq> d) (cr_active_dependency_ids r)) = Inr r' \<Longrightarrow> capability_step r r'"

inductive_cases capability_stepE: "capability_step r r'"

inductive capability_run :: "capability_record \<Rightarrow> capability_record \<Rightarrow> bool" where
  start: "capability_run r r"
| more: "capability_run r s \<Longrightarrow> capability_step s t \<Longrightarrow> capability_run r t"

definition retired_idle :: "capability_record \<Rightarrow> bool" where
  "retired_idle r = (cr_state r = ''RETIRED'' \<longrightarrow> cr_active_dependency_ids r = [])"

lemma with_dependencies_iff:
  "with_dependencies r ds = Inr r' \<longleftrightarrow> record_valid r \<and>
     capability_create (cr_contract r) (cr_state r) (cr_health r) ds (cr_evidence_refs r) = Inr r'"
  by (auto simp: with_dependencies_def)

lemma with_dependenciesD:
  assumes "with_dependencies r ds = Inr r'" "record_ok r"
  shows "record_ok r'" "cr_state r' = cr_state r" "cr_contract r' = cr_contract r"
    "cr_evidence_refs r' = cr_evidence_refs r" "cr_active_dependency_ids r' = map py_strip ds"
    "cr_health r' = cr_health r"
proof -
  have c: "capability_create (cr_contract r) (cr_state r) (cr_health r) ds (cr_evidence_refs r) = Inr r'"
    using assms(1) by (simp add: with_dependencies_iff)
  show "record_ok r'" by (rule create_ok [OF c]) (use assms(2) in \<open>simp add: record_ok_def\<close>)
  show "cr_evidence_refs r' = cr_evidence_refs r"
    using c assms(2) by (auto simp: capability_create_iff record_ok_def)
  show "cr_state r' = cr_state r" "cr_contract r' = cr_contract r" "cr_active_dependency_ids r' = map py_strip ds"
    "cr_health r' = cr_health r"
    using c by (auto simp: capability_create_iff cap_tuple_iff)
qed

lemma ALLOWED_NO_NEW: "st \<in> NO_NEW_ASSIGNMENT \<Longrightarrow> t \<in> ALLOWED st \<Longrightarrow> t \<in> NO_NEW_ASSIGNMENT"
  by (auto simp: NO_NEW_ASSIGNMENT_def ALLOWED_def)

lemma ALLOWED_RETIRED [simp]: "ALLOWED ''RETIRED'' = {}"
  by (simp add: ALLOWED_def)

lemma fromkeys_append_subset: "set xs \<subseteq> set (fromkeys (xs @ ys))"
  by auto

lemma capability_step_facts:
  assumes "capability_step r r'" "record_ok r" "retired_idle r"
  shows "record_ok r'" "retired_idle r'" "cr_contract r' = cr_contract r"
    "set (cr_evidence_refs r) \<subseteq> set (cr_evidence_refs r')"
    "cr_state r \<in> NO_NEW_ASSIGNMENT \<Longrightarrow> cr_state r' \<in> NO_NEW_ASSIGNMENT \<and>
       set (cr_active_dependency_ids r') \<subseteq> set (cr_active_dependency_ids r)"
    "cr_state r = ''RETIRED'' \<Longrightarrow> cr_state r' = ''RETIRED''"
    "cr_state r' = cr_state r \<or> cr_state r' \<in> ALLOWED (cr_state r)"
proof -
  have deps: "map py_strip (cr_active_dependency_ids r) = cr_active_dependency_ids r"
    and evs: "map py_strip (cr_evidence_refs r) = cr_evidence_refs r"
    and c: "contract_ref_init (cr_contract r) = Inr (cr_contract r)"
    using assms(2) by (auto simp: record_ok_def cap_tuple_iff)
  have strip_ev: "py_strip x = x" if "x \<in> set (cr_evidence_refs r)" for x
    using evs that by (metis map_eq_conv map_ident)
  have strip_dep: "py_strip x = x" if "x \<in> set (cr_active_dependency_ids r)" for x
    using deps that by (metis map_eq_conv map_ident)
  from assms(1) have "record_ok r' \<and> retired_idle r' \<and> cr_contract r' = cr_contract r \<and>
    set (cr_evidence_refs r) \<subseteq> set (cr_evidence_refs r') \<and>
    (cr_state r \<in> NO_NEW_ASSIGNMENT \<longrightarrow> cr_state r' \<in> NO_NEW_ASSIGNMENT \<and>
       set (cr_active_dependency_ids r') \<subseteq> set (cr_active_dependency_ids r)) \<and>
    (cr_state r = ''RETIRED'' \<longrightarrow> cr_state r' = ''RETIRED'') \<and>
    (cr_state r' = cr_state r \<or> cr_state r' \<in> ALLOWED (cr_state r))"
  proof (cases rule: capability_step.cases)
    case (move target es)
    then obtain te where te: "target \<in> ALLOWED (cr_state r)" "target = ''RETIRED'' \<longrightarrow> cr_active_dependency_ids r = []"
      "capability_create (cr_contract r) target (cr_health r) (cr_active_dependency_ids r)
         (fromkeys (cr_evidence_refs r @ te)) = Inr r'" by (auto simp: transition_iff)
    have f: "cr_state r' = target" "cr_contract r' = cr_contract r"
      "cr_active_dependency_ids r' = cr_active_dependency_ids r"
      "cr_evidence_refs r' = map py_strip (fromkeys (cr_evidence_refs r @ te))"
      using te(3) deps by (auto simp: capability_create_iff cap_tuple_iff)
    have "set (cr_evidence_refs r) \<subseteq> set (cr_evidence_refs r')"
      using strip_ev by (force simp: f(4))
    with te(1,2) f create_ok [OF te(3) c] ALLOWED_NO_NEW [of "cr_state r" target] show ?thesis
      by (auto simp: retired_idle_def)
  next
    case (acquire d)
    note f = with_dependenciesD [OF acquire(2) assms(2)]
    with acquire(1) show ?thesis by (auto simp: retired_idle_def NO_NEW_ASSIGNMENT_def)
  next
    case (release d)
    note f = with_dependenciesD [OF release assms(2)]
    have "set (cr_active_dependency_ids r') \<subseteq> set (cr_active_dependency_ids r)"
      using strip_dep by (auto simp: f(5))
    with f assms(3) show ?thesis by (auto simp: retired_idle_def)
  qed
  then show "record_ok r'" "retired_idle r'" "cr_contract r' = cr_contract r"
    "set (cr_evidence_refs r) \<subseteq> set (cr_evidence_refs r')"
    "cr_state r \<in> NO_NEW_ASSIGNMENT \<Longrightarrow> cr_state r' \<in> NO_NEW_ASSIGNMENT \<and>
       set (cr_active_dependency_ids r') \<subseteq> set (cr_active_dependency_ids r)"
    "cr_state r = ''RETIRED'' \<Longrightarrow> cr_state r' = ''RETIRED''"
    "cr_state r' = cr_state r \<or> cr_state r' \<in> ALLOWED (cr_state r)" by blast+
qed

lemma capability_run_facts:
  assumes "capability_run r r'" "record_ok r" "retired_idle r"
  shows "record_ok r' \<and> retired_idle r' \<and> cr_contract r' = cr_contract r \<and>
    set (cr_evidence_refs r) \<subseteq> set (cr_evidence_refs r') \<and>
    (cr_state r \<in> NO_NEW_ASSIGNMENT \<longrightarrow> cr_state r' \<in> NO_NEW_ASSIGNMENT \<and>
       set (cr_active_dependency_ids r') \<subseteq> set (cr_active_dependency_ids r)) \<and>
    (cr_state r = ''RETIRED'' \<longrightarrow> cr_state r' = ''RETIRED'')"
  using assms
proof (induction rule: capability_run.induct)
  case (more r s t)
  note IH = more.IH [OF more.prems]
  from IH have "record_ok s" "retired_idle s" by blast+
  note step = capability_step_facts [OF more.hyps(2) this]
  from IH step(3-6) show ?case by (simp add: step(1,2)) blast
qed auto

text \<open>C7. Over every history of transitions, acquired and released dependencies of a capability record: the record stays sealed
  and well formed, a retired record has no active dependencies and stays retired, evidence is never lost,
  and once new assignments are disabled they stay disabled and no dependency is ever added.\<close>

theorem capability_history_invariant:
  assumes "capability_run r r'" "record_ok r" "cr_state r = ''RETIRED'' \<longrightarrow> cr_active_dependency_ids r = []"
  shows "record_ok r' \<and> cr_contract r' = cr_contract r \<and>
    (cr_state r' = ''RETIRED'' \<longrightarrow> cr_active_dependency_ids r' = []) \<and>
    (cr_state r = ''RETIRED'' \<longrightarrow> cr_state r' = ''RETIRED'') \<and>
    set (cr_evidence_refs r) \<subseteq> set (cr_evidence_refs r') \<and>
    (cr_state r \<in> NO_NEW_ASSIGNMENT \<longrightarrow> cr_state r' \<in> NO_NEW_ASSIGNMENT \<and>
       set (cr_active_dependency_ids r') \<subseteq> set (cr_active_dependency_ids r))"
  using capability_run_facts [OF assms(1,2)] assms(3) by (simp add: retired_idle_def)

text \<open>A transition succeeds exactly for a sealed record whose state allows the target, with well-formed, duplicate-free
  evidence; retiring also needs some evidence and no active dependency.\<close>

theorem capability_transition_spec:
  assumes "record_ok r" "cap_tuple es ''transition evidence ref'' = Inr es"
  shows "(\<exists>r'. transition_capability_lifecycle r target es = Inr r') \<longleftrightarrow>
      target \<in> ALLOWED (cr_state r) \<and> (target = ''RETIRED'' \<longrightarrow> cr_active_dependency_ids r = [] \<and> es \<noteq> [])"
    (is "?L \<longleftrightarrow> ?R")
proof
  show "?L \<Longrightarrow> ?R" by (auto simp: transition_iff)
  assume R: ?R
  then have t: "target \<in> LIFECYCLE_STATES" by (auto simp: ALLOWED_def LIFECYCLE_STATES_def split: if_splits)
  have ok: "record_valid r" "cr_health r \<in> HEALTH_STATES"
    "cap_tuple (cr_active_dependency_ids r) ''dependency ID'' = Inr (cr_active_dependency_ids r)"
    "cap_tuple (cr_evidence_refs r) ''lifecycle evidence ref'' = Inr (cr_evidence_refs r)"
    using assms(1) by (simp_all add: record_ok_def)
  have "cap_safe False x ''lifecycle evidence ref'' = Inr x \<and> py_strip x = x"
    if x: "x \<in> set (cr_evidence_refs r @ es)" for x
  proof -
    have "cap_safe False x l = Inr (py_strip x) \<and> py_strip x = x" if "cap_tuple xs l = Inr xs" "x \<in> set xs" for xs l
      using that by (simp add: cap_tuple_iff) (metis map_eq_conv map_ident)
    then obtain l where "cap_safe False x l = Inr x" "py_strip x = x" using x ok(4) assms(2) by (metis Un_iff set_append)
    then show ?thesis using cap_safe_stripped by blast
  qed
  then have "cap_tuple (fromkeys (cr_evidence_refs r @ es)) ''lifecycle evidence ref'' =
      Inr (fromkeys (cr_evidence_refs r @ es))"
    by (auto simp: cap_tuple_iff intro!: map_idI [symmetric])
  then have "\<exists>r'. capability_create (cr_contract r) target (cr_health r) (cr_active_dependency_ids r)
      (fromkeys (cr_evidence_refs r @ es)) = Inr r'"
    using t ok by (simp add: capability_create_def)
  then show ?L using R t ok(1) assms(2) by (simp add: transition_iff)
qed

section \<open>A concrete record\<close>

definition ex_contract :: contract_ref where
  "ex_contract = \<lparr>cc_contract_id = ''mcp:search'', cc_contract_version = ''v1'', cc_binding_kind = ''MCP_ENDPOINT'',
     cc_endpoint_ref = ''endpoint'', cc_stable_asset_identifier = [], cc_endpoint_version = ''v1'',
     cc_activation_epoch = 1, cc_allowed_capabilities = [''read''], cc_blocked_capabilities = [],
     cc_evidence_refs = []\<rparr>"

definition ex_record :: "string \<Rightarrow> capability_record" where
  "ex_record st = (let r = \<lparr>cr_contract = ex_contract, cr_state = st, cr_health = ''HEALTHY'',
     cr_active_dependency_ids = [], cr_evidence_refs = [''ev''], cr_record_digest = []\<rparr>
     in r\<lparr>cr_record_digest := expected_digest r\<rparr>)"

lemma ex_contract_init: "contract_ref_init ex_contract = Inr ex_contract"
  by (simp add: contract_ref_init_def ex_contract_def cap_safe_def cap_tuple_def py_strip_def py_isspace_def
      ascii_alnum_def BINDING_KINDS_def py_startswith_def)

lemma ex_evidence: "cap_tuple [''ev''] l = Inr [''ev'']" "cap_tuple [''ev2''] l = Inr [''ev2'']"
  by (simp_all add: cap_tuple_def cap_safe_def py_strip_def py_isspace_def ascii_alnum_def py_startswith_def)

lemma ex_record_ok: "st \<in> LIFECYCLE_STATES \<Longrightarrow> record_ok (ex_record st)"
  using ex_contract_init ex_evidence
  by (simp add: record_ok_def ex_record_def Let_def record_valid_def expected_digest_def capability_unsigned_dict_def
      HEALTH_STATES_def) (simp add: cap_tuple_def)

theorem capability_transition_spec_witness:
  "(\<exists>r'. transition_capability_lifecycle (ex_record ''ACTIVE'') ''RETIRED'' [''ev2''] = Inr r') \<and>
   \<not> (\<exists>r'. transition_capability_lifecycle (ex_record ''RETIRED'') ''ACTIVE'' [''ev2''] = Inr r')"
proof -
  have ok: "record_ok (ex_record ''ACTIVE'')" "record_ok (ex_record ''RETIRED'')"
    by (rule ex_record_ok, simp add: LIFECYCLE_STATES_def)+
  show ?thesis
    unfolding capability_transition_spec [OF ok(1) ex_evidence(2)] capability_transition_spec [OF ok(2) ex_evidence(2)]
    by (simp add: ex_record_def Let_def ALLOWED_def)
qed

lemma ex_step: "\<exists>r'. capability_step (ex_record ''ACTIVE'') r' \<and> cr_state r' = ''DISABLE_NEW_ASSIGNMENT''"
proof -
  have ok: "record_ok (ex_record ''ACTIVE'')" by (rule ex_record_ok) (simp add: LIFECYCLE_STATES_def)
  have "cap_tuple [''ev'', ''ev2''] ''lifecycle evidence ref'' = Inr [''ev'', ''ev2'']"
    by (simp add: cap_tuple_def cap_safe_def py_strip_def py_isspace_def ascii_alnum_def py_startswith_def)
  then have "\<exists>r'. transition_capability_lifecycle (ex_record ''ACTIVE'') ''DISABLE_NEW_ASSIGNMENT'' [''ev2''] = Inr r' \<and>
      cr_state r' = ''DISABLE_NEW_ASSIGNMENT''"
    using ok ex_evidence(2) by (auto simp: transition_capability_lifecycle_def record_ok_def capability_create_def
        LIFECYCLE_STATES_def ALLOWED_def ex_record_def Let_def)
  then show ?thesis using capability_step.move by blast
qed

theorem capability_history_invariant_witness:
  "\<exists>r'. capability_run (ex_record ''ACTIVE'') r' \<and> cr_state r' = ''DISABLE_NEW_ASSIGNMENT'' \<and> record_ok r' \<and>
     set (cr_evidence_refs (ex_record ''ACTIVE'')) \<subseteq> set (cr_evidence_refs r')"
proof -
  obtain r' where r': "capability_step (ex_record ''ACTIVE'') r'" "cr_state r' = ''DISABLE_NEW_ASSIGNMENT''"
    using ex_step by blast
  have run: "capability_run (ex_record ''ACTIVE'') r'" by (rule more [OF start r'(1)])
  have ok: "record_ok (ex_record ''ACTIVE'')" by (rule ex_record_ok) (simp add: LIFECYCLE_STATES_def)
  have "cr_state (ex_record ''ACTIVE'') = ''RETIRED'' \<longrightarrow> cr_active_dependency_ids (ex_record ''ACTIVE'') = []"
    by (simp add: ex_record_def Let_def)
  from capability_history_invariant [OF run ok this] run r'(2) show ?thesis by blast
qed

end
