(* ===== verification/Capability_Store.thy ===== *)
theory Capability_Store
  imports Capability_Lifecycle
begin

text \<open>
  The durable store of capability lifecycle records, \<open>src/runtime/orchestrator/capability_lifecycle_store.py\<close>.

  The directory is an association list from file names to entries: what \<open>durable_json_load\<close> returns for the file, or the
  message of the \<open>DurableIOError\<close> it raises. \<open>durable_json_load\<close> and \<open>atomic_write_json\<close> are another module: writing a
  payload makes the file read as that payload. Each operation runs under the contract's file lock and is
  one atomic step here.
\<close>

datatype disk_entry = Corrupt string | Payload capability_record

type_synonym disk = "(string \<times> disk_entry) list"

section \<open>File names\<close>

definition filename_char :: "char \<Rightarrow> char" where
  "filename_char ch = (if py_isalnum ch \<or> ch \<in> set ''-_'' then ch else CHR ''_'')"

definition rstrip_underscore :: "string \<Rightarrow> string" where
  "rstrip_underscore s = rev (dropWhile (\<lambda>c. c = CHR ''_'') (rev s))"

definition safe_contract_filename :: "string \<Rightarrow> string result" where
  "safe_contract_filename raw =
     (let safe = map filename_char raw in
      if safe = [] then Inl (CapabilityLifecycleStoreError ''unsafe contract id'')
      else if safe = raw
      then if length safe > 180 then Inl (CapabilityLifecycleStoreError ''unsafe contract id'')
           else Inr (safe @ ''.json'')
      else let stripped = rstrip_underscore (take 150 safe);
               stem = (if stripped = [] then ''contract'' else stripped);
               dig = take 20 (sha256_hex (utf8 raw))
           in Inr (stem @ ''-'' @ dig @ ''.json''))"

definition legacy_contract_filename :: "string \<Rightarrow> string result" where
  "legacy_contract_filename contract_id =
     (let safe = map filename_char contract_id in
      if safe = [] \<or> length safe > 180 then Inl (CapabilityLifecycleStoreError ''unsafe contract id'')
      else Inr (safe @ ''.json''))"

definition path_exists :: "disk \<Rightarrow> string \<Rightarrow> bool" where
  "path_exists d p = (py_get d p \<noteq> None)"

definition read_path :: "disk \<Rightarrow> string \<Rightarrow> string result" where
  "read_path d contract_id =
     rbind (safe_contract_filename contract_id) (\<lambda>path.
     if path_exists d path then Inr path
     else rbind (legacy_contract_filename contract_id) (\<lambda>legacy.
       if path_exists d legacy then Inr legacy else Inr path))"

definition write_path :: "disk \<Rightarrow> capability_record \<Rightarrow> string result" where
  "write_path d r =
     (let contract_id = cc_contract_id (cr_contract r) in
      rbind (safe_contract_filename contract_id) (\<lambda>canonical.
      rbind (legacy_contract_filename contract_id) (\<lambda>legacy.
      if canonical = legacy \<or> path_exists d canonical \<or> \<not> path_exists d legacy then Inr canonical
      else case py_get d legacy of
        Some (Payload payload) \<Rightarrow>
          (case capability_from_mapping payload of
             Inl _ \<Rightarrow> Inr canonical
           | Inr existing \<Rightarrow>
               if cc_contract_id (cr_contract existing) = contract_id then Inr legacy else Inr canonical)
      | _ \<Rightarrow> Inr canonical)))"

section \<open>Operations\<close>

definition store_put :: "disk \<Rightarrow> capability_record \<Rightarrow> (string \<times> disk) result" where
  "store_put d r =
     (if \<not> record_valid r then Inl (CapabilityLifecycleStoreError ''lifecycle record digest mismatch'')
      else rbind (write_path d r) (\<lambda>path. Inr (path, py_setitem path (Payload r) d)))"

definition store_error :: "string \<Rightarrow> py_exc" where
  "store_error message = CapabilityLifecycleStoreError
     (if py_contains (py_lower message) ''digest'' then ''lifecycle record digest mismatch'' else message)"

fun exc_message :: "py_exc \<Rightarrow> string" where
  "exc_message (CapabilityLifecycleError m) = m"
| "exc_message _ = []"

definition store_get :: "disk \<Rightarrow> string \<Rightarrow> capability_record result" where
  "store_get d contract_id =
     rbind (read_path d contract_id) (\<lambda>path.
     rbind (case py_get d path of
        None \<Rightarrow> Inl (FileNotFoundError path)
      | Some (Corrupt message) \<Rightarrow> Inl (store_error message)
      | Some (Payload payload) \<Rightarrow>
          (case capability_from_mapping payload of Inl e \<Rightarrow> Inl (store_error (exc_message e)) | Inr r \<Rightarrow> Inr r)) (\<lambda>record.
     if cc_contract_id (cr_contract record) \<noteq> contract_id
     then Inl (CapabilityLifecycleStoreError ''lifecycle record identity mismatch'')
     else if \<not> record_valid record then Inl (CapabilityLifecycleStoreError ''lifecycle record digest mismatch'')
     else Inr record))"

text \<open>The shape of the three updates: read, change, write, return the new record.\<close>

definition store_modify ::
  "(capability_record \<Rightarrow> capability_record result) \<Rightarrow> disk \<Rightarrow> string \<Rightarrow> (capability_record \<times> disk) result" where
  "store_modify f d contract_id =
     rbind (store_get d contract_id) (\<lambda>record. rbind (f record) (\<lambda>updated.
     rbind (store_put d updated) (\<lambda>written. Inr (updated, snd written))))"

definition acquire_update :: "string \<Rightarrow> capability_record \<Rightarrow> capability_record result" where
  "acquire_update task_execution_id r =
     (if cr_state r \<in> {''DISABLE_NEW_ASSIGNMENT'', ''DRAINING'', ''SUPERSEDED'', ''DEPRECATED'', ''RETIRED''}
      then Inl (CapabilityLifecycleStoreError ''new assignment disabled'')
      else with_dependencies r (sorted_set (cr_active_dependency_ids r @ [task_execution_id])))"

definition acquire_dependency :: "disk \<Rightarrow> string \<Rightarrow> string \<Rightarrow> (capability_record \<times> disk) result" where
  "acquire_dependency d contract_id task_execution_id = store_modify (acquire_update task_execution_id) d contract_id"

definition release_dependency :: "disk \<Rightarrow> string \<Rightarrow> string \<Rightarrow> (capability_record \<times> disk) result" where
  "release_dependency d contract_id task_execution_id = store_modify
     (\<lambda>r. with_dependencies r (filter (\<lambda>item. item \<noteq> task_execution_id) (cr_active_dependency_ids r))) d contract_id"

definition drain_update :: "string \<Rightarrow> capability_record \<Rightarrow> capability_record result" where
  "drain_update evidence_ref r =
     (if cr_state r \<notin> {''ACTIVE'', ''DEGRADED'', ''QUARANTINED''}
      then Inl (CapabilityLifecycleStoreError ''capability cannot enter drain from current state'')
      else case rbind (transition_capability_lifecycle r ''DISABLE_NEW_ASSIGNMENT'' [evidence_ref])
                (\<lambda>disabled. transition_capability_lifecycle disabled ''DRAINING'' [evidence_ref]) of
        Inl e \<Rightarrow> Inl (CapabilityLifecycleStoreError (exc_message e))
      | Inr draining \<Rightarrow> Inr draining)"

definition begin_drain :: "disk \<Rightarrow> string \<Rightarrow> string \<Rightarrow> (capability_record \<times> disk) result" where
  "begin_drain d contract_id evidence_ref = store_modify (drain_update evidence_ref) d contract_id"

text \<open>\<open>list_records\<close>: the loop body over the files in name order; the dict keeps the record and whether its file is the
  canonical one.\<close>

definition list_step ::
  "disk \<Rightarrow> (string \<times> capability_record \<times> bool) list \<Rightarrow> string \<Rightarrow> (string \<times> capability_record \<times> bool) list result" where
  "list_step d records path =
     (case py_get d path of
        Some (Payload payload) \<Rightarrow>
          (case capability_from_mapping payload of
             Inl _ \<Rightarrow> Inl (CapabilityLifecycleStoreError (''invalid lifecycle record: '' @ path))
           | Inr record \<Rightarrow>
               if \<not> record_valid record
               then Inl (CapabilityLifecycleStoreError ''lifecycle record digest mismatch'')
               else let contract_id = cc_contract_id (cr_contract record) in
                 rbind (safe_contract_filename contract_id) (\<lambda>canonical.
                 let is_canonical = (path = canonical) in
                 case py_get records contract_id of
                   None \<Rightarrow> Inr (py_setitem contract_id (record, is_canonical) records)
                 | Some previous \<Rightarrow>
                     if is_canonical \<and> \<not> snd previous
                     then Inr (py_setitem contract_id (record, is_canonical) records) else Inr records))
      | _ \<Rightarrow> Inl (CapabilityLifecycleStoreError (''invalid lifecycle record: '' @ path)))"

definition list_records :: "disk \<Rightarrow> capability_record list result" where
  "list_records d =
     rbind (rfold (list_step d) [] (sort (filter (\<lambda>p. py_endswith p ''.json'') (map fst d)))) (\<lambda>records.
     Inr (map (\<lambda>kv. fst (snd kv)) records))"

section \<open>The contract of a record store\<close>

locale record_store =
  fixes fetch :: "'d \<Rightarrow> string \<Rightarrow> 'r result"
    and store :: "'d \<Rightarrow> 'r \<Rightarrow> (string \<times> 'd) result"
    and key :: "'r \<Rightarrow> string"
    and good :: "'r \<Rightarrow> bool"
  assumes fetch_stored: "good r \<Longrightarrow> store d r = Inr (p, d') \<Longrightarrow> fetch d' (key r) = Inr r"
begin

text \<open>A history of updates of one key ends in the record the updates lead to.\<close>

lemma run_updates:
  assumes "rfold (\<lambda>d f. rbind (fetch d k) (\<lambda>r. rbind (f r) (\<lambda>r'. rbind (store d r') (\<lambda>w. Inr (snd w))))) d fs = Inr d'"
    and "fetch d k = Inr r" "good r" "key r = k"
    and "\<And>f r r'. f \<in> set fs \<Longrightarrow> good r \<Longrightarrow> f r = Inr r' \<Longrightarrow> good r' \<and> key r' = key r \<and> R r r'"
  shows "\<exists>r'. fetch d' k = Inr r' \<and> good r' \<and> R\<^sup>*\<^sup>* r r'"
  using assms
proof (induction fs arbitrary: d r)
  case (Cons f fs)
  from Cons.prems(1,2) obtain r1 p d1 where s: "f r = Inr r1" "store d r1 = Inr (p, d1)"
    "rfold (\<lambda>d f. rbind (fetch d k) (\<lambda>r. rbind (f r) (\<lambda>r'. rbind (store d r') (\<lambda>w. Inr (snd w))))) d1 fs = Inr d'"
    by auto
  have g: "good r1" "key r1 = k" "R r r1" using Cons.prems(3,4,5) s(1) by auto
  have "fetch d1 k = Inr r1" using fetch_stored [OF g(1) s(2)] g(2) by simp
  from Cons.IH [OF s(3) this g(1,2)] Cons.prems(5) obtain r' where "fetch d' k = Inr r'" "good r'" "R\<^sup>*\<^sup>* r1 r'"
    by (meson list.set_intros(2))
  with g(3) show ?case by (meson converse_rtranclp_into_rtranclp)
qed auto

end

section \<open>The store keeps the contract\<close>

lemma from_mapping_ok: "record_ok r \<Longrightarrow> capability_from_mapping r = Inr r"
  by (simp add: record_ok_def capability_from_mapping_def Let_def)

abbreviation record_id :: "capability_record \<Rightarrow> string" where
  "record_id r \<equiv> cc_contract_id (cr_contract r)"

lemma write_pathD:
  assumes "write_path d r = Inr p"
  obtains canonical legacy where "safe_contract_filename (record_id r) = Inr canonical"
    "legacy_contract_filename (record_id r) = Inr legacy"
    "p = canonical \<or> (p = legacy \<and> canonical \<noteq> legacy \<and> \<not> path_exists d canonical)"
  using assms by (auto simp: write_path_def Let_def split: if_splits option.splits disk_entry.splits sum.splits)

lemma path_exists_setitem: "path_exists (py_setitem p x d) q \<longleftrightarrow> q = p \<or> path_exists d q"
  by (auto simp: path_exists_def)

lemma store_get_put:
  assumes ok: "record_ok r" and put: "store_put d r = Inr (p, d')"
  shows "store_get d' (record_id r) = Inr r"
proof -
  have w: "write_path d r = Inr p" and d': "d' = py_setitem p (Payload r) d"
    using put by (auto simp: store_put_def split: if_splits)
  from w obtain c l where cl: "safe_contract_filename (record_id r) = Inr c" "legacy_contract_filename (record_id r) = Inr l"
    "p = c \<or> (p = l \<and> c \<noteq> l \<and> \<not> path_exists d c)" by (rule write_pathD)
  have "read_path d' (record_id r) = Inr p"
    using cl by (auto simp: read_path_def d' path_exists_setitem)
  then show ?thesis using ok by (simp add: store_get_def d' from_mapping_ok) (simp add: record_ok_def)
qed

interpretation capability_store: record_store store_get store_put record_id record_ok
  by unfold_locales (rule store_get_put)

lemma store_put_frame:
  assumes "store_put d r = Inr (p, d')" "safe_contract_filename k = Inr c" "legacy_contract_filename k = Inr l"
    "p \<noteq> c" "p \<noteq> l"
  shows "store_get d' k = store_get d k"
proof -
  have d': "d' = py_setitem p (Payload r) d" using assms(1) by (auto simp: store_put_def split: if_splits)
  have "read_path d' k = read_path d k" "read_path d k = Inr c \<or> read_path d k = Inr l"
    using assms(2-5) by (auto simp: read_path_def d' path_exists_setitem)
  then show ?thesis using assms(4,5) by (auto simp: store_get_def d')
qed

section \<open>Histories of the store\<close>

datatype store_op = Acquire string | Release string | Drain string

fun op_update :: "store_op \<Rightarrow> capability_record \<Rightarrow> capability_record result" where
  "op_update (Acquire task) = acquire_update task"
| "op_update (Release task) =
     (\<lambda>r. with_dependencies r (filter (\<lambda>item. item \<noteq> task) (cr_active_dependency_ids r)))"
| "op_update (Drain ref) = drain_update ref"

fun store_op_step :: "string \<Rightarrow> disk \<Rightarrow> store_op \<Rightarrow> disk result" where
  "store_op_step k d (Acquire task) = rbind (acquire_dependency d k task) (\<lambda>w. Inr (snd w))"
| "store_op_step k d (Release task) = rbind (release_dependency d k task) (\<lambda>w. Inr (snd w))"
| "store_op_step k d (Drain ref) = rbind (begin_drain d k ref) (\<lambda>w. Inr (snd w))"

lemma rbind_assoc: "rbind (rbind r f) g = rbind r (\<lambda>x. rbind (f x) g)"
  by (cases r) simp_all

lemma store_op_step_update:
  "store_op_step k d oper = rbind (store_get d k) (\<lambda>r. rbind (op_update oper r) (\<lambda>r'.
     rbind (store_put d r') (\<lambda>w. Inr (snd w))))"
  by (cases oper) (simp_all add: acquire_dependency_def release_dependency_def begin_drain_def store_modify_def rbind_assoc)

lemma capability_run_trans: "capability_run s t \<Longrightarrow> capability_run r s \<Longrightarrow> capability_run r t"
  by (induction rule: capability_run.induct) (auto intro: capability_run.more)

lemma rtranclp_capability_run:
  assumes "capability_run\<^sup>*\<^sup>* r s"
  shows "capability_run r s"
  using assms by (induction rule: rtranclp_induct) (auto intro: capability_run.start capability_run_trans)

lemma op_update_run:
  assumes "op_update oper r = Inr r'"
  shows "capability_run r r'"
proof (cases oper)
  case (Acquire task)
  with assms have "capability_step r r'"
    by (intro capability_step.acquire) (auto simp: acquire_update_def NO_NEW_ASSIGNMENT_def split: if_splits)
  then show ?thesis by (rule capability_run.more [OF capability_run.start])
next
  case (Release task)
  with assms have "capability_step r r'" by (auto intro: capability_step.release)
  then show ?thesis by (rule capability_run.more [OF capability_run.start])
next
  case (Drain ref)
  with assms obtain m where "transition_capability_lifecycle r ''DISABLE_NEW_ASSIGNMENT'' [ref] = Inr m"
    "transition_capability_lifecycle m ''DRAINING'' [ref] = Inr r'"
    by (auto simp: drain_update_def split: if_splits sum.splits)
  then show ?thesis
    by (blast intro: capability_run.start capability_run.more capability_step.move)
qed

definition settled :: "capability_record \<Rightarrow> bool" where
  "settled r = (record_ok r \<and> retired_idle r)"

lemma op_update_settled:
  assumes "settled r" "op_update oper r = Inr r'"
  shows "settled r'" "record_id r' = record_id r"
  using capability_run_facts [OF op_update_run [OF assms(2)]] assms(1) by (simp_all add: settled_def)

interpretation settled_store: record_store store_get store_put record_id settled
  by unfold_locales (auto simp: settled_def intro: store_get_put)

text \<open>C8. What the store returns after a history of acquired and released dependencies and drains of one contract is a record
  the capability state machine can reach from the record it held before; in particular the store never loses
  or corrupts the record, and once a capability is draining no dependency is added to it.\<close>

theorem store_history_refines_lifecycle:
  assumes "store_get d k = Inr r" "record_ok r" "cr_state r = ''RETIRED'' \<longrightarrow> cr_active_dependency_ids r = []"
    and "rfold (store_op_step k) d ops = Inr d'"
  shows "\<exists>r'. store_get d' k = Inr r' \<and> record_ok r' \<and> capability_run r r' \<and>
    (cr_state r \<in> NO_NEW_ASSIGNMENT \<longrightarrow>
       set (cr_active_dependency_ids r') \<subseteq> set (cr_active_dependency_ids r))"
proof -
  have k: "record_id r = k" using assms(1) by (auto simp: store_get_def split: if_splits)
  have settled: "settled r" using assms(2,3) by (simp add: settled_def retired_idle_def)
  have eq: "rfold (store_op_step k) d ops = rfold (\<lambda>d f. rbind (store_get d k) (\<lambda>r. rbind (f r) (\<lambda>r'.
      rbind (store_put d r') (\<lambda>w. Inr (snd w))))) d (map op_update ops)" for d
  proof (induction ops arbitrary: d)
    case (Cons oper ops)
    show ?case by (simp only: rfold.simps list.map store_op_step_update [of k d oper] Cons.IH)
  qed simp
  have "\<exists>r'. store_get d' k = Inr r' \<and> settled r' \<and> capability_run\<^sup>*\<^sup>* r r'"
    by (rule settled_store.run_updates [OF _ assms(1) settled k, where fs = "map op_update ops"])
      (use assms(4) eq op_update_settled op_update_run in auto)
  then obtain r' where r': "store_get d' k = Inr r'" "settled r'" "capability_run r r'"
    using rtranclp_capability_run by blast
  from capability_run_facts [OF r'(3)] settled r' show ?thesis by (auto simp: settled_def)
qed

section \<open>File names are not injective\<close>

text \<open>The stem and digest part of the file name of an identifier that needs escaping, read as an identifier.\<close>

definition colliding_id :: "string \<Rightarrow> string" where
  "colliding_id u = (let stripped = rstrip_underscore (take 150 (map filename_char u)) in
     (if stripped = [] then ''contract'' else stripped) @ ''-'' @ take 20 (sha256_hex (utf8 u)))"

lemma filename_char_idem: "filename_char (filename_char c) = filename_char c"
  by (simp add: filename_char_def)

lemma filename_char_hex:
  assumes "lower_hex c"
  shows "filename_char c = c"
proof -
  have "ascii_alnum c"
    using assms unfolding lower_hex_def list.set by (elim insertE emptyE) (simp_all add: ascii_alnum_def)
  then show ?thesis by (simp add: filename_char_def py_isalnum_def)
qed

lemma rstrip_underscore_subset: "set (rstrip_underscore s) \<subseteq> set s"
  by (auto simp: rstrip_underscore_def dest: set_dropWhileD)

lemma rstrip_underscore_length: "length (rstrip_underscore s) \<le> length s"
  by (simp add: rstrip_underscore_def) (metis length_dropWhile_le length_rev)

lemma sha256_prefix_hex: "c \<in> set (take 20 (sha256_hex bs)) \<Longrightarrow> lower_hex c"
  using re_sha256_hex [of bs] by (auto simp: re_sha256_def list_all_iff dest: in_set_takeD)

lemma colliding_id_clean: "map filename_char (colliding_id u) = colliding_id u"
proof (rule map_idI)
  fix c assume "c \<in> set (colliding_id u)"
  then consider "c \<in> set (rstrip_underscore (take 150 (map filename_char u)))" | "c \<in> set ''contract-''"
    | "c \<in> set (take 20 (sha256_hex (utf8 u)))" by (auto simp: colliding_id_def Let_def split: if_splits)
  then show "filename_char c = c"
  proof cases
    case 1
    then have "c \<in> filename_char ` set u" using rstrip_underscore_subset set_take_subset by fastforce
    then show ?thesis using filename_char_idem by auto
  next
    case 2
    then show ?thesis unfolding list.set
      by (elim insertE emptyE) (simp_all add: filename_char_def py_isalnum_def ascii_alnum_def)
  next
    case 3
    then show ?thesis using sha256_prefix_hex filename_char_hex by blast
  qed
qed

lemma colliding_id_length: "length (colliding_id u) \<le> 180"
proof -
  have "length (rstrip_underscore (take 150 (map filename_char u))) \<le> 150"
    using rstrip_underscore_length [of "take 150 (map filename_char u)"] by simp
  then show ?thesis by (auto simp: colliding_id_def Let_def)
qed

lemma colliding_filename:
  assumes "u \<noteq> []" "map filename_char u \<noteq> u"
  shows "safe_contract_filename (colliding_id u) = Inr (colliding_id u @ ''.json'')"
    "safe_contract_filename u = Inr (colliding_id u @ ''.json'')"
proof -
  have "colliding_id u \<noteq> []" by (simp add: colliding_id_def Let_def)
  then show "safe_contract_filename (colliding_id u) = Inr (colliding_id u @ ''.json'')"
    using colliding_id_clean [of u] colliding_id_length [of u] by (simp add: safe_contract_filename_def)
  show "safe_contract_filename u = Inr (colliding_id u @ ''.json'')"
    using assms by (simp add: safe_contract_filename_def colliding_id_def Let_def)
qed

text \<open>C36. Two contract identifiers can share a file, and storing the second destroys the first: for every identifier with a
  character that has to be escaped (such as the colon) there is another one, made of allowed characters only, with the
  same file name. Storing a record for each leaves the first unreadable.\<close>

theorem contract_filename_collision_loses_record:
  assumes "record_ok u" "record_ok v" "map filename_char (record_id u) \<noteq> record_id u" "length (record_id u) \<le> 180"
    and "record_id v = colliding_id (record_id u)"
  shows "record_id v \<noteq> record_id u \<and>
    safe_contract_filename (record_id v) = safe_contract_filename (record_id u) \<and>
    (\<exists>p d1 d2. store_put [] u = Inr (p, d1) \<and> store_get d1 (record_id u) = Inr u \<and> store_put d1 v = Inr (p, d2) \<and>
       store_get d2 (record_id u) = Inl (CapabilityLifecycleStoreError ''lifecycle record identity mismatch''))"
proof -
  let ?u = "record_id u" and ?p = "colliding_id (record_id u) @ ''.json''"
  have une: "?u \<noteq> []" using assms(3) by auto
  note files = colliding_filename [OF une assms(3)]
  have neq: "record_id v \<noteq> ?u" using assms(3,5) colliding_id_clean [of ?u] by metis
  have leg: "legacy_contract_filename ?u = Inr (map filename_char ?u @ ''.json'')"
    "legacy_contract_filename (record_id v) = Inr ?p"
    using une assms(4,5) colliding_id_clean [of ?u] colliding_id_length [of ?u]
    by (simp_all add: legacy_contract_filename_def) (simp add: colliding_id_def Let_def)
  have val: "record_valid u" "record_valid v" using assms(1,2) by (simp_all add: record_ok_def)
  have put1: "store_put [] u = Inr (?p, [(?p, Payload u)])"
    using val(1) files(2) leg(1) by (simp add: store_put_def write_path_def path_exists_def py_get_def)
  have put2: "store_put [(?p, Payload u)] v = Inr (?p, [(?p, Payload v)])"
    using val(2) files(1) leg(2) assms(5) by (simp add: store_put_def write_path_def path_exists_def py_get_def)
  have "store_get [(?p, Payload v)] ?u = Inl (CapabilityLifecycleStoreError ''lifecycle record identity mismatch'')"
    using files(2) from_mapping_ok [OF assms(2)] neq
    by (simp add: store_get_def read_path_def path_exists_def py_get_def)
  moreover have "store_get [(?p, Payload u)] ?u = Inr u" by (rule store_get_put [OF assms(1) put1])
  ultimately show ?thesis using put1 put2 neq files assms(5) by auto
qed

text \<open>C37. A record whose contract identifier is longer than 180 characters can never be stored, although the identifier is
  accepted by the contract (up to 256 characters) and, when it has a character to escape, the canonical
  file name exists: computing the legacy name raises first.\<close>

theorem store_put_rejects_long_ids:
  assumes "record_valid r" "180 < length (record_id r)"
  shows "store_put d r = Inl (CapabilityLifecycleStoreError ''unsafe contract id'') \<and>
    (map filename_char (record_id r) \<noteq> record_id r \<longrightarrow> (\<exists>f. safe_contract_filename (record_id r) = Inr f))"
proof -
  have l: "legacy_contract_filename (record_id r) = Inl (CapabilityLifecycleStoreError ''unsafe contract id'')"
    using assms(2) by (simp add: legacy_contract_filename_def)
  show ?thesis
    using assms l by (auto simp: store_put_def write_path_def safe_contract_filename_def Let_def)
qed

section \<open>Concrete stores\<close>

definition ex_named :: "string \<Rightarrow> capability_record" where
  "ex_named i = (let r = \<lparr>cr_contract = ex_contract\<lparr>cc_contract_id := i\<rparr>, cr_state = ''ACTIVE'', cr_health = ''HEALTHY'',
     cr_active_dependency_ids = [], cr_evidence_refs = [''ev''], cr_record_digest = []\<rparr>
     in r\<lparr>cr_record_digest := expected_digest r\<rparr>)"

lemma ex_named_simps [simp]:
  "record_id (ex_named i) = i" "record_valid (ex_named i)" "cr_state (ex_named i) = ''ACTIVE''"
  "cr_active_dependency_ids (ex_named i) = []"
  by (simp_all add: ex_named_def Let_def record_valid_def expected_digest_def capability_unsigned_dict_def)

lemma py_contains_set: "py_contains s p \<Longrightarrow> set p \<subseteq> set s"
proof (induction s)
  case (Cons c s)
  then show ?case by (auto simp: py_startswith_def) (metis in_set_takeD set_ConsD)
qed auto

lemma cap_safe_clean:
  assumes "list_all (\<lambda>c. ascii_alnum c \<or> c \<in> set ''-_'') s" "s \<noteq> []" "ascii_alnum (hd s)" "length s \<le> 256"
  shows "cap_safe ae s l = Inr s"
proof -
  have ns: "\<not> py_isspace c" if "c \<in> set s" for c
    using assms(1) that by (auto simp: list_all_iff ascii_alnum_def py_isspace_def Let_def)
  have dw: "dropWhile py_isspace xs = xs" if "set xs \<subseteq> set s" for xs
    using that ns by (cases xs) auto
  have "py_strip s = s" using dw [of s] dw [of "rev s"] by (simp add: py_strip_def)
  moreover have "re_ident ''._:/+-'' 255 s"
    using assms by (cases s) (auto simp: list_all_iff)
  moreover have "CHR ''.'' \<notin> set s" using assms(1) by (auto simp: list_all_iff ascii_alnum_def Let_def)
  then have "\<not> py_contains s ''..''" using py_contains_set [of s "''..''"] by auto
  ultimately show ?thesis using assms(2) by (simp add: cap_safe_def)
qed

lemma ex_named_ok: "cap_safe False i ''contract ID'' = Inr i \<Longrightarrow> record_ok (ex_named i)"
  using ex_contract_init ex_evidence(1)
  by (simp add: record_ok_def)
    (auto simp: ex_named_def Let_def contract_ref_init_def ex_contract_def LIFECYCLE_STATES_def HEALTH_STATES_def cap_tuple_def)

lemma ex_collision: "cap_safe False (colliding_id ''mcp:search'') l = Inr (colliding_id ''mcp:search'')"
proof -
  have f: "filename_char CHR '':'' = CHR ''_''" "map filename_char ''mcp'' = ''mcp''" "map filename_char ''search'' = ''search''"
    by (simp_all add: filename_char_def py_isalnum_def ascii_alnum_def)
  have c: "colliding_id ''mcp:search'' = ''mcp_search-'' @ take 20 (sha256_hex (utf8 ''mcp:search''))"
    using f by (simp add: colliding_id_def rstrip_underscore_def)
  have hex: "ascii_alnum c" if "c \<in> set (take 20 (sha256_hex bs))" for c bs
    using sha256_prefix_hex [OF that] unfolding lower_hex_def list.set
    by (elim insertE emptyE) (simp_all add: ascii_alnum_def)
  have "list_all (\<lambda>c. ascii_alnum c \<or> c \<in> set ''-_'') ''mcp_search-''" by (simp add: ascii_alnum_def)
  moreover have "list_all (\<lambda>c. ascii_alnum c \<or> c \<in> set ''-_'') (take 20 (sha256_hex bs))" for bs
    using hex by (auto simp: list_all_iff)
  ultimately have "list_all (\<lambda>c. ascii_alnum c \<or> c \<in> set ''-_'') (colliding_id ''mcp:search'')"
    unfolding c list_all_append by blast
  then show ?thesis unfolding c
    by (rule cap_safe_clean) (simp_all add: ascii_alnum_def)
qed

theorem contract_filename_collision_loses_record_witness:
  "\<exists>v. v \<noteq> ''mcp:search'' \<and> safe_contract_filename v = safe_contract_filename ''mcp:search'' \<and>
     (\<exists>p d1 d2. store_put [] (ex_named ''mcp:search'') = Inr (p, d1) \<and> store_put d1 (ex_named v) = Inr (p, d2) \<and>
        store_get d2 ''mcp:search'' = Inl (CapabilityLifecycleStoreError ''lifecycle record identity mismatch''))"
proof -
  have u: "record_ok (ex_named ''mcp:search'')"
    by (rule ex_named_ok) (simp add: cap_safe_def py_strip_def py_isspace_def ascii_alnum_def py_startswith_def)
  have v: "record_ok (ex_named (colliding_id ''mcp:search''))" by (rule ex_named_ok) (rule ex_collision)
  have esc: "map filename_char (record_id (ex_named ''mcp:search'')) \<noteq> record_id (ex_named ''mcp:search'')"
    by (simp add: filename_char_def py_isalnum_def ascii_alnum_def)
  from contract_filename_collision_loses_record [OF u v esc] show ?thesis
    by (intro exI [of _ "colliding_id ''mcp:search''"]) auto
qed

theorem store_put_rejects_long_ids_witness:
  "\<exists>i. length i = 182 \<and> cap_safe False i ''contract ID'' = Inr i \<and> (\<exists>f. safe_contract_filename i = Inr f) \<and>
     store_put [] (ex_named i) = Inl (CapabilityLifecycleStoreError ''unsafe contract id'')"
proof -
  let ?i = "''a:'' @ replicate 180 CHR ''a''"
  have ns: "dropWhile py_isspace (CHR ''a'' # xs) = CHR ''a'' # xs" for xs by (simp add: py_isspace_def)
  have "py_strip ?i = ?i"
    by (simp add: py_strip_def ns) (simp add: py_isspace_def numeral_eq_Suc replicate_append_same [symmetric])
  moreover have "re_ident ''._:/+-'' 255 ?i" by (simp add: list_all_iff ascii_alnum_def)
  moreover have "\<not> py_contains ?i ''..''" using py_contains_set [of ?i "''..''"] by auto
  ultimately have safe: "cap_safe False ?i ''contract ID'' = Inr ?i" by (simp add: cap_safe_def Let_def)
  have esc: "map filename_char (record_id (ex_named ?i)) \<noteq> record_id (ex_named ?i)"
    by (simp add: filename_char_def py_isalnum_def ascii_alnum_def)
  from store_put_rejects_long_ids [of "ex_named ?i" "[]"] esc safe show ?thesis
    by (intro exI [of _ ?i]) simp
qed

lemma store_put_total:
  assumes "record_valid r" "record_id r \<noteq> []" "length (record_id r) \<le> 180"
  shows "\<exists>p d'. store_put d r = Inr (p, d')"
proof -
  have "\<exists>c. safe_contract_filename (record_id r) = Inr c"
    using assms(2,3) by (simp add: safe_contract_filename_def Let_def)
  moreover have "\<exists>l. legacy_contract_filename (record_id r) = Inr l"
    using assms(2,3) by (simp add: legacy_contract_filename_def Let_def)
  ultimately obtain c l where "safe_contract_filename (record_id r) = Inr c" "legacy_contract_filename (record_id r) = Inr l"
    by blast
  then show ?thesis
    using assms(1) by (auto simp: store_put_def write_path_def Let_def split: option.split disk_entry.split sum.split)
qed

theorem store_history_refines_lifecycle_witness:
  "\<exists>d d' r'. store_get d ''mcp:search'' = Inr (ex_named ''mcp:search'') \<and>
     rfold (store_op_step ''mcp:search'') d [Acquire ''task1''] = Inr d' \<and> store_get d' ''mcp:search'' = Inr r' \<and>
     capability_run (ex_named ''mcp:search'') r'"
proof -
  let ?r = "ex_named ''mcp:search''"
  have ok: "record_ok ?r"
    by (rule ex_named_ok) (simp add: cap_safe_def py_strip_def py_isspace_def ascii_alnum_def py_startswith_def)
  obtain p d where put: "store_put [] ?r = Inr (p, d)" using store_put_total [of ?r "[]"] by auto
  have get: "store_get d ''mcp:search'' = Inr ?r" using store_get_put [OF ok put] by simp
  have "cap_tuple [''task1''] ''dependency ID'' = Inr [''task1'']"
    by (simp add: cap_tuple_def cap_safe_def py_strip_def py_isspace_def ascii_alnum_def py_startswith_def)
  then have "\<exists>r'. acquire_update ''task1'' ?r = Inr r'"
    using ok by (simp add: acquire_update_def with_dependencies_def capability_create_def record_ok_def sorted_set_def)
  then obtain r' where r': "acquire_update ''task1'' ?r = Inr r'" by blast
  have w: "with_dependencies ?r [''task1''] = Inr r'" using r' by (simp add: acquire_update_def sorted_set_def)
  have "record_valid r'" "record_id r' = ''mcp:search''"
    using with_dependenciesD(1,3) [OF w ok] by (simp_all add: record_ok_def)
  then obtain p' d' where put': "store_put d r' = Inr (p', d')" using store_put_total [of r' d] by auto
  have run: "rfold (store_op_step ''mcp:search'') d [Acquire ''task1''] = Inr d'"
    by (simp add: acquire_dependency_def store_modify_def get r' put')
  have "cr_state ?r = ''RETIRED'' \<longrightarrow> cr_active_dependency_ids ?r = []" by simp
  from store_history_refines_lifecycle [OF get ok this run] get run show ?thesis by blast
qed

end
