(* ===== verification/Lifecycle_Binding.thy ===== *)
theory Lifecycle_Binding
  imports Sealing
begin

text \<open>
  Canonical lifecycle bindings and sealed envelopes, \<open>src/runtime/orchestrator/lifecycle_binding.py\<close>. A mapping is an
  association list with string keys. The loops over frozen sets visit the fields in a fixed order here; in Python
  the order is unspecified and only decides which field an error message names.
\<close>

section \<open>Fields\<close>

definition SCHEMA_VERSION :: string where "SCHEMA_VERSION = ''orchestration.lifecycle-binding.v1''"

definition DIGEST_FIELDS :: "string list" where
  "DIGEST_FIELDS = [''active_transition_sha256'', ''artifact_sha256'', ''canonical_plan_sha256'', ''envelope_sha256'',
     ''owned_scope_digest'', ''payload_sha256'', ''predecessor_digest'', ''projection_sha256'', ''sidecar_sha256'',
     ''source_artifact_sha256'']"

definition IDENTITY_FIELDS :: "string list" where
  "IDENTITY_FIELDS = [''project_id'', ''gate_id'', ''lv_id'', ''run_id'', ''recovery_id'', ''approval_event_id'',
     ''branch'', ''baseline_head'', ''current_head'']"

definition FIELDS :: "string list" where
  "FIELDS = ''schema_version'' # DIGEST_FIELDS @ IDENTITY_FIELDS @ [''attempt'', ''hard_stop'']"

definition SELF_FIELDS :: "string set" where
  "SELF_FIELDS = {''projection_sha256'', ''payload_sha256'', ''sidecar_sha256'', ''envelope_sha256'',
     ''artifact_sha256''}"

definition binding_id_re :: "string \<Rightarrow> bool" where
  "binding_id_re s = re_ident ''._:/-'' 255 s"

section \<open>Operations\<close>

definition blank_self_projection :: "(string \<times> pyval) list \<Rightarrow> string \<Rightarrow> (string \<times> pyval) list result" where
  "blank_self_projection value self_field =
     (if self_field \<notin> SELF_FIELDS \<or> py_get value self_field = None
      then Inl (LifecycleBindingError ''invalid digest self-field'')
      else Inr (py_setitem self_field (PyStr []) value))"

definition digest_projection :: "(string \<times> pyval) list \<Rightarrow> string \<Rightarrow> string result" where
  "digest_projection value self_field =
     rbind (blank_self_projection value self_field) (\<lambda>projected. Inr (digest (PyDict projected)))"

definition digest_field_ok :: "(string \<times> pyval) list \<Rightarrow> string \<Rightarrow> bool" where
  "digest_field_ok value field = (case py_get value field of Some (PyStr s) \<Rightarrow> re_sha256 s | _ \<Rightarrow> False)"

definition identity_field_ok :: "(string \<times> pyval) list \<Rightarrow> string \<Rightarrow> bool" where
  "identity_field_ok value field = (case py_get value field of Some (PyStr s) \<Rightarrow> binding_id_re s | _ \<Rightarrow> False)"

definition validate_binding :: "pyval \<Rightarrow> (string \<times> pyval) list result" where
  "validate_binding value =
     (case value of
        PyDict kvs \<Rightarrow>
          if set (map fst kvs) \<noteq> set FIELDS then Inl (LifecycleBindingError ''binding schema fields mismatch'')
          else if py_get kvs ''schema_version'' \<noteq> Some (PyStr SCHEMA_VERSION)
          then Inl (LifecycleBindingError ''unsupported binding schema version'')
          else rbind (rcheck (\<lambda>field. if digest_field_ok kvs field then Inr ()
                   else Inl (LifecycleBindingError (''invalid digest field: '' @ field))) DIGEST_FIELDS) (\<lambda>_.
          if \<not> distinct (map (py_get kvs) DIGEST_FIELDS) then Inl (LifecycleBindingError ''digest role collision'')
          else rbind (rcheck (\<lambda>field. if identity_field_ok kvs field then Inr ()
                   else Inl (LifecycleBindingError (''invalid identity field: '' @ field))) IDENTITY_FIELDS) (\<lambda>_.
          if \<not> (case py_get kvs ''attempt'' of Some (PyInt i) \<Rightarrow> 0 < i | _ \<Rightarrow> False)
          then Inl (LifecycleBindingError ''attempt must be a positive integer'')
          else if py_get kvs ''hard_stop'' \<noteq> Some (PyBool True)
          then Inl (LifecycleBindingError ''hard_stop must be true'')
          else Inr kvs))
      | _ \<Rightarrow> Inl (LifecycleBindingError ''binding must be an object''))"

text \<open>\<open>{"schema_version": ..., **values}\<close>: later entries replace earlier ones.\<close>

definition merge_dict :: "(string \<times> pyval) list \<Rightarrow> (string \<times> pyval) list \<Rightarrow> (string \<times> pyval) list" where
  "merge_dict base values = fold (\<lambda>(k, v) d. py_setitem k v d) values base"

definition build_binding :: "(string \<times> pyval) list \<Rightarrow> (string \<times> pyval) list result" where
  "build_binding values =
     (let candidate = merge_dict [(''schema_version'', PyStr SCHEMA_VERSION)] values in
      rbind (validate_binding (PyDict candidate)) (\<lambda>_. Inr candidate))"

definition role_digest :: "(string \<times> pyval) list \<Rightarrow> string \<Rightarrow> string" where
  "role_digest sources field =
     digest (PyDict [(''role'', PyStr field), (''value'', py_get_or PyNone sources field)])"

definition build_bound_digests :: "(string \<times> pyval) list \<Rightarrow> (string \<times> string) list result" where
  "build_bound_digests sources =
     (if set (map fst sources) \<noteq> set DIGEST_FIELDS
      then Inl (LifecycleBindingError ''digest source roles mismatch'')
      else let digests = map (\<lambda>field. (field, role_digest sources field)) DIGEST_FIELDS in
        if \<not> distinct (map snd digests) then Inl (LifecycleBindingError ''digest role collision'')
        else Inr digests)"

text \<open>\<open>build_binding(**identities, **digests)\<close>: a keyword given twice raises \<open>TypeError\<close>.\<close>

definition build_binding_from_sources ::
  "(string \<times> pyval) list \<Rightarrow> (string \<times> pyval) list \<Rightarrow> (string \<times> pyval) list result" where
  "build_binding_from_sources sources identities =
     rbind (build_bound_digests sources) (\<lambda>digests.
     if set (map fst identities) \<inter> set (map fst digests) \<noteq> {}
     then Inl (TypeError ''multiple values for keyword argument'')
     else build_binding (identities @ map (\<lambda>(k, d). (k, PyStr d)) digests))"

definition validate_binding_sources :: "pyval \<Rightarrow> (string \<times> pyval) list \<Rightarrow> (string \<times> pyval) list result" where
  "validate_binding_sources value sources =
     rbind (validate_binding value) (\<lambda>validated.
     rbind (build_bound_digests sources) (\<lambda>expected.
     if list_ex (\<lambda>(field, d). py_get validated field \<noteq> Some (PyStr d)) expected
     then Inl (LifecycleBindingError ''digest source binding mismatch'') else Inr validated))"

definition seal_envelope :: "(string \<times> pyval) list \<Rightarrow> pyval \<Rightarrow> string \<Rightarrow> (string \<times> pyval) list result" where
  "seal_envelope payload binding schema_version =
     rbind (validate_binding binding) (\<lambda>validated.
     if \<not> binding_id_re schema_version then Inl (LifecycleBindingError ''invalid envelope schema version'')
     else let envelope = [(''schema_version'', PyStr schema_version), (''binding'', PyDict validated),
            (''payload'', PyDict payload), (''envelope_sha256'', PyStr [])] in
       rbind (digest_projection envelope ''envelope_sha256'') (\<lambda>d.
       Inr (py_setitem ''envelope_sha256'' (PyStr d) envelope)))"

definition validate_envelope :: "pyval \<Rightarrow> string \<Rightarrow> pyval \<Rightarrow> (string \<times> pyval) list result" where
  "validate_envelope envelope schema_version expected_binding =
     (case envelope of
        PyDict kvs \<Rightarrow>
          if set (map fst kvs) \<noteq> {''schema_version'', ''binding'', ''payload'', ''envelope_sha256''}
          then Inl (LifecycleBindingError ''envelope schema fields mismatch'')
          else if py_get kvs ''schema_version'' \<noteq> Some (PyStr schema_version)
          then Inl (LifecycleBindingError ''unsupported envelope schema version'')
          else rbind (validate_binding (py_get_or (PyDict []) kvs ''binding'')) (\<lambda>actual.
            rbind (validate_binding expected_binding) (\<lambda>expected.
            if canonical_bytes (PyDict actual) \<noteq> canonical_bytes (PyDict expected)
            then Inl (LifecycleBindingError ''envelope binding mismatch'')
            else rbind (digest_projection kvs ''envelope_sha256'') (\<lambda>d.
            if py_get kvs ''envelope_sha256'' \<noteq> Some (PyStr d)
            then Inl (LifecycleBindingError ''envelope digest mismatch'')
            else if (case py_get kvs ''payload'' of Some (PyDict _) \<Rightarrow> False | _ \<Rightarrow> True)
            then Inl (LifecycleBindingError ''envelope payload must be an object'')
            else Inr kvs)))
      | _ \<Rightarrow> Inl (LifecycleBindingError ''envelope schema fields mismatch''))"

section \<open>Facts\<close>

lemma validate_binding_same: "validate_binding v = Inr kvs \<Longrightarrow> v = PyDict kvs"
  by (cases v) (auto simp: validate_binding_def split: if_splits)

lemma fields_distinct: "distinct DIGEST_FIELDS"
  by (simp add: DIGEST_FIELDS_def)

lemma role_digest_inj:
  assumes "role_digest s f = role_digest s g" "f \<noteq> g"
  shows "\<exists>b b'. sha_collision b b'"
proof -
  have "json_norm (PyDict [(''role'', PyStr f), (''value'', v)]) \<noteq> json_norm (PyDict [(''role'', PyStr g), (''value'', w)])"
    for v w
    using json_norm_dict_same_keys [of "[(''role'', PyStr f), (''value'', v)]" "[(''role'', PyStr g), (''value'', w)]"]
      assms(2) by auto
  then show ?thesis using digest_eqD [OF assms(1) [unfolded role_digest_def]] by blast
qed

lemma projection_digest:
  assumes "py_get kvs ''envelope_sha256'' \<noteq> None"
  shows "digest_projection kvs ''envelope_sha256'' = Inr (digest (PyDict (py_setitem ''envelope_sha256'' (PyStr []) kvs)))"
  using assms by (simp add: digest_projection_def blank_self_projection_def SELF_FIELDS_def)

text \<open>What an envelope says apart from its digest.\<close>

definition envelope_content :: "(string \<times> pyval) list \<Rightarrow> pyval" where
  "envelope_content kvs = PyDict (py_setitem ''envelope_sha256'' (PyStr []) kvs)"

lemma validate_envelopeD:
  assumes "validate_envelope v sv b = Inr kvs"
  shows "v = PyDict kvs" "py_get kvs ''envelope_sha256'' = Some (PyStr (digest (envelope_content kvs)))"
    "set (map fst kvs) = {''schema_version'', ''binding'', ''payload'', ''envelope_sha256''}"
    "py_get kvs ''schema_version'' = Some (PyStr sv)"
proof -
  show v: "v = PyDict kvs" using assms by (cases v) (auto simp: validate_envelope_def split: if_splits)
  show keys: "set (map fst kvs) = {''schema_version'', ''binding'', ''payload'', ''envelope_sha256''}"
    using assms unfolding v validate_envelope_def pyval.case guard_eq_Inr by (elim conjE exE) (simp only: not_not)
  have "''envelope_sha256'' \<in> fst ` set kvs" using keys by simp
  then have ne: "py_get kvs ''envelope_sha256'' \<noteq> None" by (simp add: py_get_def map_of_eq_None_iff)
  show "py_get kvs ''envelope_sha256'' = Some (PyStr (digest (envelope_content kvs)))"
    using assms unfolding v validate_envelope_def pyval.case guard_eq_Inr rbind_eq_Inr projection_digest [OF ne]
      envelope_content_def by (elim conjE exE) (simp only: not_not sum.inject)
  show "py_get kvs ''schema_version'' = Some (PyStr sv)"
    using assms unfolding v validate_envelope_def pyval.case guard_eq_Inr by (elim conjE exE) (simp only: not_not)
qed

section \<open>Properties\<close>

text \<open>C32. Sealing and validation of envelopes fit together: an envelope that \<open>seal_envelope\<close> returns is accepted by
  \<open>validate_envelope\<close>, unchanged, under the same schema version and binding.\<close>

theorem envelope_seal_roundtrip:
  assumes "seal_envelope payload binding schema_version = Inr envelope"
  shows "validate_envelope (PyDict envelope) schema_version binding = Inr envelope"
proof -
  obtain b where b: "validate_binding binding = Inr b" "binding = PyDict b"
    using assms validate_binding_same unfolding seal_envelope_def rbind_eq_Inr by blast
  let ?e = "[(''schema_version'', PyStr schema_version), (''binding'', PyDict b), (''payload'', PyDict payload),
    (''envelope_sha256'', PyStr [])]"
  have e: "envelope = py_setitem ''envelope_sha256'' (PyStr (digest (PyDict ?e))) ?e"
    using assms b by (auto simp: seal_envelope_def projection_digest py_get_def split: if_splits)
  have p: "digest_projection envelope ''envelope_sha256'' = Inr (digest (PyDict ?e))"
    using projection_digest [of envelope] by (simp add: e py_get_def)
  have "validate_binding (PyDict b) = Inr b" using b by simp
  then show ?thesis using p by (simp add: validate_envelope_def b(2) e py_get_def py_get_or_def)
qed

text \<open>Envelopes are tamper evident: two envelopes that validate, under any schema versions and bindings, and carry the same
  envelope digest have the same canonical content, unless their contents are a collision of SHA-256.\<close>

theorem envelope_tamper_evident:
  assumes "validate_envelope (PyDict e) sv b = Inr e" "validate_envelope (PyDict e') sv' b' = Inr e'"
    and "py_get e ''envelope_sha256'' = py_get e' ''envelope_sha256''"
  shows "json_norm (envelope_content e) = json_norm (envelope_content e') \<or>
    sha_collision (canonical_bytes (envelope_content e)) (canonical_bytes (envelope_content e'))"
  using validate_envelopeD(2) [OF assms(1)] validate_envelopeD(2) [OF assms(2)] assms(3)
  by (intro digest_eqD) simp

text \<open>The digest roles of a binding cannot be confused: from a source for each role, \<open>build_bound_digests\<close> returns one
  digest per role, all different, each well formed; its collision error can only mean a collision of SHA-256,
  for the role name is part of what is hashed.\<close>

theorem bound_digests_separate_roles:
  assumes "set (map fst sources) = set DIGEST_FIELDS"
  shows "(\<exists>ds. build_bound_digests sources = Inr ds \<and> map fst ds = DIGEST_FIELDS \<and> distinct (map snd ds) \<and>
      (\<forall>d \<in> set (map snd ds). re_sha256 d)) \<or>
    (build_bound_digests sources = Inl (LifecycleBindingError ''digest role collision'') \<and> (\<exists>b b'. sha_collision b b'))"
proof -
  let ?ds = "map (\<lambda>field. (field, role_digest sources field)) DIGEST_FIELDS"
  show ?thesis
  proof (cases "distinct (map snd ?ds)")
    case True
    then have "build_bound_digests sources = Inr ?ds" using assms by (simp add: build_bound_digests_def)
    moreover have "map fst ?ds = DIGEST_FIELDS" by (simp add: comp_def)
    moreover have "\<forall>d \<in> set (map snd ?ds). re_sha256 d" by (auto simp: role_digest_def)
    ultimately show ?thesis using True by blast
  next
    case False
    then have "\<not> inj_on (role_digest sources) (set DIGEST_FIELDS)"
      using fields_distinct by (simp add: distinct_map comp_def)
    then have "\<exists>b b'. sha_collision b b'" using role_digest_inj by (auto simp: inj_on_def)
    moreover have "build_bound_digests sources = Inl (LifecycleBindingError ''digest role collision'')"
      using False assms by (simp add: build_bound_digests_def)
    ultimately show ?thesis by blast
  qed
qed

section \<open>A concrete binding\<close>

definition ex_digest :: "char \<Rightarrow> pyval" where
  "ex_digest c = PyStr (replicate 64 c)"

definition ex_binding :: "(string \<times> pyval) list" where
  "ex_binding = (''schema_version'', PyStr SCHEMA_VERSION) # zip DIGEST_FIELDS (map ex_digest ''0123456789'') @
     map (\<lambda>f. (f, PyStr ''id'')) IDENTITY_FIELDS @ [(''attempt'', PyInt 1), (''hard_stop'', PyBool True)]"

lemma ex_binding_ok: "validate_binding (PyDict ex_binding) = Inr ex_binding"
proof -
  have dig: "digest_field_ok ex_binding f" if "f \<in> set DIGEST_FIELDS" for f
    using that by (auto simp: digest_field_ok_def ex_binding_def DIGEST_FIELDS_def py_get_def ex_digest_def re_sha256_def
        lower_hex_def list_all_iff)
  have ids: "identity_field_ok ex_binding f" if "f \<in> set IDENTITY_FIELDS" for f
    using that by (auto simp: identity_field_ok_def ex_binding_def DIGEST_FIELDS_def IDENTITY_FIELDS_def py_get_def
        binding_id_re_def ascii_alnum_def)
  have keys: "set (map fst ex_binding) = set FIELDS"
    by (simp add: ex_binding_def FIELDS_def DIGEST_FIELDS_def IDENTITY_FIELDS_def)
  have dist: "distinct (map (py_get ex_binding) DIGEST_FIELDS)"
    by (simp add: ex_binding_def DIGEST_FIELDS_def py_get_def ex_digest_def replicate_eq_replicate)
  have rest: "py_get ex_binding ''schema_version'' = Some (PyStr SCHEMA_VERSION)"
    "py_get ex_binding ''attempt'' = Some (PyInt 1)" "py_get ex_binding ''hard_stop'' = Some (PyBool True)"
    by (simp_all add: ex_binding_def DIGEST_FIELDS_def IDENTITY_FIELDS_def py_get_def)
  have c1: "rcheck (\<lambda>field. if digest_field_ok ex_binding field then Inr ()
      else Inl (LifecycleBindingError (''invalid digest field: '' @ field))) DIGEST_FIELDS = Inr ()"
    using dig by simp
  have c2: "rcheck (\<lambda>field. if identity_field_ok ex_binding field then Inr ()
      else Inl (LifecycleBindingError (''invalid identity field: '' @ field))) IDENTITY_FIELDS = Inr ()"
    using ids by simp
  show ?thesis using keys dist rest c1 c2 by (simp only: validate_binding_def pyval.case) simp
qed

lemma ex_sealed: "\<exists>e. seal_envelope [(''k'', PyInt 1)] (PyDict ex_binding) ''schema.v1'' = Inr e"
  by (simp add: seal_envelope_def ex_binding_ok binding_id_re_def ascii_alnum_def projection_digest py_get_def)

theorem envelope_seal_roundtrip_witness:
  "\<exists>e. seal_envelope [(''k'', PyInt 1)] (PyDict ex_binding) ''schema.v1'' = Inr e \<and>
     validate_envelope (PyDict e) ''schema.v1'' (PyDict ex_binding) = Inr e"
proof -
  obtain e where e: "seal_envelope [(''k'', PyInt 1)] (PyDict ex_binding) ''schema.v1'' = Inr e" using ex_sealed by blast
  from envelope_seal_roundtrip [OF e] e show ?thesis by blast
qed

lemma ex_validated: "\<exists>e. validate_envelope (PyDict e) ''schema.v1'' (PyDict ex_binding) = Inr e"
proof -
  obtain e where e: "seal_envelope [(''k'', PyInt 1)] (PyDict ex_binding) ''schema.v1'' = Inr e" using ex_sealed by blast
  then have "envelope_content e = PyDict [(''schema_version'', PyStr ''schema.v1''), (''binding'', PyDict ex_binding),
      (''payload'', PyDict [(''k'', PyInt 1)]), (''envelope_sha256'', PyStr [])]"
    by (auto simp: seal_envelope_def ex_binding_ok projection_digest py_get_def envelope_content_def split: if_splits)
  then show ?thesis
    using e by (intro exI [of _ e]) (auto simp: seal_envelope_def ex_binding_ok projection_digest py_get_def py_get_or_def
        validate_envelope_def split: if_splits)
qed

theorem envelope_tamper_evident_witness:
  "\<exists>e. validate_envelope (PyDict e) ''schema.v1'' (PyDict ex_binding) = Inr e \<and>
     (json_norm (envelope_content e) = json_norm (envelope_content e) \<or>
      sha_collision (canonical_bytes (envelope_content e)) (canonical_bytes (envelope_content e)))"
proof -
  obtain e where e: "validate_envelope (PyDict e) ''schema.v1'' (PyDict ex_binding) = Inr e" using ex_validated by blast
  from envelope_tamper_evident [OF e e refl] e show ?thesis by blast
qed

theorem bound_digests_separate_roles_witness:
  "(\<exists>ds. build_bound_digests (map (\<lambda>f. (f, PyInt 1)) DIGEST_FIELDS) = Inr ds \<and> map fst ds = DIGEST_FIELDS) \<or>
   (\<exists>b b'. sha_collision b b')"
proof -
  have "set (map fst (map (\<lambda>f. (f, PyInt 1)) DIGEST_FIELDS)) = set DIGEST_FIELDS" by (simp add: comp_def)
  from bound_digests_separate_roles [OF this] show ?thesis by blast
qed

end
