(* ===== verification/Gate_Terminal.thy ===== *)
theory Gate_Terminal
  imports Lifecycle_Binding
begin

text \<open>
  The persistent terminal controller of a Gate, \<open>src/runtime/orchestrator/gate_terminal.py\<close>. The state dict is a record; its
  optional entries (\<open>next_lv\<close>, \<open>next_gate_status\<close>, \<open>handoff_sha256\<close>) are options. The state file is absent, not
  decodable as JSON, or a saved state with the digest written beside it; reading back what \<open>_save\<close> wrote gives the state
  again (dict order, which JSON sorts, is not observable here).

  A call of \<open>review_pass\<close> writes the file several times. The model returns the list of the files written, in order, so
  that a process that stops between two writes is a prefix of that list.
\<close>

section \<open>State\<close>

record gate_state =
  gs_lvs :: "string list"
  gs_completed_lvs :: "string list"
  gs_stage :: string
  gs_gate_status :: string
  gs_mode :: string
  gs_artifacts :: "(string \<times> pyval) list"
  gs_next_lv :: "string option"
  gs_next_gate_status :: "string option"
  gs_handoff_sha256 :: "string option"

datatype gate_file = NoFile | Undecodable | Saved gate_state string

record gate_controller =
  gc_lvs :: "string list"
  gc_mode :: string
  gc_binding :: "(string \<times> pyval) list"

text \<open>The dict that is hashed and written: every key but \<open>state_sha256\<close>.\<close>

definition opt_entry :: "string \<Rightarrow> string option \<Rightarrow> (string \<times> pyval) list" where
  "opt_entry k v = (case v of None \<Rightarrow> [] | Some s \<Rightarrow> [(k, PyStr s)])"

definition gate_json :: "gate_state \<Rightarrow> pyval" where
  "gate_json st = PyDict ([(''schema_version'', PyStr ''orchestration.gate-terminal-state.v1''),
     (''lvs'', strs (gs_lvs st)), (''completed_lvs'', strs (gs_completed_lvs st)), (''stage'', PyStr (gs_stage st)),
     (''gate_status'', PyStr (gs_gate_status st)), (''mode'', PyStr (gs_mode st)),
     (''artifacts'', PyDict (gs_artifacts st))] @ opt_entry ''next_lv'' (gs_next_lv st) @
     opt_entry ''next_gate_status'' (gs_next_gate_status st) @ opt_entry ''handoff_sha256'' (gs_handoff_sha256 st))"

section \<open>The controller\<close>

definition gate_controller_init :: "pyval \<Rightarrow> string list \<Rightarrow> string \<Rightarrow> gate_controller result" where
  "gate_controller_init binding lvs mode =
     (if lvs = [] \<or> \<not> distinct lvs then Inl (GateTerminalError ''Gate LV plan is invalid'')
      else if mode \<notin> {''GATE_BY_GATE'', ''FULL_PLAN''} then Inl (GateTerminalError ''execution mode is invalid'')
      else rbind (validate_binding binding) (\<lambda>b. Inr \<lparr>gc_lvs = lvs, gc_mode = mode, gc_binding = b\<rparr>))"

definition initial_state :: "gate_controller \<Rightarrow> gate_state" where
  "initial_state c = \<lparr>gs_lvs = gc_lvs c, gs_completed_lvs = [], gs_stage = ''REVIEW_PENDING'',
     gs_gate_status = ''IN_PROGRESS'', gs_mode = gc_mode c, gs_artifacts = [], gs_next_lv = None,
     gs_next_gate_status = None, gs_handoff_sha256 = None\<rparr>"

fun load :: "gate_controller \<Rightarrow> gate_file \<Rightarrow> gate_state result" where
  "load c NoFile = Inr (initial_state c)"
| "load c Undecodable = Inl (GateTerminalError ''corrupt Gate terminal state'')"
| "load c (Saved st d) =
     (if d \<noteq> digest (gate_json st) then Inl (GateTerminalError ''Gate terminal state digest mismatch'')
      else if gs_lvs st \<noteq> gc_lvs c \<or> gs_mode st \<noteq> gc_mode c
      then Inl (GateTerminalError ''Gate terminal plan binding mismatch'')
      else Inr st)"

definition save :: "gate_state \<Rightarrow> gate_file" where
  "save st = Saved st (digest (gate_json st))"

text \<open>An existing artifact is compared as a dict, so without regard to the order of its keys.\<close>

definition artifact :: "string \<Rightarrow> (string \<times> pyval) list \<Rightarrow> gate_state \<Rightarrow> (pyval \<times> gate_state) result" where
  "artifact kind payload st =
     (let key = kind @ '':'' @ (case py_get payload ''lv_id'' of Some (PyStr l) \<Rightarrow> l | _ \<Rightarrow> ''gate'');
          new = PyDict [(''kind'', PyStr kind), (''payload'', PyDict payload)];
          added = Inr (new, st\<lparr>gs_artifacts := py_setitem key new (gs_artifacts st)\<rparr>) in
      case py_get (gs_artifacts st) key of
        Some existing \<Rightarrow>
          if \<not> py_truthy existing then added
          else if \<not> py_equal existing new
          then Inl (GateTerminalError ''terminal artifact replay conflict'')
          else Inr (existing, st)
      | None \<Rightarrow> added)"

text \<open>The files written so far, and how the call goes on.\<close>

type_synonym 'a writing = "gate_file list \<times> 'a result"

definition wbind :: "'a writing \<Rightarrow> ('a \<Rightarrow> 'b writing) \<Rightarrow> 'b writing" where
  "wbind m f = (case snd m of
     Inl e \<Rightarrow> (fst m, Inl e)
   | Inr x \<Rightarrow> (fst m @ fst (f x), snd (f x)))"

definition pure_step :: "'a result \<Rightarrow> 'a writing" where
  "pure_step r = ([], r)"

definition write_state :: "gate_state \<Rightarrow> gate_state writing" where
  "write_state st = ([save st], Inr st)"

text \<open>\<open>_artifact\<close>, the stage change that follows it, \<open>_save\<close>.\<close>

definition artifact_step ::
  "string \<Rightarrow> (string \<times> pyval) list \<Rightarrow> (pyval \<Rightarrow> gate_state \<Rightarrow> gate_state) \<Rightarrow> gate_state \<Rightarrow> (pyval \<times> gate_state) writing" where
  "artifact_step kind payload change st =
     wbind (pure_step (artifact kind payload st)) (\<lambda>(a, st').
     wbind (write_state (change a st')) (\<lambda>st''. pure_step (Inr (a, st''))))"

text \<open>The end of \<open>review_pass\<close>, once no LV remains.\<close>

definition close_gate :: "gate_controller \<Rightarrow> gate_state \<Rightarrow> gate_state writing" where
  "close_gate c st =
     wbind (artifact_step ''gate_completeness''
       [(''completed_lvs'', strs (gs_completed_lvs st)), (''status'', PyStr ''COMPLETE'')]
       (\<lambda>_ s. s\<lparr>gs_stage := ''GATE_COMPLETE''\<rparr>) st) (\<lambda>(completeness, st).
     wbind (artifact_step ''gate_checkpoint''
       [(''status'', PyStr ''CHECKPOINTED''), (''completeness_sha256'', PyStr (digest completeness))]
       (\<lambda>_ s. s\<lparr>gs_stage := ''GATE_CHECKPOINTED''\<rparr>) st) (\<lambda>(gate_checkpoint, st).
     wbind (artifact_step ''gate_exit''
       [(''status'', PyStr ''EXITED''), (''checkpoint_sha256'', PyStr (digest gate_checkpoint))]
       (\<lambda>_ s. s\<lparr>gs_stage := ''GATE_EXITED'', gs_gate_status := ''EXITED''\<rparr>) st) (\<lambda>(gate_exit, st).
     wbind (artifact_step ''handoff''
       [(''status'', PyStr ''SEALED''), (''completed_lvs'', strs (gs_completed_lvs st)),
        (''gate_exit_sha256'', PyStr (digest gate_exit)), (''next_gate_status'', PyStr ''USER_APPROVAL_REQUIRED''),
        (''hard_stop'', PyBool True)]
       (\<lambda>handoff s. s\<lparr>gs_stage := ''HANDOFF_SEALED'', gs_next_gate_status := Some ''USER_APPROVAL_REQUIRED'',
          gs_handoff_sha256 := Some (digest handoff)\<rparr>) st) (\<lambda>(_, st).
     pure_step (load c (save st))))))"

definition review_pass :: "gate_controller \<Rightarrow> gate_file \<Rightarrow> string \<Rightarrow> gate_state writing" where
  "review_pass c file lv_id =
     wbind (pure_step (load c file)) (\<lambda>st.
     let completed = gs_completed_lvs st;
         expected = (if length completed < length (gc_lvs c) then Some (gc_lvs c ! length completed) else None) in
     if lv_id \<in> set completed then pure_step (load c file)
     else if gs_stage st \<noteq> ''REVIEW_PENDING'' \<or> Some lv_id \<noteq> expected
     then pure_step (Inl (GateTerminalError ''duplicate or out-of-order review PASS''))
     else
       wbind (artifact_step ''checkpoint'' [(''lv_id'', PyStr lv_id), (''status'', PyStr ''CHECKPOINTED'')]
         (\<lambda>_ s. s\<lparr>gs_stage := ''CHECKPOINTED''\<rparr>) st) (\<lambda>(checkpoint, st).
       wbind (artifact_step ''lv_exit''
         [(''lv_id'', PyStr lv_id), (''status'', PyStr ''EXITED''), (''checkpoint_sha256'', PyStr (digest checkpoint))]
         (\<lambda>_ s. s\<lparr>gs_completed_lvs := gs_completed_lvs s @ [lv_id], gs_stage := ''LV_EXITED''\<rparr>) st) (\<lambda>(_, st).
       case drop (length (gs_completed_lvs st)) (gc_lvs c) of
         next_lv # _ \<Rightarrow>
           wbind (write_state (st\<lparr>gs_stage := ''REVIEW_PENDING'', gs_next_lv := Some next_lv\<rparr>)) (\<lambda>st.
           pure_step (load c (save st)))
       | [] \<Rightarrow> close_gate c st)))"

definition replay_terminal :: "gate_controller \<Rightarrow> gate_file \<Rightarrow> gate_state result" where
  "replay_terminal c file =
     rbind (load c file) (\<lambda>st.
     if gs_stage st \<noteq> ''HANDOFF_SEALED'' then Inl (GateTerminalError ''Gate is not terminal'') else Inr st)"

definition start_next_gate :: "gate_controller \<Rightarrow> unit result" where
  "start_next_gate c =
     (if gc_mode c = ''GATE_BY_GATE'' then Inl (GateTerminalError ''USER_APPROVAL_REQUIRED'')
      else Inl (GateTerminalError ''next Gate requires a distinct canonical binding''))"

section \<open>Histories of a Gate\<close>

text \<open>What the state file can be when all writes are those of this controller: a call runs to its end or stops after any of its
  writes.\<close>

inductive gate_reachable :: "gate_controller \<Rightarrow> gate_file \<Rightarrow> bool" for c where
  fresh: "gate_reachable c NoFile"
| written: "gate_reachable c file \<Longrightarrow> f \<in> set (fst (review_pass c file lv_id)) \<Longrightarrow> gate_reachable c f"

text \<open>A sequence of calls that run to their end; the file after a call is the last one written.\<close>

definition after :: "gate_file \<Rightarrow> gate_state writing \<Rightarrow> gate_file" where
  "after file m = (if fst m = [] then file else last (fst m))"

definition pass_step :: "gate_controller \<Rightarrow> gate_file \<Rightarrow> string \<Rightarrow> gate_file result" where
  "pass_step c file lv_id = rbind (snd (review_pass c file lv_id)) (\<lambda>_. Inr (after file (review_pass c file lv_id)))"

section \<open>Facts\<close>

lemma wbind_pure [simp]: "wbind (pure_step (Inr x)) f = f x"
  by (simp add: wbind_def pure_step_def)

lemma wbind_raise [simp]: "wbind (pure_step (Inl e)) f = pure_step (Inl e)"
  by (simp add: wbind_def pure_step_def)

lemma wbind_write [simp]: "wbind (write_state st) f = (save st # fst (f st), snd (f st))"
  by (simp add: wbind_def write_state_def)

lemma wbind_written [simp]: "wbind (ws, Inr x) f = (ws @ fst (f x), snd (f x))"
  by (simp add: wbind_def)

lemma pure_step_sel [simp]: "fst (pure_step r) = []" "snd (pure_step r) = r"
  by (simp_all add: pure_step_def)

lemma load_save: "load c (save st) = Inr st \<longleftrightarrow> gs_lvs st = gc_lvs c \<and> gs_mode st = gc_mode c"
  by (simp add: save_def)

lemma load_Inr: "load c f = Inr st \<Longrightarrow> f = NoFile \<and> st = initial_state c \<or> f = save st"
  by (cases f) (auto simp: save_def)

definition lv_key :: "(string \<times> pyval) list \<Rightarrow> string" where
  "lv_key payload = (case py_get payload ''lv_id'' of Some (PyStr l) \<Rightarrow> l | _ \<Rightarrow> ''gate'')"

lemma artifact_step_fresh:
  assumes "kind @ '':'' @ lv_key payload \<notin> fst ` set (gs_artifacts st)"
  shows "\<exists>a arts. fst ` set arts = insert (kind @ '':'' @ lv_key payload) (fst ` set (gs_artifacts st)) \<and>
    artifact_step kind payload change st =
      ([save (change a (st\<lparr>gs_artifacts := arts\<rparr>))], Inr (a, change a (st\<lparr>gs_artifacts := arts\<rparr>)))"
proof -
  let ?key = "kind @ '':'' @ lv_key payload"
  have none: "py_get (gs_artifacts st) ?key = None" using assms by (simp add: py_get_def map_of_eq_None_iff)
  have keys: "fst ` set (py_setitem ?key a (gs_artifacts st)) = insert ?key (fst ` set (gs_artifacts st))" for a
  proof -
    have "set (map fst (py_setitem ?key a (gs_artifacts st))) = insert ?key (fst ` set (gs_artifacts st))"
      unfolding keys_py_setitem by auto
    then show ?thesis by simp
  qed
  let ?new = "PyDict [(''kind'', PyStr kind), (''payload'', PyDict payload)]"
  let ?arts = "py_setitem ?key ?new (gs_artifacts st)"
  have "artifact kind payload st = Inr (?new, st\<lparr>gs_artifacts := ?arts\<rparr>)"
    using none by (simp add: artifact_def Let_def lv_key_def)
  then have "artifact_step kind payload change st = ([save (change ?new (st\<lparr>gs_artifacts := ?arts\<rparr>))],
      Inr (?new, change ?new (st\<lparr>gs_artifacts := ?arts\<rparr>)))" by (simp add: artifact_step_def)
  then show ?thesis using keys by blast
qed

text \<open>The controller goes on after an artifact that is new.\<close>

lemma artifact_then:
  assumes "kind @ '':'' @ lv_key payload \<notin> fst ` set (gs_artifacts st)"
    and "\<And>a arts. fst ` set arts = insert (kind @ '':'' @ lv_key payload) (fst ` set (gs_artifacts st)) \<Longrightarrow>
      \<exists>ss r. f (a, change a (st\<lparr>gs_artifacts := arts\<rparr>)) = (map save ss, Inr r) \<and>
        P (change a (st\<lparr>gs_artifacts := arts\<rparr>) # ss) r"
  shows "\<exists>ss r. wbind (artifact_step kind payload change st) f = (map save ss, Inr r) \<and> P ss r"
proof -
  from artifact_step_fresh [OF assms(1), of change] obtain a arts where
    k: "fst ` set arts = insert (kind @ '':'' @ lv_key payload) (fst ` set (gs_artifacts st))"
    and s: "artifact_step kind payload change st =
      ([save (change a (st\<lparr>gs_artifacts := arts\<rparr>))], Inr (a, change a (st\<lparr>gs_artifacts := arts\<rparr>)))"
    by blast
  from assms(2) [OF k, of a] obtain ss r where "f (a, change a (st\<lparr>gs_artifacts := arts\<rparr>)) = (map save ss, Inr r)"
    "P (change a (st\<lparr>gs_artifacts := arts\<rparr>) # ss) r" by blast
  then have "wbind (artifact_step kind payload change st) f =
      (map save (change a (st\<lparr>gs_artifacts := arts\<rparr>) # ss), Inr r)" by (simp add: s)
  with \<open>P _ r\<close> show ?thesis by blast
qed

text \<open>What holds of every state the controller writes. The artifacts of a pending state belong to completed LVs.\<close>

definition lv_artifact_keys :: "string list \<Rightarrow> string set" where
  "lv_artifact_keys ls = (\<lambda>l. ''checkpoint:'' @ l) ` set ls \<union> (\<lambda>l. ''lv_exit:'' @ l) ` set ls"

definition gate_stages_last :: "string list" where
  "gate_stages_last = [''GATE_COMPLETE'', ''GATE_CHECKPOINTED'', ''GATE_EXITED'', ''HANDOFF_SEALED'']"

definition gate_ok :: "gate_controller \<Rightarrow> gate_state \<Rightarrow> bool" where
  "gate_ok c st \<longleftrightarrow> gs_lvs st = gc_lvs c \<and> gs_mode st = gc_mode c \<and>
     gs_completed_lvs st = take (length (gs_completed_lvs st)) (gc_lvs c) \<and>
     (gs_stage st = ''REVIEW_PENDING'' \<longrightarrow> length (gs_completed_lvs st) < length (gc_lvs c) \<and>
        fst ` set (gs_artifacts st) \<subseteq> lv_artifact_keys (gs_completed_lvs st) \<and> gs_gate_status st = ''IN_PROGRESS'') \<and>
     (gs_gate_status st = ''EXITED'' \<or> gs_stage st \<in> set gate_stages_last \<longrightarrow> gs_completed_lvs st = gc_lvs c) \<and>
     (gs_stage st = ''HANDOFF_SEALED'' \<longrightarrow> gs_gate_status st = ''EXITED'' \<and>
        gs_next_gate_status st = Some ''USER_APPROVAL_REQUIRED'')"

lemma gate_ok_initial: "gc_lvs c \<noteq> [] \<Longrightarrow> gate_ok c (initial_state c)"
  by (simp add: gate_ok_def initial_state_def gate_stages_last_def)

lemma lv_key_simps [simp]:
  "lv_key [] = ''gate''" "lv_key ((''lv_id'', PyStr l) # p) = l" "k \<noteq> ''lv_id'' \<Longrightarrow> lv_key ((k, v) # p) = lv_key p"
  by (simp_all add: lv_key_def py_get_def)

lemma gate_kinds_new:
  "''gate_completeness:gate'' \<notin> lv_artifact_keys ls" "''gate_checkpoint:gate'' \<notin> lv_artifact_keys ls"
  "''gate_exit:gate'' \<notin> lv_artifact_keys ls" "''handoff:gate'' \<notin> lv_artifact_keys ls"
  by (auto simp: lv_artifact_keys_def)

lemma close_gate_ok:
  assumes st: "gs_completed_lvs st = gc_lvs c" "gs_lvs st = gc_lvs c" "gs_mode st = gc_mode c"
    and arts: "fst ` set (gs_artifacts st) \<subseteq> lv_artifact_keys (gc_lvs c)" and g: "gs_gate_status st = ''IN_PROGRESS''"
  shows "\<exists>ss r. close_gate c st = (map save ss, Inr r) \<and> map gs_stage ss = gate_stages_last \<and>
    r = last ss \<and> (\<forall>s \<in> set ss. gate_ok c s \<and> gs_completed_lvs s = gc_lvs c)"
proof -
  note new = gate_kinds_new [of "gc_lvs c", THEN contra_subsetD [OF arts]]
  show ?thesis
    unfolding close_gate_def
    apply (rule artifact_then)
    subgoal using new by simp
    apply (simp only: prod.case)
    apply (rule artifact_then)
    subgoal using new by simp
    apply (simp only: prod.case)
    apply (rule artifact_then)
    subgoal using new by simp
    apply (simp only: prod.case)
    apply (rule artifact_then)
    subgoal using new by simp
    using st g by (simp add: pure_step_def load_save gate_stages_last_def gate_ok_def)
qed

text \<open>A review PASS for the LV whose turn it is.\<close>

definition stages_of_pass :: "gate_controller \<Rightarrow> nat \<Rightarrow> string list" where
  "stages_of_pass c n = [''CHECKPOINTED'', ''LV_EXITED''] @
     (if Suc n < length (gc_lvs c) then [''REVIEW_PENDING''] else gate_stages_last)"

lemma turn_key_new:
  assumes "l \<notin> set ls" "A \<subseteq> lv_artifact_keys ls"
  shows "''checkpoint:'' @ l \<notin> A" "''lv_exit:'' @ l \<notin> A"
  by (rule contra_subsetD [OF assms(2)]; use assms(1) in \<open>auto simp: lv_artifact_keys_def\<close>)+

lemma lv_artifact_keys_snoc:
  assumes "A \<subseteq> lv_artifact_keys ls"
  shows "insert (''lv_exit:'' @ l) (insert (''checkpoint:'' @ l) A) \<subseteq> lv_artifact_keys (ls @ [l])"
  using assms unfolding lv_artifact_keys_def by auto

lemma take_snoc: "n < length xs \<Longrightarrow> take n xs @ [xs ! n] = take (Suc n) xs"
  by (simp add: take_Suc_conv_app_nth)

lemma after_turn:
  assumes st: "gate_ok c st" "gs_stage st = ''REVIEW_PENDING''" and n: "n = length (gs_completed_lvs st)"
    and k: "fst ` set arts = insert (''lv_exit:'' @ gc_lvs c ! n) (insert (''checkpoint:'' @ gc_lvs c ! n) (fst ` set (gs_artifacts st)))"
    and st'_def: "st' = st\<lparr>gs_artifacts := arts, gs_completed_lvs := gs_completed_lvs st @ [gc_lvs c ! n], gs_stage := ''LV_EXITED''\<rparr>"
  shows "\<exists>ss r. (case drop (length (gs_completed_lvs st')) (gc_lvs c) of
         next_lv # _ \<Rightarrow>
           wbind (write_state (st'\<lparr>gs_stage := ''REVIEW_PENDING'', gs_next_lv := Some next_lv\<rparr>)) (\<lambda>st.
           pure_step (load c (save st)))
       | [] \<Rightarrow> close_gate c st') = (map save ss, Inr r) \<and>
     map gs_stage ss = drop 2 (stages_of_pass c n) \<and> r = last ss \<and>
     (\<forall>s \<in> set ss. gate_ok c s \<and> gs_completed_lvs s = take (Suc n) (gc_lvs c))"
proof -
  have lt: "n < length (gc_lvs c)" and ct: "gs_completed_lvs st = take n (gc_lvs c)"
    and a: "fst ` set (gs_artifacts st) \<subseteq> lv_artifact_keys (gs_completed_lvs st)"
    and b: "gs_lvs st = gc_lvs c" "gs_mode st = gc_mode c" "gs_gate_status st = ''IN_PROGRESS''"
    using st n unfolding gate_ok_def by (elim conjE, simp)+
  have fin: "gs_completed_lvs st' = take (Suc n) (gc_lvs c)" using lt ct by (simp add: st'_def take_snoc)
  have keys: "fst ` set (gs_artifacts st') \<subseteq> lv_artifact_keys (take (Suc n) (gc_lvs c))"
    using lv_artifact_keys_snoc [OF a, of "gc_lvs c ! n"] by (simp add: st'_def k ct take_snoc [OF lt])
  have b': "gs_lvs st' = gc_lvs c" "gs_mode st' = gc_mode c" "gs_gate_status st' = ''IN_PROGRESS''"
    using b by (simp_all add: st'_def)
  show ?thesis
  proof (cases "Suc n < length (gc_lvs c)")
    case True
    then obtain x xs where d: "drop (Suc n) (gc_lvs c) = x # xs" by (metis Cons_nth_drop_Suc)
    show ?thesis
      using True fin keys b' by (intro exI [of _ "[st'\<lparr>gs_stage := ''REVIEW_PENDING'', gs_next_lv := Some x\<rparr>]"])
        (simp add: d pure_step_def load_save stages_of_pass_def gate_ok_def gate_stages_last_def)
  next
    case False
    then have all: "take (Suc n) (gc_lvs c) = gc_lvs c" "drop (Suc n) (gc_lvs c) = []" by simp_all
    have c': "gs_completed_lvs st' = gc_lvs c" using fin all(1) by simp
    show ?thesis
      using close_gate_ok [OF c' b'(1,2) _ b'(3)] keys False all by (simp add: c' stages_of_pass_def)
  qed
qed

lemma join_turn:
  assumes "\<exists>ss r. m = (map save ss, Inr r) \<and> map gs_stage ss = drop 2 (stages_of_pass c n) \<and> r = last ss \<and>
      (\<forall>s \<in> set ss. gate_ok c s \<and> gs_completed_lvs s = ls)"
    and "gs_stage s1 = ''CHECKPOINTED''" "gs_stage s2 = ''LV_EXITED''" "gate_ok c s1" "gate_ok c s2"
  shows "\<exists>ss r. m = (map save ss, Inr r) \<and> map gs_stage (s1 # s2 # ss) = stages_of_pass c n \<and> r = last (s1 # s2 # ss) \<and>
      (\<forall>s \<in> set (s1 # s2 # ss). gate_ok c s) \<and> gs_completed_lvs r = ls"
proof -
  obtain ss r where ss: "m = (map save ss, Inr r)" "map gs_stage ss = drop 2 (stages_of_pass c n)" "r = last ss"
    "\<forall>s \<in> set ss. gate_ok c s \<and> gs_completed_lvs s = ls" using assms(1) by blast
  have "drop 2 (stages_of_pass c n) \<noteq> []" by (simp add: stages_of_pass_def gate_stages_last_def)
  then have ne: "ss \<noteq> []" using ss(2) by fastforce
  have "stages_of_pass c n = ''CHECKPOINTED'' # ''LV_EXITED'' # drop 2 (stages_of_pass c n)"
    by (simp add: stages_of_pass_def)
  then have "map gs_stage (s1 # s2 # ss) = stages_of_pass c n" using ss(2) assms(2,3) by (simp only: list.map)
  moreover have "gs_completed_lvs r = ls" using ss(3,4) ne by simp
  moreover have "r = last (s1 # s2 # ss)" using ss(3) ne by simp
  moreover have "\<forall>s \<in> set (s1 # s2 # ss). gate_ok c s" using ss(4) assms(4,5) by simp
  ultimately show ?thesis using ss(1) by blast
qed

lemma review_pass_turn:
  assumes st: "gate_ok c st" "gs_stage st = ''REVIEW_PENDING''" and n: "n = length (gs_completed_lvs st)"
    and l: "load c file = Inr st" and d: "distinct (gc_lvs c)"
  shows "\<exists>ss r. review_pass c file (gc_lvs c ! n) = (map save ss, Inr r) \<and> map gs_stage ss = stages_of_pass c n \<and>
     r = last ss \<and> (\<forall>s \<in> set ss. gate_ok c s) \<and> gs_completed_lvs r = take (Suc n) (gc_lvs c)"
proof -
  let ?lv = "gc_lvs c ! n"
  have lt: "n < length (gc_lvs c)" and ct: "gs_completed_lvs st = take n (gc_lvs c)"
    and a: "fst ` set (gs_artifacts st) \<subseteq> lv_artifact_keys (gs_completed_lvs st)"
    and b: "gs_lvs st = gc_lvs c" "gs_mode st = gc_mode c" "gs_gate_status st = ''IN_PROGRESS''"
    using st n unfolding gate_ok_def by (elim conjE, simp)+
  have new: "?lv \<notin> set (gs_completed_lvs st)"
    using lt d by (auto simp: ct in_set_conv_nth nth_eq_iff_index_eq)
  note k = turn_key_new [OF new a]
  have len: "length (gs_completed_lvs st) = n" using n by simp
  have g: "\<not> (gs_stage st \<noteq> ''REVIEW_PENDING'' \<or>
    Some ?lv \<noteq> (if length (gs_completed_lvs st) < length (gc_lvs c) then Some (gc_lvs c ! length (gs_completed_lvs st)) else None))"
    using st(2) lt by (simp only: len) simp
  have ok1: "gate_ok c (st\<lparr>gs_artifacts := arts, gs_stage := ''CHECKPOINTED''\<rparr>)" for arts
    using b ct lt by (simp add: gate_ok_def gate_stages_last_def)
  have ok2: "gate_ok c (st\<lparr>gs_artifacts := arts, gs_completed_lvs := gs_completed_lvs st @ [?lv], gs_stage := ''LV_EXITED''\<rparr>)" for arts
    using b ct lt by (simp add: gate_ok_def gate_stages_last_def take_snoc)
  show ?thesis
    unfolding review_pass_def l wbind_pure Let_def if_not_P [OF new] if_not_P [OF g]
    apply (rule artifact_then)
    subgoal using k by simp
    apply (simp only: prod.case)
    apply (rule artifact_then)
    subgoal using k by simp
    apply (simp only: prod.case)
    subgoal for a1 t1 a2 t2
      by (rule join_turn [OF after_turn [OF st n, where arts = t2]]) (use ok1 ok2 in simp_all)
    done
qed

lemma review_pass_cases:
  assumes "load c file = Inr st" "gate_ok c st"
  obtains (replay) "lv_id \<in> set (gs_completed_lvs st)" "review_pass c file lv_id = ([], Inr st)"
    | (rejected) "lv_id \<notin> set (gs_completed_lvs st)"
        "review_pass c file lv_id = ([], Inl (GateTerminalError ''duplicate or out-of-order review PASS''))"
        "gs_stage st \<noteq> ''REVIEW_PENDING'' \<or> lv_id \<noteq> gc_lvs c ! length (gs_completed_lvs st)"
    | (turn) "gs_stage st = ''REVIEW_PENDING''" "lv_id = gc_lvs c ! length (gs_completed_lvs st)"
proof (cases "lv_id \<in> set (gs_completed_lvs st)")
  case True
  then show ?thesis using assms(1) by (intro replay) (simp_all add: review_pass_def pure_step_def)
next
  case new: False
  show ?thesis
  proof (cases "gs_stage st = ''REVIEW_PENDING'' \<and> lv_id = gc_lvs c ! length (gs_completed_lvs st)")
    case True
    then show ?thesis using turn by blast
  next
    case False
    then show ?thesis
      using assms(1) new by (intro rejected) (auto simp: review_pass_def pure_step_def Let_def)
  qed
qed

lemma reachable_ok:
  assumes "gate_reachable c f" "gc_lvs c \<noteq> []" "distinct (gc_lvs c)"
  shows "\<exists>st. load c f = Inr st \<and> gate_ok c st"
  using assms(1)
proof (induction rule: gate_reachable.induct)
  case fresh
  show ?case using gate_ok_initial assms(2) by simp
next
  case (written g f lv_id)
  then obtain st where st: "load c g = Inr st" "gate_ok c st" by blast
  from st show ?case
  proof (cases rule: review_pass_cases [where lv_id = lv_id])
    case turn
    from review_pass_turn [OF st(2) turn(1) refl st(1) assms(3)] turn(2) written(2)
    obtain s where "f = save s" "gate_ok c s" by auto
    then show ?thesis using load_save [of c s] by (auto simp: gate_ok_def)
  qed (use written(2) in simp_all)
qed

lemma gate_controller_initD:
  assumes "gate_controller_init b lvs mode = Inr c"
  shows "gc_lvs c = lvs" "lvs \<noteq> []" "distinct lvs" "gc_mode c = mode"
  using assms by (auto simp: gate_controller_init_def)

section \<open>Properties\<close>

text \<open>C5. Whatever the order of the calls, and wherever a call is interrupted between two writes, the state file a Gate
  controller finds loads, its completed LVs are an initial part of the plan in plan order, and the Gate is recorded
  as exited, or any of its closing stages as reached, only when every LV of the plan is completed.\<close>

theorem gate_completes_in_plan_order:
  assumes "gate_controller_init binding lvs mode = Inr c" "gate_reachable c file"
  shows "\<exists>st. load c file = Inr st \<and> (\<exists>n. gs_completed_lvs st = take n lvs) \<and>
    (gs_gate_status st = ''EXITED'' \<or> gs_stage st \<in> set gate_stages_last \<longrightarrow> gs_completed_lvs st = lvs) \<and>
    (\<forall>r. replay_terminal c file = Inr r \<longrightarrow> r = st \<and> gs_completed_lvs r = lvs \<and>
       gs_next_gate_status r = Some ''USER_APPROVAL_REQUIRED'')"
proof -
  note c = gate_controller_initD [OF assms(1)]
  obtain st where st: "load c file = Inr st" "gate_ok c st"
    using reachable_ok [OF assms(2)] c by auto
  have "gs_stage st = ''HANDOFF_SEALED'' \<Longrightarrow> gs_stage st \<in> set gate_stages_last" by (simp add: gate_stages_last_def)
  with st c(1) show ?thesis
    unfolding gate_ok_def replay_terminal_def st(1) rbind_Inr guard_eq_Inr by (elim conjE, intro exI [of _ st] conjI) (blast, blast+)
qed

text \<open>C6. A Gate can be closed: the review PASSes of the plan, in order, are all accepted, after which the state file is
  terminal: all LVs completed, the Gate exited, the next Gate waiting for the user.\<close>

theorem gate_closes:
  assumes "gate_controller_init binding lvs mode = Inr c"
  shows "\<exists>file st. rfold (pass_step c) NoFile lvs = Inr file \<and> replay_terminal c file = Inr st \<and>
    gs_completed_lvs st = lvs \<and> gs_gate_status st = ''EXITED'' \<and>
    gs_next_gate_status st = Some ''USER_APPROVAL_REQUIRED''"
proof -
  note c = gate_controller_initD [OF assms(1)]
  have step: "\<exists>file st. rfold (pass_step c) NoFile (take n lvs) = Inr file \<and> load c file = Inr st \<and> gate_ok c st \<and>
      gs_completed_lvs st = take n lvs \<and>
      gs_stage st = (if n < length lvs then ''REVIEW_PENDING'' else ''HANDOFF_SEALED'')" if "n \<le> length lvs" for n
    using that
  proof (induction n)
    case 0
    show ?case using c gate_ok_initial [of c] by (simp add: initial_state_def)
  next
    case (Suc n)
    then obtain g st where g: "rfold (pass_step c) NoFile (take n lvs) = Inr g" "load c g = Inr st" "gate_ok c st"
      "gs_completed_lvs st = take n lvs" "gs_stage st = ''REVIEW_PENDING''" by auto
    have len: "n = length (gs_completed_lvs st)" using g(4) Suc.prems by simp
    from review_pass_turn [OF g(3,5) len g(2)] c obtain ss where
      ss: "review_pass c g (lvs ! n) = (map save ss, Inr (last ss))" "map gs_stage ss = stages_of_pass c n"
        "\<forall>s \<in> set ss. gate_ok c s" "gs_completed_lvs (last ss) = take (Suc n) lvs" by auto
    have ne: "ss \<noteq> []" using ss(2) by (auto simp: stages_of_pass_def)
    have f: "pass_step c g (lvs ! n) = Inr (save (last ss))"
      using ne by (simp add: pass_step_def ss(1) after_def last_map)
    have "gs_stage (last ss) = last (stages_of_pass c n)" using ne by (simp add: ss(2) [symmetric] last_map)
    moreover have "gate_ok c (last ss)" using ss(3) ne by simp
    moreover have "load c (save (last ss)) = Inr (last ss)" using \<open>gate_ok c (last ss)\<close> by (simp add: load_save gate_ok_def)
    ultimately show ?case
      using g(1) f ss(4) Suc.prems c(1) by (auto simp: take_Suc_conv_app_nth rfold_append stages_of_pass_def gate_stages_last_def)
  qed
  from step [of "length lvs"] obtain f st where st: "rfold (pass_step c) NoFile lvs = Inr f" "load c f = Inr st"
    "gate_ok c st" "gs_completed_lvs st = lvs" "gs_stage st = ''HANDOFF_SEALED''" by auto
  then have "gs_gate_status st = ''EXITED''" "gs_next_gate_status st = Some ''USER_APPROVAL_REQUIRED''"
    by (simp_all add: gate_ok_def)
  with st show ?thesis by (auto simp: replay_terminal_def)
qed

lemma stages_of_pass_inner:
  "k \<in> set (butlast (stages_of_pass c n)) \<Longrightarrow> k \<noteq> ''REVIEW_PENDING'' \<and> k \<noteq> ''HANDOFF_SEALED''"
  by (auto simp: stages_of_pass_def gate_stages_last_def butlast_append split: if_splits)

lemma stages_of_pass_length: "3 \<le> length (stages_of_pass c n)"
  by (simp add: stages_of_pass_def gate_stages_last_def)

text \<open>A state file in any other stage than \<open>REVIEW_PENDING\<close> and \<open>HANDOFF_SEALED\<close> stays as it is.\<close>

lemma inner_stage_stuck:
  assumes l: "load c f = Inr st" and ok: "gate_ok c st"
    and k: "gs_stage st \<noteq> ''REVIEW_PENDING'' \<and> gs_stage st \<noteq> ''HANDOFF_SEALED''"
  shows "review_pass c f lv_id = ([], if lv_id \<in> set (gs_completed_lvs st) then Inr st
       else Inl (GateTerminalError ''duplicate or out-of-order review PASS''))"
    and "replay_terminal c f = Inl (GateTerminalError ''Gate is not terminal'')"
proof -
  show "replay_terminal c f = Inl (GateTerminalError ''Gate is not terminal'')"
    using l k by (simp add: replay_terminal_def)
  show "review_pass c f lv_id = ([], if lv_id \<in> set (gs_completed_lvs st) then Inr st
       else Inl (GateTerminalError ''duplicate or out-of-order review PASS''))"
    using k by (cases rule: review_pass_cases [OF l ok, of lv_id]) simp_all
qed

text \<open>C35. A process that stops inside a review PASS leaves the Gate stuck, whichever LV of the plan it was for: a PASS that
  writes at all writes the state file at least three times, and after any of these writes but the last the file loads, yet
  from then on no call changes it: a review PASS of an LV that is already completed returns the state and writes nothing,
  one of any other LV raises and writes nothing, and the Gate is never terminal.\<close>

theorem interrupted_review_is_stuck:
  assumes "gate_controller_init binding lvs mode = Inr c" "gate_reachable c file"
    and "fst (review_pass c file lv_id) \<noteq> []"
  shows "3 \<le> length (fst (review_pass c file lv_id)) \<and>
    (\<forall>f \<in> set (butlast (fst (review_pass c file lv_id))). gate_reachable c f \<and>
       (\<exists>st. load c f = Inr st \<and>
          (\<forall>other. review_pass c f other = ([], if other \<in> set (gs_completed_lvs st) then Inr st
             else Inl (GateTerminalError ''duplicate or out-of-order review PASS'')))) \<and>
       replay_terminal c f = Inl (GateTerminalError ''Gate is not terminal''))"
proof -
  note c = gate_controller_initD [OF assms(1)]
  obtain st where st: "load c file = Inr st" "gate_ok c st" using reachable_ok [OF assms(2)] c by auto
  have turn: "gs_stage st = ''REVIEW_PENDING''" "lv_id = gc_lvs c ! length (gs_completed_lvs st)"
    using assms(3) by (cases rule: review_pass_cases [OF st, of lv_id]; simp)+
  from review_pass_turn [OF st(2) turn(1) refl st(1)] c turn(2) obtain ss where
    ws: "fst (review_pass c file lv_id) = map save ss"
    and ss: "map gs_stage ss = stages_of_pass c (length (gs_completed_lvs st))" "\<forall>s \<in> set ss. gate_ok c s" by auto
  have stuck: "gate_reachable c (save s) \<and> load c (save s) = Inr s \<and> gate_ok c s \<and>
      gs_stage s \<noteq> ''REVIEW_PENDING'' \<and> gs_stage s \<noteq> ''HANDOFF_SEALED''" if "s \<in> set (butlast ss)" for s
  proof -
    have "s \<in> set ss" using that by (rule in_set_butlastD)
    then have "gate_reachable c (save s)" "gate_ok c s"
      using gate_reachable.written [OF assms(2), of "save s" lv_id] ws ss(2) by auto
    moreover have "gs_stage s \<in> set (butlast (stages_of_pass c (length (gs_completed_lvs st))))"
      using that by (simp add: ss(1) [symmetric] map_butlast [symmetric])
    ultimately show ?thesis using stages_of_pass_inner load_save [of c s] by (auto simp: gate_ok_def)
  qed
  have "length ss = length (stages_of_pass c (length (gs_completed_lvs st)))" by (simp flip: ss(1))
  moreover have "gate_reachable c f \<and>
       (\<exists>st. load c f = Inr st \<and>
          (\<forall>other. review_pass c f other = ([], if other \<in> set (gs_completed_lvs st) then Inr st
             else Inl (GateTerminalError ''duplicate or out-of-order review PASS'')))) \<and>
       replay_terminal c f = Inl (GateTerminalError ''Gate is not terminal'')"
    if "f \<in> set (butlast (map save ss))" for f
  proof -
    from that obtain s where "s \<in> set (butlast ss)" "f = save s" by (auto simp flip: map_butlast)
    with stuck [OF this(1)] inner_stage_stuck [of c f s] show ?thesis by (intro conjI exI [of _ s]) auto
  qed
  ultimately show ?thesis using stages_of_pass_length unfolding ws by simp
qed

section \<open>A concrete Gate\<close>

lemma ex_gate: "gate_controller_init (PyDict ex_binding) [''LV-1'', ''LV-2''] ''GATE_BY_GATE'' =
    Inr \<lparr>gc_lvs = [''LV-1'', ''LV-2''], gc_mode = ''GATE_BY_GATE'', gc_binding = ex_binding\<rparr>"
  by (simp add: gate_controller_init_def ex_binding_ok)

theorem gate_completes_in_plan_order_witness:
  "\<exists>c st. gate_controller_init (PyDict ex_binding) [''LV-1'', ''LV-2''] ''GATE_BY_GATE'' = Inr c \<and>
     gate_reachable c NoFile \<and> load c NoFile = Inr st \<and> (\<exists>n. gs_completed_lvs st = take n [''LV-1'', ''LV-2''])"
  using gate_completes_in_plan_order [OF ex_gate gate_reachable.fresh] ex_gate gate_reachable.fresh by blast

theorem gate_closes_witness:
  "\<exists>c file st. gate_controller_init (PyDict ex_binding) [''LV-1'', ''LV-2''] ''GATE_BY_GATE'' = Inr c \<and>
     rfold (pass_step c) NoFile [''LV-1'', ''LV-2''] = Inr file \<and> replay_terminal c file = Inr st \<and>
     gs_completed_lvs st = [''LV-1'', ''LV-2'']"
  using gate_closes [OF ex_gate] ex_gate by blast

text \<open>The second LV of a plan, interrupted after its first write: the file after a full PASS of the first.\<close>

theorem interrupted_review_is_stuck_witness:
  "\<exists>c file st f. gate_controller_init (PyDict ex_binding) [''LV-1'', ''LV-2''] ''GATE_BY_GATE'' = Inr c \<and>
     gate_reachable c file \<and> load c file = Inr st \<and> gs_completed_lvs st = [''LV-1''] \<and>
     f \<in> set (butlast (fst (review_pass c file ''LV-2''))) \<and>
     fst (review_pass c f ''LV-2'') = [] \<and> replay_terminal c f = Inl (GateTerminalError ''Gate is not terminal'')"
proof -
  obtain c where i: "gate_controller_init (PyDict ex_binding) [''LV-1'', ''LV-2''] ''GATE_BY_GATE'' = Inr c"
    using ex_gate by blast
  note c = gate_controller_initD [OF i]
  from review_pass_turn [OF gate_ok_initial _ refl, of c NoFile] c obtain ss where
    ss: "fst (review_pass c NoFile ''LV-1'') = map save ss" "map gs_stage ss = stages_of_pass c 0"
      "\<forall>s \<in> set ss. gate_ok c s" "gs_completed_lvs (last ss) = [''LV-1'']" by (auto simp: initial_state_def)
  have ne: "ss \<noteq> []" using ss(2) by (auto simp: stages_of_pass_def)
  have stage: "gs_stage (last ss) = ''REVIEW_PENDING''"
    using arg_cong [OF ss(2), of last] ne c by (simp add: last_map stages_of_pass_def)
  have ok: "gate_ok c (last ss)" using ss(3) ne by simp
  then have l: "load c (save (last ss)) = Inr (last ss)" by (simp add: load_save gate_ok_def)
  have r: "gate_reachable c (save (last ss))"
    by (rule gate_reachable.written [OF gate_reachable.fresh, of _ _ "''LV-1''"]) (use ss(1) ne in simp)
  from review_pass_turn [OF ok stage refl l] c ss(4) obtain ts where
    ts: "fst (review_pass c (save (last ss)) ''LV-2'') = map save ts" "map gs_stage ts = stages_of_pass c 1" by auto
  have w: "fst (review_pass c (save (last ss)) ''LV-2'') \<noteq> []" using ts by (auto simp: stages_of_pass_def)
  note stuck = interrupted_review_is_stuck [OF i r w]
  then have "butlast (fst (review_pass c (save (last ss)) ''LV-2'')) \<noteq> []" by (auto simp flip: length_0_conv)
  then obtain f where "f \<in> set (butlast (fst (review_pass c (save (last ss)) ''LV-2'')))" by (meson list.set_sel(1))
  moreover from this stuck have "fst (review_pass c f ''LV-2'') = []"
    "replay_terminal c f = Inl (GateTerminalError ''Gate is not terminal'')" by auto
  ultimately show ?thesis using i r l ss(4) by blast
qed

end
