(* ===== verification/Turn_Checkpoint.thy ===== *)
theory Turn_Checkpoint
  imports Sealing
begin

text \<open>
  Checkpoints at which an Operator turn may yield, and their store, \<open>src/runtime/orchestrator/operator_turn_checkpoint.py\<close>.

  The fields of a checkpoint are strings, as \<open>from_dict\<close> makes them. The two uses of \<open>datetime\<close> are one
  argument, \<open>utc\<close>: the text of the same instant in UTC with seconds that
  \<open>fromisoformat(text.replace("Z", "+00:00")).astimezone(utc).isoformat(timespec="seconds")\<close> gives, \<open>Inr None\<close> where the text
  is not a timestamp with a zone, and \<open>Inl\<close> the \<open>OverflowError\<close> that \<open>astimezone\<close> raises where the instant in UTC lies outside
  the years 1 to 9999 (\<open>0001-01-01T00:00:00+23:59\<close>); the code does not turn that one into its own error. The directory of a run is a map from file names to what reading the file as JSON gives;
  its root and its files are ordinary, not symbolic links.
\<close>

section \<open>Checkpoints\<close>

record turn_checkpoint =
  tc_schema_version :: string
  tc_project_id :: string
  tc_run_id :: string
  tc_gate_id_or_stage :: string
  tc_authority_core_sha256 :: string
  tc_checkpoint_kind :: string
  tc_owner_kind :: string
  tc_owner_ref :: string
  tc_resume_contract_sha256 :: string
  tc_last_semantic_progress_at :: string
  tc_created_at :: string
  tc_control_authority :: string
  tc_checkpoint_sha256 :: string

definition TURN_SCHEMA_VERSION :: string where "TURN_SCHEMA_VERSION = ''orchestration.operator-turn-checkpoint.v1''"

definition POINTER_SCHEMA :: string where "POINTER_SCHEMA = ''orchestration.operator-turn-checkpoint-pointer.v1''"

definition CONTROL_AUTHORITY :: string where "CONTROL_AUTHORITY = ''NONE''"

definition CHECKPOINT_KINDS :: "string set" where
  "CHECKPOINT_KINDS = {''AUTONOMOUS_OWNER_BOUND'', ''OPERATOR_HANDOFF_CHECKPOINT''}"

definition OWNER_KINDS :: "string set" where
  "OWNER_KINDS = {''FULL_PLAN'', ''DCC'', ''RECONCILER'', ''OPERATOR_HANDOFF''}"

definition turn_safe_id :: "string \<Rightarrow> string \<Rightarrow> string result" where
  "turn_safe_id value label =
     (if re_ident ''._:-'' 179 value then Inr value else Inl (OperatorTurnCheckpointError (''invalid '' @ label)))"

definition turn_sha :: "string \<Rightarrow> string \<Rightarrow> string result" where
  "turn_sha value label =
     (if re_sha256 value then Inr value else Inl (OperatorTurnCheckpointError (''invalid '' @ label)))"

definition turn_timestamp :: "(string \<Rightarrow> string option result) \<Rightarrow> string \<Rightarrow> string \<Rightarrow> string result" where
  "turn_timestamp utc value label =
     rbind (utc value) (\<lambda>r. case r of None \<Rightarrow> Inl (OperatorTurnCheckpointError (''invalid '' @ label)) | Some t \<Rightarrow> Inr t)"

definition turn_unsigned_dict :: "turn_checkpoint \<Rightarrow> (string \<times> pyval) list" where
  "turn_unsigned_dict c =
     [(''schema_version'', PyStr (tc_schema_version c)), (''project_id'', PyStr (tc_project_id c)),
      (''run_id'', PyStr (tc_run_id c)), (''gate_id_or_stage'', PyStr (tc_gate_id_or_stage c)),
      (''authority_core_sha256'', PyStr (tc_authority_core_sha256 c)),
      (''checkpoint_kind'', PyStr (tc_checkpoint_kind c)), (''owner_kind'', PyStr (tc_owner_kind c)),
      (''owner_ref'', PyStr (tc_owner_ref c)), (''resume_contract_sha256'', PyStr (tc_resume_contract_sha256 c)),
      (''last_semantic_progress_at'', PyStr (tc_last_semantic_progress_at c)),
      (''created_at'', PyStr (tc_created_at c)), (''control_authority'', PyStr (tc_control_authority c))]"

definition turn_to_dict :: "turn_checkpoint \<Rightarrow> (string \<times> pyval) list" where
  "turn_to_dict c = turn_unsigned_dict c @ [(''checkpoint_sha256'', PyStr (tc_checkpoint_sha256 c))]"

definition bad_owner_ref :: "string \<Rightarrow> bool" where
  "bad_owner_ref r = (r = [] \<or> 512 < length r \<or> CHR 0x0A \<in> set r)"

text \<open>The dict that \<open>create\<close> builds, still without its digest, and the checks it makes on it.\<close>

definition turn_unsigned :: "turn_checkpoint \<Rightarrow> string \<Rightarrow> string \<Rightarrow> turn_checkpoint" where
  "turn_unsigned args progress created =
     \<lparr>tc_schema_version = TURN_SCHEMA_VERSION, tc_project_id = tc_project_id args, tc_run_id = tc_run_id args,
      tc_gate_id_or_stage = tc_gate_id_or_stage args, tc_authority_core_sha256 = tc_authority_core_sha256 args,
      tc_checkpoint_kind = tc_checkpoint_kind args, tc_owner_kind = tc_owner_kind args,
      tc_owner_ref = py_strip (tc_owner_ref args), tc_resume_contract_sha256 = tc_resume_contract_sha256 args,
      tc_last_semantic_progress_at = progress, tc_created_at = created, tc_control_authority = CONTROL_AUTHORITY,
      tc_checkpoint_sha256 = []\<rparr>"

definition turn_owner_guards :: "turn_checkpoint \<Rightarrow> unit result" where
  "turn_owner_guards u = guards
     [(tc_checkpoint_kind u \<notin> CHECKPOINT_KINDS, OperatorTurnCheckpointError ''unsupported checkpoint kind''),
      (tc_owner_kind u \<notin> OWNER_KINDS, OperatorTurnCheckpointError ''unsupported checkpoint owner''),
      (bad_owner_ref (tc_owner_ref u), OperatorTurnCheckpointError ''invalid checkpoint owner ref''),
      (tc_checkpoint_kind u = ''OPERATOR_HANDOFF_CHECKPOINT'' \<and> tc_owner_kind u \<noteq> ''OPERATOR_HANDOFF'',
       OperatorTurnCheckpointError ''operator handoff checkpoint requires operator handoff owner''),
      (tc_checkpoint_kind u = ''AUTONOMOUS_OWNER_BOUND'' \<and> tc_owner_kind u \<notin> {''FULL_PLAN'', ''DCC'', ''RECONCILER''},
       OperatorTurnCheckpointError ''autonomous checkpoint requires autonomous owner'')]"

definition turn_create ::
  "(string \<Rightarrow> string option result) \<Rightarrow> string \<Rightarrow> turn_checkpoint \<Rightarrow> turn_checkpoint result" where
  "turn_create utc now args =
     rbind (turn_safe_id (tc_project_id args) ''project ID'') (\<lambda>_.
     rbind (turn_safe_id (tc_run_id args) ''run ID'') (\<lambda>_.
     rbind (turn_safe_id (tc_gate_id_or_stage args) ''Gate/stage ID'') (\<lambda>_.
     rbind (turn_sha (tc_authority_core_sha256 args) ''authority digest'') (\<lambda>_.
     rbind (turn_sha (tc_resume_contract_sha256 args) ''resume contract digest'') (\<lambda>_.
     rbind (turn_timestamp utc (tc_last_semantic_progress_at args) ''semantic progress timestamp'') (\<lambda>progress.
     rbind (turn_timestamp utc (if tc_created_at args = [] then now else tc_created_at args) ''created timestamp'') (\<lambda>created.
     let unsigned = turn_unsigned args progress created in
     rbind (turn_owner_guards unsigned) (\<lambda>_.
     Inr (unsigned\<lparr>tc_checkpoint_sha256 := digest (PyDict (turn_unsigned_dict unsigned))\<rparr>)))))))))"

definition turn_validate :: "(string \<Rightarrow> string option result) \<Rightarrow> turn_checkpoint \<Rightarrow> unit result" where
  "turn_validate utc c =
     (if tc_schema_version c \<noteq> TURN_SCHEMA_VERSION \<or> tc_control_authority c \<noteq> CONTROL_AUTHORITY
      then Inl (OperatorTurnCheckpointError ''checkpoint schema/authority mismatch'')
      else
     rbind (turn_safe_id (tc_project_id c) ''project ID'') (\<lambda>_.
     rbind (turn_safe_id (tc_run_id c) ''run ID'') (\<lambda>_.
     rbind (turn_safe_id (tc_gate_id_or_stage c) ''Gate/stage ID'') (\<lambda>_.
     rbind (turn_sha (tc_authority_core_sha256 c) ''authority digest'') (\<lambda>_.
     rbind (turn_sha (tc_resume_contract_sha256 c) ''resume contract digest'') (\<lambda>_.
     rbind (turn_timestamp utc (tc_last_semantic_progress_at c) ''semantic progress timestamp'') (\<lambda>_.
     rbind (turn_timestamp utc (tc_created_at c) ''created timestamp'') (\<lambda>_.
     guards
       [(tc_checkpoint_kind c \<notin> CHECKPOINT_KINDS \<or> tc_owner_kind c \<notin> OWNER_KINDS,
         OperatorTurnCheckpointError ''checkpoint kind/owner mismatch''),
        (bad_owner_ref (tc_owner_ref c), OperatorTurnCheckpointError ''invalid checkpoint owner ref''),
        (tc_checkpoint_kind c = ''OPERATOR_HANDOFF_CHECKPOINT'' \<and> tc_owner_kind c \<noteq> ''OPERATOR_HANDOFF'',
         OperatorTurnCheckpointError ''operator handoff checkpoint owner mismatch''),
        (tc_checkpoint_kind c = ''AUTONOMOUS_OWNER_BOUND'' \<and> tc_owner_kind c \<notin> {''FULL_PLAN'', ''DCC'', ''RECONCILER''},
         OperatorTurnCheckpointError ''autonomous checkpoint owner mismatch''),
        (tc_checkpoint_sha256 c \<noteq> digest (PyDict (turn_unsigned_dict c)),
         OperatorTurnCheckpointError ''checkpoint digest mismatch'')]))))))))"

definition turn_fields :: "string list" where
  "turn_fields = [''schema_version'', ''project_id'', ''run_id'', ''gate_id_or_stage'', ''authority_core_sha256'',
     ''checkpoint_kind'', ''owner_kind'', ''owner_ref'', ''resume_contract_sha256'', ''last_semantic_progress_at'',
     ''created_at'', ''control_authority'', ''checkpoint_sha256'']"

definition turn_of :: "(string \<Rightarrow> string) \<Rightarrow> turn_checkpoint" where
  "turn_of f = \<lparr>tc_schema_version = f ''schema_version'', tc_project_id = f ''project_id'', tc_run_id = f ''run_id'',
     tc_gate_id_or_stage = f ''gate_id_or_stage'', tc_authority_core_sha256 = f ''authority_core_sha256'',
     tc_checkpoint_kind = f ''checkpoint_kind'', tc_owner_kind = f ''owner_kind'', tc_owner_ref = f ''owner_ref'',
     tc_resume_contract_sha256 = f ''resume_contract_sha256'',
     tc_last_semantic_progress_at = f ''last_semantic_progress_at'', tc_created_at = f ''created_at'',
     tc_control_authority = f ''control_authority'', tc_checkpoint_sha256 = f ''checkpoint_sha256''\<rparr>"

definition turn_from_dict :: "(string \<Rightarrow> string option result) \<Rightarrow> pyval \<Rightarrow> turn_checkpoint result" where
  "turn_from_dict utc value =
     (case value of
        PyDict kvs \<Rightarrow>
          if set (map fst kvs) \<noteq> set turn_fields then Inl (OperatorTurnCheckpointError ''checkpoint fields mismatch'')
          else let checkpoint = turn_of (\<lambda>name. py_str (py_get_or PyNone kvs name)) in
            rbind (turn_validate utc checkpoint) (\<lambda>_. Inr checkpoint)
      | _ \<Rightarrow> Inl (OperatorTurnCheckpointError ''checkpoint object required''))"

section \<open>The store\<close>

text \<open>A file: JSON text that decodes to a value, or text that does not decode.\<close>

datatype turn_file = Malformed | Json pyval

type_synonym turn_dir = "string \<Rightarrow> turn_file option"

record turn_store =
  ts_project_id :: string
  ts_run_id :: string

definition turn_store_init :: "string \<Rightarrow> string \<Rightarrow> turn_store result" where
  "turn_store_init project_id run_id =
     rbind (turn_safe_id project_id ''project ID'') (\<lambda>p.
     rbind (turn_safe_id run_id ''run ID'') (\<lambda>r. Inr \<lparr>ts_project_id = p, ts_run_id = r\<rparr>))"

definition turn_load_file :: "(string \<Rightarrow> string option result) \<Rightarrow> turn_dir \<Rightarrow> string \<Rightarrow> turn_checkpoint result" where
  "turn_load_file utc dir name =
     (case dir name of
        None \<Rightarrow> Inl (OperatorTurnCheckpointError ''checkpoint file is unsafe'')
      | Some Malformed \<Rightarrow> Inl (OperatorTurnCheckpointError ''checkpoint file is malformed'')
      | Some (Json v) \<Rightarrow> turn_from_dict utc v)"

definition turn_pointer :: "turn_store \<Rightarrow> turn_checkpoint \<Rightarrow> (string \<times> pyval) list" where
  "turn_pointer s c =
     [(''schema_version'', PyStr POINTER_SCHEMA), (''project_id'', PyStr (ts_project_id s)),
      (''run_id'', PyStr (ts_run_id s)), (''checkpoint_sha256'', PyStr (tc_checkpoint_sha256 c)),
      (''checkpoint_file'', PyStr (tc_checkpoint_sha256 c @ ''.json'')), (''control_authority'', PyStr CONTROL_AUTHORITY)]"

definition turn_save ::
  "(string \<Rightarrow> string option result) \<Rightarrow> turn_store \<Rightarrow> turn_dir \<Rightarrow> turn_checkpoint \<Rightarrow> (turn_checkpoint \<times> turn_dir) result" where
  "turn_save utc s dir c =
     rbind (turn_validate utc c) (\<lambda>_.
     if tc_project_id c \<noteq> ts_project_id s \<or> tc_run_id c \<noteq> ts_run_id s
     then Inl (OperatorTurnCheckpointError ''checkpoint store identity mismatch'')
     else let path = tc_checkpoint_sha256 c @ ''.json'' in
       rbind (if dir path \<noteq> None
              then rbind (turn_load_file utc dir path) (\<lambda>existing.
                if existing \<noteq> c then Inl (OperatorTurnCheckpointError ''checkpoint digest collision'') else Inr dir)
              else Inr (dir(path \<mapsto> Json (PyDict (turn_to_dict c))))) (\<lambda>dir'.
       let pointer = turn_pointer s c @ [(''pointer_sha256'', PyStr (digest (PyDict (turn_pointer s c))))] in
       Inr (c, dir'(''latest.json'' \<mapsto> Json (PyDict pointer)))))"

text \<open>\<open>Path(name).name = name\<close> for a nonempty text: a single path component other than \<open>.\<close>; \<open>..\<close> is one.\<close>

definition single_component :: "string \<Rightarrow> bool" where
  "single_component n = (n \<noteq> [] \<and> CHR ''/'' \<notin> set n \<and> n \<noteq> ''.'')"

definition turn_load_latest :: "(string \<Rightarrow> string option result) \<Rightarrow> turn_store \<Rightarrow> turn_dir \<Rightarrow> turn_checkpoint result" where
  "turn_load_latest utc s dir =
     (case dir ''latest.json'' of
        None \<Rightarrow> Inl (OperatorTurnCheckpointError ''latest checkpoint pointer is unavailable'')
      | Some Malformed \<Rightarrow> Inl (OperatorTurnCheckpointError ''latest checkpoint pointer is malformed'')
      | Some (Json (PyDict p)) \<Rightarrow>
          if py_get p ''schema_version'' \<noteq> Some (PyStr POINTER_SCHEMA)
          then Inl (OperatorTurnCheckpointError ''latest checkpoint pointer schema mismatch'')
          else if py_text p ''pointer_sha256'' \<noteq> digest (PyDict (filter (\<lambda>(k, v). k \<noteq> ''pointer_sha256'') p)) \<or>
            py_get p ''control_authority'' \<noteq> Some (PyStr CONTROL_AUTHORITY)
          then Inl (OperatorTurnCheckpointError ''latest checkpoint pointer digest mismatch'')
          else if py_get p ''project_id'' \<noteq> Some (PyStr (ts_project_id s)) \<or> py_get p ''run_id'' \<noteq> Some (PyStr (ts_run_id s))
          then Inl (OperatorTurnCheckpointError ''latest checkpoint pointer identity mismatch'')
          else let name = py_text p ''checkpoint_file'' in
            if name = [] \<or> \<not> single_component name
            then Inl (OperatorTurnCheckpointError ''latest checkpoint pointer path is invalid'')
            else rbind (turn_load_file utc dir name) (\<lambda>checkpoint.
              if Some (PyStr (tc_checkpoint_sha256 checkpoint)) \<noteq> py_get p ''checkpoint_sha256''
              then Inl (OperatorTurnCheckpointError ''latest checkpoint pointer binding mismatch'') else Inr checkpoint)
      | Some (Json _) \<Rightarrow> Inl (OperatorTurnCheckpointError ''latest checkpoint pointer schema mismatch''))"

section \<open>Sealing\<close>

abbreviation turn_content :: "turn_checkpoint \<Rightarrow> pyval" where
  "turn_content c \<equiv> PyDict (turn_unsigned_dict c)"

definition turn_intact :: "turn_checkpoint \<Rightarrow> bool" where
  "turn_intact c = (tc_checkpoint_sha256 c = digest (turn_content c))"

definition turn_reseal :: "string \<Rightarrow> turn_checkpoint \<Rightarrow> turn_checkpoint" where
  "turn_reseal d c = c\<lparr>tc_checkpoint_sha256 := d\<rparr>"

lemma turn_unsigned_inj:
  assumes eq: "json_norm (turn_content c) = json_norm (turn_content c')"
    and d: "tc_checkpoint_sha256 c = tc_checkpoint_sha256 c'"
  shows "c = c'"
  using json_norm_dict_same_keys [OF eq [unfolded turn_unsigned_dict_def]] d by simp

interpretation turn: sealed_injective turn_content tc_checkpoint_sha256 turn_reseal turn_intact
proof unfold_locales
  show "turn_content (turn_reseal d r) = turn_content r" for d r
    by (simp add: turn_unsigned_dict_def turn_reseal_def)
  show "tc_checkpoint_sha256 (turn_reseal d r) = d" for d r
    by (simp add: turn_reseal_def)
  show "turn_intact r \<longleftrightarrow> tc_checkpoint_sha256 r = digest (turn_content r)" for r
    by (simp add: turn_intact_def)
qed (rule turn_unsigned_inj)

section \<open>Facts\<close>

text \<open>The conditions that \<open>validate\<close> imposes apart from the digest.\<close>

definition turn_shape :: "(string \<Rightarrow> string option result) \<Rightarrow> turn_checkpoint \<Rightarrow> bool" where
  "turn_shape utc c \<longleftrightarrow> tc_schema_version c = TURN_SCHEMA_VERSION \<and> tc_control_authority c = CONTROL_AUTHORITY \<and>
     (\<forall>i \<in> {tc_project_id c, tc_run_id c, tc_gate_id_or_stage c}. re_ident ''._:-'' 179 i) \<and>
     re_sha256 (tc_authority_core_sha256 c) \<and> re_sha256 (tc_resume_contract_sha256 c) \<and>
     (\<exists>u. utc (tc_last_semantic_progress_at c) = Inr (Some u)) \<and> (\<exists>u. utc (tc_created_at c) = Inr (Some u)) \<and>
     \<not> bad_owner_ref (tc_owner_ref c) \<and>
     (tc_checkpoint_kind c, tc_owner_kind c) \<in>
       {''AUTONOMOUS_OWNER_BOUND''} \<times> {''FULL_PLAN'', ''DCC'', ''RECONCILER''} \<union>
       {(''OPERATOR_HANDOFF_CHECKPOINT'', ''OPERATOR_HANDOFF'')}"

lemma turn_safe_id_Inr [simp]: "turn_safe_id v l = Inr w \<longleftrightarrow> re_ident ''._:-'' 179 v \<and> w = v"
  by (auto simp: turn_safe_id_def)

lemma turn_sha_Inr [simp]: "turn_sha v l = Inr w \<longleftrightarrow> re_sha256 v \<and> w = v"
  by (auto simp: turn_sha_def)

lemma turn_timestamp_Inr [simp]: "turn_timestamp utc v l = Inr w \<longleftrightarrow> utc v = Inr (Some w)"
  by (auto simp: turn_timestamp_def split: option.splits)

lemma turn_kinds:
  "k \<in> CHECKPOINT_KINDS \<and> ow \<in> OWNER_KINDS \<and> \<not> (k = ''OPERATOR_HANDOFF_CHECKPOINT'' \<and> ow \<noteq> ''OPERATOR_HANDOFF'') \<and>
   \<not> (k = ''AUTONOMOUS_OWNER_BOUND'' \<and> ow \<notin> {''FULL_PLAN'', ''DCC'', ''RECONCILER''}) \<longleftrightarrow>
   (k, ow) \<in> {''AUTONOMOUS_OWNER_BOUND''} \<times> {''FULL_PLAN'', ''DCC'', ''RECONCILER''} \<union>
     {(''OPERATOR_HANDOFF_CHECKPOINT'', ''OPERATOR_HANDOFF'')}"
  unfolding CHECKPOINT_KINDS_def OWNER_KINDS_def by fastforce

lemma rbind_check: "rbind r (\<lambda>_. s) = Inr y \<longleftrightarrow> (\<exists>x. r = Inr x) \<and> s = Inr y"
  by auto

lemma turn_checks:
  "(\<exists>x. turn_safe_id v l = Inr x) \<longleftrightarrow> re_ident ''._:-'' 179 v" "(\<exists>x. turn_sha v l = Inr x) \<longleftrightarrow> re_sha256 v"
  "(\<exists>x. turn_timestamp utc v l = Inr x) \<longleftrightarrow> (\<exists>u. utc v = Inr (Some u))"
  by auto

lemma turn_validate_iff: "turn_validate utc c = Inr () \<longleftrightarrow> turn_shape utc c \<and> turn_intact c"
  unfolding turn_validate_def guard_eq_Inr rbind_check turn_checks guards.simps turn_shape_def turn_intact_def
    turn_kinds [symmetric] ball_simps
  by (simp only: de_Morgan_disj not_not simp_thms conj_ac)

lemma turn_of_to_dict: "turn_of (\<lambda>name. py_str (py_get_or PyNone (turn_to_dict c) name)) = c"
  by (simp add: turn_of_def turn_to_dict_def turn_unsigned_dict_def py_get_or_def)

lemma keys_turn_to_dict: "map fst (turn_to_dict c) = turn_fields"
  by (simp add: turn_to_dict_def turn_unsigned_dict_def turn_fields_def)

lemma turn_from_to_dict: "turn_from_dict utc (PyDict (turn_to_dict c)) = rbind (turn_validate utc c) (\<lambda>_. Inr c)"
  unfolding turn_from_dict_def pyval.case keys_turn_to_dict turn_of_to_dict Let_def by simp

lemma turn_owner_guards_iff:
  "turn_owner_guards u = Inr () \<longleftrightarrow> \<not> bad_owner_ref (tc_owner_ref u) \<and>
     (tc_checkpoint_kind u, tc_owner_kind u) \<in>
       {''AUTONOMOUS_OWNER_BOUND''} \<times> {''FULL_PLAN'', ''DCC'', ''RECONCILER''} \<union>
       {(''OPERATOR_HANDOFF_CHECKPOINT'', ''OPERATOR_HANDOFF'')}"
  unfolding turn_owner_guards_def guards.simps guard_eq_Inr turn_kinds [symmetric]
  by (simp only: not_not simp_thms conj_ac)

lemma turn_create_iff:
  "turn_create utc now args = Inr c \<longleftrightarrow>
     (\<forall>i \<in> {tc_project_id args, tc_run_id args, tc_gate_id_or_stage args}. re_ident ''._:-'' 179 i) \<and>
     re_sha256 (tc_authority_core_sha256 args) \<and> re_sha256 (tc_resume_contract_sha256 args) \<and>
     (\<exists>progress created. utc (tc_last_semantic_progress_at args) = Inr (Some progress) \<and>
        utc (if tc_created_at args = [] then now else tc_created_at args) = Inr (Some created) \<and>
        turn_owner_guards (turn_unsigned args progress created) = Inr () \<and>
        c = turn_reseal (digest (turn_content (turn_unsigned args progress created))) (turn_unsigned args progress created))"
  unfolding turn_create_def rbind_check turn_checks Let_def turn_reseal_def by auto

lemma turn_create_shape:
  assumes "turn_create utc now args = Inr c" and utc: "\<And>t u. utc t = Inr (Some u) \<Longrightarrow> utc u = Inr (Some u)"
  shows "turn_validate utc c = Inr ()"
proof -
  from assms(1) obtain progress created where
    t: "utc (tc_last_semantic_progress_at args) = Inr (Some progress)"
      "utc (if tc_created_at args = [] then now else tc_created_at args) = Inr (Some created)"
    and g: "turn_owner_guards (turn_unsigned args progress created) = Inr ()"
    and c: "c = turn_reseal (digest (turn_content (turn_unsigned args progress created))) (turn_unsigned args progress created)"
    and r: "\<forall>i \<in> {tc_project_id args, tc_run_id args, tc_gate_id_or_stage args}. re_ident ''._:-'' 179 i"
      "re_sha256 (tc_authority_core_sha256 args)" "re_sha256 (tc_resume_contract_sha256 args)"
    unfolding turn_create_iff by (elim conjE exE)
  have "turn_shape utc c"
    using r g [unfolded turn_owner_guards_iff] utc [OF t(1)] utc [OF t(2)] unfolding turn_shape_def c
    by (simp add: turn_unsigned_def turn_reseal_def)
  moreover have "turn_intact c" unfolding c by (rule turn.intact_reseal)
  ultimately show ?thesis by (simp add: turn_validate_iff)
qed

lemma turn_pointer_lookup:
  "turn_load_latest utc s (dir(''latest.json'' \<mapsto> Json (PyDict (turn_pointer s c @
      [(''pointer_sha256'', PyStr (digest (PyDict (turn_pointer s c))))])))) =
   (if single_component (tc_checkpoint_sha256 c @ ''.json'') then
      rbind (turn_load_file utc (dir(''latest.json'' \<mapsto> Json (PyDict (turn_pointer s c @
          [(''pointer_sha256'', PyStr (digest (PyDict (turn_pointer s c))))])))) (tc_checkpoint_sha256 c @ ''.json'')) (\<lambda>ck.
        if tc_checkpoint_sha256 ck \<noteq> tc_checkpoint_sha256 c
        then Inl (OperatorTurnCheckpointError ''latest checkpoint pointer binding mismatch'') else Inr ck)
    else Inl (OperatorTurnCheckpointError ''latest checkpoint pointer path is invalid''))"
  by (simp add: turn_load_latest_def py_text_def py_get_def turn_pointer_def Let_def)

lemma digest_file_single: "re_sha256 d \<Longrightarrow> single_component (d @ ''.json'')"
proof -
  assume d: "re_sha256 d"
  have "CHR ''/'' \<notin> set d" using d by (auto simp: re_sha256_def list_all_iff lower_hex_def)
  then show ?thesis by (simp add: single_component_def append_eq_Cons_conv)
qed

definition turn_file_of :: "turn_checkpoint \<Rightarrow> string" where
  "turn_file_of c = tc_checkpoint_sha256 c @ ''.json''"

text \<open>The effect of one accepted save.\<close>

lemma turn_saveD:
  assumes "turn_save utc s dir c = Inr (c', dir')"
  shows "c' = c" "turn_load_latest utc s dir' = Inr c" "turn_load_file utc dir' (turn_file_of c) = Inr c"
    "\<And>name f. name \<noteq> ''latest.json'' \<Longrightarrow> dir name = Some f \<Longrightarrow> dir' name = Some f"
proof -
  let ?path = "turn_file_of c" and ?p = "turn_pointer s c @ [(''pointer_sha256'', PyStr (digest (PyDict (turn_pointer s c))))]"
  from assms obtain d where v: "turn_validate utc c = Inr ()" and c': "c' = c"
    and d: "(if dir ?path \<noteq> None then rbind (turn_load_file utc dir ?path) (\<lambda>existing.
        if existing \<noteq> c then Inl (OperatorTurnCheckpointError ''checkpoint digest collision'') else Inr dir)
        else Inr (dir(?path \<mapsto> Json (PyDict (turn_to_dict c))))) = Inr d"
    and dir': "dir' = d(''latest.json'' \<mapsto> Json (PyDict ?p))"
    unfolding turn_save_def turn_file_of_def Let_def rbind_eq_Inr guard_eq_Inr by auto
  show "c' = c" by (rule c')
  have sha: "re_sha256 (tc_checkpoint_sha256 c)" using v by (simp add: turn_validate_iff turn.intact_stored_sha256)
  have len: "length ?path = 69" using sha by (simp add: re_sha256_def turn_file_of_def)
  then have ne: "?path \<noteq> ''latest.json''" by auto
  have read: "turn_load_file utc d ?path = Inr c"
  proof (cases "dir ?path")
    case None
    then have "d = dir(?path \<mapsto> Json (PyDict (turn_to_dict c)))" using d by simp
    then show ?thesis using v by (simp add: turn_load_file_def turn_from_to_dict)
  next
    case (Some f)
    then show ?thesis using d by (auto split: if_splits)
  qed
  have same: "turn_load_file utc dir' name = turn_load_file utc d name" if "name \<noteq> ''latest.json''" for name
    using that by (simp add: turn_load_file_def dir')
  show stored: "turn_load_file utc dir' ?path = Inr c" using same [OF ne] read by simp
  show "turn_load_latest utc s dir' = Inr c"
    unfolding dir' turn_pointer_lookup using stored [unfolded dir' turn_file_of_def] digest_file_single [OF sha] by simp
  show "dir' name = Some f" if "name \<noteq> ''latest.json''" "dir name = Some f" for name f
    using that d by (auto simp: dir' split: if_splits)
qed

definition turn_save_step :: "(string \<Rightarrow> string option result) \<Rightarrow> turn_store \<Rightarrow> turn_dir \<Rightarrow> turn_checkpoint \<Rightarrow> turn_dir result" where
  "turn_save_step utc s dir c = rbind (turn_save utc s dir c) (\<lambda>r. Inr (snd r))"

section \<open>Properties\<close>

text \<open>C24. A created checkpoint survives storage: when normalising a timestamp twice gives the same text, a checkpoint that
  \<open>create\<close> returns validates, and reading back the dict it is written as returns the same checkpoint.\<close>

theorem turn_checkpoint_roundtrip:
  assumes utc_idempotent: "\<And>t u. utc t = Inr (Some u) \<Longrightarrow> utc u = Inr (Some u)"
    and "turn_create utc now args = Inr c"
  shows "turn_validate utc c = Inr () \<and> turn_from_dict utc (PyDict (turn_to_dict c)) = Inr c"
  using turn_create_shape [OF assms(2) utc_idempotent] by (simp add: turn_from_to_dict)

text \<open>C23. The checkpoint store loses nothing: after a history of accepted saves the latest checkpoint is the last one saved,
  every saved checkpoint can still be read from its file, and no file but the pointer has changed.\<close>

theorem turn_store_keeps_checkpoints:
  assumes "rfold (turn_save_step utc s) dir cs = Inr dir'"
  shows "(cs \<noteq> [] \<longrightarrow> turn_load_latest utc s dir' = Inr (last cs)) \<and>
    (\<forall>c \<in> set cs. turn_load_file utc dir' (turn_file_of c) = Inr c) \<and>
    (\<forall>name f. name \<noteq> ''latest.json'' \<longrightarrow> dir name = Some f \<longrightarrow> dir' name = Some f)"
  using assms
proof (induction cs arbitrary: dir' rule: rev_induct)
  case (snoc c cs)
  from snoc.prems obtain d a where d': "rfold (turn_save_step utc s) dir cs = Inr d" "turn_save utc s d c = Inr (a, dir')"
    unfolding rfold_append rbind_eq_Inr by (auto simp: turn_save_step_def)
  note d = d'(1) d'(2) [unfolded turn_saveD(1) [OF d'(2)]]
  note IH = snoc.IH [OF d(1)] and step = turn_saveD [OF d(2)]
  have kept: "turn_load_file utc dir' (turn_file_of b) = Inr b" if b: "b \<in> set cs" for b
  proof -
    have r: "turn_load_file utc d (turn_file_of b) = Inr b" using IH b by blast
    then obtain v where v: "d (turn_file_of b) = Some v" by (cases "d (turn_file_of b)") (auto simp: turn_load_file_def)
    have "turn_file_of b \<noteq> ''latest.json''"
    proof -
      have "turn_intact b" using r turn_validate_iff v
        by (auto simp: turn_load_file_def turn_from_dict_def Let_def split: turn_file.splits pyval.splits if_splits)
      then have "length (turn_file_of b) = 69"
        using turn.intact_stored_sha256 by (simp add: turn_file_of_def re_sha256_def)
      then show ?thesis by auto
    qed
    then have "dir' (turn_file_of b) = Some v" using step(4) v by blast
    with r v show ?thesis by (simp add: turn_load_file_def)
  qed
  show ?case using IH step kept by auto
qed simp

section \<open>A concrete checkpoint\<close>

definition ex_turn_args :: turn_checkpoint where
  "ex_turn_args = \<lparr>tc_schema_version = [], tc_project_id = ''p'', tc_run_id = ''r'', tc_gate_id_or_stage = ''G1'',
     tc_authority_core_sha256 = replicate 64 CHR ''a'', tc_checkpoint_kind = ''AUTONOMOUS_OWNER_BOUND'', tc_owner_kind = ''DCC'',
     tc_owner_ref = '' owner '', tc_resume_contract_sha256 = replicate 64 CHR ''b'', tc_last_semantic_progress_at = ''t1'',
     tc_created_at = [], tc_control_authority = [], tc_checkpoint_sha256 = []\<rparr>"

definition ex_utc :: "string \<Rightarrow> string option result" where
  "ex_utc t = Inr (if t = [] then None else Some t)"

lemma ex_turn_created: "\<exists>c. turn_create ex_utc ''t2'' ex_turn_args = Inr c"
  unfolding turn_create_iff turn_owner_guards_iff
  by (simp add: ex_utc_def ex_turn_args_def turn_unsigned_def re_sha256_def list_all_iff lower_hex_def bad_owner_ref_def
      py_strip_def py_isspace_def ascii_alnum_def)

theorem turn_checkpoint_roundtrip_witness:
  "\<exists>c. turn_create ex_utc ''t2'' ex_turn_args = Inr c \<and> turn_validate ex_utc c = Inr () \<and>
     turn_from_dict ex_utc (PyDict (turn_to_dict c)) = Inr c"
proof -
  obtain c where c: "turn_create ex_utc ''t2'' ex_turn_args = Inr c" using ex_turn_created by blast
  have idem: "ex_utc u = Inr (Some u)" if "ex_utc t = Inr (Some u)" for t u using that by (auto simp: ex_utc_def split: if_splits)
  have "turn_validate ex_utc c = Inr () \<and> turn_from_dict ex_utc (PyDict (turn_to_dict c)) = Inr c"
    by (rule turn_checkpoint_roundtrip [OF _ c]) (rule idem)
  with c show ?thesis by blast
qed

theorem turn_store_keeps_checkpoints_witness:
  "\<exists>c dir'. rfold (turn_save_step ex_utc \<lparr>ts_project_id = ''p'', ts_run_id = ''r''\<rparr>) (\<lambda>_. None) [c] = Inr dir' \<and>
     turn_load_latest ex_utc \<lparr>ts_project_id = ''p'', ts_run_id = ''r''\<rparr> dir' = Inr c"
proof -
  let ?s = "\<lparr>ts_project_id = ''p'', ts_run_id = ''r''\<rparr>"
  obtain c where c: "turn_create ex_utc ''t2'' ex_turn_args = Inr c" using ex_turn_created by blast
  have idem: "ex_utc u = Inr (Some u)" if "ex_utc t = Inr (Some u)" for t u using that by (auto simp: ex_utc_def split: if_splits)
  have v: "turn_validate ex_utc c = Inr ()" by (rule turn_create_shape [OF c]) (rule idem)
  have "tc_project_id c = ''p'' \<and> tc_run_id c = ''r''"
    using c unfolding turn_create_iff by (auto simp: turn_reseal_def turn_unsigned_def ex_turn_args_def)
  then obtain dir' where r: "rfold (turn_save_step ex_utc ?s) (\<lambda>_. None) [c] = Inr dir'"
    using v by (auto simp: turn_save_step_def turn_save_def Let_def)
  from turn_store_keeps_checkpoints [OF r] r show ?thesis by auto
qed

end
