(* ===== verification/Interaction_Policy.thy ===== *)
theory Interaction_Policy
  imports Prelude
begin

text \<open>
  The policy evaluators of \<open>src/runtime/orchestrator/user_interaction_policy.py\<close>: when existing approval covers a
  continuation, and when a persisted incident is delivered to the user.

  Times are integers, microseconds of UTC. What \<open>datetime.fromisoformat\<close> reads from a text is the
  argument \<open>instant\<close>: the instant of a timestamp with a zone, \<open>Inr None\<close> for a text that does not parse or has no zone, and
  \<open>Inl\<close> the \<open>OverflowError\<close> that \<open>astimezone\<close> raises where the instant in UTC lies outside the years 1 to 9999. A \<open>now\<close>
  of \<open>None\<close> is a datetime without a zone, any other one the instant of a clock reading (in range). Elapsed time stays an integer; the code makes it a float of seconds only to
  compare it with the whole number of the threshold. The classifier of continuation phrases, whose table has Korean
  words, is not modelled.
\<close>

section \<open>Constants\<close>

definition DEFERRED_INCIDENT :: string where "DEFERRED_INCIDENT = ''DEFERRED_INCIDENT''"
definition IMMEDIATE_DECISION :: string where "IMMEDIATE_DECISION = ''IMMEDIATE_DECISION''"
definition STALL_CONFIRMED :: string where "STALL_CONFIRMED = ''STALL_CONFIRMED''"

definition DELIVERY_CLASSES :: "string set" where
  "DELIVERY_CLASSES = {DEFERRED_INCIDENT, IMMEDIATE_DECISION, STALL_CONFIRMED}"

definition SAFE_EFFECT_RECONCILIATION :: "string set" where
  "SAFE_EFFECT_RECONCILIATION = {''NO_EFFECT'', ''RECONCILED''}"

definition SUPPRESSED_TERMINAL_STATES :: "string set" where
  "SUPPRESSED_TERMINAL_STATES = {''COMPLETED'', ''CANCELLED''}"

definition IMPLEMENTATION_SCOPE_OPERATIONS :: "string set" where
  "IMPLEMENTATION_SCOPE_OPERATIONS = {''READ_REASON'', ''BOUNDED_WRITE'', ''TEST'', ''BOUNDED_REMEDIATION'',
     ''LOCAL_COMMIT'', ''FEATURE_BRANCH_PUSH'', ''PR_CI_PREPARATION'', ''QUALIFICATION''}"

definition DANGEROUS_WORK_OPERATIONS :: "string set" where
  "DANGEROUS_WORK_OPERATIONS = {''PROTECTED_PUSH'', ''PR_MERGE'', ''TAG_RELEASE'', ''RUNTIME_CURRENT_SWITCH'',
     ''PRODUCTION_ACTIVATION'', ''SERVICE_RESTART'', ''BOUNDED_REBOOT'', ''P5_PREDECESSOR_QUIESCE'',
     ''P6_PREDECESSOR_RETIREMENT''}"

definition classify_operation_authority :: "string \<Rightarrow> string result" where
  "classify_operation_authority operation =
     (if operation \<in> IMPLEMENTATION_SCOPE_OPERATIONS then Inr ''IMPLEMENTATION_APPROVAL''
      else if operation \<in> DANGEROUS_WORK_OPERATIONS then Inr ''DANGEROUS_WORK_APPROVAL''
      else Inl (ValueError ''unknown Full Plan operation authority''))"

section \<open>Approval coverage\<close>

record approval_coverage =
  ac_approval_ref :: string
  ac_approved_semantic_digest :: string
  ac_reviewed_semantic_digest :: string
  ac_allowed_risk_classes :: "string list"
  ac_allowed_operations :: "string list"

definition blank_entry :: "string list \<Rightarrow> bool" where
  "blank_entry vs = list_ex (\<lambda>v. py_strip v = []) vs"

definition approval_coverage_init :: "approval_coverage \<Rightarrow> approval_coverage result" where
  "approval_coverage_init a =
     rbind (guards
       [(py_strip (ac_approval_ref a) = [], ValueError ''approval_ref is required''),
        (\<not> re_sha256 (ac_approved_semantic_digest a), ValueError ''approved_semantic_digest must be sha256''),
        (\<not> re_sha256 (ac_reviewed_semantic_digest a), ValueError ''reviewed_semantic_digest must be sha256''),
        (blank_entry (ac_allowed_risk_classes a), ValueError ''allowed_risk_classes is invalid''),
        (blank_entry (ac_allowed_operations a), ValueError ''allowed_operations is invalid'')]) (\<lambda>_.
     Inr (a\<lparr>ac_allowed_risk_classes := sorted_set (map py_strip (ac_allowed_risk_classes a)),
            ac_allowed_operations := sorted_set (map py_strip (ac_allowed_operations a))\<rparr>))"

definition exact_compatible :: "approval_coverage \<Rightarrow> bool" where
  "exact_compatible a = (ac_approved_semantic_digest a = ac_reviewed_semantic_digest a)"

definition covers :: "approval_coverage \<Rightarrow> string \<Rightarrow> string \<Rightarrow> bool" where
  "covers a risk_class operation =
     (exact_compatible a \<and> risk_class \<in> set (ac_allowed_risk_classes a) \<and> operation \<in> set (ac_allowed_operations a))"

record user_decision =
  ud_required :: bool
  ud_decision_type :: string
  ud_reason :: string

record two_action_decision =
  ta_action :: string
  ta_decision_type :: string
  ta_reason :: string

definition mk_decision :: "bool \<Rightarrow> string \<Rightarrow> string \<Rightarrow> user_decision" where
  "mk_decision required decision_type reason =
     \<lparr>ud_required = required, ud_decision_type = decision_type, ud_reason = reason\<rparr>"

definition mk_two_action :: "string \<Rightarrow> user_decision \<Rightarrow> two_action_decision" where
  "mk_two_action action legacy =
     \<lparr>ta_action = action, ta_decision_type = ud_decision_type legacy, ta_reason = ud_reason legacy\<rparr>"

definition evaluate_user_decision ::
  "approval_coverage option \<Rightarrow> bool \<Rightarrow> string \<Rightarrow> string \<Rightarrow> bool \<Rightarrow> string \<Rightarrow> user_decision" where
  "evaluate_user_decision coverage material_contract_change risk_class operation dangerous_reexecution effect_reconciliation =
     (case coverage of
        None \<Rightarrow> mk_decision True ''INITIAL_EXECUTION_APPROVAL'' ''approval coverage is missing''
      | Some c \<Rightarrow>
          if material_contract_change
          then mk_decision True ''PLAN_REVISION_REQUIRED'' ''material contract change detected''
          else if \<not> exact_compatible c
          then mk_decision True ''PLAN_REVISION_REQUIRED'' ''approval semantic digest is stale''
          else if \<not> covers c risk_class operation
          then mk_decision True ''RISK_ESCALATION'' ''requested work is outside approval coverage''
          else if dangerous_reexecution \<and> effect_reconciliation \<notin> SAFE_EFFECT_RECONCILIATION
          then mk_decision True ''AMBIGUOUS_DANGEROUS_EFFECT'' ''dangerous reexecution lacks safe effect reconciliation''
          else mk_decision False ''NONE'' ''existing approval coverage remains valid'')"

definition evaluate_two_action_user_decision ::
  "approval_coverage option \<Rightarrow> bool \<Rightarrow> string \<Rightarrow> string \<Rightarrow> bool \<Rightarrow> bool \<Rightarrow> string \<Rightarrow> two_action_decision" where
  "evaluate_two_action_user_decision coverage material_contract_change risk_class operation dangerous_reexecution
     final_dangerous_approval_granted effect_reconciliation =
     (let legacy = evaluate_user_decision coverage material_contract_change risk_class operation dangerous_reexecution
        effect_reconciliation in
      if \<not> ud_required legacy then mk_two_action ''CONTINUE'' legacy
      else if final_dangerous_approval_granted then mk_two_action ''FAIL_CLOSED'' legacy
      else if ud_decision_type legacy = ''INITIAL_EXECUTION_APPROVAL''
      then mk_two_action ''REQUEST_IMPLEMENTATION_APPROVAL'' legacy
      else if ud_decision_type legacy \<in> {''RISK_ESCALATION'', ''AMBIGUOUS_DANGEROUS_EFFECT''}
      then mk_two_action ''REQUEST_DANGEROUS_APPROVAL'' legacy
      else mk_two_action ''FAIL_CLOSED'' legacy)"

section \<open>Delivery of incidents\<close>

type_synonym py_dict = "(string \<times> pyval) list"

definition infer_delivery_class :: "py_dict \<Rightarrow> string" where
  "infer_delivery_class event =
     (let kind = py_text event ''kind'';
          inferred =
            (if kind \<in> {''WAITING_APPROVAL'', ''USER_DECISION_REQUIRED''} then IMMEDIATE_DECISION
             else if kind \<in> {''STALLED_SUSPECTED'', ''SUPERVISOR_OR_WORKER_LIVENESS_LOST''} then STALL_CONFIRMED
             else DEFERRED_INCIDENT) in
      case py_get event ''delivery_class'' of
        Some (PyStr explicit) \<Rightarrow> if explicit \<in> DELIVERY_CLASSES then explicit else inferred
      | _ \<Rightarrow> inferred)"

text \<open>\<open>value.replace("Z", "+00:00")\<close>; \<open>d.get(k) or d.get(k')\<close>.\<close>

definition replace_Z :: "string \<Rightarrow> string" where
  "replace_Z s = concat (map (\<lambda>c. if c = CHR ''Z'' then ''+00:00'' else [c]) s)"

definition get_or_get :: "py_dict \<Rightarrow> string \<Rightarrow> string \<Rightarrow> pyval option" where
  "get_or_get d k k' =
     (case py_get d k of None \<Rightarrow> py_get d k' | Some v \<Rightarrow> if py_truthy v then Some v else py_get d k')"

definition attention_timestamp :: "(string \<Rightarrow> int option result) \<Rightarrow> pyval option \<Rightarrow> int option result" where
  "attention_timestamp instant value =
     (case value of
        Some (PyStr s) \<Rightarrow> if py_strip s = [] then Inr None else instant (replace_Z (py_strip s))
      | _ \<Rightarrow> Inr None)"

record attention_assessment =
  ad_eligible :: bool
  ad_delivery_class :: string
  ad_reason :: string
  ad_elapsed :: int

definition mk_attention :: "bool \<Rightarrow> string \<Rightarrow> string \<Rightarrow> attention_assessment" where
  "mk_attention eligible delivery_class reason =
     \<lparr>ad_eligible = eligible, ad_delivery_class = delivery_class, ad_reason = reason, ad_elapsed = 0\<rparr>"

definition current_reason :: "py_dict \<Rightarrow> string" where
  "current_reason state =
     (case get_or_get state ''last_error'' ''terminal_reason'' of
        None \<Rightarrow> [] | Some v \<Rightarrow> if py_truthy v then py_str v else [])"

definition deferred_delivery :: "int option \<Rightarrow> int option \<Rightarrow> string \<Rightarrow> int \<Rightarrow> int \<Rightarrow> attention_assessment" where
  "deferred_delivery created semantic delivery_class now threshold_seconds =
     (case created of
        None \<Rightarrow> mk_attention False delivery_class ''incident timestamp is invalid''
      | Some c \<Rightarrow>
          let anchor = (case semantic of None \<Rightarrow> c | Some s \<Rightarrow> max c s);
              elapsed = max 0 (now - anchor);
              eligible = (threshold_seconds * 1000000 \<le> elapsed) in
          \<lparr>ad_eligible = eligible, ad_delivery_class = delivery_class,
           ad_reason = (if eligible then ''notification delay satisfied'' else ''autonomous recovery window remains open''),
           ad_elapsed = elapsed\<rparr>)"

text \<open>The assessment of an incident of a run that is not over, from the two timestamps.\<close>

definition attention_of_times ::
  "py_dict \<Rightarrow> py_dict \<Rightarrow> int option \<Rightarrow> int option \<Rightarrow> int \<Rightarrow> int \<Rightarrow> attention_assessment" where
  "attention_of_times event state created semantic now threshold_seconds =
     (let delivery_class = infer_delivery_class event; event_reason = py_text event ''reason'';
          reason = current_reason state in
      if delivery_class = STALL_CONFIRMED
      then (case (created, semantic) of
          (Some c, Some s) \<Rightarrow>
            if c < s then mk_attention False delivery_class ''semantic progress superseded the stall incident''
            else mk_attention True delivery_class ''stall/liveness anomaly already met alert threshold''
        | _ \<Rightarrow> mk_attention True delivery_class ''stall/liveness anomaly already met alert threshold'')
      else if reason = [] \<or> (event_reason \<noteq> [] \<and> reason \<noteq> event_reason)
      then mk_attention False delivery_class ''incident is no longer current''
      else if delivery_class = IMMEDIATE_DECISION
      then mk_attention True delivery_class ''user decision is required immediately''
      else deferred_delivery created semantic delivery_class now threshold_seconds)"

definition evaluate_attention_delivery ::
  "(string \<Rightarrow> int option result) \<Rightarrow> py_dict \<Rightarrow> py_dict \<Rightarrow> int option \<Rightarrow> int \<Rightarrow> attention_assessment result" where
  "evaluate_attention_delivery instant event state now threshold_seconds =
     (case now of
        None \<Rightarrow> Inl (ValueError ''now must be timezone-aware'')
      | Some t \<Rightarrow>
          if threshold_seconds \<le> 0 then Inl (ValueError ''threshold_seconds must be positive'')
          else let state_name = (case py_get state ''state'' of
                     None \<Rightarrow> ''UNKNOWN'' | Some v \<Rightarrow> if py_truthy v then py_str v else ''UNKNOWN'') in
            if state_name \<in> SUPPRESSED_TERMINAL_STATES
            then Inr (mk_attention False (infer_delivery_class event) ''terminal state suppresses stale incident'')
            else
            rbind (attention_timestamp instant (py_get event ''created_at'')) (\<lambda>created.
            rbind (attention_timestamp instant
              (get_or_get state ''last_semantic_progress_at'' ''last_progress_at'')) (\<lambda>semantic.
            Inr (attention_of_times event state created semantic t threshold_seconds))))"

section \<open>Properties\<close>

text \<open>The work is covered by the approval as it stands.\<close>

definition work_covered :: "approval_coverage option \<Rightarrow> bool \<Rightarrow> string \<Rightarrow> string \<Rightarrow> bool \<Rightarrow> string \<Rightarrow> bool" where
  "work_covered coverage change risk operation again effect \<longleftrightarrow>
     (\<exists>c. coverage = Some c \<and> \<not> change \<and> ac_approved_semantic_digest c = ac_reviewed_semantic_digest c \<and>
        risk \<in> set (ac_allowed_risk_classes c) \<and> operation \<in> set (ac_allowed_operations c) \<and>
        (again \<longrightarrow> effect \<in> {''NO_EFFECT'', ''RECONCILED''}))"

lemma user_decision_iff:
  "ud_required (evaluate_user_decision coverage change risk operation again effect) \<longleftrightarrow>
     \<not> work_covered coverage change risk operation again effect"
  by (auto simp: evaluate_user_decision_def work_covered_def mk_decision_def covers_def exact_compatible_def
      SAFE_EFFECT_RECONCILIATION_def split: option.splits)

text \<open>C25. A Full Plan run has two user decisions at most: work goes on without asking exactly when the approval covers it
  (same semantic digest, risk class and operation allowed, no contract change, a repeated dangerous effect reconciled);
  once the final approval is granted nothing is ever requested again, uncovered work fails closed.\<close>

theorem two_action_no_third_decision:
  "(ta_action (evaluate_two_action_user_decision coverage change risk operation again granted effect) = ''CONTINUE'' \<longleftrightarrow>
     work_covered coverage change risk operation again effect) \<and>
   (granted \<longrightarrow> ta_action (evaluate_two_action_user_decision coverage change risk operation again granted effect)
     \<in> {''CONTINUE'', ''FAIL_CLOSED''})"
  using user_decision_iff [of coverage change risk operation again effect]
  by (simp add: evaluate_two_action_user_decision_def Let_def mk_two_action_def)

lemma deferred_eligible:
  "ad_eligible (deferred_delivery created semantic k now threshold) \<longleftrightarrow> threshold \<le> 0 \<and> created \<noteq> None \<or>
     (\<exists>c. created = Some c \<and> (case semantic of None \<Rightarrow> c | Some s \<Rightarrow> max c s) + threshold * 1000000 \<le> now)"
  by (auto simp: deferred_delivery_def mk_attention_def Let_def split: option.splits)

text \<open>The only exceptions of an evaluation at a time with a zone are those of reading a timestamp.\<close>

lemma evaluate_attention_raises:
  assumes "0 < threshold" "evaluate_attention_delivery instant event state (Some now) threshold = Inl e"
  shows "\<exists>s. instant s = Inl e"
proof -
  have "\<exists>s. instant s = Inl e" if "attention_timestamp instant v = Inl e" for v
    using that by (auto simp: attention_timestamp_def split: option.splits pyval.splits if_splits)
  then show ?thesis
    using assms by (auto simp: evaluate_attention_delivery_def Let_def rbind_def split: sum.splits if_splits)
qed

lemma evaluate_attention_suppressed:
  assumes "0 < threshold" "py_get state ''state'' \<in> {Some (PyStr ''COMPLETED''), Some (PyStr ''CANCELLED'')}"
  shows "\<exists>a. evaluate_attention_delivery instant event state (Some now) threshold = Inr a \<and> \<not> ad_eligible a"
  using assms by (auto simp: evaluate_attention_delivery_def Let_def SUPPRESSED_TERMINAL_STATES_def mk_attention_def)

lemma attention_of_times_eligible:
  assumes "0 < threshold"
  shows "ad_eligible (attention_of_times event state created semantic now threshold) \<longleftrightarrow>
    (if infer_delivery_class event = STALL_CONFIRMED
     then \<not> (\<exists>c s. created = Some c \<and> semantic = Some s \<and> c < s)
     else current_reason state \<noteq> [] \<and> py_text event ''reason'' \<in> {[], current_reason state} \<and>
       (infer_delivery_class event = IMMEDIATE_DECISION \<or>
        (\<exists>c. created = Some c \<and> (case semantic of None \<Rightarrow> c | Some s \<Rightarrow> max c s) + threshold * 1000000 \<le> now)))"
proof -
  have "ad_eligible (deferred_delivery created semantic k now threshold) \<longleftrightarrow>
      (\<exists>c. created = Some c \<and> (case semantic of None \<Rightarrow> c | Some s \<Rightarrow> max c s) + threshold * 1000000 \<le> now)" for k
    using assms by (auto simp: deferred_eligible)
  then show ?thesis
    by (cases created; cases semantic) (auto simp: attention_of_times_def Let_def mk_attention_def)
qed

lemma evaluate_attention_eligible:
  assumes "0 < threshold"
  shows "(\<exists>a. evaluate_attention_delivery instant event state (Some now) threshold = Inr a \<and> ad_eligible a) \<longleftrightarrow>
    (case py_get state ''state'' of None \<Rightarrow> True | Some v \<Rightarrow> \<not> py_truthy v \<or> py_str v \<notin> SUPPRESSED_TERMINAL_STATES) \<and>
    (\<exists>created semantic. attention_timestamp instant (py_get event ''created_at'') = Inr created \<and>
       attention_timestamp instant (get_or_get state ''last_semantic_progress_at'' ''last_progress_at'') = Inr semantic \<and>
     (if infer_delivery_class event = STALL_CONFIRMED
     then \<not> (\<exists>c s. created = Some c \<and> semantic = Some s \<and> c < s)
     else current_reason state \<noteq> [] \<and> py_text event ''reason'' \<in> {[], current_reason state} \<and>
       (infer_delivery_class event = IMMEDIATE_DECISION \<or>
        (\<exists>c. created = Some c \<and> (case semantic of None \<Rightarrow> c | Some s \<Rightarrow> max c s) + threshold * 1000000 \<le> now))))"
proof -
  have unk: "''UNKNOWN'' \<notin> SUPPRESSED_TERMINAL_STATES" by (simp add: SUPPRESSED_TERMINAL_STATES_def)
  have name: "(case py_get state ''state'' of None \<Rightarrow> ''UNKNOWN'' | Some v \<Rightarrow> if py_truthy v then py_str v else ''UNKNOWN'')
      \<in> SUPPRESSED_TERMINAL_STATES \<longleftrightarrow>
      \<not> (case py_get state ''state'' of None \<Rightarrow> True | Some v \<Rightarrow> \<not> py_truthy v \<or> py_str v \<notin> SUPPRESSED_TERMINAL_STATES)"
    using unk by (simp split: option.split)
  show ?thesis
    using assms
    unfolding evaluate_attention_delivery_def Let_def option.case name attention_of_times_eligible [OF assms, symmetric]
    by (auto simp: mk_attention_def)
qed

text \<open>An incident's delivery only waits, it never lapses with time: with a positive threshold the evaluation answers, unless
  one of the two timestamps overflows; an incident that is eligible stays eligible at any later time as long as event and
  state do not change; a run that is completed or cancelled delivers nothing; and a deferred incident is delivered only when
  the full threshold has passed since it was created.\<close>

theorem attention_delivery_window:
  assumes "0 < threshold" and a: "evaluate_attention_delivery instant event state (Some now) threshold = Inr a"
  shows "(ad_eligible a \<and> now \<le> later \<longrightarrow>
       (\<exists>b. evaluate_attention_delivery instant event state (Some later) threshold = Inr b \<and> ad_eligible b)) \<and>
    (py_get state ''state'' \<in> {Some (PyStr ''COMPLETED''), Some (PyStr ''CANCELLED'')} \<longrightarrow> \<not> ad_eligible a) \<and>
    (ad_eligible a \<and> infer_delivery_class event = DEFERRED_INCIDENT \<longrightarrow>
       (\<exists>c. attention_timestamp instant (py_get event ''created_at'') = Inr (Some c) \<and> c + threshold * 1000000 \<le> now))"
proof -
  note iff = evaluate_attention_eligible [OF assms(1), of instant event state]
  have el: "ad_eligible a \<longleftrightarrow> (\<exists>a. evaluate_attention_delivery instant event state (Some now) threshold = Inr a \<and> ad_eligible a)"
    using a by simp
  have "\<exists>b. evaluate_attention_delivery instant event state (Some later) threshold = Inr b \<and> ad_eligible b"
    if e: "ad_eligible a" "now \<le> later"
    using e(1) [unfolded el iff] e(2) unfolding iff by (auto split: if_splits)
  moreover have "\<not> ad_eligible a" if s: "py_get state ''state'' \<in> {Some (PyStr ''COMPLETED''), Some (PyStr ''CANCELLED'')}"
    using evaluate_attention_suppressed [OF assms(1) s, of instant event now] a by simp
  moreover have "\<exists>c. attention_timestamp instant (py_get event ''created_at'') = Inr (Some c) \<and> c + threshold * 1000000 \<le> now"
    if e: "ad_eligible a" "infer_delivery_class event = DEFERRED_INCIDENT"
  proof -
    have "\<exists>c semantic. attention_timestamp instant (py_get event ''created_at'') = Inr (Some c) \<and>
        (case semantic of None \<Rightarrow> c | Some s \<Rightarrow> max c s) + threshold * 1000000 \<le> now"
      using e(1) [unfolded el iff] e(2)
      by (auto simp: DEFERRED_INCIDENT_def STALL_CONFIRMED_def IMMEDIATE_DECISION_def)
    then show ?thesis by (force split: option.splits)
  qed
  ultimately show ?thesis by blast
qed

lemma ex_attention:
  "\<exists>a. evaluate_attention_delivery (\<lambda>s. Inr (Some 0)) [(''created_at'', PyStr ''t'')] [(''last_error'', PyStr ''e'')]
     (Some 300000000) 300 = Inr a \<and> ad_eligible a"
  by (simp add: evaluate_attention_delivery_def infer_delivery_class_def py_text_def py_get_def attention_timestamp_def py_strip_def
      py_isspace_def get_or_get_def current_reason_def SUPPRESSED_TERMINAL_STATES_def STALL_CONFIRMED_def DEFERRED_INCIDENT_def
      IMMEDIATE_DECISION_def attention_of_times_def deferred_delivery_def)

theorem attention_delivery_window_witness:
  "\<exists>b. evaluate_attention_delivery (\<lambda>s. Inr (Some 0)) [(''created_at'', PyStr ''t'')] [(''last_error'', PyStr ''e'')]
     (Some 400000000) 300 = Inr b \<and> ad_eligible b"
proof -
  obtain a where a: "evaluate_attention_delivery (\<lambda>s. Inr (Some 0)) [(''created_at'', PyStr ''t'')] [(''last_error'', PyStr ''e'')]
     (Some 300000000) 300 = Inr a" "ad_eligible a" using ex_attention by blast
  show ?thesis using attention_delivery_window [OF _ a(1), of 400000000] a(2) by simp
qed

text \<open>The two approvals, and what they may leave out.\<close>

theorem two_action_no_third_decision_witness:
  "ta_action (evaluate_two_action_user_decision None False ''read'' ''TEST'' False True ''UNKNOWN'') = ''FAIL_CLOSED''"
  using two_action_no_third_decision [of None False "''read''" "''TEST''" False True "''UNKNOWN''"]
  by (auto simp: work_covered_def)

end
