(* ===== verification/Task_Queue.thy ===== *)
theory Task_Queue
  imports Interaction_Policy
begin

text \<open>
  The task queue of a run and the policies over it: \<open>task_queue.py\<close>, \<open>worker_pool.py\<close>, \<open>retry_policy.py\<close>,
  \<open>failure_recovery.py\<close> and \<open>operator_turn_budget.py\<close> under \<open>src/runtime/orchestrator/\<close>. The time of creation is an
  argument. Writing the queue to disk is modelled by the two payloads that are written.
\<close>

section \<open>The queue\<close>

record task_slice =
  sl_thread_id :: string
  sl_assigned_agent :: string
  sl_input :: string
  sl_expected_output :: string
  sl_validation_criteria :: "string list"
  sl_editable_scope :: "string list"
  sl_forbidden_scope :: "string list"
  sl_merge_point :: string
  sl_status :: string
  sl_risk_class :: string
  sl_run_id :: string
  sl_run_root :: string
  sl_task_prompt_path :: string
  sl_input_manifest_path :: string
  sl_expected_output_path :: string
  sl_worker_request_path :: string
  sl_output_dir :: string
  sl_handoff_report_path :: string
  sl_result_path :: string
  sl_manual_execution_path :: string
  sl_required_capabilities :: "string list"
  sl_input_files :: "string list"
  sl_state_change_required :: bool
  sl_runtime_stage :: string
  sl_task_execution_id :: string

text \<open>The fields of \<open>RuntimeState\<close> that the queue is built from.\<close>

record runtime_state =
  rst_active_run_id :: string
  rst_run_root :: string
  rst_pending_workers :: "py_dict list"
  rst_completed_workers :: "py_dict list"
  rst_failed_workers :: "py_dict list"

record queue_item =
  qi_task_id :: string
  qi_project_path :: string
  qi_thread_id :: string
  qi_assigned_agent :: string
  qi_risk_class :: string
  qi_input_files :: "string list"
  qi_editable_scope :: "string list"
  qi_forbidden_scope :: "string list"
  qi_expected_output :: string
  qi_status :: string
  qi_created_at :: string
  qi_started_at :: string
  qi_completed_at :: string
  qi_retry_count :: int
  qi_approval_required :: bool
  qi_next_step :: string
  qi_worker_request_path :: string
  qi_output_dir :: string
  qi_runtime_stage :: string
  qi_state_change_required :: bool

definition queue_item_to_dict :: "queue_item \<Rightarrow> pyval" where
  "queue_item_to_dict q = PyDict
     [(''task_id'', PyStr (qi_task_id q)), (''project_path'', PyStr (qi_project_path q)),
      (''thread_id'', PyStr (qi_thread_id q)), (''assigned_agent'', PyStr (qi_assigned_agent q)),
      (''risk_class'', PyStr (qi_risk_class q)), (''input_files'', strs (qi_input_files q)),
      (''editable_scope'', strs (qi_editable_scope q)), (''forbidden_scope'', strs (qi_forbidden_scope q)),
      (''expected_output'', PyStr (qi_expected_output q)), (''status'', PyStr (qi_status q)),
      (''created_at'', PyStr (qi_created_at q)), (''started_at'', PyStr (qi_started_at q)),
      (''completed_at'', PyStr (qi_completed_at q)), (''retry_count'', PyInt (qi_retry_count q)),
      (''approval_required'', PyBool (qi_approval_required q)), (''next_step'', PyStr (qi_next_step q)),
      (''worker_request_path'', PyStr (qi_worker_request_path q)), (''output_dir'', PyStr (qi_output_dir q)),
      (''runtime_stage'', PyStr (qi_runtime_stage q)), (''state_change_required'', PyBool (qi_state_change_required q))]"

definition task_id :: "string \<Rightarrow> string \<Rightarrow> string" where
  "task_id run_id thread_id = run_id @ '':'' @ thread_id"

text \<open>The keys of \<open>{item.get("thread_id", ""): item for item in workers}\<close>; a list or dict cannot be a key.\<close>

fun py_hashable :: "pyval \<Rightarrow> bool" where
  "py_hashable (PyList vs) = False"
| "py_hashable (PyDict kvs) = False"
| "py_hashable (PyTuple vs) = list_all py_hashable vs"
| "py_hashable v = True"

definition thread_keys :: "py_dict list \<Rightarrow> pyval list result" where
  "thread_keys workers =
     rmap (\<lambda>item. let k = py_get_or (PyStr []) item ''thread_id'' in
       if py_hashable k then Inr k else Inl (TypeError ''unhashable type'')) workers"

definition queue_status :: "pyval list \<Rightarrow> pyval list \<Rightarrow> pyval list \<Rightarrow> string \<Rightarrow> string" where
  "queue_status pending completed failed thread_id =
     (if PyStr thread_id \<in> set completed then ''completed''
      else if PyStr thread_id \<in> set failed then ''failed''
      else if PyStr thread_id \<in> set pending then ''blocked_by_approval''
      else ''pending'')"

definition build_item ::
  "string \<Rightarrow> string \<Rightarrow> string \<Rightarrow> pyval list \<Rightarrow> pyval list \<Rightarrow> pyval list \<Rightarrow> task_slice \<Rightarrow> queue_item" where
  "build_item now run_id project_root pending completed failed t =
     \<lparr>qi_task_id = task_id run_id (sl_thread_id t), qi_project_path = project_root, qi_thread_id = sl_thread_id t,
      qi_assigned_agent = sl_assigned_agent t, qi_risk_class = sl_risk_class t,
      qi_input_files = filter (\<lambda>path. path \<noteq> [])
        [sl_task_prompt_path t, sl_input_manifest_path t, sl_expected_output_path t, sl_worker_request_path t],
      qi_editable_scope = sl_editable_scope t, qi_forbidden_scope = sl_forbidden_scope t,
      qi_expected_output = sl_expected_output t, qi_status = queue_status pending completed failed (sl_thread_id t),
      qi_created_at = now, qi_started_at = [], qi_completed_at = [], qi_retry_count = 0,
      qi_approval_required = (PyStr (sl_thread_id t) \<in> set pending), qi_next_step = sl_merge_point t,
      qi_worker_request_path = sl_worker_request_path t, qi_output_dir = sl_output_dir t,
      qi_runtime_stage = sl_runtime_stage t, qi_state_change_required = sl_state_change_required t\<rparr>"

definition build_task_queue :: "string \<Rightarrow> runtime_state \<Rightarrow> task_slice list \<Rightarrow> string \<Rightarrow> queue_item list result" where
  "build_task_queue now state tasks project_root =
     rbind (thread_keys (rst_pending_workers state)) (\<lambda>pending.
     rbind (thread_keys (rst_completed_workers state)) (\<lambda>completed.
     rbind (thread_keys (rst_failed_workers state)) (\<lambda>failed.
     let run_id = (if rst_active_run_id state \<noteq> [] then rst_active_run_id state
                   else if rst_run_root state \<noteq> [] then rst_run_root state else ''run'') in
     Inr (map (build_item now run_id project_root pending completed failed) tasks))))"

definition initial_counts :: "(string \<times> int) list" where
  "initial_counts = [(''pending'', 0), (''running'', 0), (''completed'', 0), (''failed'', 0), (''blocked_by_approval'', 0),
     (''blocked_by_stage_gate'', 0), (''cancelled'', 0)]"

definition count_status :: "(string \<times> int) list \<Rightarrow> queue_item \<Rightarrow> (string \<times> int) list" where
  "count_status counts q = py_setitem (qi_status q) (py_get_or 0 counts (qi_status q) + 1) counts"

definition runnable_item :: "queue_item \<Rightarrow> bool" where
  "runnable_item q = (qi_status q = ''pending'' \<and> \<not> qi_approval_required q)"

record queue_summary =
  qs_queue_size :: nat
  qs_status_counts :: "(string \<times> int) list"
  qs_approvals_required :: nat
  qs_runnable_threads :: "string list"
  qs_blocked_threads :: "string list"

definition summarize_task_queue :: "queue_item list \<Rightarrow> queue_summary" where
  "summarize_task_queue queue =
     \<lparr>qs_queue_size = length queue, qs_status_counts = foldl count_status initial_counts queue,
      qs_approvals_required = length (filter qi_approval_required queue),
      qs_runnable_threads = map qi_thread_id (filter runnable_item queue),
      qs_blocked_threads = map qi_thread_id (filter (\<lambda>q. py_startswith (qi_status q) ''blocked'') queue)\<rparr>"

definition py_bool_str :: "bool \<Rightarrow> string" where
  "py_bool_str b = (if b then ''True'' else ''False'')"

definition queue_line :: "queue_item \<Rightarrow> string" where
  "queue_line q = ''- '' @ qi_thread_id q @ '': '' @ qi_assigned_agent q @ '' | '' @ qi_status q @
     '' | approval_required='' @ py_bool_str (qi_approval_required q)"

definition py_rstrip :: "string \<Rightarrow> string" where
  "py_rstrip s = rev (dropWhile py_isspace (rev s))"

definition write_task_queue :: "queue_item list \<Rightarrow> pyval \<times> string" where
  "write_task_queue queue =
     (PyList (map queue_item_to_dict queue),
      py_rstrip (py_join [CHR 0x0A]
        ([''# Task Queue'', [], ''Queue size: '' @ show_nat (length queue), [], ''## Items''] @
         (if queue \<noteq> [] then map queue_line queue else [''- none'']))) @ [CHR 0x0A])"

section \<open>The worker pool\<close>

record pool_summary =
  wp_total_workers :: nat
  wp_runnable_workers :: nat
  wp_blocked_workers :: nat
  wp_completed_workers :: nat
  wp_failed_workers :: nat
  wp_pending_workers :: nat

definition summarize_worker_pool :: "queue_item list \<Rightarrow> pool_summary" where
  "summarize_worker_pool queue =
     (let pending = filter (\<lambda>q. qi_status q = ''pending'') queue in
      \<lparr>wp_total_workers = length queue,
       wp_runnable_workers = length (filter (\<lambda>q. \<not> qi_approval_required q) pending),
       wp_blocked_workers = length (filter (\<lambda>q. py_startswith (qi_status q) ''blocked'') queue),
       wp_completed_workers = length (filter (\<lambda>q. qi_status q = ''completed'') queue),
       wp_failed_workers = length (filter (\<lambda>q. qi_status q = ''failed'') queue),
       wp_pending_workers = length pending\<rparr>)"

definition select_next_workers :: "queue_item list \<Rightarrow> int option \<Rightarrow> queue_item list" where
  "select_next_workers queue limit =
     (let runnable = filter runnable_item queue in
      case limit of None \<Rightarrow> runnable | Some n \<Rightarrow> take (nat (max n 0)) runnable)"

section \<open>Retries\<close>

record retry_decision =
  rd_thread_id :: string
  rd_can_retry :: bool
  rd_retry_count :: int
  rd_max_retries :: int
  rd_reason :: string

definition should_retry :: "queue_item \<Rightarrow> int \<Rightarrow> approval_coverage option \<Rightarrow> string \<Rightarrow> retry_decision" where
  "should_retry item max_retries coverage effect_reconciliation =
     (let decide = (\<lambda>can reason. \<lparr>rd_thread_id = qi_thread_id item, rd_can_retry = can, rd_retry_count = qi_retry_count item,
            rd_max_retries = max_retries, rd_reason = reason\<rparr>);
          assessment = evaluate_user_decision coverage False ''dangerous'' ''TASK_RETRY'' True effect_reconciliation in
      if qi_status item \<noteq> ''failed'' then decide False ''task is not failed''
      else if max_retries \<le> qi_retry_count item then decide False ''retry budget exhausted''
      else if qi_risk_class item = ''dangerous'' \<and> ud_required assessment
      then decide False (if ud_decision_type assessment = ''AMBIGUOUS_DANGEROUS_EFFECT''
             then ''dangerous effect requires reconciliation or fresh approval''
             else ''dangerous work requires fresh approval'')
      else decide True ''eligible for retry'')"

definition next_retry_count :: "queue_item \<Rightarrow> int" where
  "next_retry_count item = qi_retry_count item + 1"

definition recovery_payload :: "queue_item \<Rightarrow> retry_decision \<Rightarrow> py_dict" where
  "recovery_payload item decision =
     [(''thread_id'', PyStr (qi_thread_id item)), (''assigned_agent'', PyStr (qi_assigned_agent item)),
      (''status'', PyStr (qi_status item)), (''retry_count'', PyInt (qi_retry_count item)),
      (''can_retry'', PyBool (rd_can_retry decision)), (''reason'', PyStr (rd_reason decision))]"

record failure_recovery_plan =
  fp_retryable :: "py_dict list"
  fp_blocked :: "py_dict list"
  fp_summary :: string

definition plan_item :: "int \<Rightarrow> py_dict list \<times> py_dict list \<Rightarrow> queue_item \<Rightarrow> py_dict list \<times> py_dict list" where
  "plan_item max_retries acc item =
     (let (retryable, blocked) = acc;
          decision = should_retry item max_retries None ''UNKNOWN'';
          payload = recovery_payload item decision in
      if rd_can_retry decision
      then (retryable @ [payload @ [(''next_retry_count'', PyInt (next_retry_count item))]], blocked)
      else if qi_status item = ''failed'' then (retryable, blocked @ [payload])
      else (retryable, blocked))"

definition build_failure_recovery_plan :: "queue_item list \<Rightarrow> int \<Rightarrow> failure_recovery_plan" where
  "build_failure_recovery_plan queue max_retries =
     (let (retryable, blocked) = foldl (plan_item max_retries) ([], []) queue in
      \<lparr>fp_retryable = retryable, fp_blocked = blocked,
       fp_summary = ''retryable='' @ show_nat (length retryable) @ '' blocked='' @ show_nat (length blocked)\<rparr>)"

section \<open>The turn budget\<close>

definition FULL_REGRESSION_POINTS :: "string set" where
  "FULL_REGRESSION_POINTS = {''GATE_CLOSE'', ''FINAL_EDP''}"

definition full_regression_allowed :: "string \<Rightarrow> bool" where
  "full_regression_allowed reason = (py_strip reason \<in> FULL_REGRESSION_POINTS)"

record turn_budget_decision =
  tb_disposition :: string
  tb_allow_turn_yield :: bool
  tb_remaining_seconds :: int
  tb_reason :: string

definition assess_turn_budget ::
  "int \<Rightarrow> int \<Rightarrow> int \<Rightarrow> int \<Rightarrow> bool \<Rightarrow> bool \<Rightarrow> bool \<Rightarrow> turn_budget_decision result" where
  "assess_turn_budget elapsed soft_budget estimated_work reserve task_in_progress durable_checkpoint long_process_durable =
     (if list_ex (\<lambda>v. v < 0) [elapsed, soft_budget, estimated_work, reserve] \<or> soft_budget = 0
      then Inl (ValueError ''turn budget values must be non-negative integers with positive soft budget'')
      else let remaining = max 0 (soft_budget - elapsed);
               decide = (\<lambda>disposition allow reason. Inr \<lparr>tb_disposition = disposition, tb_allow_turn_yield = allow,
                 tb_remaining_seconds = remaining, tb_reason = reason\<rparr>) in
        if estimated_work + reserve \<le> remaining
        then decide (if task_in_progress then ''CONTINUE_CURRENT_TASK'' else ''START_NEXT_TASK'') False
               ''estimated work fits inside soft budget and reserve''
        else if \<not> durable_checkpoint
        then decide ''CHECKPOINT_REQUIRED'' False ''soft budget reserve would be crossed before a durable checkpoint exists''
        else if task_in_progress \<and> \<not> long_process_durable
        then decide ''CHECKPOINT_REQUIRED'' False ''in-flight long work is not durably recoverable''
        else decide ''YIELD_AT_CHECKPOINT'' True ''soft budget reserve reached with durable continuation evidence'')"

section \<open>Facts\<close>

lemma thread_keysD: "thread_keys ws = Inr ks \<Longrightarrow> ks = map (\<lambda>d. py_get_or (PyStr []) d ''thread_id'') ws"
  unfolding thread_keys_def rmap_eq_Inr by (auto simp: Let_def list_all2_conv_all_nth intro!: nth_equalityI split: if_splits)

text \<open>A thread that a list of workers names.\<close>

definition names_thread :: "py_dict list \<Rightarrow> string \<Rightarrow> bool" where
  "names_thread ws t = (\<exists>d \<in> set ws. py_get_or (PyStr []) d ''thread_id'' = PyStr t)"

lemma names_thread_keys: "thread_keys ws = Inr ks \<Longrightarrow> PyStr t \<in> set ks \<longleftrightarrow> names_thread ws t"
  using thread_keysD [of ws ks] by (auto simp: names_thread_def image_iff) (metis+)

lemma build_task_queueD:
  assumes "build_task_queue now st tasks root = Inr queue"
  obtains p c f run where "queue = map (build_item now run root p c f) tasks"
    "\<And>t. PyStr t \<in> set p \<longleftrightarrow> names_thread (rst_pending_workers st) t"
    "\<And>t. PyStr t \<in> set c \<longleftrightarrow> names_thread (rst_completed_workers st) t"
    "\<And>t. PyStr t \<in> set f \<longleftrightarrow> names_thread (rst_failed_workers st) t"
  using assms unfolding build_task_queue_def Let_def rbind_eq_Inr
  by (elim exE conjE) (blast dest: names_thread_keys)

lemma runnable_build_item:
  "runnable_item (build_item now run root p c f t) \<longleftrightarrow>
     PyStr (sl_thread_id t) \<notin> set p \<and> PyStr (sl_thread_id t) \<notin> set c \<and> PyStr (sl_thread_id t) \<notin> set f"
  by (auto simp: runnable_item_def build_item_def queue_status_def)

lemma build_item_status:
  "qi_status (build_item now run root p c f t) = queue_status p c f (sl_thread_id t)"
  "qi_approval_required (build_item now run root p c f t) \<longleftrightarrow> PyStr (sl_thread_id t) \<in> set p"
  "qi_thread_id (build_item now run root p c f t) = sl_thread_id t"
  by (simp_all add: build_item_def)

lemma queue_status_cases:
  "queue_status p c f t \<in> {''completed'', ''failed'', ''blocked_by_approval'', ''pending''}"
  by (simp add: queue_status_def)

lemma status_partition:
  assumes "\<forall>q \<in> set queue. qi_status q \<in> {''completed'', ''failed'', ''blocked_by_approval'', ''pending''}"
  shows "length (filter (\<lambda>q. qi_status q = ''pending'') queue) + length (filter (\<lambda>q. py_startswith (qi_status q) ''blocked'') queue) +
    length (filter (\<lambda>q. qi_status q = ''completed'') queue) + length (filter (\<lambda>q. qi_status q = ''failed'') queue) = length queue"
  using assms by (induction queue) (auto simp: py_startswith_def)

lemma count_status_get:
  "py_get_or 0 (count_status counts q) s = py_get_or 0 counts s + (if s = qi_status q then 1 else 0)"
  by (simp add: count_status_def py_get_or_def map_of_py_setitem)

lemma counts_foldl:
  "py_get_or 0 (foldl count_status counts queue) s = py_get_or 0 counts s + int (length (filter (\<lambda>q. qi_status q = s) queue))"
  by (induction queue arbitrary: counts) (auto simp: count_status_get)

section \<open>Properties\<close>

text \<open>C26. Dispatch respects the run state: the queue built for a list of tasks has one item per task, in order; the workers
  selected next are the first of those whose thread no pending, completed or failed worker names, in task order and
  never more than the limit; and the pool counts partition the queue, with every pending worker runnable.\<close>

theorem queue_dispatch_safe:
  assumes "build_task_queue now st tasks root = Inr queue"
  shows "map qi_thread_id queue = map sl_thread_id tasks \<and>
    map qi_thread_id (select_next_workers queue None) =
      filter (\<lambda>t. \<not> names_thread (rst_pending_workers st) t \<and> \<not> names_thread (rst_completed_workers st) t \<and>
        \<not> names_thread (rst_failed_workers st) t) (map sl_thread_id tasks) \<and>
    select_next_workers queue (Some n) = take (nat n) (select_next_workers queue None) \<and>
    wp_runnable_workers (summarize_worker_pool queue) = wp_pending_workers (summarize_worker_pool queue) \<and>
    wp_pending_workers (summarize_worker_pool queue) + wp_blocked_workers (summarize_worker_pool queue) +
      wp_completed_workers (summarize_worker_pool queue) + wp_failed_workers (summarize_worker_pool queue) =
      wp_total_workers (summarize_worker_pool queue)"
  using assms
proof (cases rule: build_task_queueD)
  case (1 p c f run)
  have sel: "map qi_thread_id (filter runnable_item queue) =
      filter (\<lambda>t. \<not> names_thread (rst_pending_workers st) t \<and> \<not> names_thread (rst_completed_workers st) t \<and>
        \<not> names_thread (rst_failed_workers st) t) (map sl_thread_id tasks)"
    unfolding 1(1) by (induction tasks) (simp_all add: runnable_build_item 1(2-4) build_item_status)
  have threads: "map qi_thread_id queue = map sl_thread_id tasks" by (simp add: 1(1) build_item_status)
  have status: "\<forall>q \<in> set queue. qi_status q \<in> {''completed'', ''failed'', ''blocked_by_approval'', ''pending''}"
    using queue_status_cases by (auto simp: 1(1) build_item_status)
  have run: "filter (\<lambda>q. \<not> qi_approval_required q) (filter (\<lambda>q. qi_status q = ''pending'') queue) =
      filter (\<lambda>q. qi_status q = ''pending'') queue"
    unfolding 1(1) by (rule filter_True) (auto simp: build_item_status queue_status_def split: if_splits)
  show ?thesis
    using sel threads status_partition [OF status] run
    by (simp add: select_next_workers_def summarize_worker_pool_def Let_def max_def)
qed

text \<open>The queue summary counts faithfully: each status, known to the summary or not, is counted as often as it occurs in
  the queue, and the counts of the runnable and approval lists agree with it.\<close>

theorem queue_summary_counts:
  "py_get_or 0 (qs_status_counts (summarize_task_queue queue)) s = int (length (filter (\<lambda>q. qi_status q = s) queue)) \<and>
   qs_queue_size (summarize_task_queue queue) = length queue \<and>
   length (qs_runnable_threads (summarize_task_queue queue)) = wp_runnable_workers (summarize_worker_pool queue) \<and>
   length (qs_blocked_threads (summarize_task_queue queue)) = wp_blocked_workers (summarize_worker_pool queue)"
proof -
  have "py_get_or 0 initial_counts s = 0" by (simp add: initial_counts_def py_get_or_def)
  moreover have "filter runnable_item queue = filter (\<lambda>q. \<not> qi_approval_required q) (filter (\<lambda>q. qi_status q = ''pending'') queue)"
    unfolding filter_filter by (rule filter_cong) (auto simp: runnable_item_def)
  ultimately show ?thesis
    by (simp add: summarize_task_queue_def summarize_worker_pool_def counts_foldl Let_def)
qed

lemma should_retry_iff:
  "rd_can_retry (should_retry item m coverage effect) \<longleftrightarrow> qi_status item = ''failed'' \<and> qi_retry_count item < m \<and>
     (qi_risk_class item = ''dangerous'' \<longrightarrow> work_covered coverage False ''dangerous'' ''TASK_RETRY'' True effect)"
  by (auto simp: should_retry_def Let_def user_decision_iff)

lemma plan_foldl:
  "foldl (plan_item m) (r, b) queue =
     (r @ map (\<lambda>q. recovery_payload q (should_retry q m None ''UNKNOWN'') @ [(''next_retry_count'', PyInt (next_retry_count q))])
            (filter (\<lambda>q. rd_can_retry (should_retry q m None ''UNKNOWN'')) queue),
      b @ map (\<lambda>q. recovery_payload q (should_retry q m None ''UNKNOWN''))
            (filter (\<lambda>q. qi_status q = ''failed'' \<and> \<not> rd_can_retry (should_retry q m None ''UNKNOWN'')) queue))"
  by (induction queue arbitrary: r b) (auto simp: plan_item_def Let_def)

text \<open>C27. Automatic retries are bounded and never repeat dangerous work: a task may be retried exactly when it failed, its
  retry count is below the budget and, if it is dangerous, the approval covers the repeated effect. The recovery plan,
  which carries no approval, therefore lists as retryable the failed, not dangerous tasks within the budget, and as
  blocked all other failed tasks.\<close>

theorem retries_bounded_and_covered:
  "(rd_can_retry (should_retry item m coverage effect) \<longleftrightarrow> qi_status item = ''failed'' \<and> qi_retry_count item < m \<and>
     (qi_risk_class item = ''dangerous'' \<longrightarrow> work_covered coverage False ''dangerous'' ''TASK_RETRY'' True effect)) \<and>
   map (\<lambda>d. py_get d ''thread_id'') (fp_retryable (build_failure_recovery_plan queue m)) =
     map (\<lambda>q. Some (PyStr (qi_thread_id q)))
       (filter (\<lambda>q. qi_status q = ''failed'' \<and> qi_retry_count q < m \<and> qi_risk_class q \<noteq> ''dangerous'') queue) \<and>
   length (fp_retryable (build_failure_recovery_plan queue m)) + length (fp_blocked (build_failure_recovery_plan queue m)) =
     length (filter (\<lambda>q. qi_status q = ''failed'') queue)"
proof -
  have can: "rd_can_retry (should_retry q m None ''UNKNOWN'') \<longleftrightarrow>
      qi_status q = ''failed'' \<and> qi_retry_count q < m \<and> qi_risk_class q \<noteq> ''dangerous''" for q
    by (auto simp: should_retry_iff work_covered_def)
  have "length (filter (\<lambda>q. A q \<and> B q) queue) + length (filter (\<lambda>q. A q \<and> \<not> (A q \<and> B q)) queue) = length (filter A queue)"
    for A B :: "queue_item \<Rightarrow> bool" by (induction queue) auto
  from this [of "\<lambda>q. qi_status q = ''failed''" "\<lambda>q. qi_retry_count q < m \<and> qi_risk_class q \<noteq> ''dangerous''"] show ?thesis
    by (simp add: build_failure_recovery_plan_def plan_foldl should_retry_iff [symmetric] can comp_def recovery_payload_def py_get_def)
qed

text \<open>The turn budget is respected: work is started or continued only when it and the reserve fit into what is left of the
  soft budget, and the turn may yield exactly when they do not fit, a durable checkpoint exists and in-flight work, if
  any, is durable.\<close>

theorem turn_budget_respected:
  assumes "0 \<le> elapsed" "0 < budget" "0 \<le> work" "0 \<le> reserve"
  shows "\<exists>d. assess_turn_budget elapsed budget work reserve busy durable_checkpoint durable_process = Inr d \<and>
    (tb_disposition d \<in> {''START_NEXT_TASK'', ''CONTINUE_CURRENT_TASK''} \<longleftrightarrow> work + reserve \<le> max 0 (budget - elapsed)) \<and>
    (tb_disposition d = ''START_NEXT_TASK'' \<longrightarrow> \<not> busy) \<and>
    (tb_allow_turn_yield d \<longleftrightarrow> max 0 (budget - elapsed) < work + reserve \<and> durable_checkpoint \<and> (busy \<longrightarrow> durable_process)) \<and>
    0 \<le> tb_remaining_seconds d \<and> tb_remaining_seconds d \<le> budget"
  using assms by (auto simp: assess_turn_budget_def Let_def)

section \<open>Concrete instances\<close>

definition ex_slice :: task_slice where
  "ex_slice = \<lparr>sl_thread_id = ''T1'', sl_assigned_agent = ''a'', sl_input = [], sl_expected_output = [], sl_validation_criteria = [],
     sl_editable_scope = [], sl_forbidden_scope = [], sl_merge_point = [], sl_status = ''pending'', sl_risk_class = ''general'',
     sl_run_id = [], sl_run_root = [], sl_task_prompt_path = [], sl_input_manifest_path = [], sl_expected_output_path = [],
     sl_worker_request_path = [], sl_output_dir = [], sl_handoff_report_path = [], sl_result_path = [],
     sl_manual_execution_path = [], sl_required_capabilities = [], sl_input_files = [], sl_state_change_required = False,
     sl_runtime_stage = [], sl_task_execution_id = []\<rparr>"

definition ex_run_state :: runtime_state where
  "ex_run_state = \<lparr>rst_active_run_id = ''R'', rst_run_root = [], rst_pending_workers = [[(''thread_id'', PyStr ''T1'')]],
     rst_completed_workers = [], rst_failed_workers = []\<rparr>"

theorem queue_dispatch_safe_witness:
  "\<exists>queue. build_task_queue ''now'' ex_run_state [ex_slice, ex_slice\<lparr>sl_thread_id := ''T2''\<rparr>] ''root'' = Inr queue \<and>
     map qi_thread_id (select_next_workers queue None) = [''T2'']"
proof -
  obtain queue where q: "build_task_queue ''now'' ex_run_state [ex_slice, ex_slice\<lparr>sl_thread_id := ''T2''\<rparr>] ''root'' = Inr queue"
    by (simp add: build_task_queue_def ex_run_state_def thread_keys_def Let_def py_get_or_def)
  from queue_dispatch_safe [OF q, of 1] q show ?thesis
    by (simp add: ex_run_state_def names_thread_def py_get_or_def ex_slice_def)
qed

theorem turn_budget_respected_witness:
  "\<exists>d. assess_turn_budget 100 600 50 30 True False False = Inr d \<and> tb_disposition d \<in> {''START_NEXT_TASK'', ''CONTINUE_CURRENT_TASK''}"
  using turn_budget_respected [of 100 600 50 30 True False False] by auto

theorem retries_bounded_and_covered_witness:
  "\<not> rd_can_retry (should_retry (build_item ''now'' ''R'' ''root'' [] [] [PyStr ''T1''] (ex_slice\<lparr>sl_risk_class := ''dangerous''\<rparr>)) 2 None ''UNKNOWN'')"
  using retries_bounded_and_covered [of "build_item ''now'' ''R'' ''root'' [] [] [PyStr ''T1''] (ex_slice\<lparr>sl_risk_class := ''dangerous''\<rparr>)"
      2 None "''UNKNOWN''" "[]"]
  by (simp add: work_covered_def build_item_def)

end
