(* ===== verification/Exit_Guard.thy ===== *)
theory Exit_Guard
  imports Turn_Checkpoint Interaction_Policy
begin

text \<open>
  The guard on the end of an Operator turn, \<open>src/runtime/orchestrator/operator_exit_guard.py\<close>. The Full Plan state and the
  attention events are dicts; a continuation state is the value of its \<open>execution_state\<close> (\<open>None\<close> when it has none);
  a turn checkpoint is an object or a value to be read by \<open>from_dict\<close>. The reader of a run directory and the command
  line are not modelled.
\<close>

section \<open>Definitions\<close>

definition VALID_STATES :: "string set" where
  "VALID_STATES = {''READY'', ''DISPATCHED'', ''RUNNING'', ''VERIFYING'', ''RECOVERING'', ''WAITING_APPROVAL'',
     ''WAITING_PROVIDER'', ''WAITING_RESOURCE'', ''BLOCKED'', ''FAILED'', ''COMPLETED'', ''CANCELLED''}"

record exit_assessment =
  oe_disposition :: string
  oe_allow_final_response :: bool
  oe_successful_completion :: bool
  oe_reason :: string
  oe_pending_obligations :: "string list"
  oe_control_authority :: string

definition continue_exec :: "string \<Rightarrow> string list \<Rightarrow> exit_assessment" where
  "continue_exec reason pending =
     \<lparr>oe_disposition = ''CONTINUE_EXECUTION'', oe_allow_final_response = False, oe_successful_completion = False,
      oe_reason = reason, oe_pending_obligations = sorted_set pending, oe_control_authority = ''NONE''\<rparr>"

text \<open>An assessment that lets the turn end.\<close>

definition end_turn :: "string \<Rightarrow> bool \<Rightarrow> string \<Rightarrow> exit_assessment" where
  "end_turn disposition success reason =
     \<lparr>oe_disposition = disposition, oe_allow_final_response = True, oe_successful_completion = success,
      oe_reason = reason, oe_pending_obligations = [], oe_control_authority = ''NONE''\<rparr>"

definition nonempty_str :: "pyval option \<Rightarrow> bool" where
  "nonempty_str v = (case v of Some (PyStr s) \<Rightarrow> s \<noteq> [] | _ \<Rightarrow> False)"

definition valid_gates :: "pyval list \<Rightarrow> bool" where
  "valid_gates gs = (gs \<noteq> [] \<and> list_all (\<lambda>x. nonempty_str (Some x)) gs \<and> distinct gs)"

definition valid_state :: "pyval \<Rightarrow> bool" where
  "valid_state state =
     (case state of
        PyDict d \<Rightarrow>
          {''project_id'', ''run_id'', ''state'', ''gates'', ''completed_gates'', ''queue'', ''terminal_reason''} \<subseteq> set (map fst d) \<and>
          nonempty_str (py_get d ''project_id'') \<and> nonempty_str (py_get d ''run_id'') \<and>
          py_str (py_get_or PyNone d ''state'') \<in> VALID_STATES \<and>
          (case (py_get d ''gates'', py_get d ''completed_gates'', py_get d ''queue'') of
             (Some (PyList gates), Some (PyList completed), Some (PyList queue)) \<Rightarrow>
               valid_gates gates \<and> set completed \<subseteq> set gates \<and> distinct completed \<and>
               list_all (\<lambda>x. case x of PyDict _ \<Rightarrow> True | _ \<Rightarrow> False) queue
           | _ \<Rightarrow> False)
      | _ \<Rightarrow> False)"

definition continuation_incomplete :: "pyval option list \<Rightarrow> bool" where
  "continuation_incomplete states =
     list_ex (\<lambda>v. (case v of None \<Rightarrow> [] | Some x \<Rightarrow> if py_truthy x then py_str x else []) \<noteq> ''COMPLETED'') states"

definition queue_all_completed :: "pyval option \<Rightarrow> bool" where
  "queue_all_completed queue =
     (case queue of
        Some (PyList items) \<Rightarrow> items \<noteq> [] \<and>
          list_all (\<lambda>x. case x of PyDict i \<Rightarrow> py_text i ''status'' = ''COMPLETED'' | _ \<Rightarrow> False) items
      | _ \<Rightarrow> False)"

definition completion_facts_hold :: "py_dict \<Rightarrow> bool" where
  "completion_facts_hold d =
     (py_get d ''state'' = Some (PyStr ''COMPLETED'') \<and>
      py_get d ''terminal_reason'' = Some (PyStr ''ALL_GATES_COMPLETED'') \<and>
      py_get_or PyNone d ''current_gate'' = PyNone \<and>
      py_get d ''completed_gates'' = py_get d ''gates'' \<and> queue_all_completed (py_get d ''queue''))"

datatype turn_checkpoint_arg = TurnObject turn_checkpoint | TurnValue pyval

text \<open>The arguments besides the state. Obligations are a dict from names to values.\<close>

record exit_args =
  xa_now :: "int option"
  xa_attention_events :: "py_dict list"
  xa_completion_obligations :: "py_dict option"
  xa_continuation_states :: "pyval option list"
  xa_user_decision :: "user_decision option"
  xa_recoverable_continuation :: bool
  xa_bounded_turn_yield :: bool
  xa_durable_turn_checkpoint :: bool
  xa_turn_checkpoint :: "turn_checkpoint_arg option"
  xa_attention_threshold_seconds :: int

text \<open>The loop over the attention events: the first eligible one ends the turn. The loop skips an event whose evaluation raises
  \<open>TypeError\<close> or \<open>ValueError\<close>; the \<open>OverflowError\<close> of a timestamp is neither and leaves the guard.\<close>

fun type_or_value_error :: "py_exc \<Rightarrow> bool" where
  "type_or_value_error (TypeError _) = True"
| "type_or_value_error (ValueError _) = True"
| "type_or_value_error _ = False"

fun first_attention ::
  "(string \<Rightarrow> int option result) \<Rightarrow> int option \<Rightarrow> int \<Rightarrow> py_dict \<Rightarrow> py_dict list \<Rightarrow> exit_assessment option result" where
  "first_attention instant now threshold d [] = Inr None"
| "first_attention instant now threshold d (event # events) =
     (case evaluate_attention_delivery instant event d now threshold of
        Inl e \<Rightarrow> if type_or_value_error e then first_attention instant now threshold d events else Inl e
      | Inr a \<Rightarrow>
          if \<not> ad_eligible a then first_attention instant now threshold d events
          else if ad_delivery_class a = IMMEDIATE_DECISION
          then Inr (Some (end_turn ''REQUEST_USER_DECISION'' False (ad_reason a)))
          else Inr (Some (end_turn ''NOTIFY_STALLED'' False (ad_reason a))))"

definition checkpoint_bound :: "(string \<Rightarrow> string option result) \<Rightarrow> py_dict \<Rightarrow> turn_checkpoint_arg \<Rightarrow> bool" where
  "checkpoint_bound utc d arg =
     (case (case arg of TurnObject c \<Rightarrow> Inr c | TurnValue v \<Rightarrow> turn_from_dict utc v) of
        Inl _ \<Rightarrow> False
      | Inr c \<Rightarrow>
          turn_validate utc c = Inr () \<and> tc_project_id c = py_text d ''project_id'' \<and> tc_run_id c = py_text d ''run_id'' \<and>
          (py_text d ''authority_core_sha256'' = [] \<or>
           tc_authority_core_sha256 c = py_str (py_get_or PyNone d ''authority_core_sha256'')))"

definition checkpoint_valid :: "(string \<Rightarrow> string option result) \<Rightarrow> py_dict \<Rightarrow> exit_args \<Rightarrow> bool" where
  "checkpoint_valid utc d x =
     (case xa_turn_checkpoint x of None \<Rightarrow> xa_durable_turn_checkpoint x | Some arg \<Rightarrow> checkpoint_bound utc d arg)"

definition open_obligations :: "py_dict \<Rightarrow> string list" where
  "open_obligations obligations = map fst (filter (\<lambda>(name, v). v \<noteq> PyBool True) obligations)"

definition malformed_obligations :: "py_dict \<Rightarrow> string list" where
  "malformed_obligations obligations =
     map fst (filter (\<lambda>(name, v). name = [] \<or> (case v of PyBool _ \<Rightarrow> False | _ \<Rightarrow> True)) obligations)"

definition assess_completion :: "py_dict \<Rightarrow> exit_args \<Rightarrow> exit_assessment" where
  "assess_completion d x =
     (if \<not> completion_facts_hold d then continue_exec ''Full Plan completion facts are inconsistent'' []
      else case xa_completion_obligations x of
        None \<Rightarrow> continue_exec ''completion obligations were not supplied'' []
      | Some obligations \<Rightarrow>
          if malformed_obligations obligations \<noteq> []
          then continue_exec ''completion obligations are malformed'' (malformed_obligations obligations)
          else if open_obligations obligations \<noteq> []
          then continue_exec ''completion obligations remain open'' (open_obligations obligations)
          else end_turn ''ALLOW_COMPLETION_RESPONSE'' True ''Full Plan and caller completion obligations are complete'')"

text \<open>The assessment of a well-formed state, up to the attention events, and after them.\<close>

definition assess_continuation :: "(string \<Rightarrow> string option result) \<Rightarrow> py_dict \<Rightarrow> exit_args \<Rightarrow> exit_assessment" where
  "assess_continuation utc d x =
     (let state_name = py_str (py_get_or PyNone d ''state'') in
      if xa_bounded_turn_yield x
      then if \<not> checkpoint_valid utc d x
           then continue_exec ''bounded turn yield requires a bound durable continuation checkpoint'' []
           else end_turn ''REPORT_BOUNDED_CHECKPOINT'' False
                  ''bounded turn soft budget reached at a durable continuation checkpoint''
      else if xa_recoverable_continuation x
      then continue_exec ''verified autonomous continuation remains available'' []
      else if continuation_incomplete (xa_continuation_states x)
      then continue_exec ''operator continuation checkpoint remains incomplete''
             (case xa_completion_obligations x of None \<Rightarrow> [] | Some obligations \<Rightarrow> open_obligations obligations)
      else if state_name = ''COMPLETED'' then assess_completion d x
      else continue_exec (''Full Plan state '' @ state_name @ '' is not successful completion'') [])"

definition assess_state ::
  "(string \<Rightarrow> int option result) \<Rightarrow> (string \<Rightarrow> string option result) \<Rightarrow> py_dict \<Rightarrow> exit_args \<Rightarrow> exit_assessment result" where
  "assess_state instant utc d x =
     (let state_name = py_str (py_get_or PyNone d ''state'') in
      if (case xa_user_decision x of None \<Rightarrow> False | Some u \<Rightarrow> ud_required u)
      then Inr (end_turn ''REQUEST_USER_DECISION'' False (case xa_user_decision x of None \<Rightarrow> [] | Some u \<Rightarrow> ud_reason u))
      else if state_name = ''WAITING_APPROVAL''
      then Inr (end_turn ''REQUEST_USER_DECISION'' False ''Full Plan is waiting for user approval'')
      else if state_name = ''CANCELLED''
      then Inr (end_turn ''REPORT_TERMINAL_STOP'' False
             (if py_text d ''terminal_reason'' \<noteq> [] then py_text d ''terminal_reason'' else ''Full Plan was cancelled''))
      else rbind (first_attention instant (xa_now x) (xa_attention_threshold_seconds x) d (xa_attention_events x)) (\<lambda>attention.
        case attention of Some a \<Rightarrow> Inr a | None \<Rightarrow> Inr (assess_continuation utc d x)))"

definition assess_operator_turn_exit ::
  "(string \<Rightarrow> int option result) \<Rightarrow> (string \<Rightarrow> string option result) \<Rightarrow> pyval \<Rightarrow> exit_args \<Rightarrow> exit_assessment result" where
  "assess_operator_turn_exit instant utc state x =
     (if xa_now x = None then Inl (ValueError ''now must be timezone-aware'')
      else case state of
        PyDict d \<Rightarrow>
          if \<not> valid_state state then Inr (continue_exec ''Full Plan state is malformed or incomplete'' [])
          else assess_state instant utc d x
      | _ \<Rightarrow> Inr (continue_exec ''Full Plan state is malformed or incomplete'' []))"

text \<open>The obligations of the command line, \<open>NAME=true\<close> or \<open>NAME=false\<close>; without any the result is \<open>None\<close>.\<close>

definition parse_obligation :: "py_dict \<Rightarrow> string \<Rightarrow> py_dict result" where
  "parse_obligation acc raw =
     (if CHR ''='' \<notin> set raw then Inl (ValueError ''obligation must be NAME=true|false'')
      else let name = py_strip (takeWhile (\<lambda>c. c \<noteq> CHR ''='') raw);
               v = py_lower (py_strip (tl (dropWhile (\<lambda>c. c \<noteq> CHR ''='') raw))) in
        if name = [] \<or> v \<notin> {''true'', ''false''} then Inl (ValueError ''obligation must be NAME=true|false'')
        else Inr (py_setitem name (PyBool (v = ''true'')) acc))"

definition parse_obligations :: "string list \<Rightarrow> py_dict option result" where
  "parse_obligations values =
     (if values = [] then Inr None else rbind (rfold parse_obligation [] values) (\<lambda>d. Inr (Some d)))"

section \<open>Facts\<close>

lemma end_turn_sel [simp]:
  "oe_disposition (end_turn k s r) = k" "oe_allow_final_response (end_turn k s r)"
  "oe_successful_completion (end_turn k s r) = s"
  by (simp_all add: end_turn_def)

lemma continue_exec_sel [simp]:
  "oe_disposition (continue_exec r p) = ''CONTINUE_EXECUTION''" "\<not> oe_allow_final_response (continue_exec r p)"
  "\<not> oe_successful_completion (continue_exec r p)"
  by (simp_all add: continue_exec_def)

lemma first_attention_Some:
  "first_attention instant now th d es = Inr (Some a) \<Longrightarrow>
     oe_allow_final_response a \<and> \<not> oe_successful_completion a \<and>
     (\<exists>e \<in> set es. \<exists>b. evaluate_attention_delivery instant e d now th = Inr b \<and> ad_eligible b)"
  by (induction es) (auto split: sum.splits if_splits)

lemma completed_no_attention:
  assumes "py_get d ''state'' = Some (PyStr ''COMPLETED'')"
  shows "first_attention instant now th d es = Inr None"
proof (induction es)
  case (Cons e es)
  show ?case
  proof (cases "\<exists>t. now = Some t \<and> 0 < th")
    case True
    then obtain t where t: "now = Some t" "0 < th" by blast
    from evaluate_attention_suppressed [OF t(2), of d instant e t] assms obtain a where
      "evaluate_attention_delivery instant e d now th = Inr a" "\<not> ad_eligible a" using t(1) by auto
    then show ?thesis using Cons.IH by simp
  next
    case False
    then show ?thesis using Cons.IH by (auto simp: evaluate_attention_delivery_def split: option.split)
  qed
qed simp

text \<open>All that a successful completion needs.\<close>

definition completion_ready :: "py_dict \<Rightarrow> exit_args \<Rightarrow> bool" where
  "completion_ready d x \<longleftrightarrow> completion_facts_hold d \<and>
     (\<exists>obligations. xa_completion_obligations x = Some obligations \<and>
        (\<forall>(name, v) \<in> set obligations. name \<noteq> [] \<and> v = PyBool True))"

lemma assess_completion_success:
  "oe_successful_completion (assess_completion d x) \<longleftrightarrow> completion_ready d x"
  "oe_allow_final_response (assess_completion d x) \<longleftrightarrow> completion_ready d x"
  by (auto simp: assess_completion_def completion_ready_def malformed_obligations_def open_obligations_def filter_empty_conv
      split: option.splits pyval.splits)

lemma assess_continuation_ground:
  "oe_allow_final_response (assess_continuation utc d x) \<Longrightarrow>
     (xa_bounded_turn_yield x \<and> checkpoint_valid utc d x) \<or> completion_ready d x"
  using assess_completion_success(2) unfolding assess_continuation_def Let_def by (auto split: if_splits)

lemma assess_state_ground:
  assumes "assess_state instant utc d x = Inr a" "oe_allow_final_response a"
  shows "(\<exists>u. xa_user_decision x = Some u \<and> ud_required u) \<or>
    py_str (py_get_or PyNone d ''state'') \<in> {''WAITING_APPROVAL'', ''CANCELLED''} \<or>
    (\<exists>e \<in> set (xa_attention_events x). \<exists>b. evaluate_attention_delivery instant e d (xa_now x)
        (xa_attention_threshold_seconds x) = Inr b \<and> ad_eligible b) \<or>
    (xa_bounded_turn_yield x \<and> checkpoint_valid utc d x) \<or> completion_ready d x"
  using assms first_attention_Some assess_continuation_ground
  unfolding assess_state_def Let_def by (auto split: if_splits option.splits)

lemma assess_continuation_success:
  "oe_successful_completion (assess_continuation utc d x) \<longleftrightarrow>
     \<not> xa_bounded_turn_yield x \<and> \<not> xa_recoverable_continuation x \<and>
     \<not> continuation_incomplete (xa_continuation_states x) \<and> completion_ready d x"
proof -
  have name: "completion_ready d x \<Longrightarrow> py_str (py_get_or PyNone d ''state'') = ''COMPLETED''"
    by (auto simp: completion_ready_def completion_facts_hold_def py_get_or_def py_get_def)
  then show ?thesis
    using assess_completion_success(1) unfolding assess_continuation_def Let_def by (auto split: if_splits)
qed

lemma assess_state_success:
  "(\<exists>a. assess_state instant utc d x = Inr a \<and> oe_successful_completion a) \<longleftrightarrow>
     \<not> (\<exists>u. xa_user_decision x = Some u \<and> ud_required u) \<and> \<not> xa_bounded_turn_yield x \<and> \<not> xa_recoverable_continuation x \<and>
     \<not> continuation_incomplete (xa_continuation_states x) \<and> completion_ready d x"
proof -
  have completed: "completion_ready d x \<Longrightarrow> py_get d ''state'' = Some (PyStr ''COMPLETED'')"
    by (simp add: completion_ready_def completion_facts_hold_def)
  then have name: "completion_ready d x \<Longrightarrow> py_str (py_get_or PyNone d ''state'') = ''COMPLETED''"
    by (simp add: py_get_or_def py_get_def)
  show ?thesis
    using completed_no_attention [OF completed] name first_attention_Some assess_continuation_success
    unfolding assess_state_def Let_def by (auto split: if_splits option.splits)
qed

text \<open>What the conditions of the code say of the values. No value but the text itself prints as \<open>COMPLETED\<close>.\<close>

lemma py_str_COMPLETED [simp]: "py_str v = ''COMPLETED'' \<longleftrightarrow> v = PyStr ''COMPLETED''"
proof (cases v)
  case (PyInt i)
  have "CHR ''C'' \<notin> set (show_int i)" using show_int_number [of i] by auto
  then have "show_int i \<noteq> ''COMPLETED''" by auto
  then show ?thesis by (simp add: PyInt py_str_def)
qed (auto simp: py_str_def)

lemma continuation_incomplete_iff: "\<not> continuation_incomplete states \<longleftrightarrow> set states \<subseteq> {Some (PyStr ''COMPLETED'')}"
proof -
  have "(case v of None \<Rightarrow> [] | Some x \<Rightarrow> if py_truthy x then py_str x else []) = ''COMPLETED'' \<longleftrightarrow>
      v = Some (PyStr ''COMPLETED'')" for v
    by (cases v) auto
  then show ?thesis by (auto simp: continuation_incomplete_def list_ex_iff)
qed

lemma queue_all_completed_iff:
  "queue_all_completed queue \<longleftrightarrow> (\<exists>items. queue = Some (PyList items) \<and> items \<noteq> [] \<and>
     (\<forall>item \<in> set items. \<exists>i. item = PyDict i \<and> py_get i ''status'' = Some (PyStr ''COMPLETED'')))"
proof -
  have "py_text i ''status'' = ''COMPLETED'' \<longleftrightarrow> py_get i ''status'' = Some (PyStr ''COMPLETED'')" for i
    by (auto simp: py_text_def split: option.splits)
  note status = this
  have item: "(case x of PyDict i \<Rightarrow> py_text i ''status'' = ''COMPLETED'' | _ \<Rightarrow> False) \<longleftrightarrow>
      (\<exists>i. x = PyDict i \<and> py_get i ''status'' = Some (PyStr ''COMPLETED''))" for x
    by (cases x) (simp_all add: status)
  show ?thesis
    unfolding queue_all_completed_def item list_all_iff by (simp split: option.split pyval.split)
qed

lemma nonempty_str_iff: "nonempty_str v \<longleftrightarrow> (\<exists>s. v = Some (PyStr s) \<and> s \<noteq> [])"
  by (auto simp: nonempty_str_def split: option.splits pyval.splits)

lemma valid_gates_iff: "valid_gates gs \<longleftrightarrow> (\<exists>gates. gs = map PyStr gates \<and> gates \<noteq> [] \<and> distinct gates \<and> [] \<notin> set gates)"
proof
  assume v: "valid_gates gs"
  then have "\<forall>g \<in> set gs. \<exists>s. g = PyStr s \<and> s \<noteq> []" by (auto simp: valid_gates_def list_all_iff nonempty_str_iff)
  then have "\<exists>gates. gs = map PyStr gates \<and> [] \<notin> set gates"
  proof (induction gs)
    case (Cons g gs)
    then obtain s gates where "g = PyStr s" "s \<noteq> []" "gs = map PyStr gates" "[] \<notin> set gates" by auto
    then show ?case by (intro exI [of _ "s # gates"]) simp
  qed simp
  then show "\<exists>gates. gs = map PyStr gates \<and> gates \<noteq> [] \<and> distinct gates \<and> [] \<notin> set gates"
    using v by (auto simp: valid_gates_def distinct_map)
qed (auto simp: valid_gates_def list_all_iff nonempty_str_iff distinct_map inj_on_def)

lemma valid_state_gates:
  assumes "valid_state (PyDict d)"
  shows "\<exists>gs. py_get d ''gates'' = Some (PyList gs) \<and> valid_gates gs"
proof -
  have lists: "\<exists>g. a = Some (PyList g) \<and> valid_gates g"
    if "case (a, b, c) of (Some (PyList g), Some (PyList cs), Some (PyList q)) \<Rightarrow> valid_gates g \<and> P g cs q | _ \<Rightarrow> False"
    for a b c and P :: "pyval list \<Rightarrow> pyval list \<Rightarrow> pyval list \<Rightarrow> bool"
    using that by (cases a; cases "the a"; cases b; cases "the b"; cases c; cases "the c") simp_all
  show ?thesis using assms unfolding valid_state_def pyval.case by (elim conjE) (rule lists)
qed

lemma completed_state_iff:
  "valid_state (PyDict d) \<and> completion_facts_hold d \<longleftrightarrow>
    py_get d ''state'' = Some (PyStr ''COMPLETED'') \<and> py_get d ''terminal_reason'' = Some (PyStr ''ALL_GATES_COMPLETED'') \<and>
    py_get d ''current_gate'' \<in> {None, Some PyNone} \<and>
    (\<exists>project run. py_get d ''project_id'' = Some (PyStr project) \<and> project \<noteq> [] \<and>
       py_get d ''run_id'' = Some (PyStr run) \<and> run \<noteq> []) \<and>
    (\<exists>gates. py_get d ''gates'' = Some (strs gates) \<and> py_get d ''completed_gates'' = Some (strs gates) \<and>
       gates \<noteq> [] \<and> distinct gates \<and> [] \<notin> set gates) \<and>
    (\<exists>items. py_get d ''queue'' = Some (PyList items) \<and> items \<noteq> [] \<and>
       (\<forall>item \<in> set items. \<exists>i. item = PyDict i \<and> py_get i ''status'' = Some (PyStr ''COMPLETED'')))"
    (is "?valid \<and> ?facts \<longleftrightarrow> ?state \<and> ?reason \<and> ?current \<and> ?ids \<and> ?gates \<and> ?queue")
proof
  have current: "py_get_or PyNone d ''current_gate'' = PyNone \<longleftrightarrow> ?current"
    by (auto simp: py_get_or_def py_get_def split: option.splits)
  show "?state \<and> ?reason \<and> ?current \<and> ?ids \<and> ?gates \<and> ?queue" if v: "?valid \<and> ?facts"
  proof -
    have "?state \<and> ?reason \<and> ?current \<and> ?queue" and same: "py_get d ''completed_gates'' = py_get d ''gates''"
      using v current unfolding completion_facts_hold_def queue_all_completed_iff by blast+
    moreover have ?ids using v unfolding valid_state_def pyval.case nonempty_str_iff by blast
    moreover obtain gs where "py_get d ''gates'' = Some (PyList gs)" "valid_gates gs"
      using v valid_state_gates by blast
    then have ?gates using same unfolding valid_gates_iff by auto
    ultimately show ?thesis by blast
  qed
  show "?valid \<and> ?facts" if c: "?state \<and> ?reason \<and> ?current \<and> ?ids \<and> ?gates \<and> ?queue"
  proof -
    from c obtain gates items where g: "py_get d ''gates'' = Some (strs gates)" "py_get d ''completed_gates'' = Some (strs gates)"
      "gates \<noteq> []" "distinct gates" "[] \<notin> set gates"
      and q: "py_get d ''queue'' = Some (PyList items)" "items \<noteq> []"
        "\<forall>item \<in> set items. \<exists>i. item = PyDict i \<and> py_get i ''status'' = Some (PyStr ''COMPLETED'')" by blast
    have facts: ?facts using c g q current unfolding completion_facts_hold_def queue_all_completed_iff by auto
    have key: "k \<in> set (map fst d)" if "py_get d k = Some v" for k v
      using that by (force simp: py_get_def dest: map_of_SomeD)
    have keys: "{''project_id'', ''run_id'', ''state'', ''gates'', ''completed_gates'', ''queue'', ''terminal_reason''} \<subseteq> set (map fst d)"
      using c g(1,2) q(1) key by blast
    have "py_str (py_get_or PyNone d ''state'') \<in> VALID_STATES"
      using c by (simp add: py_get_or_def py_get_def VALID_STATES_def)
    moreover have "valid_gates (map PyStr gates)" unfolding valid_gates_iff using g by blast
    moreover have "list_all (\<lambda>x. case x of PyDict _ \<Rightarrow> True | _ \<Rightarrow> False) items" using q(3) by (auto simp: list_all_iff)
    moreover have "distinct (map PyStr gates)" using g(4) by (simp add: distinct_map inj_on_def)
    moreover have ids: "nonempty_str (py_get d ''project_id'')" "nonempty_str (py_get d ''run_id'')"
      using c unfolding nonempty_str_iff by blast+
    ultimately have ?valid
      using keys unfolding valid_state_def pyval.case g(1,2) q(1) by simp
    with facts show ?thesis by blast
  qed
qed

section \<open>Properties\<close>

text \<open>C18. Success is reported exactly when everything is done: for a Full Plan state that is a dict, the guard reports
  successful completion exactly when the state is \<open>COMPLETED\<close> for the reason \<open>ALL_GATES_COMPLETED\<close> with nonempty project and
  run ids and no current gate, the completed gates are the gates (distinct nonempty texts, at least one) in their
  order, the queue is a nonempty list of items that all have status \<open>COMPLETED\<close>, the caller supplied obligations, every one
  of which has a name and the value True, every operator continuation is completed, and no user decision, bounded
  yield or autonomous continuation is outstanding. Attention events have no influence.\<close>

theorem exit_completion_iff:
  assumes "xa_now x \<noteq> None"
  shows "(\<exists>a. assess_operator_turn_exit instant utc (PyDict d) x = Inr a \<and> oe_successful_completion a) \<longleftrightarrow>
    py_get d ''state'' = Some (PyStr ''COMPLETED'') \<and> py_get d ''terminal_reason'' = Some (PyStr ''ALL_GATES_COMPLETED'') \<and>
    py_get d ''current_gate'' \<in> {None, Some PyNone} \<and>
    (\<exists>project run. py_get d ''project_id'' = Some (PyStr project) \<and> project \<noteq> [] \<and>
       py_get d ''run_id'' = Some (PyStr run) \<and> run \<noteq> []) \<and>
    (\<exists>gates. py_get d ''gates'' = Some (strs gates) \<and> py_get d ''completed_gates'' = Some (strs gates) \<and>
       gates \<noteq> [] \<and> distinct gates \<and> [] \<notin> set gates) \<and>
    (\<exists>items. py_get d ''queue'' = Some (PyList items) \<and> items \<noteq> [] \<and>
       (\<forall>item \<in> set items. \<exists>i. item = PyDict i \<and> py_get i ''status'' = Some (PyStr ''COMPLETED''))) \<and>
    (\<exists>obligations. xa_completion_obligations x = Some obligations \<and>
       (\<forall>(name, v) \<in> set obligations. name \<noteq> [] \<and> v = PyBool True)) \<and>
    set (xa_continuation_states x) \<subseteq> {Some (PyStr ''COMPLETED'')} \<and>
    \<not> (\<exists>u. xa_user_decision x = Some u \<and> ud_required u) \<and> \<not> xa_bounded_turn_yield x \<and> \<not> xa_recoverable_continuation x"
    (is "?success \<longleftrightarrow> ?state \<and> ?reason \<and> ?current \<and> ?ids \<and> ?gates \<and> ?queue \<and> ?obligations \<and> ?conts \<and> ?open")
proof -
  have "?success \<longleftrightarrow> valid_state (PyDict d) \<and> (\<exists>a. assess_state instant utc d x = Inr a \<and> oe_successful_completion a)"
    using assms by (auto simp: assess_operator_turn_exit_def)
  also have "\<dots> \<longleftrightarrow> (valid_state (PyDict d) \<and> completion_facts_hold d) \<and> ?obligations \<and> ?conts \<and> ?open"
    unfolding assess_state_success continuation_incomplete_iff completion_ready_def by blast
  also have "valid_state (PyDict d) \<and> completion_facts_hold d \<longleftrightarrow> ?state \<and> ?reason \<and> ?current \<and> ?ids \<and> ?gates \<and> ?queue"
    by (rule completed_state_iff)
  finally show ?thesis by blast
qed

text \<open>C19. No turn ends without a reason: when the guard lets a turn end, the Full Plan state is well formed and a user
  decision is required, the plan waits for approval or is cancelled, some attention event is due for delivery, a bounded
  yield has a valid checkpoint, or the plan and all obligations are complete.\<close>

theorem exit_requires_ground:
  assumes "assess_operator_turn_exit instant utc state x = Inr a" "oe_allow_final_response a"
  shows "\<exists>d. state = PyDict d \<and> valid_state state \<and>
    ((\<exists>u. xa_user_decision x = Some u \<and> ud_required u) \<or>
     py_str (py_get_or PyNone d ''state'') \<in> {''WAITING_APPROVAL'', ''CANCELLED''} \<or>
     (\<exists>e \<in> set (xa_attention_events x). \<exists>b. evaluate_attention_delivery instant e d (xa_now x)
        (xa_attention_threshold_seconds x) = Inr b \<and> ad_eligible b) \<or>
     (xa_bounded_turn_yield x \<and> checkpoint_valid utc d x) \<or> completion_ready d x)"
proof (cases state)
  case (PyDict d)
  with assms have v: "valid_state state" and a: "assess_state instant utc d x = Inr a"
    by (auto simp: assess_operator_turn_exit_def split: if_splits)
  show ?thesis using assess_state_ground [OF a assms(2)] v PyDict by blast
qed (use assms in \<open>auto simp: assess_operator_turn_exit_def split: if_splits\<close>)

section \<open>A concrete state\<close>

definition ex_done_state :: py_dict where
  "ex_done_state = [(''project_id'', PyStr ''p''), (''run_id'', PyStr ''r''), (''state'', PyStr ''COMPLETED''),
     (''gates'', PyList [PyStr ''G1'']), (''completed_gates'', PyList [PyStr ''G1'']),
     (''queue'', PyList [PyDict [(''status'', PyStr ''COMPLETED'')]]), (''terminal_reason'', PyStr ''ALL_GATES_COMPLETED'')]"

definition ex_exit_args :: exit_args where
  "ex_exit_args = \<lparr>xa_now = Some 0, xa_attention_events = [], xa_completion_obligations = Some [(''report'', PyBool True)],
     xa_continuation_states = [], xa_user_decision = None, xa_recoverable_continuation = False, xa_bounded_turn_yield = False,
     xa_durable_turn_checkpoint = False, xa_turn_checkpoint = None, xa_attention_threshold_seconds = 300\<rparr>"

lemma ex_done_valid: "valid_state (PyDict ex_done_state)"
  by (simp add: valid_state_def ex_done_state_def py_get_def py_get_or_def nonempty_str_def VALID_STATES_def valid_gates_def)

theorem exit_completion_iff_witness:
  "\<exists>a. assess_operator_turn_exit (\<lambda>_. Inr None) ex_utc (PyDict ex_done_state) ex_exit_args = Inr a \<and> oe_successful_completion a"
proof -
  have now: "xa_now ex_exit_args \<noteq> None" by (simp add: ex_exit_args_def)
  have "py_get ex_done_state ''gates'' = Some (strs [''G1''])" "py_get ex_done_state ''completed_gates'' = Some (strs [''G1''])"
    by (simp_all add: ex_done_state_def py_get_def)
  then have gates: "\<exists>gates. py_get ex_done_state ''gates'' = Some (strs gates) \<and>
      py_get ex_done_state ''completed_gates'' = Some (strs gates) \<and> gates \<noteq> [] \<and> distinct gates \<and> [] \<notin> set gates"
    by (intro exI [of _ "[''G1'']"]) simp
  show ?thesis
    unfolding exit_completion_iff [OF now, of "\<lambda>_. Inr None" ex_utc ex_done_state]
    by (intro conjI gates) (simp_all add: ex_done_state_def ex_exit_args_def py_get_def)
qed

theorem exit_requires_ground_witness:
  "\<exists>a d. assess_operator_turn_exit (\<lambda>_. Inr None) ex_utc (PyDict ex_done_state) (ex_exit_args\<lparr>xa_bounded_turn_yield := True,
     xa_durable_turn_checkpoint := True\<rparr>) = Inr a \<and> oe_allow_final_response a \<and> PyDict ex_done_state = PyDict d \<and> valid_state (PyDict d)"
proof -
  let ?x = "ex_exit_args\<lparr>xa_bounded_turn_yield := True, xa_durable_turn_checkpoint := True\<rparr>"
  have "\<exists>a. assess_operator_turn_exit (\<lambda>_. Inr None) ex_utc (PyDict ex_done_state) ?x = Inr a \<and> oe_allow_final_response a"
    using ex_done_valid by (simp add: assess_operator_turn_exit_def assess_state_def assess_continuation_def ex_exit_args_def
        ex_done_state_def py_get_or_def checkpoint_valid_def)
  then obtain a where a: "assess_operator_turn_exit (\<lambda>_. Inr None) ex_utc (PyDict ex_done_state) ?x = Inr a"
    "oe_allow_final_response a" by blast
  from exit_requires_ground [OF a] a show ?thesis by blast
qed

text \<open>An attention event with a timestamp out of range, which the loop is to skip like any event that cannot be evaluated,
  makes the guard raise.\<close>

lemma attention_overflow_leaves_guard:
  assumes "xa_now x = Some t" "0 < xa_attention_threshold_seconds x" "valid_state (PyDict d)"
    and "xa_user_decision x = None" "py_get d ''state'' = Some (PyStr ''RUNNING'')"
    and "xa_attention_events x = event # events" "attention_timestamp instant (py_get event ''created_at'') = Inl (OverflowError m)"
  shows "assess_operator_turn_exit instant utc (PyDict d) x = Inl (OverflowError m)"
proof -
  have "evaluate_attention_delivery instant event d (xa_now x) (xa_attention_threshold_seconds x) = Inl (OverflowError m)"
    using assms by (simp add: evaluate_attention_delivery_def SUPPRESSED_TERMINAL_STATES_def)
  then show ?thesis
    using assms by (simp add: assess_operator_turn_exit_def assess_state_def py_get_or_def py_get_def)
qed

end
