(* ===== verification/Lifecycle_V2.thy ===== *)
theory Lifecycle_V2
  imports Sealing
begin

text \<open>
  Activation-bound lifecycle bindings and execution authority bundles,
  \<open>src/runtime/orchestrator/execution_lifecycle_v2.py\<close>. A job is a dict. The builder of the legacy job, which the V2 builder
  extends, is not modelled: its result is the job that \<open>bind_v2_job\<close> takes.
\<close>

section \<open>Definitions\<close>

type_synonym job = "(string \<times> pyval) list"

definition LIFECYCLE_BINDING_SCHEMA :: string where "LIFECYCLE_BINDING_SCHEMA = ''orchestration.lifecycle-binding.v1''"

definition EXECUTION_AUTHORITY_BUNDLE_SCHEMA :: string where
  "EXECUTION_AUTHORITY_BUNDLE_SCHEMA = ''orchestration.execution-authority-bundle.v1''"

definition FORBIDDEN_AUTHORITY_FIELDS :: "string list" where
  "FORBIDDEN_AUTHORITY_FIELDS = [''final_assignee'', ''provider_ref'', ''model_ref'', ''completion_authority'', ''effect_authority'']"

definition text_of :: "pyval option \<Rightarrow> string" where
  "text_of v = (case v of None \<Rightarrow> [] | Some x \<Rightarrow> if py_truthy x then py_str x else [])"

definition require_sha256 :: "pyval option \<Rightarrow> string \<Rightarrow> string result" where
  "require_sha256 value label =
     (if re_sha256 (text_of value) then Inr (text_of value)
      else Inl (ExecutionLifecycleV2Error (label @ '' must be a sha256 digest'')))"

text \<open>The first, in ascending order, of the forbidden fields among the keys of a dict.\<close>

definition forbidden_key :: "(string \<times> pyval) list \<Rightarrow> string option" where
  "forbidden_key kvs = find (\<lambda>k. k \<in> set FORBIDDEN_AUTHORITY_FIELDS) (sort (map fst kvs))"

fun reject_forbidden_fields :: "string \<Rightarrow> pyval \<Rightarrow> unit result"
  and reject_items :: "string \<Rightarrow> nat \<Rightarrow> pyval list \<Rightarrow> unit result"
  and reject_entries :: "string \<Rightarrow> (string \<times> pyval) list \<Rightarrow> unit result" where
  "reject_forbidden_fields path (PyDict kvs) =
     (case forbidden_key kvs of
        Some k \<Rightarrow> Inl (ExecutionLifecycleV2Error (path @ '' contains forbidden authority field: '' @ k))
      | None \<Rightarrow> reject_entries path kvs)"
| "reject_forbidden_fields path (PyList vs) = reject_items path 0 vs"
| "reject_forbidden_fields path (PyTuple vs) = reject_items path 0 vs"
| "reject_forbidden_fields path v = Inr ()"
| "reject_items path i [] = Inr ()"
| "reject_items path i (v # vs) =
     rbind (reject_forbidden_fields (path @ ''['' @ show_nat i @ '']'') v) (\<lambda>_. reject_items path (Suc i) vs)"
| "reject_entries path [] = Inr ()"
| "reject_entries path ((k, v) # kvs) =
     rbind (reject_forbidden_fields (path @ ''.'' @ k) v) (\<lambda>_. reject_entries path kvs)"

record lifecycle_binding =
  lb_mode :: string
  lb_bound_at_activation :: bool
  lb_runtime_release_digest :: string

definition binding_fields :: "string set" where
  "binding_fields = {''schema_version'', ''lifecycle_mode'', ''bound_at_activation'', ''migration_allowed'',
     ''runtime_release_digest''}"

definition resolve_lifecycle_binding :: "job \<Rightarrow> lifecycle_binding result" where
  "resolve_lifecycle_binding j =
     (case py_get_or PyNone j ''lifecycle_binding'' of
        PyNone \<Rightarrow> Inr \<lparr>lb_mode = ''LEGACY'', lb_bound_at_activation = False, lb_runtime_release_digest = []\<rparr>
      | PyDict raw \<Rightarrow>
          if set (map fst raw) \<noteq> binding_fields then Inl (ExecutionLifecycleV2Error ''lifecycle binding fields mismatch'')
          else if py_get raw ''schema_version'' \<noteq> Some (PyStr LIFECYCLE_BINDING_SCHEMA)
          then Inl (ExecutionLifecycleV2Error ''lifecycle binding schema mismatch'')
          else if py_text raw ''lifecycle_mode'' \<notin> {''LEGACY'', ''V2''}
          then Inl (ExecutionLifecycleV2Error ''lifecycle mode is unsupported'')
          else if py_get raw ''bound_at_activation'' \<noteq> Some (PyBool True)
          then Inl (ExecutionLifecycleV2Error ''explicit lifecycle binding must be activation-bound'')
          else if py_get raw ''migration_allowed'' \<noteq> Some (PyBool False)
          then Inl (ExecutionLifecycleV2Error ''ordinary lifecycle migration must remain disabled'')
          else rbind (require_sha256 (py_get raw ''runtime_release_digest'') ''runtime release digest'') (\<lambda>release.
            Inr \<lparr>lb_mode = py_text raw ''lifecycle_mode'', lb_bound_at_activation = True, lb_runtime_release_digest = release\<rparr>)
      | _ \<Rightarrow> Inl (ExecutionLifecycleV2Error ''lifecycle binding is malformed''))"

definition full_plan_gate_authority :: "(string \<times> pyval) list \<Rightarrow> (string \<times> pyval) list result" where
  "full_plan_gate_authority gate =
     (let gate_id = py_text gate ''gate_id''; authority_ref = py_text gate ''approval_evidence'';
          branch = py_text gate ''branch''; head = py_text gate ''head'' in
      rbind (require_sha256 (py_get gate ''requirements_sha256'') ''gate requirements digest'') (\<lambda>requirements.
      if gate_id = [] \<or> authority_ref = [] \<or> branch = [] \<or> head = []
      then Inl (ExecutionLifecycleV2Error ''Full Plan gate authority is incomplete'')
      else let source =
             [(''gate_id'', PyStr gate_id), (''approval_evidence'', PyStr authority_ref),
              (''requirements_sha256'', PyStr requirements), (''branch'', PyStr branch), (''head'', PyStr head),
              (''full_plan_opt_in'', PyBool (py_get gate ''full_plan_opt_in'' = Some (PyBool True))),
              (''project_final_validation'', PyBool (py_get gate ''project_final_validation'' = Some (PyBool True)))] @
             (case py_get_or PyNone gate ''continuation_contract'' of PyNone \<Rightarrow> [] | v \<Rightarrow> [(''continuation_contract'', v)]) in
        Inr [(''gate_id'', PyStr gate_id), (''authority_kind'', PyStr ''FULL_PLAN_GATE''),
             (''authority_ref'', PyStr authority_ref), (''authority_sha256'', PyStr (digest (PyDict source)))]))"

text \<open>One turn of the loop over the gates: the head of the gate and its authority.\<close>

definition bundle_gate :: "string \<Rightarrow> pyval \<Rightarrow> (string \<times> pyval) result" where
  "bundle_gate expected_branch raw_gate =
     (case raw_gate of
        PyDict gate \<Rightarrow>
          if py_text gate ''branch'' \<noteq> expected_branch
          then Inl (ExecutionLifecycleV2Error ''V2 gate branch binding mismatch'')
          else if py_text gate ''head'' = [] then Inl (ExecutionLifecycleV2Error ''V2 gate source head is missing'')
          else rbind (full_plan_gate_authority gate) (\<lambda>authority. Inr (py_text gate ''head'', PyDict authority))
      | _ \<Rightarrow> Inl (ExecutionLifecycleV2Error ''V2 gate authority is malformed''))"

definition bundle_content ::
  "job \<Rightarrow> (string \<times> pyval) list \<Rightarrow> string \<Rightarrow> string \<Rightarrow> string \<Rightarrow> (string \<times> pyval) list" where
  "bundle_content j found plan spec release =
     [(''schema_version'', PyStr EXECUTION_AUTHORITY_BUNDLE_SCHEMA), (''project_id'', PyStr (py_text j ''project_id'')),
      (''run_id'', PyStr (py_text j ''run_id'')), (''approved_plan_sha256'', PyStr plan),
      (''approved_spec_sha256'', PyStr spec), (''approval_ref'', PyStr (py_text j ''approval_ref'')),
      (''expected_branch'', PyStr (py_text j ''expected_branch'')), (''activation_source_head'', PyStr (fst (hd found))),
      (''runtime_release_digest'', PyStr release), (''lifecycle_mode'', PyStr ''V2''),
      (''gate_authorities'', PyList (map snd found))]"

text \<open>What follows the loop over the gates.\<close>

definition finish_bundle ::
  "job \<Rightarrow> lifecycle_binding \<Rightarrow> (string \<times> pyval) list \<Rightarrow> (string \<times> pyval) list result" where
  "finish_bundle j binding found =
     (if length (remdups (map fst found)) \<noteq> 1
      then Inl (ExecutionLifecycleV2Error ''V2 activation source head is ambiguous'')
      else
      rbind (require_sha256 (py_get j ''approved_plan_sha256'') ''approved plan digest'') (\<lambda>plan.
      rbind (require_sha256 (py_get j ''approved_spec_sha256'') ''approved spec digest'') (\<lambda>spec.
      rbind (require_sha256 (Some (PyStr (lb_runtime_release_digest binding))) ''runtime release digest'') (\<lambda>release.
      if py_text j ''project_id'' = [] \<or> py_text j ''run_id'' = [] \<or> py_text j ''approval_ref'' = [] \<or>
        py_text j ''expected_branch'' = []
      then Inl (ExecutionLifecycleV2Error ''V2 authority bundle identity is incomplete'')
      else let bundle = bundle_content j found plan spec release in
        rbind (reject_forbidden_fields ''bundle'' (PyDict bundle)) (\<lambda>_.
        Inr (bundle @ [(''bundle_sha256'', PyStr (digest (PyDict bundle)))]))))))"

definition build_execution_authority_bundle :: "job \<Rightarrow> lifecycle_binding \<Rightarrow> (string \<times> pyval) list result" where
  "build_execution_authority_bundle j binding =
     (if lb_mode binding \<noteq> ''V2'' \<or> \<not> lb_bound_at_activation binding
      then Inl (ExecutionLifecycleV2Error ''V2 authority bundle requires an activation-bound V2 lifecycle'')
      else case py_get j ''gates'' of
        Some (PyList (g # gs)) \<Rightarrow>
          rbind (rmap (bundle_gate (py_text j ''expected_branch'')) (g # gs)) (finish_bundle j binding)
      | _ \<Rightarrow> Inl (ExecutionLifecycleV2Error ''V2 authority bundle requires approved gates''))"

definition bundle_fields :: "string list" where
  "bundle_fields = [''schema_version'', ''project_id'', ''run_id'', ''approved_plan_sha256'', ''approved_spec_sha256'',
     ''approval_ref'', ''expected_branch'', ''activation_source_head'', ''runtime_release_digest'', ''lifecycle_mode'',
     ''gate_authorities'', ''bundle_sha256'']"

definition validate_execution_authority_bundle :: "job \<Rightarrow> (string \<times> pyval) list result" where
  "validate_execution_authority_bundle j =
     rbind (resolve_lifecycle_binding j) (\<lambda>binding.
     if lb_mode binding \<noteq> ''V2''
     then Inl (ExecutionLifecycleV2Error ''execution authority bundle is only valid for V2 jobs'')
     else case py_get j ''execution_authority_bundle'' of
       Some (PyDict raw) \<Rightarrow>
         if set (map fst raw) \<noteq> set bundle_fields
         then Inl (ExecutionLifecycleV2Error ''execution authority bundle fields mismatch'')
         else rbind (reject_forbidden_fields ''bundle'' (PyDict raw)) (\<lambda>_.
           if py_get raw ''schema_version'' \<noteq> Some (PyStr EXECUTION_AUTHORITY_BUNDLE_SCHEMA)
           then Inl (ExecutionLifecycleV2Error ''execution authority bundle schema mismatch'')
           else rbind (build_execution_authority_bundle j binding) (\<lambda>expected.
             if \<not> py_equal (PyDict raw) (PyDict expected)
             then Inl (ExecutionLifecycleV2Error ''execution authority bundle binding mismatch'') else Inr raw))
     | _ \<Rightarrow> Inl (ExecutionLifecycleV2Error ''execution authority bundle is missing''))"

text \<open>The V2 part of the job builder, applied to the legacy job.\<close>

definition bind_v2_job :: "job \<Rightarrow> string \<Rightarrow> job result" where
  "bind_v2_job j runtime_release_digest =
     rbind (require_sha256 (Some (PyStr runtime_release_digest)) ''runtime release digest'') (\<lambda>release.
     let binding = [(''schema_version'', PyStr LIFECYCLE_BINDING_SCHEMA), (''lifecycle_mode'', PyStr ''V2''),
           (''bound_at_activation'', PyBool True), (''migration_allowed'', PyBool False),
           (''runtime_release_digest'', PyStr release)];
         j1 = py_setitem ''lifecycle_binding'' (PyDict binding) j in
     rbind (build_execution_authority_bundle j1
       \<lparr>lb_mode = ''V2'', lb_bound_at_activation = True, lb_runtime_release_digest = release\<rparr>) (\<lambda>bundle.
     let j2 = py_setitem ''execution_authority_bundle'' (PyDict bundle) j1 in
     rbind (validate_execution_authority_bundle j2) (\<lambda>_. Inr j2)))"

section \<open>Facts\<close>

text \<open>All keys of all dicts inside a value.\<close>

fun keys_of :: "pyval \<Rightarrow> string set" where
  "keys_of (PyDict kvs) = fst ` set kvs \<union> (\<Union>v \<in> snd ` set kvs. keys_of v)"
| "keys_of (PyList vs) = (\<Union>v \<in> set vs. keys_of v)"
| "keys_of (PyTuple vs) = (\<Union>v \<in> set vs. keys_of v)"
| "keys_of v = {}"

lemma forbidden_key_None: "forbidden_key kvs = None \<longleftrightarrow> fst ` set kvs \<inter> set FORBIDDEN_AUTHORITY_FIELDS = {}"
  by (auto simp: forbidden_key_def find_None_iff)

lemma reject_iff:
  "reject_forbidden_fields path v = Inr () \<longleftrightarrow> keys_of v \<inter> set FORBIDDEN_AUTHORITY_FIELDS = {}"
  "reject_items path i vs = Inr () \<longleftrightarrow> (\<Union>v \<in> set vs. keys_of v) \<inter> set FORBIDDEN_AUTHORITY_FIELDS = {}"
  "reject_entries path kvs = Inr () \<longleftrightarrow> (\<Union>v \<in> snd ` set kvs. keys_of v) \<inter> set FORBIDDEN_AUTHORITY_FIELDS = {}"
proof (induction path v and path i vs and path kvs rule: reject_forbidden_fields_reject_items_reject_entries.induct)
  case (1 path kvs)
  show ?case
  proof (cases "forbidden_key kvs")
    case None
    with 1 show ?thesis using forbidden_key_None [of kvs] by (simp add: Int_Un_distrib2)
  next
    case (Some k)
    then have "fst ` set kvs \<inter> set FORBIDDEN_AUTHORITY_FIELDS \<noteq> {}" using forbidden_key_None [of kvs] by simp
    with Some show ?thesis by (simp add: Int_Un_distrib2)
  qed
qed (simp_all add: Int_Un_distrib2)

lemma text_of_str [simp]: "text_of (Some (PyStr s)) = s"
  by (simp add: text_of_def)

lemma require_sha256_Inr [simp]: "require_sha256 v l = Inr s \<longleftrightarrow> re_sha256 (text_of v) \<and> s = text_of v"
  by (auto simp: require_sha256_def)

lemma py_text_setitem: "k' \<noteq> k \<Longrightarrow> py_text (py_setitem k v d) k' = py_text d k'"
  by (simp add: py_text_def)

text \<open>The bundle is built from other entries of the job than the two it is stored with.\<close>

lemma build_bundle_setitem:
  assumes "k \<in> {''lifecycle_binding'', ''execution_authority_bundle''}"
  shows "build_execution_authority_bundle (py_setitem k v j) b = build_execution_authority_bundle j b"
proof -
  let ?j = "py_setitem k v j"
  have texts: "py_text ?j f = py_text j f" if f: "f \<in> {''project_id'', ''run_id'', ''approval_ref'', ''expected_branch''}" for f
    by (rule py_text_setitem) (use assms f in auto)
  have get: "py_get ?j f = py_get j f" if f: "f \<in> {''gates'', ''approved_plan_sha256'', ''approved_spec_sha256''}" for f
    using assms f by auto
  have "bundle_content ?j f p s r = bundle_content j f p s r" for f p s r by (simp add: bundle_content_def texts)
  then have "finish_bundle ?j = finish_bundle j" by (intro ext) (simp add: finish_bundle_def texts get del: py_get_setitem cong: if_cong)
  then show ?thesis 
    by (simp add: build_execution_authority_bundle_def texts get del: py_get_setitem split: option.split pyval.split list.split)
qed

lemma finish_bundleD:
  assumes "finish_bundle j b found = Inr bundle"
  obtains content where "length (remdups (map fst found)) = 1" "map fst content = butlast bundle_fields"
    "py_get content ''schema_version'' = Some (PyStr EXECUTION_AUTHORITY_BUNDLE_SCHEMA)"
    "keys_of (PyDict content) \<inter> set FORBIDDEN_AUTHORITY_FIELDS = {}"
    "bundle = content @ [(''bundle_sha256'', PyStr (digest (PyDict content)))]"
proof -
  from assms obtain plan spec release where f: "length (remdups (map fst found)) = 1"
    "reject_forbidden_fields ''bundle'' (PyDict (bundle_content j found plan spec release)) = Inr ()"
    "bundle = bundle_content j found plan spec release @
       [(''bundle_sha256'', PyStr (digest (PyDict (bundle_content j found plan spec release))))]"
    unfolding finish_bundle_def Let_def guard_eq_Inr rbind_eq_Inr by (auto simp del: reject_forbidden_fields.simps)
  show ?thesis
  proof (rule that)
    show "keys_of (PyDict (bundle_content j found plan spec release)) \<inter> set FORBIDDEN_AUTHORITY_FIELDS = {}"
      using f(2) unfolding reject_iff(1) .
    show "map fst (bundle_content j found plan spec release) = butlast bundle_fields"
      by (simp add: bundle_fields_def bundle_content_def)
    show "py_get (bundle_content j found plan spec release) ''schema_version'' = Some (PyStr EXECUTION_AUTHORITY_BUNDLE_SCHEMA)"
      by (simp add: py_get_def bundle_content_def)
  qed (use f in simp_all)
qed

lemma build_bundleD:
  assumes "build_execution_authority_bundle j b = Inr bundle"
  obtains gates found where "py_get j ''gates'' = Some (PyList gates)" "gates \<noteq> []"
    "list_all2 (\<lambda>g r. bundle_gate (py_text j ''expected_branch'') g = Inr r) gates found" "finish_bundle j b found = Inr bundle"
proof -
  from assms obtain g gs where g: "py_get j ''gates'' = Some (PyList (g # gs))"
    by (auto simp: build_execution_authority_bundle_def split: if_splits option.splits pyval.splits list.splits)
  from assms obtain found where "rmap (bundle_gate (py_text j ''expected_branch'')) (g # gs) = Inr found" "finish_bundle j b found = Inr bundle"
    unfolding build_execution_authority_bundle_def g option.case pyval.case list.case guard_eq_Inr rbind_eq_Inr by blast
  then show ?thesis using that [OF g] unfolding rmap_eq_Inr by blast
qed

lemma bundle_gateD:
  assumes "bundle_gate b g = Inr (head, a)"
  shows "\<exists>d. g = PyDict d \<and> py_text d ''branch'' = b \<and> py_text d ''head'' = head"
  using assms by (cases g) (auto simp: bundle_gate_def split: if_splits)

lemma list_all2_find_left: "list_all2 P xs ys \<Longrightarrow> x \<in> set xs \<Longrightarrow> \<exists>y \<in> set ys. P x y"
  by (induction rule: list_all2_induct) auto

lemma single_head: "length (remdups xs) = 1 \<Longrightarrow> \<exists>h. \<forall>x \<in> set xs. x = h"
  by (metis length_Suc_conv length_0_conv One_nat_def set_remdups list.set(1) list.set(2) singletonD)

text \<open>Binding a job whose bundle can be built.\<close>

lemma v2_bound_validates:
  assumes "re_sha256 release"
    and "build_execution_authority_bundle j \<lparr>lb_mode = ''V2'', lb_bound_at_activation = True, lb_runtime_release_digest = release\<rparr> = Inr bundle"
  shows "\<exists>j'. bind_v2_job j release = Inr j' \<and> validate_execution_authority_bundle j' = Inr bundle \<and>
    (\<forall>k. k \<noteq> ''lifecycle_binding'' \<longrightarrow> k \<noteq> ''execution_authority_bundle'' \<longrightarrow> py_get j' k = py_get j k)"
proof -
  let ?b = "\<lparr>lb_mode = ''V2'', lb_bound_at_activation = True, lb_runtime_release_digest = release\<rparr>"
  let ?raw = "[(''schema_version'', PyStr LIFECYCLE_BINDING_SCHEMA), (''lifecycle_mode'', PyStr ''V2''),
    (''bound_at_activation'', PyBool True), (''migration_allowed'', PyBool False), (''runtime_release_digest'', PyStr release)]"
  let ?j1 = "py_setitem ''lifecycle_binding'' (PyDict ?raw) j"
  let ?j2 = "py_setitem ''execution_authority_bundle'' (PyDict bundle) ?j1"
  have b1: "build_execution_authority_bundle ?j1 ?b = Inr bundle" and b2: "build_execution_authority_bundle ?j2 ?b = Inr bundle"
    using assms(2) by (simp_all add: build_bundle_setitem)
  have res: "resolve_lifecycle_binding ?j2 = Inr ?b"
  proof -
    have "py_get_or PyNone ?j2 ''lifecycle_binding'' = PyDict ?raw" by (simp add: py_get_or_def map_of_py_setitem)
    then show ?thesis
      using assms(1) by (simp add: resolve_lifecycle_binding_def py_get_def py_text_def binding_fields_def)
  qed
  obtain gates found where gf: "finish_bundle ?j2 ?b found = Inr bundle" using build_bundleD [OF b2] by blast
  obtain content where c: "map fst content = butlast bundle_fields" "py_get content ''schema_version'' = Some (PyStr EXECUTION_AUTHORITY_BUNDLE_SCHEMA)"
    "keys_of (PyDict content) \<inter> set FORBIDDEN_AUTHORITY_FIELDS = {}"
    "bundle = content @ [(''bundle_sha256'', PyStr (digest (PyDict content)))]"
    using finish_bundleD [OF gf] by metis
  have "map fst bundle = bundle_fields" using c(1,4) by (simp add: bundle_fields_def)
  then have fields: "set (map fst bundle) = set bundle_fields" by simp
  have schema: "py_get bundle ''schema_version'' = Some (PyStr EXECUTION_AUTHORITY_BUNDLE_SCHEMA)"
    using c(2,4) by (simp add: py_get_def)
  have "keys_of (PyDict bundle) \<inter> set FORBIDDEN_AUTHORITY_FIELDS = {}"
    using c(3,4) by (auto simp: FORBIDDEN_AUTHORITY_FIELDS_def)
  then have rej: "reject_forbidden_fields ''bundle'' (PyDict bundle) = Inr ()" unfolding reject_iff(1) .
  have get: "py_get ?j2 ''execution_authority_bundle'' = Some (PyDict bundle)" by simp
  have val: "validate_execution_authority_bundle ?j2 = Inr bundle"
    unfolding validate_execution_authority_bundle_def res rbind_Inr get option.case pyval.case if_not_P [OF notI, OF notE, OF _ fields]
    using fields schema rej b2 by (simp del: reject_forbidden_fields.simps)
  have "bind_v2_job j release = Inr ?j2"
    using assms(1) b1 val by (simp add: bind_v2_job_def Let_def)
  then show ?thesis using val by auto
qed

section \<open>Properties\<close>

text \<open>C21. A V2 job that the builder hands out validates: when the authority bundle of a job can be built, binding the job
  succeeds (its own final validation never fails), the bound job validates with exactly that bundle, and nothing else
  in the job has changed.\<close>

theorem v2_job_validates:
  assumes "re_sha256 release"
    and "build_execution_authority_bundle j \<lparr>lb_mode = ''V2'', lb_bound_at_activation = True, lb_runtime_release_digest = release\<rparr> = Inr bundle"
  shows "\<exists>j'. bind_v2_job j release = Inr j' \<and> validate_execution_authority_bundle j' = Inr bundle \<and>
    (\<forall>k. k \<noteq> ''lifecycle_binding'' \<longrightarrow> k \<noteq> ''execution_authority_bundle'' \<longrightarrow> py_get j' k = py_get j k)"
  using v2_bound_validates [OF assms] .

text \<open>C22. A validated bundle is exactly what the job's own facts give: the job is activation-bound to V2, it has gates, all on
  the expected branch and on one source head, the bundle equals the one built from the job, and neither the bundle nor
  anything nested in it names a final assignee, provider, model, completion or effect authority.\<close>

theorem v2_bundle_authority:
  assumes "validate_execution_authority_bundle j = Inr raw"
  shows "\<exists>b expected gates head. resolve_lifecycle_binding j = Inr b \<and> lb_mode b = ''V2'' \<and>
    build_execution_authority_bundle j b = Inr expected \<and> py_equal (PyDict raw) (PyDict expected) \<and>
    py_get j ''gates'' = Some (PyList gates) \<and> gates \<noteq> [] \<and>
    (\<forall>g \<in> set gates. \<exists>d. g = PyDict d \<and> py_text d ''branch'' = py_text j ''expected_branch'' \<and> py_text d ''head'' = head) \<and>
    keys_of (PyDict raw) \<inter> {''final_assignee'', ''provider_ref'', ''model_ref'', ''completion_authority'', ''effect_authority''} = {}"
proof -
  from assms obtain b where b: "resolve_lifecycle_binding j = Inr b" "lb_mode b = ''V2''"
    unfolding validate_execution_authority_bundle_def rbind_eq_Inr guard_eq_Inr by blast
  from assms b have get: "py_get j ''execution_authority_bundle'' = Some (PyDict raw)"
    by (auto simp: validate_execution_authority_bundle_def simp del: reject_forbidden_fields.simps split: option.splits pyval.splits if_splits)
  from assms obtain expected u where e: "build_execution_authority_bundle j b = Inr expected" "py_equal (PyDict raw) (PyDict expected)"
    "reject_forbidden_fields ''bundle'' (PyDict raw) = Inr u"
    unfolding validate_execution_authority_bundle_def b(1) rbind_Inr get option.case pyval.case guard_eq_Inr rbind_eq_Inr not_not
    by (elim conjE exE) (rule that)
  obtain gates found where g: "py_get j ''gates'' = Some (PyList gates)" "gates \<noteq> []"
    "list_all2 (\<lambda>g r. bundle_gate (py_text j ''expected_branch'') g = Inr r) gates found" "finish_bundle j b found = Inr expected"
    using build_bundleD [OF e(1)] by blast
  have "length (remdups (map fst found)) = 1" using finish_bundleD [OF g(4)] by blast
  then obtain head where head: "\<forall>x \<in> set (map fst found). x = head" using single_head by blast
  have all: "\<exists>d. x = PyDict d \<and> py_text d ''branch'' = py_text j ''expected_branch'' \<and> py_text d ''head'' = head" if x: "x \<in> set gates" for x
  proof -
    obtain r where r: "r \<in> set found" "bundle_gate (py_text j ''expected_branch'') x = Inr (fst r, snd r)"
      using list_all2_find_left [OF g(3) x] by auto
    have "fst r = head" using head r(1) by simp
    then show ?thesis using bundle_gateD [OF r(2)] by metis
  qed
  have keys: "keys_of (PyDict raw) \<inter>
      {''final_assignee'', ''provider_ref'', ''model_ref'', ''completion_authority'', ''effect_authority''} = {}"
    using e(3) unfolding unit_eq [of u] reject_iff(1) FORBIDDEN_AUTHORITY_FIELDS_def list.set .
  have "\<forall>g \<in> set gates. \<exists>d. g = PyDict d \<and> py_text d ''branch'' = py_text j ''expected_branch'' \<and> py_text d ''head'' = head"
    using all by (rule ballI)
  with b e(1,2) g(1,2) keys show ?thesis
    by (intro exI [of _ b] exI [of _ expected] exI [of _ gates] exI [of _ head] conjI)
qed

section \<open>A concrete job\<close>

definition ex_v2_job :: job where
  "ex_v2_job = [(''project_id'', PyStr ''p''), (''run_id'', PyStr ''r''), (''approved_plan_sha256'', PyStr (replicate 64 CHR ''a'')),
     (''approved_spec_sha256'', PyStr (replicate 64 CHR ''b'')), (''approval_ref'', PyStr ''ref''), (''expected_branch'', PyStr ''main''),
     (''gates'', PyList [PyDict [(''gate_id'', PyStr ''G1''), (''approval_evidence'', PyStr ''ev''), (''branch'', PyStr ''main''),
        (''head'', PyStr ''h''), (''requirements_sha256'', PyStr (replicate 64 CHR ''c''))]])]"

lemma ex_sha: "re_sha256 (replicate 64 CHR ''a'')" "re_sha256 (replicate 64 CHR ''b'')" "re_sha256 (replicate 64 CHR ''c'')"
  by (simp_all add: re_sha256_def list_all_iff lower_hex_def)

lemma ex_v2_bundle:
  "\<exists>bundle. build_execution_authority_bundle ex_v2_job
     \<lparr>lb_mode = ''V2'', lb_bound_at_activation = True, lb_runtime_release_digest = replicate 64 CHR ''a''\<rparr> = Inr bundle"
proof -
  let ?g = "PyDict [(''gate_id'', PyStr ''G1''), (''approval_evidence'', PyStr ''ev''), (''branch'', PyStr ''main''),
        (''head'', PyStr ''h''), (''requirements_sha256'', PyStr (replicate 64 CHR ''c''))]"
  obtain s where g: "bundle_gate ''main'' ?g = Inr (''h'', PyDict [(''gate_id'', PyStr ''G1''), (''authority_kind'', PyStr ''FULL_PLAN_GATE''),
      (''authority_ref'', PyStr ''ev''), (''authority_sha256'', PyStr s)])"
    using ex_sha(3) by (simp add: bundle_gate_def full_plan_gate_authority_def py_text_def py_get_def Let_def)
  have t: "py_text ex_v2_job ''project_id'' = ''p''" "py_text ex_v2_job ''run_id'' = ''r''" "py_text ex_v2_job ''approval_ref'' = ''ref''"
    "py_text ex_v2_job ''expected_branch'' = ''main''" "py_get ex_v2_job ''gates'' = Some (PyList [?g])"
    "py_get ex_v2_job ''approved_plan_sha256'' = Some (PyStr (replicate 64 CHR ''a''))"
    "py_get ex_v2_job ''approved_spec_sha256'' = Some (PyStr (replicate 64 CHR ''b''))"
    by (simp_all add: ex_v2_job_def py_text_def py_get_def)
  have rej: "reject_forbidden_fields ''bundle'' (PyDict (bundle_content ex_v2_job [(''h'', PyDict [(''gate_id'', PyStr ''G1''),
      (''authority_kind'', PyStr ''FULL_PLAN_GATE''), (''authority_ref'', PyStr ''ev''), (''authority_sha256'', PyStr s)])] p q r)) = Inr ()"
    for p q r unfolding reject_iff(1) by (simp add: bundle_content_def FORBIDDEN_AUTHORITY_FIELDS_def)
  have "\<exists>bundle. finish_bundle ex_v2_job \<lparr>lb_mode = ''V2'', lb_bound_at_activation = True, lb_runtime_release_digest = replicate 64 CHR ''a''\<rparr>
      [(''h'', PyDict [(''gate_id'', PyStr ''G1''), (''authority_kind'', PyStr ''FULL_PLAN_GATE''), (''authority_ref'', PyStr ''ev''),
        (''authority_sha256'', PyStr s)])] = Inr bundle"
    using ex_sha by (simp add: finish_bundle_def t rej require_sha256_def Let_def del: reject_forbidden_fields.simps)
  then show ?thesis by (simp add: build_execution_authority_bundle_def t g)
qed

theorem v2_job_validates_witness:
  "\<exists>bundle j'. bind_v2_job ex_v2_job (replicate 64 CHR ''a'') = Inr j' \<and> validate_execution_authority_bundle j' = Inr bundle"
  using v2_job_validates [OF ex_sha(1)] ex_v2_bundle by blast

lemma ex_v2_validated: "\<exists>j raw. validate_execution_authority_bundle j = Inr raw"
proof -
  obtain e where "build_execution_authority_bundle ex_v2_job
     \<lparr>lb_mode = ''V2'', lb_bound_at_activation = True, lb_runtime_release_digest = replicate 64 CHR ''a''\<rparr> = Inr e"
    using ex_v2_bundle by blast
  then show ?thesis using v2_bound_validates [OF ex_sha(1)] by blast
qed

theorem v2_bundle_authority_witness:
  "\<exists>j raw b gates. validate_execution_authority_bundle j = Inr raw \<and> resolve_lifecycle_binding j = Inr b \<and> lb_mode b = ''V2'' \<and>
     py_get j ''gates'' = Some (PyList gates) \<and> gates \<noteq> []"
proof -
  obtain j raw where r: "validate_execution_authority_bundle j = Inr raw" using ex_v2_validated by blast
  from v2_bundle_authority [OF r] r show ?thesis by (elim exE conjE) (intro exI conjI)
qed

end
