(* ===== verification/Office_Contracts.thy ===== *)
theory Office_Contracts
  imports Sealing
begin

text \<open>
  The state contracts of the AI Office, \<open>src/runtime/ai_office/contracts.py\<close>: state snapshots and state transitions, each
  identified by the digest of its fields. The fields of a contract object are strings and integers; the conversions of
  \<open>from_mapping\<close> are written out on untyped values.
\<close>

section \<open>Text checks\<close>

definition ALLOWED_WORKFLOW_STATES :: "string set" where
  "ALLOWED_WORKFLOW_STATES = {''NEW'', ''INTAKE_READY'', ''INTAKE_BLOCKED'', ''CONTEXT_READY'', ''SOURCE_BINDING_BLOCKED'',
     ''PLAN_COORDINATED'', ''PLAN_HANDOFF_BLOCKED'', ''EXECUTION_PENDING'', ''WAITING_APPROVAL'',
     ''WAITING_STATE_CHANGE_AUTHORITY'', ''EXECUTION_IN_PROGRESS'', ''REVIEW_PENDING'', ''RECOVERY_COORDINATION'',
     ''COMPLETE'', ''BLOCKED'', ''FAILED''}"

definition FORBIDDEN_OWNED_STATE_KEYS :: "string set" where
  "FORBIDDEN_OWNED_STATE_KEYS = {''provider'', ''provider_ref'', ''model'', ''model_ref'', ''raw_payload'', ''raw_event'',
     ''stdout'', ''stderr'', ''secret'', ''api_key'', ''token'', ''action_truth'', ''provider_truth''}"

definition office_text :: "nat \<Rightarrow> bool \<Rightarrow> string \<Rightarrow> string \<Rightarrow> string result" where
  "office_text max_length allow_empty value label =
     (let item = py_strip value in
      if (item = [] \<and> \<not> allow_empty) \<or> max_length < length item \<or>
        list_ex (\<lambda>ch. ch \<in> set item) [CHR 0x00, CHR 0x0A, CHR 0x0D]
      then Inl (AIOfficeContractError (''invalid '' @ label)) else Inr item)"

definition office_identity :: "string \<Rightarrow> string \<Rightarrow> string result" where
  "office_identity value label =
     rbind (office_text 160 False value label) (\<lambda>item.
     if CHR ''/'' \<in> set item \<or> CHR 0x5C \<in> set item \<or> py_contains item ''..''
     then Inl (AIOfficeContractError (''unsafe '' @ label)) else Inr item)"

definition office_digest_ref :: "string \<Rightarrow> string \<Rightarrow> bool \<Rightarrow> string result" where
  "office_digest_ref value label allow_empty =
     rbind (office_text 64 allow_empty value label) (\<lambda>item.
     if item \<noteq> [] \<and> \<not> re_sha256 item then Inl (AIOfficeContractError (''invalid '' @ label)) else Inr item)"

fun owned_state_ok :: "pyval \<Rightarrow> bool" where
  "owned_state_ok (PyDict kvs) =
     (list_all (\<lambda>(k, v). py_lower (py_strip k) \<notin> FORBIDDEN_OWNED_STATE_KEYS) kvs \<and>
      list_all (\<lambda>v. owned_state_ok v) (map snd kvs))"
| "owned_state_ok (PyList vs) = list_all (\<lambda>v. owned_state_ok v) vs"
| "owned_state_ok (PyTuple vs) = list_all (\<lambda>v. owned_state_ok v) vs"
| "owned_state_ok v = True"

definition reject_forbidden_owned_state_fields :: "pyval \<Rightarrow> unit result" where
  "reject_forbidden_owned_state_fields v =
     (if owned_state_ok v then Inr ()
      else Inl (AIOfficeContractError ''external action/provider truth cannot be AI Office-owned state''))"

section \<open>Snapshots\<close>

record office_snapshot =
  sn_schema_version :: string
  sn_project_id :: string
  sn_run_id :: string
  sn_revision :: int
  sn_workflow_state :: string
  sn_approved_plan_ref :: string
  sn_baseline_ref :: string
  sn_workflow_refs :: "string list"
  sn_pending_approval_ref :: string
  sn_pending_manual_action_ref :: string
  sn_last_transition_digest :: string

definition OFFICE_STATE_SNAPSHOT_SCHEMA_V1 :: string where
  "OFFICE_STATE_SNAPSHOT_SCHEMA_V1 = ''ai-office.state-snapshot.v1''"

definition OFFICE_STATE_TRANSITION_SCHEMA_V1 :: string where
  "OFFICE_STATE_TRANSITION_SCHEMA_V1 = ''ai-office.state-transition.v1''"

definition snapshot_init :: "office_snapshot \<Rightarrow> office_snapshot result" where
  "snapshot_init s =
     (if sn_schema_version s \<noteq> OFFICE_STATE_SNAPSHOT_SCHEMA_V1
      then Inl (AIOfficeContractError ''unsupported state snapshot schema'')
      else
      rbind (office_identity (sn_project_id s) ''project_id'') (\<lambda>project_id.
      rbind (office_identity (sn_run_id s) ''run_id'') (\<lambda>run_id.
      if sn_revision s < 0 then Inl (AIOfficeContractError ''invalid revision'')
      else if sn_workflow_state s \<notin> ALLOWED_WORKFLOW_STATES then Inl (AIOfficeContractError ''invalid workflow state'')
      else
      rbind (office_text 512 False (sn_approved_plan_ref s) ''approved_plan_ref'') (\<lambda>plan.
      rbind (office_text 512 False (sn_baseline_ref s) ''baseline_ref'') (\<lambda>baseline.
      rbind (rmap (\<lambda>r. office_text 512 False r ''workflow_ref'') (sn_workflow_refs s)) (\<lambda>refs.
      if \<not> distinct refs then Inl (AIOfficeContractError ''duplicate workflow ref'')
      else
      rbind (office_text 512 True (sn_pending_approval_ref s) ''pending_approval_ref'') (\<lambda>pending.
      rbind (office_text 512 True (sn_pending_manual_action_ref s) ''pending_manual_action_ref'') (\<lambda>manual.
      rbind (office_digest_ref (sn_last_transition_digest s) ''last_transition_digest'' True) (\<lambda>last_digest.
      Inr (s\<lparr>sn_project_id := project_id, sn_run_id := run_id, sn_approved_plan_ref := plan, sn_baseline_ref := baseline,
             sn_workflow_refs := refs, sn_pending_approval_ref := pending, sn_pending_manual_action_ref := manual,
             sn_last_transition_digest := last_digest\<rparr>))))))))))"

definition snapshot_unsigned_dict :: "office_snapshot \<Rightarrow> (string \<times> pyval) list" where
  "snapshot_unsigned_dict s =
     [(''schema_version'', PyStr (sn_schema_version s)), (''project_id'', PyStr (sn_project_id s)),
      (''run_id'', PyStr (sn_run_id s)), (''revision'', PyInt (sn_revision s)),
      (''workflow_state'', PyStr (sn_workflow_state s)), (''approved_plan_ref'', PyStr (sn_approved_plan_ref s)),
      (''baseline_ref'', PyStr (sn_baseline_ref s)), (''workflow_refs'', PyTuple (map PyStr (sn_workflow_refs s))),
      (''pending_approval_ref'', PyStr (sn_pending_approval_ref s)),
      (''pending_manual_action_ref'', PyStr (sn_pending_manual_action_ref s)),
      (''last_transition_digest'', PyStr (sn_last_transition_digest s))]"

definition office_snapshot_digest :: "office_snapshot \<Rightarrow> string" where
  "office_snapshot_digest s = digest (PyDict (snapshot_unsigned_dict s))"

definition snapshot_to_dict :: "office_snapshot \<Rightarrow> (string \<times> pyval) list" where
  "snapshot_to_dict s = snapshot_unsigned_dict s @ [(''snapshot_digest'', PyStr (office_snapshot_digest s))]"

definition snapshot_fields :: "string list" where
  "snapshot_fields = [''schema_version'', ''project_id'', ''run_id'', ''revision'', ''workflow_state'', ''approved_plan_ref'',
     ''baseline_ref'', ''workflow_refs'', ''pending_approval_ref'', ''pending_manual_action_ref'',
     ''last_transition_digest'', ''snapshot_digest'']"

text \<open>The items of \<open>workflow_refs\<close>: an item that is not a text is rejected by the constructor.\<close>

definition ref_items :: "pyval \<Rightarrow> string list result" where
  "ref_items v =
     (case py_iter v of
        None \<Rightarrow> Inl (TypeError ''object is not iterable'')
      | Some vs \<Rightarrow> rmap (\<lambda>x. case x of PyStr s \<Rightarrow> Inr s | _ \<Rightarrow> Inl (AIOfficeContractError ''workflow_ref must be text'')) vs)"

definition snapshot_from_mapping :: "pyval \<Rightarrow> office_snapshot result" where
  "snapshot_from_mapping value =
     (case value of
        PyDict d \<Rightarrow>
          if set (map fst d) \<noteq> set snapshot_fields then Inl (AIOfficeContractError ''state snapshot shape mismatch'')
          else rbind (reject_forbidden_owned_state_fields value) (\<lambda>_.
            let txt = (\<lambda>k. py_str (py_get_or PyNone d k)) in
            case py_int (py_get_or PyNone d ''revision'') of
              None \<Rightarrow> Inl (ValueError ''invalid literal for int()'')
            | Some revision \<Rightarrow>
                rbind (ref_items (py_get_or PyNone d ''workflow_refs'')) (\<lambda>refs.
                rbind (snapshot_init
                  \<lparr>sn_schema_version = txt ''schema_version'', sn_project_id = txt ''project_id'', sn_run_id = txt ''run_id'',
                   sn_revision = revision, sn_workflow_state = txt ''workflow_state'',
                   sn_approved_plan_ref = txt ''approved_plan_ref'', sn_baseline_ref = txt ''baseline_ref'',
                   sn_workflow_refs = refs, sn_pending_approval_ref = txt ''pending_approval_ref'',
                   sn_pending_manual_action_ref = txt ''pending_manual_action_ref'',
                   sn_last_transition_digest = txt ''last_transition_digest''\<rparr>) (\<lambda>s.
                if txt ''snapshot_digest'' \<noteq> office_snapshot_digest s
                then Inl (AIOfficeContractError ''state snapshot digest mismatch'') else Inr s)))
      | _ \<Rightarrow> Inl (AIOfficeContractError ''state snapshot shape mismatch''))"

section \<open>Transitions\<close>

record office_transition_rec =
  tr_schema_version :: string
  tr_project_id :: string
  tr_run_id :: string
  tr_sequence :: int
  tr_from_revision :: int
  tr_to_revision :: int
  tr_from_state :: string
  tr_to_state :: string
  tr_reason_ref :: string
  tr_previous_transition_digest :: string

definition transition_init :: "office_transition_rec \<Rightarrow> office_transition_rec result" where
  "transition_init t =
     (if tr_schema_version t \<noteq> OFFICE_STATE_TRANSITION_SCHEMA_V1
      then Inl (AIOfficeContractError ''unsupported transition schema'')
      else
      rbind (office_identity (tr_project_id t) ''project_id'') (\<lambda>project_id.
      rbind (office_identity (tr_run_id t) ''run_id'') (\<lambda>run_id.
      if tr_sequence t < 1 \<or> tr_from_revision t < 0 \<or> tr_to_revision t \<noteq> tr_from_revision t + 1 \<or>
        tr_sequence t \<noteq> tr_to_revision t
      then Inl (AIOfficeContractError ''invalid transition revision sequence'')
      else if tr_from_state t \<notin> ALLOWED_WORKFLOW_STATES \<or> tr_to_state t \<notin> ALLOWED_WORKFLOW_STATES
      then Inl (AIOfficeContractError ''invalid transition state'')
      else
      rbind (office_text 512 False (tr_reason_ref t) ''reason_ref'') (\<lambda>reason.
      rbind (office_digest_ref (tr_previous_transition_digest t) ''previous_transition_digest'' True) (\<lambda>previous.
      Inr (t\<lparr>tr_project_id := project_id, tr_run_id := run_id, tr_reason_ref := reason,
             tr_previous_transition_digest := previous\<rparr>))))))"

definition transition_unsigned_dict :: "office_transition_rec \<Rightarrow> (string \<times> pyval) list" where
  "transition_unsigned_dict t =
     [(''schema_version'', PyStr (tr_schema_version t)), (''project_id'', PyStr (tr_project_id t)),
      (''run_id'', PyStr (tr_run_id t)), (''sequence'', PyInt (tr_sequence t)),
      (''from_revision'', PyInt (tr_from_revision t)), (''to_revision'', PyInt (tr_to_revision t)),
      (''from_state'', PyStr (tr_from_state t)), (''to_state'', PyStr (tr_to_state t)),
      (''reason_ref'', PyStr (tr_reason_ref t)), (''previous_transition_digest'', PyStr (tr_previous_transition_digest t))]"

definition transition_digest :: "office_transition_rec \<Rightarrow> string" where
  "transition_digest t = digest (PyDict (transition_unsigned_dict t))"

definition transition_to_dict :: "office_transition_rec \<Rightarrow> (string \<times> pyval) list" where
  "transition_to_dict t = transition_unsigned_dict t @ [(''transition_digest'', PyStr (transition_digest t))]"

section \<open>Facts\<close>

lemma hex_not_space: "lower_hex c \<Longrightarrow> \<not> py_isspace c"
  unfolding lower_hex_def by (auto simp: py_isspace_def)

lemma strip_no_space: "list_all (\<lambda>c. \<not> py_isspace c) s \<Longrightarrow> py_strip s = s"
  unfolding py_strip_def by (metis dropWhile_eq_self_iff list.pred_set hd_in_set rev_rev_ident set_rev)

lemma sha256_stripped: "re_sha256 s \<Longrightarrow> py_strip s = s"
  by (rule strip_no_space) (auto simp: re_sha256_def list_all_iff hex_not_space)

lemma office_text_Inr:
  "office_text m ae v l = Inr w \<longleftrightarrow> w = py_strip v \<and> (w = [] \<longrightarrow> ae) \<and> length w \<le> m \<and>
     CHR 0x00 \<notin> set w \<and> CHR 0x0A \<notin> set w \<and> CHR 0x0D \<notin> set w"
  unfolding office_text_def Let_def guard_eq_Inr sum.inject list_ex_iff list.set by auto

lemma office_text_idem: "office_text m ae v l = Inr w \<Longrightarrow> office_text m ae w l' = Inr w"
  unfolding office_text_Inr by (elim conjE, hypsubst) (simp only: py_strip_idem simp_thms)

lemma office_identity_idem: "office_identity v l = Inr w \<Longrightarrow> office_identity w l' = Inr w"
  by (auto simp: office_identity_def office_text_Inr)

lemma office_digest_ref_idem: "office_digest_ref v l ae = Inr w \<Longrightarrow> office_digest_ref w l' ae = Inr w"
  by (auto simp: office_digest_ref_def office_text_Inr)

lemma office_texts_idem:
  "rmap (\<lambda>r. office_text m ae r l) vs = Inr ws \<Longrightarrow> rmap (\<lambda>r. office_text m ae r l) ws = Inr ws"
  unfolding rmap_eq_Inr by (auto simp: list_all2_conv_all_nth intro: office_text_idem)

text \<open>A constructed object is a fixed point of its constructor.\<close>

lemma snapshot_init_idem:
  assumes "snapshot_init s = Inr s'"
  shows "snapshot_init s' = Inr s'"
  using assms unfolding snapshot_init_def guard_eq_Inr rbind_eq_Inr
  by (elim conjE exE) (clarsimp simp: office_identity_idem office_text_idem office_texts_idem office_digest_ref_idem)

lemma transition_init_idem:
  assumes "transition_init t = Inr t'"
  shows "transition_init t' = Inr t'"
  using assms unfolding transition_init_def guard_eq_Inr rbind_eq_Inr
  by (elim conjE exE) (clarsimp simp: office_identity_idem office_text_idem office_digest_ref_idem)

section \<open>Reading back\<close>

lemma map_of_filter_key: "map_of xs k = map_of (filter (\<lambda>y. fst y = k) xs) k"
  by (induction xs) auto

lemma map_of_sort_key_stable: "map_of (sort_key fst xs) k = map_of xs k"
  by (subst (1 2) map_of_filter_key) (simp add: sort_key_stable)

text \<open>A dict read back from JSON: lookup gives the normal forms of the values.\<close>

definition json_read :: "(string \<times> pyval) list \<Rightarrow> (string \<times> pyval) list" where
  "json_read d = sort_key fst (norm_values d)"

lemma json_norm_read: "json_norm (PyDict d) = PyDict (json_read d)"
  by (simp only: json_norm_dict json_read_def)

lemma get_json_read: "py_get (json_read d) k = map_option json_norm (py_get d k)"
  by (simp add: json_read_def py_get_def map_of_sort_key_stable map_of_norm_values)

lemma get_or_json_read: "py_get_or PyNone (json_read d) k = json_norm (py_get_or PyNone d k)"
  using get_json_read [of d k] by (auto simp: py_get_or_def py_get_def split: option.splits)

lemma set_json_read: "set (json_read d) = (\<lambda>(k, v). (k, json_norm v)) ` set d"
  by (simp add: json_read_def norm_values_def)

lemma keys_json_read: "set (map fst (json_read d)) = set (map fst d)"
  by (force simp: set_json_read)

lemma snapshot_keys: "map fst (snapshot_to_dict s) = snapshot_fields"
  by (simp add: snapshot_to_dict_def snapshot_unsigned_dict_def snapshot_fields_def)

lemma ref_items_strs: "ref_items (PyList (map PyStr rs)) = Inr rs"
proof -
  have "rmap (\<lambda>x. case x of PyStr s \<Rightarrow> Inr s | _ \<Rightarrow> Inl (AIOfficeContractError ''workflow_ref must be text'')) (map PyStr rs) =
      Inr rs" by (induction rs) simp_all
  then show ?thesis by (simp add: ref_items_def)
qed

lemma snapshot_owned: "owned_state_ok (PyDict (json_read (snapshot_to_dict s)))"
proof -
  have "list_all (\<lambda>v. owned_state_ok v) (map (\<lambda>r. json_norm (PyStr r)) rs)" for rs by (induction rs) simp_all
  then show ?thesis
    by (simp add: list_all_iff set_json_read snapshot_to_dict_def snapshot_unsigned_dict_def FORBIDDEN_OWNED_STATE_KEYS_def
        py_strip_def py_isspace_def py_lower_def py_lower_char_def comp_def)
qed

lemma snapshot_from_to_dict:
  assumes "snapshot_init s = Inr s"
  shows "snapshot_from_mapping (json_norm (PyDict (snapshot_to_dict s))) = Inr s"
proof -
  let ?d = "json_read (snapshot_to_dict s)"
  have keys: "set (map fst ?d) = set snapshot_fields" unfolding keys_json_read snapshot_keys ..
  have get: "py_get_or PyNone ?d ''revision'' = PyInt (sn_revision s)"
    "py_get_or PyNone ?d ''workflow_refs'' = PyList (map PyStr (sn_workflow_refs s))"
    "py_get_or PyNone ?d ''schema_version'' = PyStr (sn_schema_version s)" "py_get_or PyNone ?d ''project_id'' = PyStr (sn_project_id s)"
    "py_get_or PyNone ?d ''run_id'' = PyStr (sn_run_id s)" "py_get_or PyNone ?d ''workflow_state'' = PyStr (sn_workflow_state s)"
    "py_get_or PyNone ?d ''approved_plan_ref'' = PyStr (sn_approved_plan_ref s)" "py_get_or PyNone ?d ''baseline_ref'' = PyStr (sn_baseline_ref s)"
    "py_get_or PyNone ?d ''pending_approval_ref'' = PyStr (sn_pending_approval_ref s)"
    "py_get_or PyNone ?d ''pending_manual_action_ref'' = PyStr (sn_pending_manual_action_ref s)"
    "py_get_or PyNone ?d ''last_transition_digest'' = PyStr (sn_last_transition_digest s)"
    "py_get_or PyNone ?d ''snapshot_digest'' = PyStr (office_snapshot_digest s)"
    unfolding get_or_json_read by (simp_all add: snapshot_to_dict_def snapshot_unsigned_dict_def py_get_or_def)
  have eta: "\<lparr>sn_schema_version = sn_schema_version s, sn_project_id = sn_project_id s, sn_run_id = sn_run_id s,
      sn_revision = sn_revision s, sn_workflow_state = sn_workflow_state s, sn_approved_plan_ref = sn_approved_plan_ref s,
      sn_baseline_ref = sn_baseline_ref s, sn_workflow_refs = sn_workflow_refs s, sn_pending_approval_ref = sn_pending_approval_ref s,
      sn_pending_manual_action_ref = sn_pending_manual_action_ref s, sn_last_transition_digest = sn_last_transition_digest s\<rparr> = s"
    by simp
  show ?thesis
    unfolding json_norm_read snapshot_from_mapping_def pyval.case keys reject_forbidden_owned_state_fields_def
    using snapshot_owned [of s] assms by (simp add: get ref_items_strs Let_def eta)
qed

lemma map_PyStr_inj: "map PyStr xs = map PyStr ys \<longleftrightarrow> xs = ys"
  by (rule inj_map_eq_map) (simp add: inj_def)

lemma snapshot_to_dict_inj: "snapshot_to_dict s = snapshot_to_dict s' \<Longrightarrow> s = s'"
  by (simp add: snapshot_to_dict_def snapshot_unsigned_dict_def map_PyStr_inj)

end
