(* ===== verification/Office_Store.thy ===== *)
theory Office_Store
  imports Office_Contracts
begin

text \<open>
  The durable state of an AI Office run, \<open>src/runtime/ai_office/state_store.py\<close>: a snapshot file and a journal of
  transitions whose records are chained by their digests. A file is what reading it as JSON gives (\<open>None\<close> for text that is
  not JSON); the run directory and its files are ordinary files. The lock makes every operation atomic with respect to
  other processes, so it does not appear; a transition still writes two files, one after the other.
\<close>

section \<open>The store\<close>

definition JOURNAL_RECORD_SCHEMA_V1 :: string where "JOURNAL_RECORD_SCHEMA_V1 = ''ai-office.state-journal-record.v1''"

record office_store =
  os_project_id :: string
  os_run_id :: string
  os_snapshot :: "pyval option option"
  os_journal :: "pyval option list option"

definition safe_component :: "string \<Rightarrow> string \<Rightarrow> string result" where
  "safe_component value label =
     (let item = py_strip value in
      if item = [] \<or> 160 < length item \<or> CHR ''/'' \<in> set item \<or> CHR 0x5C \<in> set item \<or> py_contains item ''..''
      then Inl (AIOfficeStateStoreError (''unsafe '' @ label)) else Inr item)"

definition office_store_init :: "string \<Rightarrow> string \<Rightarrow> office_store result" where
  "office_store_init project_id run_id =
     rbind (safe_component project_id ''project_id'') (\<lambda>p.
     rbind (safe_component run_id ''run_id'') (\<lambda>r.
     Inr \<lparr>os_project_id = p, os_run_id = r, os_snapshot = None, os_journal = None\<rparr>))"

text \<open>\<open>except AIOfficeContractError as exc: raise AIOfficeStateStoreError(str(exc))\<close>.\<close>

definition as_store_error :: "'a result \<Rightarrow> 'a result" where
  "as_store_error r = (case r of Inl (AIOfficeContractError m) \<Rightarrow> Inl (AIOfficeStateStoreError m) | _ \<Rightarrow> r)"

definition write_snapshot :: "office_snapshot \<Rightarrow> office_store \<Rightarrow> office_store" where
  "write_snapshot s st = st\<lparr>os_snapshot := Some (Some (json_norm (PyDict (snapshot_to_dict s))))\<rparr>"

definition office_initialize :: "office_store \<Rightarrow> string \<Rightarrow> string \<Rightarrow> string \<Rightarrow> (office_snapshot \<times> office_store) result" where
  "office_initialize st approved_plan_ref baseline_ref workflow_state =
     (if os_snapshot st \<noteq> None \<or> os_journal st \<noteq> None
      then Inl (AIOfficeStateStoreError ''AI Office run identity already exists'')
      else rbind (as_store_error (snapshot_init
        \<lparr>sn_schema_version = OFFICE_STATE_SNAPSHOT_SCHEMA_V1, sn_project_id = os_project_id st, sn_run_id = os_run_id st,
         sn_revision = 0, sn_workflow_state = workflow_state, sn_approved_plan_ref = approved_plan_ref,
         sn_baseline_ref = baseline_ref, sn_workflow_refs = [], sn_pending_approval_ref = [],
         sn_pending_manual_action_ref = [], sn_last_transition_digest = []\<rparr>)) (\<lambda>snapshot.
      Inr (snapshot, write_snapshot snapshot (st\<lparr>os_journal := Some []\<rparr>))))"

definition read_snapshot :: "office_store \<Rightarrow> office_snapshot result" where
  "read_snapshot st =
     (case os_snapshot st of
        None \<Rightarrow> Inl (AIOfficeStateStoreError ''state snapshot missing or unsafe'')
      | Some None \<Rightarrow> Inl (AIOfficeStateStoreError ''state snapshot corrupt'')
      | Some (Some v) \<Rightarrow>
          (case snapshot_from_mapping v of
             Inl _ \<Rightarrow> Inl (AIOfficeStateStoreError ''state snapshot corrupt'')
           | Inr s \<Rightarrow>
               if sn_project_id s \<noteq> os_project_id st \<or> sn_run_id s \<noteq> os_run_id st
               then Inl (AIOfficeStateStoreError ''state snapshot identity mismatch'') else Inr s))"

text \<open>The transition of a journal record. A missing key, a value that is no dict and a failed conversion all lead to the
  same error, so their exceptions are not told apart.\<close>

definition transition_fields :: "string list" where
  "transition_fields = [''schema_version'', ''project_id'', ''run_id'', ''sequence'', ''from_revision'', ''to_revision'',
     ''from_state'', ''to_state'', ''reason_ref'', ''previous_transition_digest'']"

definition transition_of :: "pyval \<Rightarrow> office_transition_rec result" where
  "transition_of data =
     (case data of
        PyDict d \<Rightarrow>
          if \<not> set transition_fields \<subseteq> set (map fst d) then Inl (KeyError [])
          else let txt = (\<lambda>k. py_str (py_get_or PyNone d k)); num = (\<lambda>k. py_int (py_get_or PyNone d k)) in
            (case (num ''sequence'', num ''from_revision'', num ''to_revision'') of
               (Some sequence, Some from_revision, Some to_revision) \<Rightarrow>
                 transition_init
                   \<lparr>tr_schema_version = txt ''schema_version'', tr_project_id = txt ''project_id'', tr_run_id = txt ''run_id'',
                    tr_sequence = sequence, tr_from_revision = from_revision, tr_to_revision = to_revision,
                    tr_from_state = txt ''from_state'', tr_to_state = txt ''to_state'', tr_reason_ref = txt ''reason_ref'',
                    tr_previous_transition_digest = txt ''previous_transition_digest''\<rparr>
             | _ \<Rightarrow> Inl (ValueError []))
      | _ \<Rightarrow> Inl (TypeError []))"

text \<open>What reading a journal record leaves: the number of the next record, the last snapshot and the last record digest.\<close>

type_synonym journal_state = "int \<times> office_snapshot option \<times> string"

definition journal_fields :: "string set" where
  "journal_fields = {''schema_version'', ''transition'', ''snapshot'', ''previous_record_digest'', ''record_digest''}"

definition journal_unsigned :: "(string \<times> pyval) list \<Rightarrow> (string \<times> pyval) list" where
  "journal_unsigned record = filter (\<lambda>(k, v). k \<noteq> ''record_digest'') record"

text \<open>The checks on the decoded transition and snapshot.\<close>

definition check_transition ::
  "office_store \<Rightarrow> journal_state \<Rightarrow> pyval \<Rightarrow> office_transition_rec \<Rightarrow> office_snapshot \<Rightarrow> unit result" where
  "check_transition st js data t s =
     (let (index, previous, _) = js in
      guards
       [((case data of PyDict d \<Rightarrow> py_get d ''transition_digest'' | _ \<Rightarrow> None) \<noteq> Some (PyStr (transition_digest t)),
         AIOfficeStateStoreError ''transition digest mismatch''),
        (tr_sequence t \<noteq> index \<or> tr_project_id t \<noteq> os_project_id st \<or> tr_run_id t \<noteq> os_run_id st,
         AIOfficeStateStoreError ''transition identity mismatch''),
        (sn_revision s \<noteq> tr_to_revision t \<or> sn_workflow_state s \<noteq> tr_to_state t,
         AIOfficeStateStoreError ''transition result binding mismatch''),
        (sn_last_transition_digest s \<noteq> transition_digest t,
         AIOfficeStateStoreError ''snapshot transition binding mismatch''),
        (case previous of
           Some p \<Rightarrow> tr_from_revision t \<noteq> sn_revision p \<or> tr_from_state t \<noteq> sn_workflow_state p \<or>
             tr_previous_transition_digest t \<noteq> sn_last_transition_digest p
         | None \<Rightarrow> False, AIOfficeStateStoreError ''transition predecessor mismatch''),
        (previous = None \<and> (tr_from_revision t \<noteq> 0 \<or> tr_previous_transition_digest t \<noteq> []),
         AIOfficeStateStoreError ''first transition predecessor mismatch'')])"

definition read_record :: "office_store \<Rightarrow> journal_state \<Rightarrow> pyval option \<Rightarrow> journal_state result" where
  "read_record st js raw =
     (case raw of
        None \<Rightarrow> Inl (AIOfficeStateStoreError ''state journal corrupt'')
      | Some (PyDict record) \<Rightarrow>
          let (index, previous, previous_digest) = js; field = (\<lambda>k. py_get_or PyNone record k);
              record_digest = py_str (field ''record_digest'') in
          if set (map fst record) \<noteq> journal_fields \<or> field ''schema_version'' \<noteq> PyStr JOURNAL_RECORD_SCHEMA_V1
          then Inl (AIOfficeStateStoreError ''state journal shape mismatch'')
          else if record_digest \<noteq> digest (PyDict (journal_unsigned record))
          then Inl (AIOfficeStateStoreError ''state journal record digest mismatch'')
          else if py_str (field ''previous_record_digest'') \<noteq> previous_digest
          then Inl (AIOfficeStateStoreError ''state journal digest chain mismatch'')
          else (case (snapshot_from_mapping (field ''snapshot''), transition_of (field ''transition'')) of
              (Inr s, Inr t) \<Rightarrow>
                rbind (check_transition st js (field ''transition'') t s) (\<lambda>_. Inr (index + 1, Some s, record_digest))
            | _ \<Rightarrow> Inl (AIOfficeStateStoreError ''state journal transition invalid''))
      | Some _ \<Rightarrow> Inl (AIOfficeStateStoreError ''state journal shape mismatch''))"

definition read_journal :: "office_store \<Rightarrow> (office_snapshot option \<times> string) result" where
  "read_journal st =
     (case os_journal st of
        None \<Rightarrow> Inl (AIOfficeStateStoreError ''state journal missing or unsafe'')
      | Some lines \<Rightarrow> rbind (rfold (read_record st) (1, None, []) lines) (\<lambda>js. Inr (snd js)))"

definition office_load :: "office_store \<Rightarrow> office_snapshot result" where
  "office_load st =
     rbind (read_snapshot st) (\<lambda>snapshot.
     rbind (read_journal st) (\<lambda>journal.
     case fst journal of
       None \<Rightarrow>
         if sn_revision snapshot \<noteq> 0 \<or> sn_last_transition_digest snapshot \<noteq> []
         then Inl (AIOfficeStateStoreError ''snapshot/journal revision mismatch'') else Inr snapshot
     | Some s \<Rightarrow>
         if snapshot_to_dict snapshot \<noteq> snapshot_to_dict s
         then Inl (AIOfficeStateStoreError ''snapshot/journal final-state mismatch'') else Inr snapshot))"

text \<open>The transition and the snapshot that \<open>transition\<close> constructs.\<close>

definition next_transition :: "office_store \<Rightarrow> office_snapshot \<Rightarrow> string \<Rightarrow> string \<Rightarrow> office_transition_rec" where
  "next_transition st current to_state reason_ref =
     \<lparr>tr_schema_version = OFFICE_STATE_TRANSITION_SCHEMA_V1, tr_project_id = os_project_id st, tr_run_id = os_run_id st,
      tr_sequence = sn_revision current + 1, tr_from_revision = sn_revision current, tr_to_revision = sn_revision current + 1,
      tr_from_state = sn_workflow_state current, tr_to_state = to_state, tr_reason_ref = reason_ref,
      tr_previous_transition_digest = sn_last_transition_digest current\<rparr>"

definition next_snapshot ::
  "office_store \<Rightarrow> office_snapshot \<Rightarrow> string \<Rightarrow> string list option \<Rightarrow> string option \<Rightarrow> string option \<Rightarrow> string \<Rightarrow> office_snapshot" where
  "next_snapshot st current to_state workflow_refs pending_approval_ref pending_manual_action_ref transition_sha =
     \<lparr>sn_schema_version = OFFICE_STATE_SNAPSHOT_SCHEMA_V1, sn_project_id = os_project_id st, sn_run_id = os_run_id st,
      sn_revision = sn_revision current + 1, sn_workflow_state = to_state,
      sn_approved_plan_ref = sn_approved_plan_ref current, sn_baseline_ref = sn_baseline_ref current,
      sn_workflow_refs = (case workflow_refs of None \<Rightarrow> sn_workflow_refs current | Some rs \<Rightarrow> rs),
      sn_pending_approval_ref = (case pending_approval_ref of None \<Rightarrow> sn_pending_approval_ref current | Some r \<Rightarrow> r),
      sn_pending_manual_action_ref =
        (case pending_manual_action_ref of None \<Rightarrow> sn_pending_manual_action_ref current | Some r \<Rightarrow> r),
      sn_last_transition_digest = transition_sha\<rparr>"

definition journal_record :: "office_transition_rec \<Rightarrow> office_snapshot \<Rightarrow> string \<Rightarrow> (string \<times> pyval) list" where
  "journal_record t s previous_digest =
     (let record = [(''schema_version'', PyStr JOURNAL_RECORD_SCHEMA_V1), (''transition'', PyDict (transition_to_dict t)),
            (''snapshot'', PyDict (snapshot_to_dict s)), (''previous_record_digest'', PyStr previous_digest)] in
      record @ [(''record_digest'', PyStr (digest (PyDict record)))])"

text \<open>Journal lines come from \<open>splitlines\<close>, which breaks at U+0085 as well; the other separators it knows are control
  characters, escaped by \<open>dumps\<close>. A record text with a U+0085 inside one of its strings begins with a line that is not JSON.
  Reading stops there, so the lines that follow it are never looked at.\<close>

definition journal_line :: "(string \<times> pyval) list \<Rightarrow> pyval option" where
  "journal_line record = (if CHR 0x85 \<in> set (dumps (PyDict record)) then None else Some (json_norm (PyDict record)))"

definition append_journal :: "(string \<times> pyval) list \<Rightarrow> office_store \<Rightarrow> office_store" where
  "append_journal record st = st\<lparr>os_journal := map_option (\<lambda>lines. lines @ [journal_line record]) (os_journal st)\<rparr>"

text \<open>What a transition is going to write.\<close>

definition plan_transition ::
  "office_store \<Rightarrow> string \<Rightarrow> string \<Rightarrow> string list option \<Rightarrow> string option \<Rightarrow> string option \<Rightarrow>
   ((string \<times> pyval) list \<times> office_snapshot) result" where
  "plan_transition st to_state reason_ref workflow_refs pending_approval_ref pending_manual_action_ref =
     rbind (office_load st) (\<lambda>current.
     rbind (transition_init (next_transition st current to_state reason_ref)) (\<lambda>t.
     rbind (snapshot_init (next_snapshot st current to_state workflow_refs pending_approval_ref pending_manual_action_ref
       (transition_digest t))) (\<lambda>s.
     rbind (read_journal st) (\<lambda>journal. Inr (journal_record t s (snd journal), s)))))"

text \<open>\<open>transition\<close> with the store it leaves, whether it returns or raises.\<close>

definition office_transition ::
  "office_store \<Rightarrow> string \<Rightarrow> string \<Rightarrow> string list option \<Rightarrow> string option \<Rightarrow> string option \<Rightarrow>
   office_snapshot result \<times> office_store" where
  "office_transition st to_state reason_ref workflow_refs pending_approval_ref pending_manual_action_ref =
     (case plan_transition st to_state reason_ref workflow_refs pending_approval_ref pending_manual_action_ref of
        Inl e \<Rightarrow> (as_store_error (Inl e), st)
      | Inr (record, snapshot) \<Rightarrow>
          let st' = write_snapshot snapshot (append_journal record st) in (as_store_error (office_load st'), st'))"

section \<open>Facts\<close>

lemma transition_init_shape:
  assumes "transition_init t = Inr t'"
  shows "tr_sequence t' = tr_sequence t" "tr_from_revision t' = tr_from_revision t" "tr_to_revision t' = tr_to_revision t"
    "tr_from_state t' = tr_from_state t" "tr_to_state t' = tr_to_state t"
  using assms unfolding transition_init_def guard_eq_Inr rbind_eq_Inr by (elim conjE exE, clarsimp)+

lemma snapshot_init_shape:
  assumes "snapshot_init s = Inr s'"
  shows "sn_revision s' = sn_revision s" "sn_workflow_state s' = sn_workflow_state s"
  using assms unfolding snapshot_init_def guard_eq_Inr rbind_eq_Inr by (elim conjE exE, clarsimp)+

lemma transition_keys: "map fst (transition_to_dict t) = transition_fields @ [''transition_digest'']"
  by (simp add: transition_to_dict_def transition_unsigned_dict_def transition_fields_def)

lemma transition_of_to_dict:
  assumes "transition_init t = Inr t"
  shows "transition_of (json_norm (PyDict (transition_to_dict t))) = Inr t"
proof -
  let ?d = "json_read (transition_to_dict t)"
  have keys: "\<not> \<not> set transition_fields \<subseteq> set (map fst ?d)" unfolding keys_json_read transition_keys by auto
  have get: "py_get_or PyNone ?d ''sequence'' = PyInt (tr_sequence t)" "py_get_or PyNone ?d ''from_revision'' = PyInt (tr_from_revision t)"
    "py_get_or PyNone ?d ''to_revision'' = PyInt (tr_to_revision t)" "py_get_or PyNone ?d ''schema_version'' = PyStr (tr_schema_version t)"
    "py_get_or PyNone ?d ''project_id'' = PyStr (tr_project_id t)" "py_get_or PyNone ?d ''run_id'' = PyStr (tr_run_id t)"
    "py_get_or PyNone ?d ''from_state'' = PyStr (tr_from_state t)" "py_get_or PyNone ?d ''to_state'' = PyStr (tr_to_state t)"
    "py_get_or PyNone ?d ''reason_ref'' = PyStr (tr_reason_ref t)"
    "py_get_or PyNone ?d ''previous_transition_digest'' = PyStr (tr_previous_transition_digest t)"
    unfolding get_or_json_read by (simp_all add: transition_to_dict_def transition_unsigned_dict_def py_get_or_def)
  have eta: "\<lparr>tr_schema_version = tr_schema_version t, tr_project_id = tr_project_id t, tr_run_id = tr_run_id t,
      tr_sequence = tr_sequence t, tr_from_revision = tr_from_revision t, tr_to_revision = tr_to_revision t,
      tr_from_state = tr_from_state t, tr_to_state = tr_to_state t, tr_reason_ref = tr_reason_ref t,
      tr_previous_transition_digest = tr_previous_transition_digest t\<rparr> = t" by simp
  show ?thesis
    unfolding json_norm_read transition_of_def pyval.case if_not_P [OF keys] Let_def using assms by (simp add: get eta)
qed

lemma json_norm_idem [simp]: "json_norm (json_norm v) = json_norm v"
proof (induction v)
  case (PyDict kvs)
  have "map (\<lambda>(k, v). (k, json_norm v)) (map (\<lambda>(k, v). (k, json_norm v)) kvs) = map (\<lambda>(k, v). (k, json_norm v)) kvs"
    using PyDict by (auto simp: snds.simps)
  then show ?case
    by (simp only: json_norm.simps pyval.inject sort_key_map_snd [of json_norm, symmetric])
      (simp add: sort_key_id_if_sorted)
qed (auto simp: comp_def cong: map_cong)

lemma digest_json_read: "digest (PyDict (json_read d)) = digest (PyDict d)"
  by (rule digest_norm_cong) (simp only: json_norm_read [symmetric] json_norm_idem)

lemma unsigned_json_read: "journal_unsigned (json_read d) = json_read (journal_unsigned d)"
  by (simp add: journal_unsigned_def json_read_def filter_sort norm_values_def filter_map comp_def case_prod_unfold)

lemma set_py_strip: "c \<in> set (py_strip s) \<Longrightarrow> c \<in> set s"
  unfolding py_strip_def set_rev by (drule set_dropWhileD, simp only: set_rev) (rule set_dropWhileD)

lemma no_nel_strip [simp]: "CHR 0x85 \<notin> set s \<Longrightarrow> CHR 0x85 \<notin> set (py_strip s)"
  using set_py_strip by blast

lemma states_no_nel: "w \<in> ALLOWED_WORKFLOW_STATES \<Longrightarrow> CHR 0x85 \<notin> set w"
  unfolding ALLOWED_WORKFLOW_STATES_def by (elim insertE) simp_all

end
