(* ===== verification/Office_Run.thy ===== *)
theory Office_Run
  imports Office_Store
begin

text \<open>
  The runs of the AI Office state store: the invariant that ties the snapshot to the journal, transitions that are all or
  nothing, the digest chain of the journal, and the two situations after which a run cannot be loaded any more.
\<close>

section \<open>The invariant of a run\<close>

definition office_inv :: "office_store \<Rightarrow> office_snapshot \<Rightarrow> pyval option list \<Rightarrow> bool" where
  "office_inv st s lines \<longleftrightarrow>
     os_snapshot st = Some (Some (json_norm (PyDict (snapshot_to_dict s)))) \<and> os_journal st = Some lines \<and>
     snapshot_init s = Inr s \<and> sn_project_id s = os_project_id st \<and> sn_run_id s = os_run_id st \<and>
     no_nel (PyDict (snapshot_unsigned_dict s)) \<and> sn_revision s = int (length lines) \<and>
     (lines = [] \<longrightarrow> sn_last_transition_digest s = []) \<and>
     (\<exists>d. rfold (read_record st) (1, None, []) lines = Inr (1 + int (length lines), if lines = [] then None else Some s, d))"

lemma inv_journal:
  assumes "office_inv st s lines"
  obtains d where "rfold (read_record st) (1, None, []) lines = Inr (1 + int (length lines), if lines = [] then None else Some s, d)"
    and "read_journal st = Inr (if lines = [] then None else Some s, d)"
  using assms by (auto simp: office_inv_def read_journal_def)

lemma inv_load:
  assumes "office_inv st s lines"
  shows "office_load st = Inr s"
proof -
  obtain d where "read_journal st = Inr (if lines = [] then None else Some s, d)" using inv_journal [OF assms] .
  moreover have "read_snapshot st = Inr s"
    using assms by (simp add: office_inv_def read_snapshot_def snapshot_from_to_dict del: json_norm.simps no_nel.simps)
  ultimately show ?thesis using assms by (simp add: office_load_def office_inv_def)
qed

text \<open>Reading looks at the identity of the store only.\<close>

lemma read_record_cong:
  assumes "os_project_id st = os_project_id st'" "os_run_id st = os_run_id st'"
  shows "read_record st = read_record st'"
proof -
  have "check_transition st = check_transition st'" by (intro ext) (simp only: check_transition_def assms)
  then show ?thesis by (intro ext) (simp only: read_record_def)
qed

lemma journal_record_simps:
  "py_get_or PyNone (json_read (journal_record t s d)) ''schema_version'' = PyStr JOURNAL_RECORD_SCHEMA_V1"
  "py_get_or PyNone (json_read (journal_record t s d)) ''transition'' = json_norm (PyDict (transition_to_dict t))"
  "py_get_or PyNone (json_read (journal_record t s d)) ''snapshot'' = json_norm (PyDict (snapshot_to_dict s))"
  "py_get_or PyNone (json_read (journal_record t s d)) ''previous_record_digest'' = PyStr d"
  "set (map fst (json_read (journal_record t s d))) = journal_fields"
  "py_str (py_get_or PyNone (json_read (journal_record t s d)) ''record_digest'') =
     digest (PyDict (journal_unsigned (json_read (journal_record t s d))))"
  unfolding get_or_json_read keys_json_read unsigned_json_read digest_json_read
  by (simp_all only: journal_record_def Let_def journal_unsigned_def journal_fields_def)
    (simp_all add: py_get_or_def del: json_norm.simps(7))

text \<open>A record written for a valid transition from the last state of the journal is read back.\<close>

lemma read_record_written:
  assumes t: "transition_init t = Inr t" and s: "snapshot_init s = Inr s"
    and c: "check_transition st (i, p, d) (json_norm (PyDict (transition_to_dict t))) t s = Inr ()"
  shows "\<exists>d'. read_record st (i, p, d) (Some (json_norm (PyDict (journal_record t s d)))) = Inr (i + 1, Some s, d')"
  unfolding json_norm_read [of "journal_record t s d"] read_record_def option.case pyval.case Let_def case_prod_conv journal_record_simps
  by (simp add: transition_of_to_dict [OF t] snapshot_from_to_dict [OF s] c del: json_norm.simps(7))


lemma transition_init_strips:
  assumes "transition_init t = Inr t'"
  shows "tr_project_id t' = py_strip (tr_project_id t)" "tr_run_id t' = py_strip (tr_run_id t)"
    "tr_schema_version t' = tr_schema_version t" "tr_schema_version t = OFFICE_STATE_TRANSITION_SCHEMA_V1"
    "tr_reason_ref t' = py_strip (tr_reason_ref t)" "tr_from_state t \<in> ALLOWED_WORKFLOW_STATES" "tr_to_state t \<in> ALLOWED_WORKFLOW_STATES"
    "tr_previous_transition_digest t' = py_strip (tr_previous_transition_digest t)"
  using assms unfolding transition_init_def office_identity_def office_digest_ref_def guard_eq_Inr rbind_eq_Inr office_text_Inr
  by (elim conjE exE, clarsimp)+

lemma snapshot_init_strips:
  assumes "snapshot_init s = Inr s'"
  shows "sn_project_id s' = py_strip (sn_project_id s)" "sn_run_id s' = py_strip (sn_run_id s)"
    "sn_schema_version s' = sn_schema_version s" "sn_schema_version s = OFFICE_STATE_SNAPSHOT_SCHEMA_V1"
    "sn_approved_plan_ref s' = py_strip (sn_approved_plan_ref s)" "sn_baseline_ref s' = py_strip (sn_baseline_ref s)"
    "sn_workflow_refs s' = map py_strip (sn_workflow_refs s)" "sn_workflow_state s \<in> ALLOWED_WORKFLOW_STATES"
    "sn_pending_approval_ref s' = py_strip (sn_pending_approval_ref s)"
    "sn_pending_manual_action_ref s' = py_strip (sn_pending_manual_action_ref s)"
    "sn_last_transition_digest s' = py_strip (sn_last_transition_digest s)"
proof -
  have refs: "refs = map py_strip rs" if "rmap (\<lambda>r. office_text m ae r l) rs = Inr refs" for refs rs m ae l
    using that unfolding rmap_eq_Inr office_text_Inr by (auto simp: list_all2_conv_all_nth intro: nth_equalityI)
  show "sn_project_id s' = py_strip (sn_project_id s)" "sn_run_id s' = py_strip (sn_run_id s)"
    "sn_schema_version s' = sn_schema_version s" "sn_schema_version s = OFFICE_STATE_SNAPSHOT_SCHEMA_V1"
    "sn_approved_plan_ref s' = py_strip (sn_approved_plan_ref s)" "sn_baseline_ref s' = py_strip (sn_baseline_ref s)"
    "sn_workflow_refs s' = map py_strip (sn_workflow_refs s)" "sn_workflow_state s \<in> ALLOWED_WORKFLOW_STATES"
    "sn_pending_approval_ref s' = py_strip (sn_pending_approval_ref s)"
    "sn_pending_manual_action_ref s' = py_strip (sn_pending_manual_action_ref s)"
    "sn_last_transition_digest s' = py_strip (sn_last_transition_digest s)"
    using assms unfolding snapshot_init_def office_identity_def office_digest_ref_def guard_eq_Inr rbind_eq_Inr
    by (elim conjE exE, clarsimp simp: office_text_Inr refs)+
qed

lemmas transition_facts = transition_init_shape transition_init_strips
lemmas snapshot_facts = snapshot_init_shape snapshot_init_strips

lemma digest_stripped [simp]: "py_strip (transition_digest t) = transition_digest t"
  by (simp add: transition_digest_def sha256_stripped)

text \<open>The strings a caller passes to \<open>transition\<close>.\<close>

definition transition_texts :: "string \<Rightarrow> string list option \<Rightarrow> string option \<Rightarrow> string option \<Rightarrow> string list" where
  "transition_texts reason_ref workflow_refs pending_approval_ref pending_manual_action_ref =
     reason_ref # (case workflow_refs of None \<Rightarrow> [] | Some rs \<Rightarrow> rs) @ (case pending_approval_ref of None \<Rightarrow> [] | Some r \<Rightarrow> [r]) @
     (case pending_manual_action_ref of None \<Rightarrow> [] | Some r \<Rightarrow> [r])"

abbreviation nel_free :: "string list \<Rightarrow> bool" where
  "nel_free ss \<equiv> \<forall>s \<in> set ss. CHR 0x85 \<notin> set s"

lemma no_nel_snapshot:
  "no_nel (PyDict (snapshot_unsigned_dict s)) \<longleftrightarrow> nel_free ([sn_schema_version s, sn_project_id s, sn_run_id s, sn_workflow_state s,
     sn_approved_plan_ref s, sn_baseline_ref s, sn_pending_approval_ref s, sn_pending_manual_action_ref s,
     sn_last_transition_digest s] @ sn_workflow_refs s)"
  by (auto simp: snapshot_unsigned_dict_def list_all_iff)

lemma no_nel_transition:
  "no_nel (PyDict (transition_unsigned_dict t)) \<longleftrightarrow> nel_free [tr_schema_version t, tr_project_id t, tr_run_id t, tr_from_state t,
     tr_to_state t, tr_reason_ref t, tr_previous_transition_digest t]"
  by (auto simp: transition_unsigned_dict_def)

lemma journal_line_clean:
  assumes "no_nel (PyDict (transition_unsigned_dict t))" "no_nel (PyDict (snapshot_unsigned_dict s))" "CHR 0x85 \<notin> set d"
  shows "journal_line (journal_record t s d) = Some (json_norm (PyDict (journal_record t s d)))"
proof -
  have "no_nel (PyDict (journal_record t s d))"
    using assms by (simp add: journal_record_def Let_def JOURNAL_RECORD_SCHEMA_V1_def transition_to_dict_def snapshot_to_dict_def
        transition_digest_def office_snapshot_digest_def sha256_no_nel)
  from dumps_no_nel [OF this] show ?thesis by (simp only: journal_line_def if_False)
qed


text \<open>The digest a readable journal ends with.\<close>

lemma read_record_digest:
  assumes "read_record st js raw = Inr (i, p, d)"
  shows "re_sha256 d"
  using assms by (auto simp: read_record_def Let_def split: option.splits pyval.splits prod.splits sum.splits if_splits)

lemma journal_digest_clean:
  assumes "rfold (read_record st) (1, None, []) lines = Inr (i, p, d)"
  shows "CHR 0x85 \<notin> set d"
proof (cases lines rule: rev_cases)
  case Nil
  then show ?thesis using assms by simp
next
  case (snoc ls l)
  then obtain js where "read_record st js l = Inr (i, p, d)" using assms by (auto simp: rfold_append)
  from sha256_no_nel [OF read_record_digest [OF this]] show ?thesis .
qed

lemma plan_transition_Inr:
  assumes "office_inv st s lines" "plan_transition st w r refs pa pm = Inr (record, s')"
  obtains t d where "transition_init (next_transition st s w r) = Inr t"
    "snapshot_init (next_snapshot st s w refs pa pm (transition_digest t)) = Inr s'" "record = journal_record t s' d"
    "rfold (read_record st) (1, None, []) lines = Inr (1 + int (length lines), if lines = [] then None else Some s, d)"
proof -
  obtain d where d: "rfold (read_record st) (1, None, []) lines = Inr (1 + int (length lines), if lines = [] then None else Some s, d)"
    "read_journal st = Inr (if lines = [] then None else Some s, d)" using inv_journal [OF assms(1)] .
  show ?thesis
    using assms(2) unfolding plan_transition_def rbind_eq_Inr inv_load [OF assms(1)] d(2)
    by (auto simp: d(1) intro!: that)
qed

lemma inv_check:
  assumes inv: "office_inv st s lines" and t: "transition_init (next_transition st s w r) = Inr t"
    and s': "snapshot_init (next_snapshot st s w refs pa pm (transition_digest t)) = Inr s'"
  shows "check_transition st (1 + int (length lines), if lines = [] then None else Some s, d)
     (json_norm (PyDict (transition_to_dict t))) t s' = Inr ()"
proof -
  have s: "snapshot_init s = Inr s" "sn_project_id s = os_project_id st" "sn_run_id s = os_run_id st"
    "sn_revision s = int (length lines)" "lines = [] \<longrightarrow> sn_last_transition_digest s = []"
    using inv by (simp_all add: office_inv_def)
  have dg: "(case json_norm (PyDict (transition_to_dict t)) of PyDict d \<Rightarrow> py_get d ''transition_digest'' | _ \<Rightarrow> None) =
      Some (PyStr (transition_digest t))"
    unfolding json_norm_read pyval.case get_json_read
    by (simp add: transition_to_dict_def transition_unsigned_dict_def py_get_def)
  have strips: "py_strip (os_project_id st) = os_project_id st" "py_strip (os_run_id st) = os_run_id st"
    "py_strip (sn_last_transition_digest s) = sn_last_transition_digest s"
    using snapshot_init_strips [OF s(1)] s(2,3) by metis+
  show ?thesis
    unfolding check_transition_def Let_def case_prod_conv guards_eq_Inr dg
    using s(2-5) strips by (simp add: transition_facts [OF t] snapshot_facts [OF s'] next_transition_def next_snapshot_def)
qed


lemma inv_step:
  assumes inv: "office_inv st s lines" and plan: "plan_transition st w r refs pa pm = Inr (record, s')"
    and nel: "nel_free (transition_texts r refs pa pm)"
  shows "office_inv (write_snapshot s' (append_journal record st)) s' (lines @ [Some (json_norm (PyDict record))])"
proof -
  obtain t d where t: "transition_init (next_transition st s w r) = Inr t"
    and s': "snapshot_init (next_snapshot st s w refs pa pm (transition_digest t)) = Inr s'" and r: "record = journal_record t s' d"
    and d: "rfold (read_record st) (1, None, []) lines = Inr (1 + int (length lines), if lines = [] then None else Some s, d)"
    using plan_transition_Inr [OF inv plan] .
  have s: "os_journal st = Some lines" "sn_project_id s = os_project_id st" "sn_run_id s = os_run_id st"
    "snapshot_init s = Inr s" "no_nel (PyDict (snapshot_unsigned_dict s))" "sn_revision s = int (length lines)"
    using inv by (simp_all add: office_inv_def del: no_nel.simps)
  have strips: "py_strip (os_project_id st) = os_project_id st" "py_strip (os_run_id st) = os_run_id st"
    using snapshot_init_strips(1,2) [OF s(4)] s(2,3) by metis+
  have ns: "nel_free ([sn_project_id s, sn_run_id s, sn_workflow_state s, sn_approved_plan_ref s, sn_baseline_ref s,
      sn_pending_approval_ref s, sn_pending_manual_action_ref s, sn_last_transition_digest s] @ sn_workflow_refs s)"
    using s(5) unfolding no_nel_snapshot by simp
  have na: "CHR 0x85 \<notin> set r" "nel_free (case refs of None \<Rightarrow> sn_workflow_refs s | Some rs \<Rightarrow> rs)"
    "CHR 0x85 \<notin> set (case pa of None \<Rightarrow> sn_pending_approval_ref s | Some x \<Rightarrow> x)"
    "CHR 0x85 \<notin> set (case pm of None \<Rightarrow> sn_pending_manual_action_ref s | Some x \<Rightarrow> x)"
    using nel ns by (auto simp: transition_texts_def split: option.splits)
  have nt: "no_nel (PyDict (transition_unsigned_dict t))"
    unfolding no_nel_transition using ns na(1) states_no_nel [OF transition_init_strips(7) [OF t]] s(2,3)
    by (simp add: transition_facts [OF t] next_transition_def OFFICE_STATE_TRANSITION_SCHEMA_V1_def)
  have ns': "no_nel (PyDict (snapshot_unsigned_dict s'))"
    unfolding no_nel_snapshot using ns na states_no_nel [OF snapshot_init_strips(8) [OF s']] s(2,3)
    by (simp add: snapshot_facts [OF s'] next_snapshot_def OFFICE_STATE_SNAPSHOT_SCHEMA_V1_def transition_digest_def sha256_no_nel)
  let ?st = "write_snapshot s' (append_journal record st)"
  have rd: "read_record ?st = read_record st" by (rule read_record_cong) (simp_all add: write_snapshot_def append_journal_def)
  obtain d' where d': "read_record st (1 + int (length lines), if lines = [] then None else Some s, d)
      (Some (json_norm (PyDict record))) = Inr (1 + int (length lines) + 1, Some s', d')"
    using read_record_written [OF transition_init_idem [OF t] snapshot_init_idem [OF s'] inv_check [OF inv t s']] unfolding r by blast
  have "rfold (read_record ?st) (1, None, []) (lines @ [Some (json_norm (PyDict record))]) =
      Inr (1 + int (length lines) + 1, Some s', d')"
    unfolding rd rfold_append d by (simp add: d' del: json_norm.simps)
  moreover have "os_journal ?st = Some (lines @ [Some (json_norm (PyDict record))])"
    unfolding write_snapshot_def append_journal_def r journal_line_clean [OF nt ns' journal_digest_clean [OF d]] by (simp add: s(1))
  ultimately show ?thesis
    unfolding office_inv_def
    using snapshot_init_idem [OF s'] ns' strips s(2,3,6)
    by (simp add: snapshot_facts [OF s'] next_snapshot_def write_snapshot_def append_journal_def del: json_norm.simps no_nel.simps)
qed

lemma as_store_error_Inr [simp]: "as_store_error r = Inr x \<longleftrightarrow> r = Inr x"
  by (auto simp: as_store_error_def split: sum.splits py_exc.splits)

lemma initialize_Inr:
  assumes "office_store_init p r = Inr st0" "office_initialize st0 plan base ws = Inr (s, st)"
  shows "snapshot_init
        \<lparr>sn_schema_version = OFFICE_STATE_SNAPSHOT_SCHEMA_V1, sn_project_id = py_strip p, sn_run_id = py_strip r,
         sn_revision = 0, sn_workflow_state = ws, sn_approved_plan_ref = plan, sn_baseline_ref = base, sn_workflow_refs = [],
         sn_pending_approval_ref = [], sn_pending_manual_action_ref = [], sn_last_transition_digest = []\<rparr> = Inr s"
    and "st = write_snapshot s (st0\<lparr>os_journal := Some []\<rparr>)" "os_project_id st0 = py_strip p" "os_run_id st0 = py_strip r"
  using assms unfolding office_store_init_def safe_component_def office_initialize_def Let_def by (auto split: if_splits)

lemma initialize_load:
  assumes "office_store_init p r = Inr st0" "office_initialize st0 plan base ws = Inr (s, st)"
  shows "office_load st = Inr s" "sn_workflow_state s = ws" "sn_workflow_refs s = []"
proof -
  note init = initialize_Inr [OF assms]
  show "sn_workflow_state s = ws" "sn_workflow_refs s = []" by (simp_all add: snapshot_facts [OF init(1)])
  show "office_load st = Inr s"
    unfolding office_load_def read_snapshot_def read_journal_def init(2) write_snapshot_def
    using snapshot_from_to_dict [OF snapshot_init_idem [OF init(1)]] init(3,4)
    by (simp add: snapshot_facts [OF init(1)] del: json_norm.simps)
qed

lemma inv_init:
  assumes "office_store_init p r = Inr st0" "office_initialize st0 plan base ws = Inr (s, st)" "nel_free [p, r, plan, base]"
  shows "office_inv st s []"
proof -
  note init = initialize_Inr(1) [OF assms(1,2)] and st = initialize_Inr(2-) [OF assms(1,2)]
  have "no_nel (PyDict (snapshot_unsigned_dict s))"
    unfolding no_nel_snapshot using assms(3) states_no_nel [OF snapshot_init_strips(8) [OF init]]
    by (simp add: snapshot_facts [OF init] OFFICE_STATE_SNAPSHOT_SCHEMA_V1_def)
  then show ?thesis
    unfolding office_inv_def using snapshot_init_idem [OF init] st
    by (simp add: snapshot_facts [OF init] write_snapshot_def del: json_norm.simps no_nel.simps)
qed


section \<open>Runs\<close>

text \<open>The stores of a run: the initial one and what every later transition leaves behind, returning or raising, while no
  caller passes a text with a U+0085 in it.\<close>

inductive office_reach :: "office_store \<Rightarrow> bool" where
  start: "office_store_init p r = Inr st0 \<Longrightarrow> office_initialize st0 plan base ws = Inr (s, st) \<Longrightarrow> nel_free [p, r, plan, base] \<Longrightarrow>
    office_reach st"
| step: "office_reach st \<Longrightarrow> nel_free (transition_texts r refs pa pm) \<Longrightarrow> office_transition st w r refs pa pm = (res, st') \<Longrightarrow>
    office_reach st'"

lemma transition_cases:
  assumes inv: "office_inv st s lines" and nel: "nel_free (transition_texts r refs pa pm)"
  obtains (raises) e where "office_transition st w r refs pa pm = (Inl e, st)"
  | (returns) rec s' st' where "plan_transition st w r refs pa pm = Inr (rec, s')"
      "office_transition st w r refs pa pm = (Inr s', st')" "office_inv st' s' (lines @ [Some (json_norm (PyDict rec))])"
proof (cases "plan_transition st w r refs pa pm")
  case (Inl e)
  have "\<exists>e'. as_store_error (Inl e :: office_snapshot result) = Inl e'"
    by (metis as_store_error_Inr sum.exhaust Inl_Inr_False)
  with Inl show ?thesis by (auto simp: office_transition_def intro: raises)
next
  case (Inr plan)
  obtain rec s' where plan: "plan_transition st w r refs pa pm = Inr (rec, s')" using Inr by (cases plan) auto
  from inv_step [OF inv plan nel] have
    "as_store_error (office_load (write_snapshot s' (append_journal rec st))) = Inr s'" by (simp add: inv_load)
  with plan inv_step [OF inv plan nel] show ?thesis by (intro returns [OF plan]) (simp_all add: office_transition_def Let_def)
qed

lemma reach_inv: "office_reach st \<Longrightarrow> \<exists>s lines. office_inv st s lines"
proof (induction rule: office_reach.induct)
  case (start p r st0 plan base ws s st)
  then show ?case using inv_init by blast
next
  case (step st r refs pa pm w res st')
  then obtain s lines where "office_inv st s lines" by blast
  from this step.hyps(2) show ?case by (rule transition_cases [where w = w]) (use step in auto)
qed

text \<open>C11. In a run of the AI Office state store all of whose calls ran to their end with texts free of U+0085
  (\<open>office_reach\<close>), the snapshot and the journal agree, and the revision is the number of journal records. A further
  transition whose texts (the reason and what it sets of the references) contain no U+0085 either, and which is not
  interrupted, is all or nothing: it raises and leaves the store as it was, or it returns the snapshot that a later load gives,
  with the revision one higher, the requested state, the plan and baseline of the run unchanged, and one more record at the
  end of the journal. What happens without the two conditions is C38 (a call stopped between its two writes) and C39 (a
  reason with U+0085: both files are written and the call raises).\<close>

theorem office_transition_all_or_nothing:
  assumes "office_reach st" "nel_free (transition_texts reason_ref workflow_refs pending_approval_ref pending_manual_action_ref)"
  shows "\<exists>s lines. office_load st = Inr s \<and> os_journal st = Some lines \<and> sn_revision s = int (length lines) \<and>
     (case office_transition st to_state reason_ref workflow_refs pending_approval_ref pending_manual_action_ref of
        (Inl e, st') \<Rightarrow> st' = st
      | (Inr s', st') \<Rightarrow> office_load st' = Inr s' \<and> sn_revision s' = sn_revision s + 1 \<and> sn_workflow_state s' = to_state \<and>
          sn_approved_plan_ref s' = sn_approved_plan_ref s \<and> sn_baseline_ref s' = sn_baseline_ref s \<and>
          (\<exists>line. os_journal st' = Some (lines @ [line])))"
proof -
  obtain s lines where inv: "office_inv st s lines" using reach_inv [OF assms(1)] by blast
  have base: "office_load st = Inr s" "os_journal st = Some lines" "sn_revision s = int (length lines)" "snapshot_init s = Inr s"
    using inv inv_load [OF inv] by (simp_all add: office_inv_def)
  have "case office_transition st to_state reason_ref workflow_refs pending_approval_ref pending_manual_action_ref of
        (Inl e, st') \<Rightarrow> st' = st
      | (Inr s', st') \<Rightarrow> office_load st' = Inr s' \<and> sn_revision s' = sn_revision s + 1 \<and> sn_workflow_state s' = to_state \<and>
          sn_approved_plan_ref s' = sn_approved_plan_ref s \<and> sn_baseline_ref s' = sn_baseline_ref s \<and>
          (\<exists>line. os_journal st' = Some (lines @ [line]))"
    using inv assms(2)
  proof (cases rule: transition_cases [where w = to_state])
    case (returns rec s' st')
    obtain t d where t: "transition_init (next_transition st s to_state reason_ref) = Inr t"
      and s': "snapshot_init (next_snapshot st s to_state workflow_refs pending_approval_ref pending_manual_action_ref (transition_digest t)) = Inr s'"
      using plan_transition_Inr [OF inv returns(1)] .
    have "os_journal st' = Some (lines @ [Some (json_norm (PyDict rec))])" using returns(3) by (simp add: office_inv_def)
    with returns(2) inv_load [OF returns(3)] snapshot_init_strips(5,6) [OF base(4)] show ?thesis
      by (auto simp: snapshot_facts [OF s'] next_snapshot_def)
  qed simp
  with base show ?thesis by (intro exI conjI) simp_all
qed


text \<open>Arguments the constructors accept.\<close>

definition transition_args_ok :: "string \<Rightarrow> string \<Rightarrow> string list option \<Rightarrow> string option \<Rightarrow> string option \<Rightarrow> bool" where
  "transition_args_ok to_state reason_ref workflow_refs pending_approval_ref pending_manual_action_ref \<longleftrightarrow>
     to_state \<in> ALLOWED_WORKFLOW_STATES \<and>
     (let text_ok = (\<lambda>allow_empty r. \<not> isl (office_text 512 allow_empty r ''ref'')) in
      text_ok False reason_ref \<and>
      (case workflow_refs of None \<Rightarrow> True | Some rs \<Rightarrow> list_all (text_ok False) rs \<and> distinct (map py_strip rs)) \<and>
      (case pending_approval_ref of None \<Rightarrow> True | Some r \<Rightarrow> text_ok True r) \<and>
      (case pending_manual_action_ref of None \<Rightarrow> True | Some r \<Rightarrow> text_ok True r))"

lemma office_text_ok: "\<not> isl (office_text m ae r l) \<longleftrightarrow> office_text m ae r l' = Inr (py_strip r)"
  using office_text_Inr [of m ae r l "py_strip r"] office_text_Inr [of m ae r l' "py_strip r"] office_text_Inr [of m ae r l]
  by (cases "office_text m ae r l") auto

lemma office_digest_ok: "re_sha256 d \<Longrightarrow> office_digest_ref d l ae = Inr d"
proof -
  assume d: "re_sha256 d"
  then have "c \<notin> set d" if "\<not> lower_hex c" for c using that by (auto simp: re_sha256_def list_all_iff)
  then have "CHR 0x00 \<notin> set d" "CHR 0x0A \<notin> set d" "CHR 0x0D \<notin> set d" by (simp_all add: lower_hex_def)
  then have "office_text 64 ae d l = Inr d"
    unfolding office_text_Inr sha256_stripped [OF d] using d by (auto simp: re_sha256_def)
  with d show ?thesis by (simp add: office_digest_ref_def)
qed


lemma snapshot_init_fixed:
  assumes "snapshot_init s = Inr s"
  shows "office_identity (sn_project_id s) ''project_id'' = Inr (sn_project_id s)"
    "office_identity (sn_run_id s) ''run_id'' = Inr (sn_run_id s)" "0 \<le> sn_revision s"
    "sn_workflow_state s \<in> ALLOWED_WORKFLOW_STATES"
    "office_text 512 False (sn_approved_plan_ref s) ''approved_plan_ref'' = Inr (sn_approved_plan_ref s)"
    "office_text 512 False (sn_baseline_ref s) ''baseline_ref'' = Inr (sn_baseline_ref s)"
    "rmap (\<lambda>r. office_text 512 False r ''workflow_ref'') (sn_workflow_refs s) = Inr (sn_workflow_refs s)"
    "distinct (sn_workflow_refs s)"
    "office_text 512 True (sn_pending_approval_ref s) ''pending_approval_ref'' = Inr (sn_pending_approval_ref s)"
    "office_text 512 True (sn_pending_manual_action_ref s) ''pending_manual_action_ref'' = Inr (sn_pending_manual_action_ref s)"
    "office_digest_ref (sn_last_transition_digest s) l True = Inr (sn_last_transition_digest s)"
proof -
  obtain d where d: "office_digest_ref (sn_last_transition_digest s) ''last_transition_digest'' True = Inr d"
    using assms unfolding snapshot_init_def guard_eq_Inr rbind_eq_Inr by blast
  have "d = sn_last_transition_digest s"
    using assms d unfolding snapshot_init_def guard_eq_Inr rbind_eq_Inr
    by (elim conjE exE) (metis (no_types, lifting) office_snapshot.select_convs(11) office_snapshot.surjective office_snapshot.update_convs(11) sum.inject(2))
  then show "office_digest_ref (sn_last_transition_digest s) l True = Inr (sn_last_transition_digest s)"
    using office_digest_ref_idem [OF d] by simp
  show "office_identity (sn_project_id s) ''project_id'' = Inr (sn_project_id s)"
    "office_identity (sn_run_id s) ''run_id'' = Inr (sn_run_id s)" "0 \<le> sn_revision s"
    "sn_workflow_state s \<in> ALLOWED_WORKFLOW_STATES"
    "office_text 512 False (sn_approved_plan_ref s) ''approved_plan_ref'' = Inr (sn_approved_plan_ref s)"
    "office_text 512 False (sn_baseline_ref s) ''baseline_ref'' = Inr (sn_baseline_ref s)"
    "rmap (\<lambda>r. office_text 512 False r ''workflow_ref'') (sn_workflow_refs s) = Inr (sn_workflow_refs s)"
    "distinct (sn_workflow_refs s)"
    "office_text 512 True (sn_pending_approval_ref s) ''pending_approval_ref'' = Inr (sn_pending_approval_ref s)"
    "office_text 512 True (sn_pending_manual_action_ref s) ''pending_manual_action_ref'' = Inr (sn_pending_manual_action_ref s)"
    using assms unfolding snapshot_init_def guard_eq_Inr rbind_eq_Inr
    by (elim conjE exE; cases s; simp)+
qed

lemma plan_transition_ok:
  assumes inv: "office_inv st s lines" and ok: "transition_args_ok w r refs pa pm"
  shows "\<exists>rec s'. plan_transition st w r refs pa pm = Inr (rec, s')"
proof -
  have s: "snapshot_init s = Inr s" "sn_project_id s = os_project_id st" "sn_run_id s = os_run_id st"
    using inv by (simp_all add: office_inv_def)
  note fixed = snapshot_init_fixed [OF s(1), unfolded s(2,3)]
  have args: "w \<in> ALLOWED_WORKFLOW_STATES" "office_text 512 False r ''reason_ref'' = Inr (py_strip r)"
    using ok by (simp_all add: transition_args_ok_def Let_def office_text_ok [where l' = "''reason_ref''"])
  obtain refs' where refs: "rmap (\<lambda>r. office_text 512 False r ''workflow_ref'')
      (case refs of None \<Rightarrow> sn_workflow_refs s | Some rs \<Rightarrow> rs) = Inr refs'" "distinct refs'"
    using ok fixed(7,8) rmap_total [of _ "\<lambda>r. office_text 512 False r ''workflow_ref''" py_strip]
    by (cases refs) (auto simp: transition_args_ok_def Let_def office_text_ok [where l' = "''workflow_ref''"] list_all_iff)
  have pa: "\<exists>p. office_text 512 True (case pa of None \<Rightarrow> sn_pending_approval_ref s | Some x \<Rightarrow> x) ''pending_approval_ref'' = Inr p"
    using ok fixed(9) by (auto simp: transition_args_ok_def Let_def office_text_ok [where l' = "''pending_approval_ref''"] split: option.splits)
  have pm: "\<exists>p. office_text 512 True (case pm of None \<Rightarrow> sn_pending_manual_action_ref s | Some x \<Rightarrow> x) ''pending_manual_action_ref'' = Inr p"
    using ok fixed(10) by (auto simp: transition_args_ok_def Let_def office_text_ok [where l' = "''pending_manual_action_ref''"] split: option.splits)
  have t: "\<exists>t. transition_init (next_transition st s w r) = Inr t"
    using fixed args by (simp add: transition_init_def next_transition_def)
  have sn: "\<exists>s'. snapshot_init (next_snapshot st s w refs pa pm (transition_digest t)) = Inr s'" for t
    using fixed args refs pa pm by (auto simp: snapshot_init_def next_snapshot_def transition_digest_def office_digest_ok)
  obtain d where "read_journal st = Inr (if lines = [] then None else Some s, d)" using inv_journal [OF inv] .
  with t sn inv_load [OF inv] show ?thesis by (fastforce simp: plan_transition_def)
qed

text \<open>C20. While the store of a run is intact, a transition with acceptable arguments returns: an allowed state, non-empty
  references of at most 512 characters on one line, no duplicate workflow reference.\<close>

theorem office_transition_accepts:
  assumes "office_reach st" "transition_args_ok to_state reason_ref workflow_refs pending_approval_ref pending_manual_action_ref"
    and "nel_free (transition_texts reason_ref workflow_refs pending_approval_ref pending_manual_action_ref)"
  shows "\<exists>s st'. office_transition st to_state reason_ref workflow_refs pending_approval_ref pending_manual_action_ref = (Inr s, st') \<and>
     office_reach st'"
proof -
  obtain s lines where inv: "office_inv st s lines" using reach_inv [OF assms(1)] by blast
  obtain rec s' where plan: "plan_transition st to_state reason_ref workflow_refs pending_approval_ref pending_manual_action_ref = Inr (rec, s')"
    using plan_transition_ok [OF inv assms(2)] by blast
  have "as_store_error (office_load (write_snapshot s' (append_journal rec st))) = Inr s'"
    using inv_load [OF inv_step [OF inv plan assms(3)]] by simp
  then have "office_transition st to_state reason_ref workflow_refs pending_approval_ref pending_manual_action_ref =
      (Inr s', write_snapshot s' (append_journal rec st))" using plan by (simp add: office_transition_def Let_def)
  with office_reach.step [OF assms(1,3)] show ?thesis by blast
qed

section \<open>Stores that cannot be loaded any more\<close>

lemma unloadable_transition:
  assumes "office_load st = Inl (AIOfficeStateStoreError m)"
  shows "office_transition st w r refs pa pm = (Inl (AIOfficeStateStoreError m), st)"
  by (simp add: office_transition_def plan_transition_def assms as_store_error_def)

text \<open>C38. A transition appends to the journal first and replaces the snapshot second. When the process stops in between, the
  journal is one record ahead: loading raises, and so does every later transition, which leaves the store as it is. No
  operation of the store repairs it.\<close>

theorem interrupted_transition_is_final:
  assumes "office_reach st" "nel_free (transition_texts reason_ref workflow_refs pending_approval_ref pending_manual_action_ref)"
    and "plan_transition st to_state reason_ref workflow_refs pending_approval_ref pending_manual_action_ref = Inr (record, s')"
  shows "office_load (append_journal record st) = Inl (AIOfficeStateStoreError ''snapshot/journal final-state mismatch'') \<and>
     office_transition (append_journal record st) w r refs pa pm =
       (Inl (AIOfficeStateStoreError ''snapshot/journal final-state mismatch''), append_journal record st)"
proof -
  obtain s lines where inv: "office_inv st s lines" using reach_inv [OF assms(1)] by blast
  let ?st = "append_journal record st" and ?st' = "write_snapshot s' (append_journal record st)"
  have inv': "office_inv ?st' s' (lines @ [Some (json_norm (PyDict record))])" by (rule inv_step [OF inv assms(3,2)])
  obtain d where "read_journal ?st' = Inr (if lines @ [Some (json_norm (PyDict record))] = [] then None else Some s', d)"
    using inv_journal [OF inv'] .
  moreover have "read_record ?st = read_record ?st'" "os_journal ?st = os_journal ?st'"
    by (rule read_record_cong) (simp_all add: write_snapshot_def append_journal_def)
  then have "read_journal ?st = read_journal ?st'" by (simp only: read_journal_def)
  ultimately have j: "read_journal ?st = Inr (Some s', d)" by simp
  have "read_snapshot ?st = Inr s"
    using inv by (simp add: office_inv_def read_snapshot_def append_journal_def snapshot_from_to_dict del: json_norm.simps no_nel.simps)
  moreover have "sn_revision s \<noteq> sn_revision s'" using inv inv' by (simp add: office_inv_def)
  ultimately have "office_load ?st = Inl (AIOfficeStateStoreError ''snapshot/journal final-state mismatch'')"
    using j snapshot_to_dict_inj [of s s'] by (auto simp: office_load_def)
  with unloadable_transition [OF this] show ?thesis by blast
qed

text \<open>C39. A reason reference with U+0085 inside it passes every check of a transition, but its journal record is read as
  more than one line: the transition raises after it has written both files, and from then on loading the run and every
  transition of it raise.\<close>

theorem next_line_reference_breaks_run:
  assumes "office_reach st" "CHR 0x85 \<in> set (py_strip reason_ref)"
    and "plan_transition st to_state reason_ref workflow_refs pending_approval_ref pending_manual_action_ref = Inr (record, s')"
    and "office_transition st to_state reason_ref workflow_refs pending_approval_ref pending_manual_action_ref = (res, st')"
  shows "res = Inl (AIOfficeStateStoreError ''state journal corrupt'') \<and>
     office_load st' = Inl (AIOfficeStateStoreError ''state journal corrupt'') \<and>
     office_transition st' w r refs pa pm = (Inl (AIOfficeStateStoreError ''state journal corrupt''), st')"
proof -
  obtain s lines where inv: "office_inv st s lines" using reach_inv [OF assms(1)] by blast
  obtain t d where t: "transition_init (next_transition st s to_state reason_ref) = Inr t"
    and s': "snapshot_init (next_snapshot st s to_state workflow_refs pending_approval_ref pending_manual_action_ref (transition_digest t)) = Inr s'"
    and r: "record = journal_record t s' d"
    and d: "rfold (read_record st) (1, None, []) lines = Inr (1 + int (length lines), if lines = [] then None else Some s, d)"
    using plan_transition_Inr [OF inv assms(3)] .
  have st': "st' = write_snapshot s' (append_journal record st)" "res = as_store_error (office_load st')"
    using assms(3,4) by (auto simp: office_transition_def Let_def)
  have "(''reason_ref'', PyStr (py_strip reason_ref)) \<in> set (transition_to_dict t)"
    by (simp add: transition_to_dict_def transition_unsigned_dict_def transition_facts [OF t] next_transition_def)
  from nel_dict_in [OF this] assms(2) have "CHR 0x85 \<in> set (dumps (PyDict (transition_to_dict t)))" by (simp add: nel_json_str_in)
  then have nel: "CHR 0x85 \<in> set (dumps (PyDict record))"
    by (intro nel_dict_in [of "''transition''"]) (simp_all add: r journal_record_def Let_def del: dumps.simps)
  have ids: "sn_project_id s' = os_project_id st" "sn_run_id s' = os_run_id st"
    using snapshot_init_strips(1,2) [of s s] inv by (simp_all add: office_inv_def snapshot_facts [OF s'] next_snapshot_def)
  have snap: "read_snapshot st' = Inr s'"
    using ids by (simp add: st' read_snapshot_def write_snapshot_def append_journal_def
        snapshot_from_to_dict [OF snapshot_init_idem [OF s']] del: json_norm.simps)
  have j: "os_journal st' = Some (lines @ [None])"
    using inv nel by (simp add: st' write_snapshot_def append_journal_def journal_line_def office_inv_def del: dumps.simps)
  have rd: "read_record st' = read_record st" by (rule read_record_cong) (simp_all add: st' write_snapshot_def append_journal_def)
  have "read_journal st' = Inl (AIOfficeStateStoreError ''state journal corrupt'')"
    unfolding read_journal_def j rd option.case rfold_append d by (simp add: read_record_def)
  with snap have load: "office_load st' = Inl (AIOfficeStateStoreError ''state journal corrupt'')" by (simp add: office_load_def)
  then show ?thesis using unloadable_transition [OF load] by (simp add: st'(2) as_store_error_def)
qed

section \<open>The digest chain\<close>

text \<open>What the digest of a journal line is taken over.\<close>

definition line_content :: "pyval option \<Rightarrow> pyval" where
  "line_content raw = (case raw of Some (PyDict d) \<Rightarrow> PyDict (journal_unsigned d) | _ \<Rightarrow> PyNone)"

lemma read_record_Inr:
  assumes "read_record st (i, p, d) raw = Inr (i', p', d')"
  obtains r where "raw = Some (PyDict r)" "d' = digest (line_content raw)" "py_str (py_get_or PyNone r ''previous_record_digest'') = d"
  using assms by (auto simp: read_record_def line_content_def Let_def split: option.splits pyval.splits prod.splits sum.splits if_splits)

text \<open>A digest field that reads as a digest, or as the empty text, is determined by its JSON content.\<close>

lemma py_str_norm:
  assumes "json_norm v = json_norm w" "list_all lower_hex (py_str v)" "list_all lower_hex (py_str w)"
  shows "py_str v = py_str w"
  using assms by (cases v; cases w) (auto simp: py_str_def lower_hex_def)

lemma get_unsigned: "k \<noteq> ''record_digest'' \<Longrightarrow> py_get_or v (journal_unsigned r) k = py_get_or v r k"
proof -
  assume k: "k \<noteq> ''record_digest''"
  have "map_of (journal_unsigned r) k = map_of r k"
    unfolding journal_unsigned_def by (induction r) (use k in auto)
  then show ?thesis by (simp only: py_get_or_def)
qed

lemma content_previous:
  assumes "json_norm (line_content (Some (PyDict r))) = json_norm (line_content (Some (PyDict r')))"
  shows "json_norm (py_get_or PyNone r ''previous_record_digest'') = json_norm (py_get_or PyNone r' ''previous_record_digest'')"
proof -
  have "json_read (journal_unsigned r) = json_read (journal_unsigned r')"
    using assms by (simp only: line_content_def option.case pyval.case json_norm_read pyval.inject)
  then have "py_get_or PyNone (json_read (journal_unsigned r)) ''previous_record_digest'' =
      py_get_or PyNone (json_read (journal_unsigned r')) ''previous_record_digest''" by simp
  then show ?thesis by (simp add: get_or_json_read get_unsigned)
qed

abbreviation chain_collision :: "pyval option list \<Rightarrow> pyval option list \<Rightarrow> bool" where
  "chain_collision ls ls' \<equiv> \<exists>k < min (length ls) (length ls').
     sha_collision (canonical_bytes (line_content (rev ls ! k))) (canonical_bytes (line_content (rev ls' ! k)))"

interpretation office_journal: digest_chain read_record "(1, None, []) :: journal_state" "\<lambda>js. snd (snd js)" line_content
proof (unfold_locales, goal_cases)
  case 1
  show ?case by simp
next
  case (2 st js l js')
  then show ?case by (cases js; cases js') (auto elim: read_record_Inr)
next
  case (3 st js l js' st' ks m ks')
  obtain i p d i' p' d' where js: "js = (i, p, d)" "js' = (i', p', d')" by (cases js; cases js')
  obtain j q e j' q' e' where ks: "ks = (j, q, e)" "ks' = (j', q', e')" by (cases ks; cases ks')
  obtain r where r: "l = Some (PyDict r)" "py_str (py_get_or PyNone r ''previous_record_digest'') = d"
    using read_record_Inr 3(1) unfolding js by metis
  obtain r' where r': "m = Some (PyDict r')" "py_str (py_get_or PyNone r' ''previous_record_digest'') = e"
    using read_record_Inr 3(2) unfolding ks by metis
  have "json_norm (py_get_or PyNone r ''previous_record_digest'') = json_norm (py_get_or PyNone r' ''previous_record_digest'')"
    by (rule content_previous) (use 3(3) in \<open>simp only: r(1) r'(1)\<close>)
  from py_str_norm [OF this] 3(4,5) r(2) r'(2) show ?case unfolding js ks by simp
qed

text \<open>C12. The journal is a digest chain: two journals that read without error and end in the same record digest have the same
  content line by line, or two of their lines exhibit a collision of SHA-256.\<close>

theorem journal_tamper_evident:
  assumes "os_journal st = Some ls" "os_journal st' = Some ls'" "read_journal st = Inr (s, d)" "read_journal st' = Inr (s', d)"
  shows "map (\<lambda>l. json_norm (line_content l)) ls = map (\<lambda>l. json_norm (line_content l)) ls' \<or> chain_collision ls ls'"
proof -
  obtain i i' where "rfold (read_record st) (1, None, []) ls = Inr (i, s, d)" "rfold (read_record st') (1, None, []) ls' = Inr (i', s', d)"
    using assms by (auto simp: read_journal_def)
  from office_journal.chain_determined [OF this] show ?thesis by simp
qed


section \<open>A run\<close>

definition ex_office :: office_store where
  "ex_office = write_snapshot
     \<lparr>sn_schema_version = OFFICE_STATE_SNAPSHOT_SCHEMA_V1, sn_project_id = ''p1'', sn_run_id = ''r1'', sn_revision = 0,
      sn_workflow_state = ''NEW'', sn_approved_plan_ref = ''plan'', sn_baseline_ref = ''base'', sn_workflow_refs = [],
      sn_pending_approval_ref = [], sn_pending_manual_action_ref = [], sn_last_transition_digest = []\<rparr>
     \<lparr>os_project_id = ''p1'', os_run_id = ''r1'', os_snapshot = None, os_journal = Some []\<rparr>"

lemma ex_office_init:
  "office_store_init ''p1'' ''r1'' = Inr \<lparr>os_project_id = ''p1'', os_run_id = ''r1'', os_snapshot = None, os_journal = None\<rparr>"
  "office_initialize \<lparr>os_project_id = ''p1'', os_run_id = ''r1'', os_snapshot = None, os_journal = None\<rparr> ''plan'' ''base'' ''NEW'' =
     Inr (\<lparr>sn_schema_version = OFFICE_STATE_SNAPSHOT_SCHEMA_V1, sn_project_id = ''p1'', sn_run_id = ''r1'', sn_revision = 0,
      sn_workflow_state = ''NEW'', sn_approved_plan_ref = ''plan'', sn_baseline_ref = ''base'', sn_workflow_refs = [],
      sn_pending_approval_ref = [], sn_pending_manual_action_ref = [], sn_last_transition_digest = []\<rparr>, ex_office)"
proof -
  have [simp]: "py_strip ''p1'' = ''p1''" "py_strip ''r1'' = ''r1''" "py_strip ''plan'' = ''plan''" "py_strip ''base'' = ''base''"
    by (simp_all add: py_strip_def py_isspace_def)
  show "office_store_init ''p1'' ''r1'' = Inr \<lparr>os_project_id = ''p1'', os_run_id = ''r1'', os_snapshot = None, os_journal = None\<rparr>"
    by (simp add: office_store_init_def safe_component_def py_startswith_def)
  show "office_initialize \<lparr>os_project_id = ''p1'', os_run_id = ''r1'', os_snapshot = None, os_journal = None\<rparr> ''plan'' ''base'' ''NEW'' =
     Inr (\<lparr>sn_schema_version = OFFICE_STATE_SNAPSHOT_SCHEMA_V1, sn_project_id = ''p1'', sn_run_id = ''r1'', sn_revision = 0,
      sn_workflow_state = ''NEW'', sn_approved_plan_ref = ''plan'', sn_baseline_ref = ''base'', sn_workflow_refs = [],
      sn_pending_approval_ref = [], sn_pending_manual_action_ref = [], sn_last_transition_digest = []\<rparr>, ex_office)"
    by (simp add: office_initialize_def snapshot_init_def office_identity_def office_text_def office_digest_ref_def
        py_startswith_def ALLOWED_WORKFLOW_STATES_def as_store_error_def ex_office_def)
qed

lemma ex_office_reach: "office_reach ex_office"
  by (rule office_reach.start [OF ex_office_init]) simp

lemma ex_office_inv: "\<exists>s lines. office_inv ex_office s lines"
  by (rule reach_inv [OF ex_office_reach])

lemma ex_args_ok: "transition_args_ok ''INTAKE_READY'' ''go'' (Some [''ref'']) None None"
  "transition_args_ok ''INTAKE_READY'' [CHR ''a'', CHR 0x85, CHR ''b''] None None None"
  by (simp_all add: transition_args_ok_def ALLOWED_WORKFLOW_STATES_def office_text_def py_strip_def py_isspace_def)

lemma ex_texts: "nel_free (transition_texts ''go'' (Some [''ref'']) None None)"
  by (simp add: transition_texts_def)

theorem office_transition_all_or_nothing_witness:
  "office_reach ex_office \<and>
   (\<exists>s lines. office_load ex_office = Inr s \<and> os_journal ex_office = Some lines \<and> sn_revision s = int (length lines) \<and>
     (case office_transition ex_office ''INTAKE_READY'' ''go'' (Some [''ref'']) None None of
        (Inl e, st') \<Rightarrow> st' = ex_office
      | (Inr s', st') \<Rightarrow> office_load st' = Inr s' \<and> sn_revision s' = sn_revision s + 1 \<and> sn_workflow_state s' = ''INTAKE_READY'' \<and>
          sn_approved_plan_ref s' = sn_approved_plan_ref s \<and> sn_baseline_ref s' = sn_baseline_ref s \<and>
          (\<exists>line. os_journal st' = Some (lines @ [line]))))"
  using office_transition_all_or_nothing [OF ex_office_reach ex_texts] ex_office_reach by blast

theorem office_transition_accepts_witness:
  "\<exists>s st'. office_transition ex_office ''INTAKE_READY'' ''go'' (Some [''ref'']) None None = (Inr s, st') \<and> office_reach st'"
  by (rule office_transition_accepts [OF ex_office_reach ex_args_ok(1) ex_texts])

theorem interrupted_transition_is_final_witness:
  "\<exists>rec s'. plan_transition ex_office ''INTAKE_READY'' ''go'' (Some [''ref'']) None None = Inr (rec, s') \<and>
     office_transition (append_journal rec ex_office) ''INTAKE_READY'' ''go'' None None None =
       (Inl (AIOfficeStateStoreError ''snapshot/journal final-state mismatch''), append_journal rec ex_office)"
  using plan_transition_ok [OF _ ex_args_ok(1)] ex_office_inv interrupted_transition_is_final [OF ex_office_reach ex_texts] by blast

theorem next_line_reference_breaks_run_witness:
  "\<exists>rec s' res st'. plan_transition ex_office ''INTAKE_READY'' [CHR ''a'', CHR 0x85, CHR ''b''] None None None = Inr (rec, s') \<and>
     office_transition ex_office ''INTAKE_READY'' [CHR ''a'', CHR 0x85, CHR ''b''] None None None = (res, st') \<and>
     office_load st' = Inl (AIOfficeStateStoreError ''state journal corrupt'')"
proof -
  have nel: "CHR 0x85 \<in> set (py_strip [CHR ''a'', CHR 0x85, CHR ''b''])" by (simp add: py_strip_def py_isspace_def)
  obtain rec s' where plan: "plan_transition ex_office ''INTAKE_READY'' [CHR ''a'', CHR 0x85, CHR ''b''] None None None = Inr (rec, s')"
    using plan_transition_ok [OF _ ex_args_ok(2)] ex_office_inv by blast
  obtain res st' where st': "office_transition ex_office ''INTAKE_READY'' [CHR ''a'', CHR 0x85, CHR ''b''] None None None = (res, st')"
    by (cases "office_transition ex_office ''INTAKE_READY'' [CHR ''a'', CHR 0x85, CHR ''b''] None None None")
  from next_line_reference_breaks_run [OF ex_office_reach nel plan st'] plan st' show ?thesis by blast
qed

theorem journal_tamper_evident_witness:
  "\<exists>st s d ls. os_journal st = Some ls \<and> ls \<noteq> [] \<and> read_journal st = Inr (s, d) \<and>
     (map (\<lambda>l. json_norm (line_content l)) ls = map (\<lambda>l. json_norm (line_content l)) ls \<or> chain_collision ls ls)"
proof -
  obtain s lines where inv: "office_inv ex_office s lines" using ex_office_inv by blast
  obtain rec s' where plan: "plan_transition ex_office ''INTAKE_READY'' ''go'' (Some [''ref'']) None None = Inr (rec, s')"
    using plan_transition_ok [OF inv ex_args_ok(1)] by blast
  define st where "st = write_snapshot s' (append_journal rec ex_office)"
  have inv': "office_inv st s' (lines @ [Some (json_norm (PyDict rec))])" unfolding st_def by (rule inv_step [OF inv plan ex_texts])
  obtain d where d: "read_journal st = Inr (if lines @ [Some (json_norm (PyDict rec))] = [] then None else Some s', d)"
    using inv_journal [OF inv'] .
  have j: "os_journal st = Some (lines @ [Some (json_norm (PyDict rec))])" using inv' by (simp add: office_inv_def)
  from journal_tamper_evident [OF j j d d] j d show ?thesis by blast
qed

end
