(* ===== verification/Office_Workflow.thy ===== *)
theory Office_Workflow
  imports Office_Run "HOL-Library.Sublist"
begin

text \<open>
  The workflow of an AI Office run, \<open>src/runtime/ai_office/workflow.py\<close>: the table of declared transitions, the contract
  objects and the coordinator that drives the state store. The coordinator works on the store of the run, whose state it
  returns whether it finishes or raises.
\<close>

section \<open>The transition table\<close>

definition TRANSITIONS :: "(string \<times> (string \<times> string) list) list" where
  "TRANSITIONS =
     [(''NEW'', [(''REQUIREMENT_ACCEPTED'', ''INTAKE_READY'')]),
      (''INTAKE_READY'', [(''CONTEXT_ASSEMBLED'', ''CONTEXT_READY'')]),
      (''CONTEXT_READY'', [(''FULL_PLAN_HANDOFF_REFERENCED'', ''PLAN_COORDINATED'')]),
      (''PLAN_COORDINATED'', [(''GOVERNANCE_READY'', ''EXECUTION_PENDING''), (''APPROVAL_REQUIRED'', ''WAITING_APPROVAL'')]),
      (''EXECUTION_PENDING'', [(''STATE_CHANGE_UNAVAILABLE'', ''WAITING_STATE_CHANGE_AUTHORITY''),
         (''EXECUTION_ACCEPTED'', ''EXECUTION_IN_PROGRESS'')]),
      (''WAITING_STATE_CHANGE_AUTHORITY'', [(''STATE_CHANGE_AUTHORITY_READY'', ''EXECUTION_PENDING'')]),
      (''EXECUTION_IN_PROGRESS'', [(''RESULT_REFS_COMPLETE'', ''REVIEW_PENDING''), (''RECOVERY_REQUIRED'', ''RECOVERY_COORDINATION'')]),
      (''RECOVERY_COORDINATION'', [(''RECOVERY_REVIEWED'', ''REVIEW_PENDING'')]),
      (''REVIEW_PENDING'', [(''GATE_GO_REFERENCED'', ''COMPLETE'')])]"

definition next_state :: "string \<Rightarrow> string \<Rightarrow> string result" where
  "next_state current_state event =
     (case py_get (py_get_or [] TRANSITIONS current_state) event of
        None \<Rightarrow> Inl (WorkflowContractError ''undeclared workflow transition'')
      | Some target \<Rightarrow>
          if target = [] then Inl (WorkflowContractError ''undeclared workflow transition'') else Inr target)"

section \<open>Contract objects\<close>

definition workflow_text :: "string \<Rightarrow> string \<Rightarrow> string result" where
  "workflow_text value label =
     (if py_strip value = [] \<or> 512 < length (py_strip value) then Inl (WorkflowContractError (''invalid '' @ label))
      else Inr (py_strip value))"

definition workflow_digest_text :: "string \<Rightarrow> string \<Rightarrow> string result" where
  "workflow_digest_text v label =
     rbind (workflow_text v label) (\<lambda>value.
     if length value \<noteq> 64 \<or> list_ex (\<lambda>ch. ch \<notin> set ''0123456789abcdef'') value
     then Inl (WorkflowContractError (''invalid '' @ label)) else Inr value)"

record full_plan_completion =
  fc_full_plan_run_id :: string
  fc_gate_id :: string
  fc_gate_ref :: string
  fc_gate_digest :: string
  fc_fanin_ref :: string
  fc_fanin_digest :: string

definition completion_init :: "full_plan_completion \<Rightarrow> full_plan_completion result" where
  "completion_init c =
     rbind (workflow_text (fc_full_plan_run_id c) ''full_plan_run_id'') (\<lambda>run.
     rbind (workflow_text (fc_gate_id c) ''gate_id'') (\<lambda>gate_id.
     rbind (workflow_text (fc_gate_ref c) ''gate_ref'') (\<lambda>gate_ref.
     rbind (workflow_text (fc_fanin_ref c) ''fanin_ref'') (\<lambda>fanin_ref.
     rbind (workflow_digest_text (fc_gate_digest c) ''gate_digest'') (\<lambda>gate_digest.
     rbind (workflow_digest_text (fc_fanin_digest c) ''fanin_digest'') (\<lambda>fanin_digest.
     Inr \<lparr>fc_full_plan_run_id = run, fc_gate_id = gate_id, fc_gate_ref = gate_ref, fc_gate_digest = gate_digest,
          fc_fanin_ref = fanin_ref, fc_fanin_digest = fanin_digest\<rparr>))))))"

definition completion_digest :: "full_plan_completion \<Rightarrow> string" where
  "completion_digest c = digest (PyDict
     [(''full_plan_run_id'', PyStr (fc_full_plan_run_id c)), (''gate_id'', PyStr (fc_gate_id c)),
      (''gate_ref'', PyStr (fc_gate_ref c)), (''gate_digest'', PyStr (fc_gate_digest c)),
      (''fanin_ref'', PyStr (fc_fanin_ref c)), (''fanin_digest'', PyStr (fc_fanin_digest c))])"

definition OFFICE_REGISTRY_SCHEMA_V1 :: string where "OFFICE_REGISTRY_SCHEMA_V1 = ''ai-office.office-registry.v1''"
definition OFFICE_RUN_SCHEMA_V1 :: string where "OFFICE_RUN_SCHEMA_V1 = ''ai-office.office-run.v1''"
definition WORKFLOW_ITEM_SCHEMA_V1 :: string where "WORKFLOW_ITEM_SCHEMA_V1 = ''ai-office.workflow-item.v1''"

record office_registry =
  or_schema_version :: string
  or_office_id :: string
  or_department_ids :: "string list"
  or_registry_ref :: string

definition office_registry_init :: "office_registry \<Rightarrow> office_registry result" where
  "office_registry_init r =
     (if or_schema_version r \<noteq> OFFICE_REGISTRY_SCHEMA_V1 then Inl (WorkflowContractError ''unsupported office registry schema'')
      else
      rbind (workflow_text (or_office_id r) ''office_id'') (\<lambda>office_id.
      rbind (rmap (\<lambda>item. workflow_text item ''department_id'') (or_department_ids r)) (\<lambda>departments.
      if departments = [] \<or> \<not> distinct departments then Inl (WorkflowContractError ''invalid department registry'')
      else
      rbind (workflow_text (or_registry_ref r) ''registry_ref'') (\<lambda>ref.
      Inr (r\<lparr>or_office_id := office_id, or_department_ids := departments, or_registry_ref := ref\<rparr>)))))"

definition registry_digest :: "office_registry \<Rightarrow> string" where
  "registry_digest r = digest (PyDict
     [(''schema_version'', PyStr (or_schema_version r)), (''office_id'', PyStr (or_office_id r)),
      (''department_ids'', PyTuple (map PyStr (or_department_ids r))), (''registry_ref'', PyStr (or_registry_ref r))])"

record office_run =
  rn_schema_version :: string
  rn_office_id :: string
  rn_department_id :: string
  rn_run_id :: string
  rn_schedule_ref :: string
  rn_workflow_state :: string
  rn_revision :: int
  rn_external_full_plan_assignment_ref :: string
  rn_external_fanin_ref :: string

text \<open>\<open>if self.field: field = _text(self.field)\<close>.\<close>

definition optional_text :: "string \<Rightarrow> string \<Rightarrow> string result" where
  "optional_text value label = (if value = [] then Inr [] else workflow_text value label)"

definition office_run_init :: "office_run \<Rightarrow> office_run result" where
  "office_run_init r =
     (if rn_schema_version r \<noteq> OFFICE_RUN_SCHEMA_V1 then Inl (WorkflowContractError ''unsupported office run schema'')
      else
      rbind (workflow_text (rn_office_id r) ''office_id'') (\<lambda>office_id.
      rbind (workflow_text (rn_department_id r) ''department_id'') (\<lambda>department_id.
      rbind (workflow_text (rn_run_id r) ''run_id'') (\<lambda>run_id.
      rbind (workflow_text (rn_schedule_ref r) ''schedule_ref'') (\<lambda>schedule_ref.
      rbind (workflow_text (rn_workflow_state r) ''workflow_state'') (\<lambda>workflow_state.
      if rn_revision r < 0 then Inl (WorkflowContractError ''invalid run revision'')
      else
      rbind (optional_text (rn_external_full_plan_assignment_ref r) ''external_full_plan_assignment_ref'') (\<lambda>assignment.
      rbind (optional_text (rn_external_fanin_ref r) ''external_fanin_ref'') (\<lambda>fanin.
      Inr (r\<lparr>rn_office_id := office_id, rn_department_id := department_id, rn_run_id := run_id, rn_schedule_ref := schedule_ref,
             rn_workflow_state := workflow_state, rn_external_full_plan_assignment_ref := assignment,
             rn_external_fanin_ref := fanin\<rparr>)))))))))"

definition run_digest :: "office_run \<Rightarrow> string" where
  "run_digest r = digest (PyDict
     [(''schema_version'', PyStr (rn_schema_version r)), (''office_id'', PyStr (rn_office_id r)),
      (''department_id'', PyStr (rn_department_id r)), (''run_id'', PyStr (rn_run_id r)),
      (''schedule_ref'', PyStr (rn_schedule_ref r)), (''workflow_state'', PyStr (rn_workflow_state r)),
      (''revision'', PyInt (rn_revision r)),
      (''external_full_plan_assignment_ref'', PyStr (rn_external_full_plan_assignment_ref r)),
      (''external_fanin_ref'', PyStr (rn_external_fanin_ref r))])"

record workflow_item =
  wi_schema_version :: string
  wi_workflow_item_id :: string
  wi_requirement_digest :: string
  wi_context_digest :: string
  wi_workflow_state :: string
  wi_revision :: int
  wi_external_assignment_ref :: string

definition workflow_item_init :: "workflow_item \<Rightarrow> workflow_item result" where
  "workflow_item_init w =
     (if wi_schema_version w \<noteq> WORKFLOW_ITEM_SCHEMA_V1 then Inl (WorkflowContractError ''unsupported workflow item schema'')
      else
      rbind (workflow_text (wi_workflow_item_id w) ''workflow_item_id'') (\<lambda>item_id.
      rbind (workflow_text (wi_requirement_digest w) ''requirement_digest'') (\<lambda>requirement.
      rbind (workflow_text (wi_context_digest w) ''context_digest'') (\<lambda>ctxt.
      rbind (workflow_text (wi_workflow_state w) ''workflow_state'') (\<lambda>state.
      if wi_revision w < 0 then Inl (WorkflowContractError ''invalid workflow revision'')
      else
      rbind (optional_text (wi_external_assignment_ref w) ''external_assignment_ref'') (\<lambda>assignment.
      Inr (w\<lparr>wi_workflow_item_id := item_id, wi_requirement_digest := requirement, wi_context_digest := ctxt,
             wi_workflow_state := state, wi_external_assignment_ref := assignment\<rparr>)))))))"

definition workflow_digest :: "workflow_item \<Rightarrow> string" where
  "workflow_digest w = digest (PyDict
     [(''schema_version'', PyStr (wi_schema_version w)), (''workflow_item_id'', PyStr (wi_workflow_item_id w)),
      (''requirement_digest'', PyStr (wi_requirement_digest w)), (''context_digest'', PyStr (wi_context_digest w)),
      (''workflow_state'', PyStr (wi_workflow_state w)), (''revision'', PyInt (wi_revision w)),
      (''external_assignment_ref'', PyStr (wi_external_assignment_ref w))])"

section \<open>The coordinator\<close>

record workflow_coordinator =
  co_office_id :: string
  co_department_id :: string
  co_schedule_ref :: string

definition coordinator_init :: "string \<Rightarrow> string \<Rightarrow> string \<Rightarrow> workflow_coordinator result" where
  "coordinator_init office_id department_id schedule_ref =
     rbind (workflow_text office_id ''office_id'') (\<lambda>o_id.
     rbind (workflow_text department_id ''department_id'') (\<lambda>d_id.
     rbind (workflow_text schedule_ref ''schedule_ref'') (\<lambda>sched.
     Inr \<lparr>co_office_id = o_id, co_department_id = d_id, co_schedule_ref = sched\<rparr>)))"

definition assignment_prefix :: string where "assignment_prefix = ''full-plan-assignment:''"
definition gate_prefix :: string where "gate_prefix = ''full-plan-gate:''"
definition fanin_prefix :: string where "fanin_prefix = ''full-plan-fanin:''"
definition completion_prefix :: string where "completion_prefix = ''full-plan-completion:''"

text \<open>The references of the next snapshot. \<open>full_plan_completion\<close> is a constructed object.\<close>

definition coordinator_refs ::
  "office_snapshot \<Rightarrow> string \<Rightarrow> string \<Rightarrow> full_plan_completion option \<Rightarrow> string list result" where
  "coordinator_refs current event external_assignment_ref completion =
     rbind
      (if external_assignment_ref = [] then Inr (sn_workflow_refs current)
       else if event \<noteq> ''FULL_PLAN_HANDOFF_REFERENCED''
       then Inl (WorkflowContractError ''assignment ref is accepted only at Full Plan handoff'')
       else rbind (workflow_text external_assignment_ref ''external_assignment_ref'') (\<lambda>ref.
         Inr (fromkeys (sn_workflow_refs current @ [assignment_prefix @ ref])))) (\<lambda>refs.
     if event = ''GATE_GO_REFERENCED'' then
       (case completion of
          None \<Rightarrow> Inl (WorkflowContractError ''FULL_PLAN_COMPLETION_BINDING_MISMATCH'')
        | Some c \<Rightarrow> Inr (fromkeys (refs @ [gate_prefix @ fc_gate_ref c, fanin_prefix @ fc_fanin_ref c,
            completion_prefix @ completion_digest c])))
     else if completion \<noteq> None then Inl (WorkflowContractError ''Full Plan completion ref is accepted only at Gate GO'')
     else Inr refs)"

text \<open>\<open>[ref.split(":", 1)[1] for ref in refs if ref.startswith(prefix)]\<close>, the last of them or the empty text.\<close>

definition after_colon :: "string \<Rightarrow> string" where
  "after_colon ref = drop 1 (dropWhile (\<lambda>c. c \<noteq> CHR '':'') ref)"

definition last_ref :: "string \<Rightarrow> string list \<Rightarrow> string" where
  "last_ref pre refs =
     (let found = map after_colon (filter (\<lambda>ref. py_startswith ref pre) refs) in if found = [] then [] else last found)"

definition coordinator_run :: "workflow_coordinator \<Rightarrow> office_snapshot \<Rightarrow> office_run result" where
  "coordinator_run co updated = office_run_init
     \<lparr>rn_schema_version = OFFICE_RUN_SCHEMA_V1, rn_office_id = co_office_id co, rn_department_id = co_department_id co,
      rn_run_id = sn_run_id updated, rn_schedule_ref = co_schedule_ref co, rn_workflow_state = sn_workflow_state updated,
      rn_revision = sn_revision updated,
      rn_external_full_plan_assignment_ref = last_ref assignment_prefix (sn_workflow_refs updated),
      rn_external_fanin_ref = last_ref fanin_prefix (sn_workflow_refs updated)\<rparr>"

definition coordinator_transition ::
  "workflow_coordinator \<Rightarrow> office_store \<Rightarrow> string \<Rightarrow> string \<Rightarrow> string \<Rightarrow> full_plan_completion option \<Rightarrow>
   office_run result \<times> office_store" where
  "coordinator_transition co st event reason_ref external_assignment_ref completion =
     (case rbind (office_load st) (\<lambda>current.
           rbind (next_state (sn_workflow_state current) event) (\<lambda>target.
           rbind (coordinator_refs current event external_assignment_ref completion) (\<lambda>refs. Inr (target, refs)))) of
        Inl e \<Rightarrow> (Inl e, st)
      | Inr (target, refs) \<Rightarrow>
          (case office_transition st target reason_ref (Some refs) None None of
             (Inl e, st') \<Rightarrow> (Inl e, st')
           | (Inr updated, st') \<Rightarrow> (coordinator_run co updated, st')))"

section \<open>The declared order of the stages\<close>

definition stages :: "string list" where
  "stages = [''NEW'', ''INTAKE_READY'', ''CONTEXT_READY'', ''PLAN_COORDINATED'', ''EXECUTION_PENDING'', ''EXECUTION_IN_PROGRESS'',
     ''REVIEW_PENDING'', ''COMPLETE'']"

text \<open>The stages a run has behind it in a state.\<close>

definition stages_before :: "string \<Rightarrow> string list" where
  "stages_before w =
     (if w = ''WAITING_APPROVAL'' then take 4 stages else if w = ''WAITING_STATE_CHANGE_AUTHORITY'' then take 5 stages
      else if w = ''RECOVERY_COORDINATION'' then take 6 stages else takeWhile (\<lambda>x. x \<noteq> w) stages @ [w])"

text \<open>A property of all entries of the table.\<close>

lemma transitions_all:
  assumes "list_all (\<lambda>(w, es). list_all (\<lambda>(e, w'). P w e w') es) TRANSITIONS" "next_state w e = Inr w'"
  shows "P w e w'"
proof -
  have get: "map_of (py_get_or [] TRANSITIONS w) e = Some w'"
    using assms(2) by (auto simp: next_state_def py_get_def split: option.splits if_splits)
  then obtain es where "map_of TRANSITIONS w = Some es" "map_of es e = Some w'"
    by (cases "map_of TRANSITIONS w") (auto simp: py_get_or_def)
  with assms(1) show ?thesis by (auto simp: list_all_iff dest!: map_of_SomeD)
qed

lemma next_state_stages:
  assumes "next_state w e = Inr w'"
  shows "stages_before w' = stages_before w \<or> stages_before w' = stages_before w @ [w']"
    and "w' = ''COMPLETE'' \<longrightarrow> e = ''GATE_GO_REFERENCED''" and "w \<noteq> ''COMPLETE'' \<and> w \<noteq> ''WAITING_APPROVAL''"
    and "w' \<in> ALLOWED_WORKFLOW_STATES"
  by (rule transitions_all [OF _ assms], simp add: TRANSITIONS_def stages_before_def stages_def ALLOWED_WORKFLOW_STATES_def)+

lemma strip_fixedI: "\<not> py_isspace (hd t) \<Longrightarrow> \<not> py_isspace (last t) \<Longrightarrow> py_strip t = t"
proof -
  have drop: "dropWhile py_isspace u = u" if "\<not> py_isspace (hd u)" for u using that by (cases u) simp_all
  assume "\<not> py_isspace (hd t)" "\<not> py_isspace (last t)"
  then show ?thesis by (cases "t = []") (simp_all add: py_strip_def drop hd_rev)
qed

lemma last_stripped: "py_strip s = s \<Longrightarrow> s \<noteq> [] \<Longrightarrow> \<not> py_isspace (last s)"
  unfolding py_strip_def by (metis hd_dropWhile hd_rev rev_rev_ident rev_is_Nil_conv)

lemma strip_prefixed:
  "py_strip s = s \<Longrightarrow> s \<noteq> [] \<Longrightarrow> p \<noteq> [] \<Longrightarrow> \<not> py_isspace (hd p) \<Longrightarrow> py_strip (p @ s) = p @ s"
  by (rule strip_fixedI) (simp_all add: last_stripped)

section \<open>What a transition leaves\<close>

lemma transition_effect:
  assumes "office_transition st w r refs pa pm = (res, st')" "office_load st' = Inr s'"
  shows "st' = st \<or> (\<exists>s t. office_load st = Inr s \<and>
    snapshot_init (next_snapshot st s w refs pa pm (transition_digest t)) = Inr s')"
proof (cases "plan_transition st w r refs pa pm")
  case (Inl e)
  with assms(1) show ?thesis by (simp add: office_transition_def)
next
  case (Inr plan)
  obtain rec s1 where plan: "plan = (rec, s1)" by (cases plan)
  obtain s t where st: "office_load st = Inr s" "snapshot_init (next_snapshot st s w refs pa pm (transition_digest t)) = Inr s1"
    using Inr unfolding plan by (auto simp: plan_transition_def)
  have "st' = write_snapshot s1 (append_journal rec st)" using assms(1) Inr plan by (simp add: office_transition_def Let_def)
  then have "read_snapshot st' = Inr x \<Longrightarrow> x = s1" for x
    using snapshot_from_to_dict [OF snapshot_init_idem [OF st(2)]]
    by (simp add: read_snapshot_def write_snapshot_def split: if_splits del: json_norm.simps)
  then have "s' = s1" using assms(2) by (auto simp: office_load_def split: option.splits if_splits)
  with st show ?thesis by blast
qed


text \<open>The stores of a coordinated run, with the states the run has been in.\<close>

inductive coordinator_reach :: "office_store \<Rightarrow> string list \<Rightarrow> bool" where
  start: "office_store_init p r = Inr st0 \<Longrightarrow> office_initialize st0 plan base ''NEW'' = Inr (s, st) \<Longrightarrow>
    coordinator_reach st [''NEW'']"
| step: "coordinator_reach st path \<Longrightarrow> coordinator_transition co st event reason_ref ref completion = (res, st') \<Longrightarrow>
    (\<And>c. completion = Some c \<Longrightarrow> completion_init c = Inr c) \<Longrightarrow> office_load st' = Inr s' \<Longrightarrow>
    coordinator_reach st' (path @ [sn_workflow_state s'])"

definition completion_refs :: "full_plan_completion \<Rightarrow> string list" where
  "completion_refs c = [gate_prefix @ fc_gate_ref c, fanin_prefix @ fc_fanin_ref c, completion_prefix @ completion_digest c]"

lemma coordinator_effect:
  assumes "coordinator_transition co st event reason_ref ref completion = (res, st')" "office_load st' = Inr s'"
  shows "st' = st \<or> (\<exists>s refs. office_load st = Inr s \<and> next_state (sn_workflow_state s) event = Inr (sn_workflow_state s') \<and>
     coordinator_refs s event ref completion = Inr refs \<and> sn_workflow_refs s' = map py_strip refs)"
proof (cases "st' = st")
  case False
  then obtain s target refs res' where st: "office_load st = Inr s" "next_state (sn_workflow_state s) event = Inr target"
    "coordinator_refs s event ref completion = Inr refs" "office_transition st target reason_ref (Some refs) None None = (res', st')"
    using assms(1) by (auto simp: coordinator_transition_def split: sum.splits prod.splits)
  obtain t where "snapshot_init (next_snapshot st s target (Some refs) None None (transition_digest t)) = Inr s'"
    using transition_effect [OF st(4) assms(2)] False st(1) by auto
  from snapshot_facts [OF this] st show ?thesis by (simp add: next_snapshot_def)
qed simp

lemma workflow_text_Inr: "workflow_text v l = Inr w \<longleftrightarrow> w = py_strip v \<and> w \<noteq> [] \<and> length w \<le> 512"
  by (auto simp: workflow_text_def)

lemma completion_refs_stripped:
  assumes "completion_init c = Inr c"
  shows "map py_strip (completion_refs c) = completion_refs c"
proof -
  have "py_strip (fc_gate_ref c) = fc_gate_ref c \<and> fc_gate_ref c \<noteq> []" "py_strip (fc_fanin_ref c) = fc_fanin_ref c \<and> fc_fanin_ref c \<noteq> []"
    using assms unfolding completion_init_def rbind_eq_Inr workflow_text_Inr by (elim conjE exE; cases c; simp)+
  moreover have "py_strip (completion_digest c) = completion_digest c \<and> completion_digest c \<noteq> []"
    by (simp add: completion_digest_def sha256_stripped)
  ultimately show ?thesis
    by (simp add: completion_refs_def strip_prefixed gate_prefix_def fanin_prefix_def completion_prefix_def py_isspace_def
        del: append_Cons)
qed

lemma gate_go_refs:
  assumes "coordinator_refs s ''GATE_GO_REFERENCED'' ref completion = Inr refs"
  obtains c where "completion = Some c" "set (completion_refs c) \<subseteq> set refs"
  using assms by (auto simp: coordinator_refs_def completion_refs_def split: option.splits if_splits)

lemma coordinator_path:
  assumes "coordinator_reach st path"
  shows "\<exists>s. office_load st = Inr s \<and> path \<noteq> [] \<and> last path = sn_workflow_state s \<and> subseq (stages_before (sn_workflow_state s)) path \<and>
     (sn_workflow_state s = ''COMPLETE'' \<longrightarrow> (\<exists>c. completion_init c = Inr c \<and> set (completion_refs c) \<subseteq> set (sn_workflow_refs s)))"
  using assms
proof induction
  case (start p r st0 plan base s st)
  from initialize_load [OF start] show ?case by (simp add: stages_before_def stages_def)
next
  case (step st path co event reason_ref ref completion res st' s')
  then obtain s where s: "office_load st = Inr s" "path \<noteq> []" "last path = sn_workflow_state s"
    "subseq (stages_before (sn_workflow_state s)) path"
    "sn_workflow_state s = ''COMPLETE'' \<longrightarrow> (\<exists>c. completion_init c = Inr c \<and> set (completion_refs c) \<subseteq> set (sn_workflow_refs s))" by blast
  have more: "subseq (stages_before (sn_workflow_state s)) (path @ [w])" for w using s(4) by (rule subseq_rev_drop_many)
  show ?case
  proof (cases "st' = st")
    case True
    then have "s' = s" using s(1) step.hyps(4) by simp
    with more s step.hyps(4) show ?thesis by simp
  next
    case False
    then obtain refs where n: "next_state (sn_workflow_state s) event = Inr (sn_workflow_state s')"
      and refs: "coordinator_refs s event ref completion = Inr refs" "sn_workflow_refs s' = map py_strip refs"
      using coordinator_effect [OF step.hyps(2,4)] s(1) by auto
    have "subseq (stages_before (sn_workflow_state s')) (path @ [sn_workflow_state s'])"
      using next_state_stages(1) [OF n] more s(4) by (auto simp: subseq_append_le_same_iff)
    moreover have "\<exists>c. completion_init c = Inr c \<and> set (completion_refs c) \<subseteq> set (sn_workflow_refs s')" if "sn_workflow_state s' = ''COMPLETE''"
    proof -
      have "event = ''GATE_GO_REFERENCED''" using next_state_stages(2) [OF n] that by simp
      with refs(1) obtain c where c: "completion = Some c" "set (completion_refs c) \<subseteq> set refs" using gate_go_refs by metis
      have "set (map py_strip (completion_refs c)) \<subseteq> set (sn_workflow_refs s')" unfolding refs(2) using c(2) by auto
      with completion_refs_stripped [OF step.hyps(3) [OF c(1)]] step.hyps(3) [OF c(1)] show ?thesis by metis
    qed
    ultimately show ?thesis using step.hyps(4) by simp
  qed
qed


text \<open>C13. A coordinated run is \<open>COMPLETE\<close> only after it has passed every stage in the declared order, from \<open>NEW\<close> over
  the Full Plan handoff, execution and review, and then its references name the Gate, the fan-in and the digest of a Full
  Plan completion.\<close>

theorem completion_requires_stages:
  assumes "coordinator_reach st path" "office_load st = Inr s" "sn_workflow_state s = ''COMPLETE''"
  shows "subseq [''NEW'', ''INTAKE_READY'', ''CONTEXT_READY'', ''PLAN_COORDINATED'', ''EXECUTION_PENDING'', ''EXECUTION_IN_PROGRESS'',
       ''REVIEW_PENDING'', ''COMPLETE''] path \<and>
     (\<exists>c. completion_init c = Inr c \<and>
       {gate_prefix @ fc_gate_ref c, fanin_prefix @ fc_fanin_ref c, completion_prefix @ completion_digest c} \<subseteq> set (sn_workflow_refs s))"
proof -
  have "stages_before ''COMPLETE'' = stages" by (simp add: stages_before_def stages_def)
  then have "subseq stages path" "\<exists>c. completion_init c = Inr c \<and> set (completion_refs c) \<subseteq> set (sn_workflow_refs s)"
    using coordinator_path [OF assms(1)] assms(2,3) by auto
  then show ?thesis by (auto simp: stages_def completion_refs_def)
qed

text \<open>C40. A run that waits for an approval stays there: the table declares no event that leaves \<open>WAITING_APPROVAL\<close>, so every
  transition of the coordinator raises and leaves the store unchanged.\<close>

theorem waiting_approval_is_stuck:
  assumes "office_load st = Inr s" "sn_workflow_state s = ''WAITING_APPROVAL''"
  shows "coordinator_transition co st event reason_ref ref completion =
     (Inl (WorkflowContractError ''undeclared workflow transition''), st)"
proof -
  have "next_state ''WAITING_APPROVAL'' event = Inl (WorkflowContractError ''undeclared workflow transition'')"
    by (simp add: next_state_def py_get_or_def py_get_def TRANSITIONS_def)
  with assms show ?thesis by (simp add: coordinator_transition_def)
qed

section \<open>A complete run\<close>

text \<open>A declared event with acceptable references moves the run.\<close>

lemma coordinator_step:
  assumes reach: "coordinator_reach st path" and inv: "office_inv st s lines"
    and n: "next_state (sn_workflow_state s) event = Inr target" and refs: "coordinator_refs s event ref completion = Inr refs"
    and ok: "transition_args_ok target reason (Some refs) None None" "nel_free (reason # refs)"
    and c: "\<And>c. completion = Some c \<Longrightarrow> completion_init c = Inr c"
  obtains st' s' lines' where "coordinator_reach st' (path @ [target])" "office_inv st' s' lines'" "sn_workflow_state s' = target"
    "sn_workflow_refs s' = map py_strip refs"
proof -
  have nel: "nel_free (transition_texts reason (Some refs) None None)" using ok(2) by (simp add: transition_texts_def)
  obtain rec s' where plan: "plan_transition st target reason (Some refs) None None = Inr (rec, s')"
    using plan_transition_ok [OF inv ok(1)] by blast
  define st' where "st' = write_snapshot s' (append_journal rec st)"
  have inv': "office_inv st' s' (lines @ [Some (json_norm (PyDict rec))])" unfolding st'_def by (rule inv_step [OF inv plan nel])
  have "office_transition st target reason (Some refs) None None = (Inr s', st')"
    using plan inv_load [OF inv'] by (simp add: office_transition_def Let_def st'_def)
  then have t: "coordinator_transition co st event reason ref completion = (coordinator_run co s', st')" for co
    using inv_load [OF inv] n refs by (simp add: coordinator_transition_def)
  obtain t where s': "snapshot_init (next_snapshot st s target (Some refs) None None (transition_digest t)) = Inr s'"
    using plan_transition_Inr [OF inv plan] .
  have "sn_workflow_state s' = target" "sn_workflow_refs s' = map py_strip refs"
    by (simp_all add: snapshot_facts [OF s'] next_snapshot_def)
  with coordinator_reach.step [OF reach t c inv_load [OF inv']] inv' that show ?thesis by blast
qed


definition stage_open :: "string list \<Rightarrow> string \<Rightarrow> bool" where
  "stage_open path w \<longleftrightarrow> (\<exists>st s lines. coordinator_reach st path \<and> office_inv st s lines \<and> sn_workflow_state s = w \<and> sn_workflow_refs s = [])"

lemma stage_open_step:
  assumes "stage_open path w" "next_state w event = Inr w'" "event \<noteq> ''GATE_GO_REFERENCED''"
  shows "stage_open (path @ [w']) w'"
proof -
  obtain st s lines where st: "coordinator_reach st path" "office_inv st s lines" "sn_workflow_state s = w" "sn_workflow_refs s = []"
    using assms(1) by (auto simp: stage_open_def)
  have ok: "transition_args_ok w' ''go'' (Some []) None None"
    using next_state_stages(4) [OF assms(2)] by (simp add: transition_args_ok_def office_text_def py_strip_def py_isspace_def)
  have refs: "coordinator_refs s event [] None = Inr []" using assms(3) st(4) by (simp add: coordinator_refs_def)
  obtain st' s' lines' where "coordinator_reach st' (path @ [w'])" "office_inv st' s' lines'" "sn_workflow_state s' = w'" "sn_workflow_refs s' = []"
    by (rule coordinator_step [OF st(1,2) _ refs ok]) (use assms(2) st(3) in simp_all)
  then show ?thesis by (auto simp: stage_open_def)
qed

definition ex_completion :: full_plan_completion where
  "ex_completion = \<lparr>fc_full_plan_run_id = ''run'', fc_gate_id = ''G1'', fc_gate_ref = ''gate'',
     fc_gate_digest = digest PyNone, fc_fanin_ref = ''fanin'', fc_fanin_digest = digest PyNone\<rparr>"

lemma ex_completion_init: "completion_init ex_completion = Inr ex_completion"
proof -
  have d: "workflow_digest_text (digest PyNone) l = Inr (digest PyNone)" for l
    using re_sha256_digest [of PyNone]
    by (simp add: workflow_digest_text_def workflow_text_def sha256_stripped re_sha256_def list_ex_iff list_all_iff lower_hex_def)
  have "py_strip ''run'' = ''run''" "py_strip ''G1'' = ''G1''" "py_strip ''gate'' = ''gate''" "py_strip ''fanin'' = ''fanin''"
    by (simp_all add: py_strip_def py_isspace_def)
  then show ?thesis by (simp add: completion_init_def ex_completion_def d workflow_text_def)
qed

lemma ex_planned: "stage_open [''NEW'', ''INTAKE_READY'', ''CONTEXT_READY'', ''PLAN_COORDINATED''] ''PLAN_COORDINATED''"
proof -
  have new: "stage_open [''NEW''] ''NEW''"
    unfolding stage_open_def
    by (intro exI conjI, rule coordinator_reach.start [OF ex_office_init], rule inv_init [OF ex_office_init]) simp_all
  have n: "next_state ''NEW'' ''REQUIREMENT_ACCEPTED'' = Inr ''INTAKE_READY''" "next_state ''INTAKE_READY'' ''CONTEXT_ASSEMBLED'' = Inr ''CONTEXT_READY''"
    "next_state ''CONTEXT_READY'' ''FULL_PLAN_HANDOFF_REFERENCED'' = Inr ''PLAN_COORDINATED''"
    by (simp_all add: next_state_def py_get_or_def py_get_def TRANSITIONS_def)
  from stage_open_step [OF stage_open_step [OF stage_open_step [OF new n(1)] n(2)] n(3)] show ?thesis by simp
qed

lemma ex_stage_open: "stage_open [''NEW'', ''INTAKE_READY'', ''CONTEXT_READY'', ''PLAN_COORDINATED'', ''EXECUTION_PENDING'',
     ''EXECUTION_IN_PROGRESS'', ''REVIEW_PENDING''] ''REVIEW_PENDING''"
proof -
  have n: "next_state ''PLAN_COORDINATED'' ''GOVERNANCE_READY'' = Inr ''EXECUTION_PENDING''"
    "next_state ''EXECUTION_PENDING'' ''EXECUTION_ACCEPTED'' = Inr ''EXECUTION_IN_PROGRESS''"
    "next_state ''EXECUTION_IN_PROGRESS'' ''RESULT_REFS_COMPLETE'' = Inr ''REVIEW_PENDING''"
    by (simp_all add: next_state_def py_get_or_def py_get_def TRANSITIONS_def)
  from stage_open_step [OF stage_open_step [OF stage_open_step [OF ex_planned n(1)] n(2)] n(3)] show ?thesis by simp
qed

lemma ex_complete:
  "\<exists>st s lines. coordinator_reach st (stages) \<and> office_inv st s lines \<and> sn_workflow_state s = ''COMPLETE''"
proof -
  obtain st s lines where st: "coordinator_reach st [''NEW'', ''INTAKE_READY'', ''CONTEXT_READY'', ''PLAN_COORDINATED'', ''EXECUTION_PENDING'',
     ''EXECUTION_IN_PROGRESS'', ''REVIEW_PENDING'']" "office_inv st s lines" "sn_workflow_state s = ''REVIEW_PENDING''" "sn_workflow_refs s = []"
    using ex_stage_open by (auto simp: stage_open_def)
  have n: "next_state (sn_workflow_state s) ''GATE_GO_REFERENCED'' = Inr ''COMPLETE''"
    unfolding st(3) by (simp add: next_state_def py_get_or_def py_get_def TRANSITIONS_def)
  have refs: "coordinator_refs s ''GATE_GO_REFERENCED'' [] (Some ex_completion) = Inr (completion_refs ex_completion)"
    by (simp add: coordinator_refs_def st(4) completion_refs_def gate_prefix_def fanin_prefix_def completion_prefix_def)
  have stripped: "py_strip (gate_prefix @ ''gate'') = gate_prefix @ ''gate''" "py_strip (fanin_prefix @ ''fanin'') = fanin_prefix @ ''fanin''"
    "py_strip (completion_prefix @ completion_digest ex_completion) = completion_prefix @ completion_digest ex_completion"
    using completion_refs_stripped [OF ex_completion_init] by (simp_all add: completion_refs_def ex_completion_def)
  have len: "length (completion_digest ex_completion) = 64" "c \<in> set (completion_digest ex_completion) \<Longrightarrow> lower_hex c" for c
    using re_sha256_digest by (simp_all add: completion_digest_def re_sha256_def list_all_iff)
  have hex: "CHR 0x00 \<notin> set (completion_digest ex_completion)" "CHR 0x0A \<notin> set (completion_digest ex_completion)"
    "CHR 0x0D \<notin> set (completion_digest ex_completion)" "CHR 0x85 \<notin> set (completion_digest ex_completion)"
    using len(2) by (fastforce simp: lower_hex_def)+
  have ok: "transition_args_ok ''COMPLETE'' ''go'' (Some (completion_refs ex_completion)) None None"
    using stripped hex len(1)
    by (simp add: transition_args_ok_def completion_refs_def office_text_def ex_completion_def [THEN arg_cong [where f = fc_gate_ref]]
        ex_completion_def [THEN arg_cong [where f = fc_fanin_ref]] ALLOWED_WORKFLOW_STATES_def)
      (simp add: py_strip_def py_isspace_def gate_prefix_def fanin_prefix_def completion_prefix_def)
  have nel: "nel_free (''go'' # completion_refs ex_completion)"
    using hex by (simp add: completion_refs_def gate_prefix_def fanin_prefix_def completion_prefix_def)
      (simp add: ex_completion_def)
  obtain st' s' lines' where "coordinator_reach st' ([''NEW'', ''INTAKE_READY'', ''CONTEXT_READY'', ''PLAN_COORDINATED'', ''EXECUTION_PENDING'',
     ''EXECUTION_IN_PROGRESS'', ''REVIEW_PENDING''] @ [''COMPLETE''])" "office_inv st' s' lines'" "sn_workflow_state s' = ''COMPLETE''"
    by (rule coordinator_step [OF st(1,2) n refs ok nel]) (use ex_completion_init in auto)
  then show ?thesis by (auto simp: stages_def)
qed


theorem completion_requires_stages_witness:
  "\<exists>st path s. coordinator_reach st path \<and> office_load st = Inr s \<and> sn_workflow_state s = ''COMPLETE'' \<and>
     subseq [''NEW'', ''INTAKE_READY'', ''CONTEXT_READY'', ''PLAN_COORDINATED'', ''EXECUTION_PENDING'', ''EXECUTION_IN_PROGRESS'',
       ''REVIEW_PENDING'', ''COMPLETE''] path"
  using ex_complete inv_load completion_requires_stages by blast

text \<open>An approval is asked for in \<open>PLAN_COORDINATED\<close>; the run ends there.\<close>

lemma ex_waiting: "stage_open [''NEW'', ''INTAKE_READY'', ''CONTEXT_READY'', ''PLAN_COORDINATED'', ''WAITING_APPROVAL''] ''WAITING_APPROVAL''"
proof -
  have n: "next_state ''PLAN_COORDINATED'' ''APPROVAL_REQUIRED'' = Inr ''WAITING_APPROVAL''"
    by (simp add: next_state_def py_get_or_def py_get_def TRANSITIONS_def)
  from stage_open_step [OF ex_planned n] show ?thesis by simp
qed

theorem waiting_approval_is_stuck_witness:
  "\<exists>st s. office_load st = Inr s \<and> sn_workflow_state s = ''WAITING_APPROVAL'' \<and>
     coordinator_transition \<lparr>co_office_id = ''o'', co_department_id = ''d'', co_schedule_ref = ''s''\<rparr> st ''GOVERNANCE_READY'' ''go'' [] None =
       (Inl (WorkflowContractError ''undeclared workflow transition''), st)"
proof -
  obtain st s lines where "office_inv st s lines" "sn_workflow_state s = ''WAITING_APPROVAL''"
    using ex_waiting by (auto simp: stage_open_def)
  with inv_load waiting_approval_is_stuck show ?thesis by blast
qed

end
