(* ===== verification/Office_Governance.thy ===== *)
theory Office_Governance
  imports Office_Contracts
begin

text \<open>
  Governance of AI Office actions, \<open>src/runtime/ai_office/governance.py\<close>: risk envelopes, human approvals, the decision on an
  action and the gate that activates it. Times are seconds since the epoch.
\<close>

section \<open>Contract objects\<close>

definition RISK_ENVELOPE_SCHEMA_V1 :: string where "RISK_ENVELOPE_SCHEMA_V1 = ''ai-office.risk-envelope.v1''"
definition GOVERNANCE_DECISION_SCHEMA_V1 :: string where "GOVERNANCE_DECISION_SCHEMA_V1 = ''ai-office.governance-decision.v1''"
definition ACTIVATION_GATE_SCHEMA_V1 :: string where "ACTIVATION_GATE_SCHEMA_V1 = ''ai-office.activation-gate.v1''"
definition HUMAN_APPROVAL_SCHEMA_V1 :: string where "HUMAN_APPROVAL_SCHEMA_V1 = ''ai-office.human-approval.v1''"

text \<open>No caller passes \<open>allow_empty\<close>.\<close>

definition gov_text :: "string \<Rightarrow> string \<Rightarrow> string result" where
  "gov_text value label =
     (let item = py_strip value in
      if item = [] \<or> 512 < length item \<or> list_ex (\<lambda>ch. ch \<in> set item) [CHR 0x00, CHR 0x0A, CHR 0x0D]
      then Inl (GovernanceError (''invalid '' @ label)) else Inr item)"

definition gov_sha :: "string \<Rightarrow> string \<Rightarrow> string result" where
  "gov_sha value label =
     rbind (gov_text value label) (\<lambda>item.
     if length item \<noteq> 64 \<or> list_ex (\<lambda>ch. ch \<notin> set ''0123456789abcdef'') item
     then Inl (GovernanceError (''invalid '' @ label)) else Inr item)"

record risk_envelope =
  rk_schema_version :: string
  rk_action_ref :: string
  rk_requested_scope_ref :: string
  rk_allowed_scope_ref :: string
  rk_risk_class :: string
  rk_permission_refs :: "string list"

definition risk_init :: "risk_envelope \<Rightarrow> risk_envelope result" where
  "risk_init r =
     (if rk_schema_version r \<noteq> RISK_ENVELOPE_SCHEMA_V1 then Inl (GovernanceError ''unsupported risk envelope schema'')
      else
      rbind (gov_text (rk_action_ref r) ''action_ref'') (\<lambda>action.
      rbind (gov_text (rk_requested_scope_ref r) ''requested_scope_ref'') (\<lambda>requested.
      rbind (gov_text (rk_allowed_scope_ref r) ''allowed_scope_ref'') (\<lambda>allowed.
      if rk_risk_class r \<notin> {''LOW'', ''MEDIUM'', ''HIGH''} then Inl (GovernanceError ''invalid risk class'')
      else
      rbind (rmap (\<lambda>ref. gov_text ref ''permission_ref'') (rk_permission_refs r)) (\<lambda>refs.
      if refs = [] \<or> \<not> distinct refs then Inl (GovernanceError ''invalid permission refs'')
      else Inr (r\<lparr>rk_action_ref := action, rk_requested_scope_ref := requested, rk_allowed_scope_ref := allowed,
                  rk_permission_refs := refs\<rparr>))))))"

definition envelope_digest :: "risk_envelope \<Rightarrow> string" where
  "envelope_digest r = digest (PyDict
     [(''schema_version'', PyStr (rk_schema_version r)), (''action_ref'', PyStr (rk_action_ref r)),
      (''requested_scope_ref'', PyStr (rk_requested_scope_ref r)), (''allowed_scope_ref'', PyStr (rk_allowed_scope_ref r)),
      (''risk_class'', PyStr (rk_risk_class r)), (''permission_refs'', PyTuple (map PyStr (rk_permission_refs r)))])"

record human_approval =
  ha_schema_version :: string
  ha_approval_ref :: string
  ha_approval_digest :: string
  ha_scope_ref :: string
  ha_approved_at_epoch :: int
  ha_expires_at_epoch :: int

definition approval_init :: "human_approval \<Rightarrow> human_approval result" where
  "approval_init a =
     (if ha_schema_version a \<noteq> HUMAN_APPROVAL_SCHEMA_V1 then Inl (GovernanceError ''unsupported human approval schema'')
      else
      rbind (gov_text (ha_approval_ref a) ''approval_ref'') (\<lambda>ref.
      rbind (gov_sha (ha_approval_digest a) ''approval_digest'') (\<lambda>sha.
      rbind (gov_text (ha_scope_ref a) ''scope_ref'') (\<lambda>scope.
      if ha_approved_at_epoch a < 0 \<or> ha_expires_at_epoch a \<le> ha_approved_at_epoch a
      then Inl (GovernanceError ''invalid approval validity window'')
      else Inr (a\<lparr>ha_approval_ref := ref, ha_approval_digest := sha, ha_scope_ref := scope\<rparr>)))))"

definition approval_record_digest :: "human_approval \<Rightarrow> string" where
  "approval_record_digest a = digest (PyDict
     [(''schema_version'', PyStr (ha_schema_version a)), (''approval_ref'', PyStr (ha_approval_ref a)),
      (''approval_digest'', PyStr (ha_approval_digest a)), (''scope_ref'', PyStr (ha_scope_ref a)),
      (''approved_at_epoch'', PyInt (ha_approved_at_epoch a)), (''expires_at_epoch'', PyInt (ha_expires_at_epoch a))])"

definition is_fresh :: "human_approval \<Rightarrow> int \<Rightarrow> string \<Rightarrow> string \<Rightarrow> bool" where
  "is_fresh a now_epoch expected_scope_ref expected_approval_digest \<longleftrightarrow>
     ha_approved_at_epoch a \<le> now_epoch \<and> now_epoch < ha_expires_at_epoch a \<and> ha_scope_ref a = expected_scope_ref \<and>
     ha_approval_digest a = expected_approval_digest"

record governance_decision =
  gd_schema_version :: string
  gd_risk_envelope_digest :: string
  gd_decision :: string
  gd_scope_ref :: string
  gd_permission_refs :: "string list"
  gd_human_approval_ref :: string
  gd_reason_refs :: "string list"

definition decision_init :: "governance_decision \<Rightarrow> governance_decision result" where
  "decision_init g =
     (if gd_schema_version g \<noteq> GOVERNANCE_DECISION_SCHEMA_V1 then Inl (GovernanceError ''unsupported governance decision schema'')
      else
      rbind (gov_sha (gd_risk_envelope_digest g) ''risk_envelope_digest'') (\<lambda>sha.
      if gd_decision g \<notin> {''ALLOW'', ''BLOCK'', ''APPROVAL_REQUIRED''} then Inl (GovernanceError ''invalid governance decision'')
      else
      rbind (gov_text (gd_scope_ref g) ''scope_ref'') (\<lambda>scope.
      rbind (rmap (\<lambda>ref. gov_text ref ''permission_ref'') (gd_permission_refs g)) (\<lambda>permissions.
      rbind (if gd_human_approval_ref g = [] then Inr [] else gov_text (gd_human_approval_ref g) ''human_approval_ref'') (\<lambda>approval.
      rbind (rmap (\<lambda>ref. gov_text ref ''reason_ref'') (gd_reason_refs g)) (\<lambda>reasons.
      Inr (g\<lparr>gd_risk_envelope_digest := sha, gd_scope_ref := scope, gd_permission_refs := permissions,
             gd_human_approval_ref := approval, gd_reason_refs := reasons\<rparr>)))))))"

definition gov_decision_digest :: "governance_decision \<Rightarrow> string" where
  "gov_decision_digest g = digest (PyDict
     [(''schema_version'', PyStr (gd_schema_version g)), (''risk_envelope_digest'', PyStr (gd_risk_envelope_digest g)),
      (''decision'', PyStr (gd_decision g)), (''scope_ref'', PyStr (gd_scope_ref g)),
      (''permission_refs'', PyTuple (map PyStr (gd_permission_refs g))), (''human_approval_ref'', PyStr (gd_human_approval_ref g)),
      (''reason_refs'', PyTuple (map PyStr (gd_reason_refs g)))])"

record activation_gate =
  ag_schema_version :: string
  ag_activation_scope :: string
  ag_governance_decision_digest :: string
  ag_human_approval_digest :: string
  ag_status :: string

definition activation_init :: "activation_gate \<Rightarrow> activation_gate result" where
  "activation_init a =
     (if ag_schema_version a \<noteq> ACTIVATION_GATE_SCHEMA_V1 then Inl (GovernanceError ''unsupported activation gate schema'')
      else if ag_activation_scope a \<notin> {''PILOT'', ''PRODUCTION''} then Inl (GovernanceError ''invalid activation scope'')
      else
      rbind (gov_sha (ag_governance_decision_digest a) ''governance_decision_digest'') (\<lambda>decision.
      rbind (if ag_human_approval_digest a = [] then Inr [] else gov_sha (ag_human_approval_digest a) ''human_approval_digest'') (\<lambda>approval.
      if ag_status a \<notin> {''GO'', ''BLOCKED''} then Inl (GovernanceError ''invalid activation gate status'')
      else Inr (a\<lparr>ag_governance_decision_digest := decision, ag_human_approval_digest := approval\<rparr>))))"

definition activation_digest :: "activation_gate \<Rightarrow> string" where
  "activation_digest a = digest (PyDict
     [(''schema_version'', PyStr (ag_schema_version a)), (''activation_scope'', PyStr (ag_activation_scope a)),
      (''governance_decision_digest'', PyStr (ag_governance_decision_digest a)),
      (''human_approval_digest'', PyStr (ag_human_approval_digest a)), (''status'', PyStr (ag_status a))])"

section \<open>Decisions\<close>

definition evaluate_governance ::
  "risk_envelope \<Rightarrow> bool \<Rightarrow> human_approval option \<Rightarrow> string \<Rightarrow> int \<Rightarrow> governance_decision result" where
  "evaluate_governance risk permission_allow approval expected_approval_digest now_epoch =
     (let reasons = (if rk_requested_scope_ref risk \<noteq> rk_allowed_scope_ref risk then [''scope-expansion-blocked''] else []) @
            (if \<not> permission_allow then [''permission-blocked''] else []);
          approval_required = (rk_risk_class risk \<in> {''MEDIUM'', ''HIGH''});
          approval_fresh = (case approval of None \<Rightarrow> False
            | Some a \<Rightarrow> is_fresh a now_epoch (rk_requested_scope_ref risk) expected_approval_digest);
          decision = (if reasons \<noteq> [] then ''BLOCK''
            else if approval_required \<and> \<not> approval_fresh then ''APPROVAL_REQUIRED'' else ''ALLOW'')
      in decision_init
        \<lparr>gd_schema_version = GOVERNANCE_DECISION_SCHEMA_V1, gd_risk_envelope_digest = envelope_digest risk,
         gd_decision = decision, gd_scope_ref = rk_requested_scope_ref risk, gd_permission_refs = rk_permission_refs risk,
         gd_human_approval_ref = (case approval of Some a \<Rightarrow> if approval_fresh then ha_approval_ref a else [] | None \<Rightarrow> []),
         gd_reason_refs = (if reasons \<noteq> [] then reasons
           else if decision = ''APPROVAL_REQUIRED'' then [''human-approval-required''] else [''policy-gate-pass''])\<rparr>)"

definition build_activation_gate ::
  "string \<Rightarrow> governance_decision \<Rightarrow> human_approval option \<Rightarrow> string \<Rightarrow> int \<Rightarrow> activation_gate result" where
  "build_activation_gate activation_scope governance approval expected_approval_digest now_epoch =
     (let approval_ok = (case approval of None \<Rightarrow> False
            | Some a \<Rightarrow> is_fresh a now_epoch (gd_scope_ref governance) expected_approval_digest)
      in activation_init
        \<lparr>ag_schema_version = ACTIVATION_GATE_SCHEMA_V1, ag_activation_scope = activation_scope,
         ag_governance_decision_digest = gov_decision_digest governance,
         ag_human_approval_digest = (case approval of Some a \<Rightarrow> if approval_ok then approval_record_digest a else [] | None \<Rightarrow> []),
         ag_status = (if gd_decision governance = ''ALLOW'' \<and> approval_ok then ''GO'' else ''BLOCKED'')\<rparr>)"

section \<open>What activates an action\<close>

lemma gov_text_Inr:
  "gov_text v l = Inr w \<longleftrightarrow> w = py_strip v \<and> w \<noteq> [] \<and> length w \<le> 512 \<and> CHR 0x00 \<notin> set w \<and> CHR 0x0A \<notin> set w \<and> CHR 0x0D \<notin> set w"
  unfolding gov_text_def Let_def guard_eq_Inr sum.inject list_ex_iff list.set by auto

lemma gov_text_idem: "gov_text v l = Inr w \<Longrightarrow> gov_text w l' = Inr w"
  unfolding gov_text_Inr by (elim conjE, hypsubst) (simp only: py_strip_idem simp_thms)

lemma gov_texts_idem: "rmap (\<lambda>r. gov_text r l) vs = Inr ws \<Longrightarrow> rmap (\<lambda>r. gov_text r l) ws = Inr ws"
  unfolding rmap_eq_Inr by (auto simp: list_all2_conv_all_nth intro: gov_text_idem)

lemma gov_sha_digest: "gov_sha (digest v) l = Inr (digest v)"
proof -
  have hex: "length (digest v) = 64" "\<forall>c \<in> set (digest v). lower_hex c"
    using re_sha256_digest [of v] by (simp_all add: re_sha256_def list_all_iff)
  have "c \<notin> set (digest v)" if "\<not> lower_hex c" for c using hex(2) that by blast
  then have "CHR 0x00 \<notin> set (digest v)" "CHR 0x0A \<notin> set (digest v)" "CHR 0x0D \<notin> set (digest v)" by (simp_all add: lower_hex_def)
  then have "gov_text (digest v) l = Inr (digest v)"
    unfolding gov_text_Inr sha256_stripped [OF re_sha256_digest] using hex(1) by simp
  with hex show ?thesis by (simp add: gov_sha_def list_ex_iff lower_hex_def)
qed

lemma risk_init_fixed:
  assumes "risk_init r = Inr r'"
  shows "gov_text (rk_requested_scope_ref r') l = Inr (rk_requested_scope_ref r')"
    "rmap (\<lambda>ref. gov_text ref ''permission_ref'') (rk_permission_refs r') = Inr (rk_permission_refs r')"
    "rk_risk_class r' \<in> {''LOW'', ''MEDIUM'', ''HIGH''}"
  using assms unfolding risk_init_def guard_eq_Inr rbind_eq_Inr
  by (elim conjE exE, clarsimp simp: gov_text_idem gov_texts_idem)+

lemma approval_init_fixed:
  assumes "approval_init a = Inr a'"
  shows "gov_text (ha_approval_ref a') l = Inr (ha_approval_ref a')"
  using assms unfolding approval_init_def guard_eq_Inr rbind_eq_Inr by (elim conjE exE, clarsimp simp: gov_text_idem)

lemma decision_init_total:
  assumes "gd_schema_version g = GOVERNANCE_DECISION_SCHEMA_V1" "gd_risk_envelope_digest g = digest v"
    "gd_decision g \<in> {''ALLOW'', ''BLOCK'', ''APPROVAL_REQUIRED''}" "gov_text (gd_scope_ref g) ''scope_ref'' = Inr (gd_scope_ref g)"
    "rmap (\<lambda>ref. gov_text ref ''permission_ref'') (gd_permission_refs g) = Inr (gd_permission_refs g)"
    "gd_human_approval_ref g = [] \<or> gov_text (gd_human_approval_ref g) ''human_approval_ref'' = Inr (gd_human_approval_ref g)"
    "rmap (\<lambda>ref. gov_text ref ''reason_ref'') (gd_reason_refs g) = Inr (gd_reason_refs g)"
  shows "decision_init g = Inr g"
  using assms by (auto simp: decision_init_def gov_sha_digest)

text \<open>The contract of the two operations together: whether an action may be activated.\<close>

definition activation_allowed :: "risk_envelope \<Rightarrow> bool \<Rightarrow> human_approval option \<Rightarrow> string \<Rightarrow> int \<Rightarrow> int \<Rightarrow> bool" where
  "activation_allowed risk permission_allow approval expected decided_at activated_at \<longleftrightarrow>
     rk_requested_scope_ref risk = rk_allowed_scope_ref risk \<and> permission_allow \<and>
     (case approval of None \<Rightarrow> False | Some a \<Rightarrow>
        ha_scope_ref a = rk_requested_scope_ref risk \<and> ha_approval_digest a = expected \<and>
        activated_at \<in> {ha_approved_at_epoch a..<ha_expires_at_epoch a} \<and>
        (rk_risk_class risk = ''LOW'' \<or> decided_at \<in> {ha_approved_at_epoch a..<ha_expires_at_epoch a}))"

lemma reason_texts: "r \<in> {''scope-expansion-blocked'', ''permission-blocked'', ''human-approval-required'', ''policy-gate-pass''} \<Longrightarrow>
   gov_text r l = Inr r"
  by (elim insertE) (simp_all add: gov_text_def py_strip_def py_isspace_def)

lemma evaluate_returns:
  assumes "risk_init r0 = Inr risk" "\<And>a. approval = Some a \<Longrightarrow> \<exists>a0. approval_init a0 = Inr a"
  obtains g where "evaluate_governance risk permission_allow approval expected now = Inr g"
    "gd_scope_ref g = rk_requested_scope_ref risk"
    "gd_decision g = (if rk_requested_scope_ref risk \<noteq> rk_allowed_scope_ref risk \<or> \<not> permission_allow then ''BLOCK''
       else if rk_risk_class risk \<noteq> ''LOW'' \<and> \<not> (case approval of None \<Rightarrow> False | Some a \<Rightarrow> is_fresh a now (rk_requested_scope_ref risk) expected)
       then ''APPROVAL_REQUIRED'' else ''ALLOW'')"
proof -
  have rclass: "rk_risk_class risk \<in> {''MEDIUM'', ''HIGH''} \<longleftrightarrow> rk_risk_class risk \<noteq> ''LOW''" using risk_init_fixed(3) [OF assms(1)] by auto
  have ap: "approval = Some a \<Longrightarrow> gov_text (ha_approval_ref a) ''human_approval_ref'' = Inr (ha_approval_ref a)" for a
    using approval_init_fixed assms(2) by metis
  show ?thesis
    by (rule that, unfold evaluate_governance_def Let_def rclass, rule decision_init_total)
      (use risk_init_fixed(1,2) [OF assms(1)] ap in \<open>auto simp: envelope_digest_def reason_texts split: option.splits\<close>)
qed

lemma build_returns:
  assumes "scope \<in> {''PILOT'', ''PRODUCTION''}"
  obtains a where "build_activation_gate scope g approval expected now = Inr a"
    "ag_status a = (if gd_decision g = ''ALLOW'' \<and> (case approval of None \<Rightarrow> False | Some x \<Rightarrow> is_fresh x now (gd_scope_ref g) expected)
       then ''GO'' else ''BLOCKED'')"
    "ag_human_approval_digest a = (case approval of Some x \<Rightarrow> if is_fresh x now (gd_scope_ref g) expected then approval_record_digest x else []
       | None \<Rightarrow> [])"
    "ag_governance_decision_digest a = gov_decision_digest g"
proof -
  have sha: "gov_sha (gov_decision_digest g) l = Inr (gov_decision_digest g)" "gov_sha (approval_record_digest x) l = Inr (approval_record_digest x)" for l x
    by (simp_all add: gov_decision_digest_def approval_record_digest_def gov_sha_digest)
  have "\<exists>a. build_activation_gate scope g approval expected now = Inr a \<and>
      ag_status a = (if gd_decision g = ''ALLOW'' \<and> (case approval of None \<Rightarrow> False | Some x \<Rightarrow> is_fresh x now (gd_scope_ref g) expected)
         then ''GO'' else ''BLOCKED'') \<and>
      ag_human_approval_digest a =
        (case approval of Some x \<Rightarrow> if is_fresh x now (gd_scope_ref g) expected then approval_record_digest x else [] | None \<Rightarrow> []) \<and>
      ag_governance_decision_digest a = gov_decision_digest g"
    using assms sha by (auto simp: build_activation_gate_def Let_def activation_init_def split: option.splits)
  with that show ?thesis by blast
qed

text \<open>C14. Governance of an action from the risk envelope to the activation gate: both operations return, and the gate says \<open>GO\<close>
  exactly when the requested scope is the allowed one, the permission is granted, the human approval is for this scope with the
  expected digest and valid at activation, and, unless the risk is low, was already valid when the decision was taken. The gate
  then carries the digests of the decision and of the approval record.\<close>

theorem activation_go_iff:
  assumes "risk_init r0 = Inr risk" "\<And>a. approval = Some a \<Longrightarrow> \<exists>a0. approval_init a0 = Inr a"
    and "activation_scope \<in> {''PILOT'', ''PRODUCTION''}"
  shows "\<exists>g gate. evaluate_governance risk permission_allow approval expected decided_at = Inr g \<and>
     build_activation_gate activation_scope g approval expected activated_at = Inr gate \<and>
     (ag_status gate = ''GO'' \<longleftrightarrow> activation_allowed risk permission_allow approval expected decided_at activated_at) \<and>
     (ag_status gate = ''GO'' \<longrightarrow> ag_governance_decision_digest gate = gov_decision_digest g \<and>
        (\<exists>a. approval = Some a \<and> ag_human_approval_digest gate = approval_record_digest a))"
proof -
  obtain g where g: "evaluate_governance risk permission_allow approval expected decided_at = Inr g"
    "gd_scope_ref g = rk_requested_scope_ref risk"
    "gd_decision g = (if rk_requested_scope_ref risk \<noteq> rk_allowed_scope_ref risk \<or> \<not> permission_allow then ''BLOCK''
       else if rk_risk_class risk \<noteq> ''LOW'' \<and> \<not> (case approval of None \<Rightarrow> False | Some a \<Rightarrow> is_fresh a decided_at (rk_requested_scope_ref risk) expected)
       then ''APPROVAL_REQUIRED'' else ''ALLOW'')"
    using evaluate_returns [OF assms(1,2)] .
  obtain a where a: "build_activation_gate activation_scope g approval expected activated_at = Inr a"
    "ag_status a = (if gd_decision g = ''ALLOW'' \<and> (case approval of None \<Rightarrow> False | Some x \<Rightarrow> is_fresh x activated_at (gd_scope_ref g) expected)
       then ''GO'' else ''BLOCKED'')"
    "ag_human_approval_digest a = (case approval of Some x \<Rightarrow> if is_fresh x activated_at (gd_scope_ref g) expected then approval_record_digest x else []
       | None \<Rightarrow> [])"
    "ag_governance_decision_digest a = gov_decision_digest g"
    using build_returns [OF assms(3)] .
  show ?thesis
    by (intro exI conjI, rule g(1), rule a(1)) (use a(2-4) g(2,3) in \<open>auto simp: activation_allowed_def is_fresh_def split: option.splits if_splits\<close>)
qed

section \<open>An activation\<close>

definition ex_risk :: risk_envelope where
  "ex_risk = \<lparr>rk_schema_version = RISK_ENVELOPE_SCHEMA_V1, rk_action_ref = ''a'', rk_requested_scope_ref = ''s'',
     rk_allowed_scope_ref = ''s'', rk_risk_class = ''HIGH'', rk_permission_refs = [''p'']\<rparr>"

definition ex_approval :: human_approval where
  "ex_approval = \<lparr>ha_schema_version = HUMAN_APPROVAL_SCHEMA_V1, ha_approval_ref = ''ok'', ha_approval_digest = digest PyNone,
     ha_scope_ref = ''s'', ha_approved_at_epoch = 10, ha_expires_at_epoch = 20\<rparr>"

theorem activation_go_iff_witness:
  "\<exists>g gate. evaluate_governance ex_risk True (Some ex_approval) (digest PyNone) 12 = Inr g \<and>
     build_activation_gate ''PILOT'' g (Some ex_approval) (digest PyNone) 15 = Inr gate \<and> ag_status gate = ''GO''"
proof -
  have t: "gov_text ''s'' l = Inr ''s''" "gov_text ''a'' l = Inr ''a''" "gov_text ''p'' l = Inr ''p''" "gov_text ''ok'' l = Inr ''ok''" for l
    by (simp_all add: gov_text_def py_strip_def py_isspace_def)
  have r: "risk_init ex_risk = Inr ex_risk" by (simp add: risk_init_def ex_risk_def t)
  have a: "approval_init ex_approval = Inr ex_approval" by (simp add: approval_init_def ex_approval_def t gov_sha_digest)
  have "activation_allowed ex_risk True (Some ex_approval) (digest PyNone) 12 15"
    by (simp add: activation_allowed_def ex_risk_def ex_approval_def)
  with activation_go_iff [OF r, of "Some ex_approval" "''PILOT''" True "digest PyNone" 12 15] a show ?thesis by fastforce
qed

end
