(* ===== verification/Completion_Contract.thy ===== *)
theory Completion_Contract
  imports Canonical_Json
begin

text \<open>
  The completion contract of a task, \<open>src/runtime/orchestrator/completion_contract.py\<close>: criteria, the evaluator that asks
  registered verifiers about authoritative sources, and the execution obligation that follows.

  A verifier is a callback. It may have state, so it takes and returns the state \<open>'w\<close> of the world outside; its outcome is a
  result object, some value that is no result object with a state and a reason of the right types, or an exception. The
  configuration of a criterion is a JSON value without floats.
\<close>

section \<open>Criteria\<close>

datatype task_effect_policy = READ_ONLY | MUTATING
datatype completion_state = SATISFIED | UNSATISFIED | UNKNOWN
datatype execution_obligation = READ_ONLY_EXECUTION | MUTATION_REQUIRED | NONE_SATISFIED | BLOCKED

record completion_criterion =
  cn_criterion_id :: string
  cn_verifier_type :: string
  cn_authoritative_source_ref :: string
  cn_verifier_config :: "(string \<times> pyval) list"
  cn_mandatory :: bool

fun freeze_json_value :: "pyval \<Rightarrow> pyval" where
  "freeze_json_value (PyDict kvs) = PyDict (map (\<lambda>(k, v). (k, freeze_json_value v)) kvs)"
| "freeze_json_value (PyList vs) = PyTuple (map freeze_json_value vs)"
| "freeze_json_value (PyTuple vs) = PyTuple (map freeze_json_value vs)"
| "freeze_json_value v = v"

fun thaw_json_value :: "pyval \<Rightarrow> pyval" where
  "thaw_json_value (PyDict kvs) = PyDict (map (\<lambda>(k, v). (k, thaw_json_value v)) kvs)"
| "thaw_json_value (PyTuple vs) = PyList (map thaw_json_value vs)"
| "thaw_json_value v = v"

definition criterion_init :: "completion_criterion \<Rightarrow> completion_criterion result" where
  "criterion_init c =
     (let criterion_id = py_strip (cn_criterion_id c); verifier_type = py_strip (cn_verifier_type c);
          source_ref = py_strip (cn_authoritative_source_ref c) in
      if criterion_id = [] then Inl (CompletionContractError ''completion criterion_id is required'')
      else if verifier_type = [] then Inl (CompletionContractError (criterion_id @ '': verifier_type is required''))
      else if source_ref = [] then Inl (CompletionContractError (criterion_id @ '': authoritative_source_ref is required''))
      else Inr (c\<lparr>cn_criterion_id := criterion_id, cn_verifier_type := verifier_type, cn_authoritative_source_ref := source_ref,
                  cn_verifier_config := map (\<lambda>(k, v). (k, freeze_json_value v)) (cn_verifier_config c)\<rparr>))"

definition canonical_projection :: "completion_criterion \<Rightarrow> pyval" where
  "canonical_projection c = PyDict
     [(''criterion_id'', PyStr (cn_criterion_id c)), (''verifier_type'', PyStr (cn_verifier_type c)),
      (''authoritative_source_ref'', PyStr (cn_authoritative_source_ref c)),
      (''verifier_config'', thaw_json_value (PyDict (cn_verifier_config c))), (''mandatory'', PyBool (cn_mandatory c))]"

definition validated_criteria :: "completion_criterion list \<Rightarrow> completion_criterion list result" where
  "validated_criteria criteria =
     (if criteria = [] then Inl (CompletionContractError ''at least one completion criterion is required'')
      else if \<not> distinct (map cn_criterion_id criteria)
      then Inl (CompletionContractError ''duplicate completion criterion_id is not allowed'')
      else if \<not> list_ex cn_mandatory criteria
      then Inl (CompletionContractError ''at least one mandatory completion criterion is required'')
      else Inr (sort_key cn_criterion_id criteria))"

definition criterion_set_digest :: "completion_criterion list \<Rightarrow> string result" where
  "criterion_set_digest criteria =
     rbind (validated_criteria criteria) (\<lambda>normalized. Inr (digest (PyList (map canonical_projection normalized))))"

section \<open>Verifiers\<close>

record verifier_result =
  vr_state :: completion_state
  vr_evidence_refs :: pyval
  vr_reason_taxonomy :: string

datatype verifier_outcome = Verified verifier_result | NotAResult | VerifierRaises

type_synonym 'w verifier = "completion_criterion \<Rightarrow> pyval \<Rightarrow> 'w \<Rightarrow> verifier_outcome \<times> 'w"
type_synonym 'w verifier_registry = "(string \<times> 'w verifier) list"

definition unknown_result :: "string \<Rightarrow> verifier_result" where
  "unknown_result reason = \<lparr>vr_state = UNKNOWN, vr_evidence_refs = PyTuple [], vr_reason_taxonomy = reason\<rparr>"

definition is_str :: "pyval \<Rightarrow> bool" where
  "is_str v = (case v of PyStr _ \<Rightarrow> True | _ \<Rightarrow> False)"

text \<open>The check of the evidence references iterates over them, so it raises when they cannot be iterated over.\<close>

definition checked_result :: "verifier_result \<Rightarrow> verifier_result result" where
  "checked_result r =
     (case py_iter (vr_evidence_refs r) of
        None \<Rightarrow> Inl (TypeError ''object is not iterable'')
      | Some refs \<Rightarrow> if list_all is_str refs then Inr r else Inr (unknown_result ''INVALID_VERIFIER_RESULT''))"

definition safe_verify :: "'w verifier \<Rightarrow> completion_criterion \<Rightarrow> pyval \<Rightarrow> 'w \<Rightarrow> verifier_result result \<times> 'w" where
  "safe_verify verifier criterion authoritative_value w =
     (case verifier criterion authoritative_value w of
        (VerifierRaises, w') \<Rightarrow> (Inr (unknown_result ''VERIFIER_EXECUTION_UNRESOLVED''), w')
      | (NotAResult, w') \<Rightarrow> (Inr (unknown_result ''INVALID_VERIFIER_RESULT''), w')
      | (Verified r, w') \<Rightarrow> (checked_result r, w'))"

definition results_equal :: "verifier_result \<Rightarrow> verifier_result \<Rightarrow> bool" where
  "results_equal a b \<longleftrightarrow> vr_state a = vr_state b \<and> py_equal (vr_evidence_refs a) (vr_evidence_refs b) \<and>
     vr_reason_taxonomy a = vr_reason_taxonomy b"

definition evaluator_init :: "'w verifier_registry \<Rightarrow> 'w verifier_registry result" where
  "evaluator_init registry =
     (if list_ex (\<lambda>(name, verifier). py_strip name = []) registry
      then Inl (CompletionContractError ''verifier registry names must be non-empty strings'') else Inr registry)"

section \<open>Evaluation\<close>

record criterion_result =
  rs_criterion_id :: string
  rs_verifier_type :: string
  rs_authoritative_source_ref :: string
  rs_state :: completion_state
  rs_evidence_refs :: "string list"
  rs_reason_taxonomy :: string
  rs_mandatory :: bool

record completion_assessment =
  ca_criterion_results :: "criterion_result list"
  ca_overall_state :: completion_state
  ca_criterion_set_digest :: string
  ca_evidence_refs :: "string list"

definition ref_strings :: "pyval \<Rightarrow> string list" where
  "ref_strings v = (case py_iter v of None \<Rightarrow> [] | Some refs \<Rightarrow> map py_str refs)"

definition criterion_result_of :: "completion_criterion \<Rightarrow> verifier_result \<Rightarrow> criterion_result" where
  "criterion_result_of c r =
     \<lparr>rs_criterion_id = cn_criterion_id c, rs_verifier_type = cn_verifier_type c,
      rs_authoritative_source_ref = cn_authoritative_source_ref c, rs_state = vr_state r,
      rs_evidence_refs = sorted_set (ref_strings (vr_evidence_refs r)), rs_reason_taxonomy = vr_reason_taxonomy r,
      rs_mandatory = cn_mandatory c\<rparr>"

definition evaluate_criterion ::
  "'w verifier_registry \<Rightarrow> (string \<times> pyval) list \<Rightarrow> completion_criterion \<Rightarrow> 'w \<Rightarrow> criterion_result result \<times> 'w" where
  "evaluate_criterion registry sources c w =
     (case py_get registry (cn_verifier_type c) of
        None \<Rightarrow> (Inr (criterion_result_of c (unknown_result ''UNKNOWN_VERIFIER_TYPE'')), w)
      | Some verifier \<Rightarrow>
          (case py_get sources (cn_authoritative_source_ref c) of
             None \<Rightarrow> (Inr (criterion_result_of c (unknown_result ''AUTHORITATIVE_SOURCE_UNRESOLVED'')), w)
           | Some authoritative_value \<Rightarrow>
               (case safe_verify verifier c authoritative_value w of
                  (Inl e, w1) \<Rightarrow> (Inl e, w1)
                | (Inr first_result, w1) \<Rightarrow>
                    (case safe_verify verifier c authoritative_value w1 of
                       (Inl e, w2) \<Rightarrow> (Inl e, w2)
                     | (Inr second_result, w2) \<Rightarrow>
                         (Inr (criterion_result_of c
                           (if \<not> results_equal first_result second_result
                            then unknown_result ''NON_REPRODUCIBLE_VERIFIER_RESULT'' else first_result)), w2)))))"

fun evaluate_criteria ::
  "'w verifier_registry \<Rightarrow> (string \<times> pyval) list \<Rightarrow> completion_criterion list \<Rightarrow> 'w \<Rightarrow> criterion_result list result \<times> 'w" where
  "evaluate_criteria registry sources [] w = (Inr [], w)"
| "evaluate_criteria registry sources (c # cs) w =
     (case evaluate_criterion registry sources c w of
        (Inl e, w') \<Rightarrow> (Inl e, w')
      | (Inr r, w') \<Rightarrow>
          (case evaluate_criteria registry sources cs w' of
             (Inl e, w'') \<Rightarrow> (Inl e, w'')
           | (Inr rs, w'') \<Rightarrow> (Inr (r # rs), w'')))"

definition overall_state :: "criterion_result list \<Rightarrow> completion_state" where
  "overall_state results =
     (let mandatory_states = map rs_state (filter rs_mandatory results) in
      if UNKNOWN \<in> set mandatory_states then UNKNOWN
      else if UNSATISFIED \<in> set mandatory_states then UNSATISFIED else SATISFIED)"

definition completion_evaluate ::
  "'w verifier_registry \<Rightarrow> completion_criterion list \<Rightarrow> (string \<times> pyval) list \<Rightarrow> 'w \<Rightarrow> completion_assessment result \<times> 'w" where
  "completion_evaluate registry criteria sources w =
     (case rbind (validated_criteria criteria) (\<lambda>normalized.
           rbind (criterion_set_digest normalized) (\<lambda>d. Inr (normalized, d))) of
        Inl e \<Rightarrow> (Inl e, w)
      | Inr (normalized, d) \<Rightarrow>
          (case evaluate_criteria registry sources normalized w of
             (Inl e, w') \<Rightarrow> (Inl e, w')
           | (Inr results, w') \<Rightarrow>
               (Inr \<lparr>ca_criterion_results = results, ca_overall_state = overall_state results, ca_criterion_set_digest = d,
                     ca_evidence_refs = sorted_set (concat (map rs_evidence_refs results))\<rparr>, w')))"

definition derive_execution_obligation :: "task_effect_policy \<Rightarrow> completion_assessment \<Rightarrow> execution_obligation" where
  "derive_execution_obligation policy assessment =
     (if ca_overall_state assessment = UNKNOWN then BLOCKED
      else if policy = READ_ONLY then READ_ONLY_EXECUTION
      else if ca_overall_state assessment = UNSATISFIED then MUTATION_REQUIRED
      else if ca_overall_state assessment = SATISFIED then NONE_SATISFIED else BLOCKED)"

definition require_same_criterion_set :: "completion_assessment \<Rightarrow> completion_assessment \<Rightarrow> unit result" where
  "require_same_criterion_set pre_assessment post_assessment =
     (if ca_criterion_set_digest pre_assessment \<noteq> ca_criterion_set_digest post_assessment
      then Inl (CompletionContractDriftError ''pre/post completion criterion_set_digest mismatch'') else Inr ())"

section \<open>Facts\<close>

lemma validated_Inr:
  "validated_criteria cs = Inr ns \<longleftrightarrow> cs \<noteq> [] \<and> distinct (map cn_criterion_id cs) \<and> list_ex cn_mandatory cs \<and> ns = sort_key cn_criterion_id cs"
  by (auto simp: validated_criteria_def)

lemma validated_again:
  assumes "validated_criteria cs = Inr ns"
  shows "validated_criteria ns = Inr ns"
proof -
  have "distinct (map cn_criterion_id ns)" "set ns = set cs"
    using assms by (auto simp: validated_Inr distinct_map_sort_key)
  moreover have "sort_key cn_criterion_id ns = ns" using assms by (auto simp: validated_Inr intro: sort_key_id_if_sorted)
  moreover from this assms have "ns \<noteq> []" by (auto simp: validated_Inr simp flip: set_empty)
  ultimately show ?thesis using assms by (auto simp: validated_Inr list_ex_iff)
qed

lemma evaluate_Inr:
  assumes "completion_evaluate reg cs src w = (Inr a, w')"
  obtains ns where "validated_criteria cs = Inr ns" "evaluate_criteria reg src ns w = (Inr (ca_criterion_results a), w')"
    "ca_overall_state a = overall_state (ca_criterion_results a)"
    "ca_criterion_set_digest a = digest (PyList (map canonical_projection ns))"
    "ca_evidence_refs a = sorted_set (concat (map rs_evidence_refs (ca_criterion_results a)))"
proof (cases "validated_criteria cs")
  case (Inr ns)
  have d: "criterion_set_digest ns = Inr (digest (PyList (map canonical_projection ns)))"
    by (simp add: criterion_set_digest_def validated_again [OF Inr])
  show ?thesis
    using assms by (auto simp: completion_evaluate_def Inr d split: prod.splits sum.splits intro!: that [OF Inr])
qed (use assms in \<open>simp add: completion_evaluate_def\<close>)

text \<open>A verifier said so twice in a row.\<close>

definition verified_twice :: "'w verifier_registry \<Rightarrow> (string \<times> pyval) list \<Rightarrow> completion_criterion \<Rightarrow> completion_state \<Rightarrow> bool" where
  "verified_twice registry sources c s \<longleftrightarrow>
     (\<exists>verifier v w r w1 r' w2. py_get registry (cn_verifier_type c) = Some verifier \<and>
        py_get sources (cn_authoritative_source_ref c) = Some v \<and> verifier c v w = (Verified r, w1) \<and>
        verifier c v w1 = (Verified r', w2) \<and> results_equal r r' \<and> vr_state r = s)"

lemma safe_verify_known:
  assumes "safe_verify verifier c v w = (Inr r, w')" "vr_state r \<noteq> UNKNOWN"
  shows "verifier c v w = (Verified r, w')"
  using assms by (auto simp: safe_verify_def checked_result_def unknown_result_def split: prod.splits verifier_outcome.splits option.splits if_splits)

lemma evaluate_criterion_shape:
  assumes "evaluate_criterion reg src c w = (Inr r, w')"
  shows "rs_criterion_id r = cn_criterion_id c" "rs_mandatory r = cn_mandatory c"
    "rs_state r \<noteq> UNKNOWN \<Longrightarrow> verified_twice reg src c (rs_state r)"
proof -
  show "rs_criterion_id r = cn_criterion_id c" "rs_mandatory r = cn_mandatory c"
    using assms by (auto simp: evaluate_criterion_def criterion_result_of_def split: option.splits prod.splits sum.splits)
  assume known: "rs_state r \<noteq> UNKNOWN"
  obtain verifier v r1 w1 r2 where v: "py_get reg (cn_verifier_type c) = Some verifier" "py_get src (cn_authoritative_source_ref c) = Some v"
    and s: "safe_verify verifier c v w = (Inr r1, w1)" "safe_verify verifier c v w1 = (Inr r2, w')"
    and eq: "results_equal r1 r2" "rs_state r = vr_state r1"
    using assms known by (auto simp: evaluate_criterion_def criterion_result_of_def unknown_result_def split: option.splits prod.splits sum.splits if_splits)
  from safe_verify_known [OF s(1)] safe_verify_known [OF s(2)] v eq known show "verified_twice reg src c (rs_state r)"
    unfolding verified_twice_def by (intro exI [of _ verifier] exI [of _ v] exI [of _ w] exI [of _ r1] exI [of _ w1] exI [of _ r2] exI [of _ w'])
      (simp add: results_equal_def)
qed

lemma evaluate_criteria_all:
  "evaluate_criteria reg src cs w = (Inr rs, w') \<Longrightarrow>
     list_all2 (\<lambda>c r. rs_criterion_id r = cn_criterion_id c \<and> rs_mandatory r = cn_mandatory c \<and>
       (rs_state r \<noteq> UNKNOWN \<longrightarrow> verified_twice reg src c (rs_state r))) cs rs"
  by (induction cs arbitrary: w rs)
    (auto split: prod.splits sum.splits simp: evaluate_criterion_shape)

lemma overall_SATISFIED: "overall_state rs = SATISFIED \<longleftrightarrow> (\<forall>r \<in> set rs. rs_mandatory r \<longrightarrow> rs_state r = SATISFIED)"
proof -
  have "s = SATISFIED \<longleftrightarrow> s \<noteq> UNKNOWN \<and> s \<noteq> UNSATISFIED" for s by (cases s) simp_all
  then show ?thesis by (auto simp: overall_state_def Let_def image_iff)
qed

lemma overall_UNKNOWN: "overall_state rs = UNKNOWN \<longleftrightarrow> (\<exists>r \<in> set rs. rs_mandatory r \<and> rs_state r = UNKNOWN)"
  by (force simp: overall_state_def Let_def)

lemma overall_UNSATISFIED: "overall_state rs = UNSATISFIED \<longleftrightarrow> (\<forall>r \<in> set rs. rs_mandatory r \<longrightarrow> rs_state r \<noteq> UNKNOWN) \<and>
     (\<exists>r \<in> set rs. rs_mandatory r \<and> rs_state r = UNSATISFIED)"
  by (force simp: overall_state_def Let_def)

lemma obligation_cases:
  "derive_execution_obligation MUTATING a = NONE_SATISFIED \<longleftrightarrow> ca_overall_state a = SATISFIED"
  "derive_execution_obligation MUTATING a = MUTATION_REQUIRED \<longleftrightarrow> ca_overall_state a = UNSATISFIED"
  "derive_execution_obligation p a = BLOCKED \<longleftrightarrow> ca_overall_state a = UNKNOWN"
  by (cases "ca_overall_state a"; simp add: derive_execution_obligation_def)+

lemma criteria_results:
  assumes "completion_evaluate reg cs src w = (Inr a, w')"
  obtains ns where "list_all2 (\<lambda>c r. rs_criterion_id r = cn_criterion_id c \<and> rs_mandatory r = cn_mandatory c \<and>
       (rs_state r \<noteq> UNKNOWN \<longrightarrow> verified_twice reg src c (rs_state r))) ns (ca_criterion_results a)"
    "ns = sort_key cn_criterion_id cs" "ca_overall_state a = overall_state (ca_criterion_results a)"
proof -
  obtain ns where ns: "validated_criteria cs = Inr ns" "evaluate_criteria reg src ns w = (Inr (ca_criterion_results a), w')"
    "ca_overall_state a = overall_state (ca_criterion_results a)" using evaluate_Inr [OF assms] .
  show ?thesis by (rule that [OF evaluate_criteria_all [OF ns(2)] _ ns(3)]) (use ns(1) in \<open>simp add: validated_Inr\<close>)
qed

lemma list_all2_left: "list_all2 P xs ys \<Longrightarrow> x \<in> set xs \<Longrightarrow> \<exists>y \<in> set ys. P x y"
  by (induction rule: list_all2_induct) auto

lemma list_all2_right: "list_all2 P xs ys \<Longrightarrow> y \<in> set ys \<Longrightarrow> \<exists>x \<in> set xs. P x y"
  by (induction rule: list_all2_induct) auto

lemma sort_key_map: "map f (sort_key f xs) = sort (map f xs)"
  by (metis mset_map mset_sort properties_for_sort sorted_sort_key)

lemma list_all2_ball: "list_all2 R xs ys \<Longrightarrow> (\<And>x y. R x y \<Longrightarrow> P x = Q y) \<Longrightarrow> (\<forall>y \<in> set ys. Q y) = (\<forall>x \<in> set xs. P x)"
  by (induction rule: list_all2_induct) auto

lemma list_all2_bex: "list_all2 R xs ys \<Longrightarrow> (\<And>x y. R x y \<Longrightarrow> P x = Q y) \<Longrightarrow> (\<exists>y \<in> set ys. Q y) = (\<exists>x \<in> set xs. P x)"
  by (induction rule: list_all2_induct) auto

text \<open>C15. Completion is decided by the verifiers alone and fails closed: an assessment has one result per criterion, in the order
  of their identifiers; a mutating task is released from work only when for every mandatory criterion the registered verifier
  has answered SATISFIED twice in succession on the authoritative source; work is demanded only when every mandatory criterion was
  answered so and one of them unsatisfied; and the task is blocked exactly when a mandatory criterion is unknown.\<close>

theorem completion_fails_closed:
  assumes "completion_evaluate registry criteria sources w = (Inr a, w')"
  shows "map rs_criterion_id (ca_criterion_results a) = sort (map cn_criterion_id criteria) \<and>
     (derive_execution_obligation MUTATING a = NONE_SATISFIED \<longrightarrow>
        (\<forall>c \<in> set criteria. cn_mandatory c \<longrightarrow> verified_twice registry sources c SATISFIED)) \<and>
     (derive_execution_obligation MUTATING a = MUTATION_REQUIRED \<longrightarrow>
        (\<forall>c \<in> set criteria. cn_mandatory c \<longrightarrow> (\<exists>s. s \<noteq> UNKNOWN \<and> verified_twice registry sources c s)) \<and>
        (\<exists>c \<in> set criteria. cn_mandatory c \<and> verified_twice registry sources c UNSATISFIED)) \<and>
     (derive_execution_obligation policy a = BLOCKED \<longleftrightarrow>
        (\<exists>r \<in> set (ca_criterion_results a). rs_mandatory r \<and> rs_state r = UNKNOWN))"
proof -
  obtain ns where all: "list_all2 (\<lambda>c r. rs_criterion_id r = cn_criterion_id c \<and> rs_mandatory r = cn_mandatory c \<and>
       (rs_state r \<noteq> UNKNOWN \<longrightarrow> verified_twice registry sources c (rs_state r))) ns (ca_criterion_results a)"
    and ns: "ns = sort_key cn_criterion_id criteria" and o: "ca_overall_state a = overall_state (ca_criterion_results a)"
    using criteria_results [OF assms] .
  have ids: "map rs_criterion_id (ca_criterion_results a) = map cn_criterion_id ns"
    using all by (auto simp: list_all2_conv_all_nth intro: nth_equalityI)
  have up: "\<exists>r \<in> set (ca_criterion_results a). rs_mandatory r = cn_mandatory c \<and> (rs_state r \<noteq> UNKNOWN \<longrightarrow> verified_twice registry sources c (rs_state r))"
    if "c \<in> set criteria" for c using list_all2_left [OF all, of c] that unfolding ns set_sort by blast
  have down: "\<exists>c \<in> set criteria. rs_mandatory r = cn_mandatory c \<and> (rs_state r \<noteq> UNKNOWN \<longrightarrow> verified_twice registry sources c (rs_state r))"
    if "r \<in> set (ca_criterion_results a)" for r using list_all2_right [OF all that] unfolding ns set_sort by blast
  show ?thesis
    unfolding obligation_cases o overall_SATISFIED overall_UNSATISFIED overall_UNKNOWN ids ns sort_key_map
  proof (intro conjI impI ballI refl)
    fix c assume "\<forall>r \<in> set (ca_criterion_results a). rs_mandatory r \<longrightarrow> rs_state r = SATISFIED" "c \<in> set criteria" "cn_mandatory c"
    then show "verified_twice registry sources c SATISFIED" using up [of c] by force
  next
    assume "(\<forall>r \<in> set (ca_criterion_results a). rs_mandatory r \<longrightarrow> rs_state r \<noteq> UNKNOWN) \<and>
      (\<exists>r \<in> set (ca_criterion_results a). rs_mandatory r \<and> rs_state r = UNSATISFIED)"
    then show "\<exists>c \<in> set criteria. cn_mandatory c \<and> verified_twice registry sources c UNSATISFIED" using down by force
  next
    fix c assume "(\<forall>r \<in> set (ca_criterion_results a). rs_mandatory r \<longrightarrow> rs_state r \<noteq> UNKNOWN) \<and>
      (\<exists>r \<in> set (ca_criterion_results a). rs_mandatory r \<and> rs_state r = UNSATISFIED)" "c \<in> set criteria" "cn_mandatory c"
    then show "\<exists>s. s \<noteq> UNKNOWN \<and> verified_twice registry sources c s" using up [of c] by force
  qed
qed


text \<open>The order in which criteria are listed has no influence on an assessment, on the exception or on the calls the verifiers
  see.\<close>

theorem completion_order_neutral:
  assumes "mset criteria = mset criteria'"
  shows "completion_evaluate registry criteria sources w = completion_evaluate registry criteria' sources w"
proof -
  have "validated_criteria criteria = validated_criteria criteria'"
  proof (cases "distinct (map cn_criterion_id criteria)")
    case True
    then have "inj_on cn_criterion_id (set criteria)" by (simp add: distinct_map)
    then have "sort_key cn_criterion_id criteria = sort_key cn_criterion_id criteria'"
      using assms by (intro sort_key_inj_key_eq) simp_all
    moreover have "distinct (map cn_criterion_id criteria')" using True assms by (metis mset_eq_imp_distinct_iff mset_map)
    moreover have "set criteria = set criteria'" using assms by (rule mset_eq_setD)
    ultimately show ?thesis using True by (auto simp: validated_criteria_def list_ex_iff simp flip: set_empty)
  next
    case False
    then have "\<not> distinct (map cn_criterion_id criteria')" using assms by (metis mset_eq_imp_distinct_iff mset_map)
    moreover have "criteria = [] \<longleftrightarrow> criteria' = []" using assms by auto
    ultimately show ?thesis using False by (simp add: validated_criteria_def)
  qed
  then show ?thesis by (simp only: completion_evaluate_def)
qed

text \<open>C17. Drift of the criteria is detected: when the assessments before and after the work pass the comparison, the two sets of
  criteria have the same canonical content, criterion by criterion, or exhibit a collision of SHA-256; equal contents always
  pass.\<close>

theorem criterion_drift_detected:
  assumes "completion_evaluate registry criteria sources w = (Inr pre, w1)" "completion_evaluate registry' criteria' sources' w' = (Inr post, w2)"
  shows "(require_same_criterion_set pre post = Inr () \<longrightarrow>
       map (\<lambda>c. json_norm (canonical_projection c)) (sort_key cn_criterion_id criteria) =
         map (\<lambda>c. json_norm (canonical_projection c)) (sort_key cn_criterion_id criteria') \<or>
       sha_collision (canonical_bytes (PyList (map canonical_projection (sort_key cn_criterion_id criteria))))
         (canonical_bytes (PyList (map canonical_projection (sort_key cn_criterion_id criteria'))))) \<and>
     (map (\<lambda>c. json_norm (canonical_projection c)) (sort_key cn_criterion_id criteria) =
         map (\<lambda>c. json_norm (canonical_projection c)) (sort_key cn_criterion_id criteria') \<longrightarrow>
       require_same_criterion_set pre post = Inr ())"
proof -
  let ?pre = "PyList (map canonical_projection (sort_key cn_criterion_id criteria))"
  let ?post = "PyList (map canonical_projection (sort_key cn_criterion_id criteria'))"
  have d: "ca_criterion_set_digest pre = digest ?pre" "ca_criterion_set_digest post = digest ?post"
    using assms by (auto elim!: evaluate_Inr simp: validated_Inr)
  then have same: "require_same_criterion_set pre post = Inr () \<longleftrightarrow> digest ?pre = digest ?post"
    by (simp only: require_same_criterion_set_def) simp
  have norm: "json_norm (PyList (map canonical_projection cs)) = json_norm (PyList (map canonical_projection ds)) \<longleftrightarrow>
      map (\<lambda>c. json_norm (canonical_projection c)) cs = map (\<lambda>c. json_norm (canonical_projection c)) ds" for cs ds
    by (simp add: comp_def)
  show ?thesis
    unfolding same norm [symmetric] by (intro conjI impI, erule digest_eqD, erule digest_norm_cong)
qed

section \<open>An evaluation\<close>

definition ex_verifier :: "unit verifier" where
  "ex_verifier c v w = (Verified \<lparr>vr_state = SATISFIED, vr_evidence_refs = PyTuple [PyStr ''e1''], vr_reason_taxonomy = []\<rparr>, w)"

definition ex_criterion :: "string \<Rightarrow> completion_criterion" where
  "ex_criterion i = \<lparr>cn_criterion_id = i, cn_verifier_type = ''T'', cn_authoritative_source_ref = ''src'',
     cn_verifier_config = [], cn_mandatory = True\<rparr>"

definition ex_results :: "criterion_result list" where
  "ex_results = [\<lparr>rs_criterion_id = ''c1'', rs_verifier_type = ''T'', rs_authoritative_source_ref = ''src'', rs_state = SATISFIED,
     rs_evidence_refs = [''e1''], rs_reason_taxonomy = [], rs_mandatory = True\<rparr>]"

lemma ex_evaluate: "completion_evaluate [(''T'', ex_verifier)] [ex_criterion ''c1''] [(''src'', PyNone)] () =
   (Inr \<lparr>ca_criterion_results = ex_results, ca_overall_state = SATISFIED,
      ca_criterion_set_digest = digest (PyList [canonical_projection (ex_criterion ''c1'')]), ca_evidence_refs = [''e1'']\<rparr>, ())"
  by (simp add: completion_evaluate_def criterion_set_digest_def validated_criteria_def ex_results_def)
    (simp add: evaluate_criterion_def safe_verify_def checked_result_def ex_verifier_def is_str_def py_get_def results_equal_def
      criterion_result_of_def ref_strings_def overall_state_def sorted_set_def ex_criterion_def)

theorem completion_fails_closed_witness:
  "\<exists>a. completion_evaluate [(''T'', ex_verifier)] [ex_criterion ''c1''] [(''src'', PyNone)] () = (Inr a, ()) \<and>
     derive_execution_obligation MUTATING a = NONE_SATISFIED \<and> verified_twice [(''T'', ex_verifier)] [(''src'', PyNone)] (ex_criterion ''c1'') SATISFIED"
  using completion_fails_closed [OF ex_evaluate] ex_evaluate
  by (simp add: derive_execution_obligation_def) (simp add: ex_criterion_def)

theorem completion_order_neutral_witness:
  "completion_evaluate [(''T'', ex_verifier)] [ex_criterion ''c1'', ex_criterion ''c2''] [(''src'', PyNone)] () =
     completion_evaluate [(''T'', ex_verifier)] [ex_criterion ''c2'', ex_criterion ''c1''] [(''src'', PyNone)] ()"
  by (rule completion_order_neutral) simp

theorem criterion_drift_detected_witness:
  "\<exists>a. completion_evaluate [(''T'', ex_verifier)] [ex_criterion ''c1''] [(''src'', PyNone)] () = (Inr a, ()) \<and>
     require_same_criterion_set a a = Inr ()"
  using criterion_drift_detected [OF ex_evaluate ex_evaluate] ex_evaluate by blast

end
