(* ===== verification/Completion_Bridge.thy ===== *)
theory Completion_Bridge
  imports Completion_Contract
begin

text \<open>
  The bridge from frozen completion evidence to the completion contract,
  \<open>src/runtime/orchestrator/completion_contract_bridge.py\<close>, with the data of \<open>completion_authority.py\<close> it works on. Running the
  frozen test nodes is the business of another module; the evidence it gives back is an argument here.
\<close>

section \<open>Authority and evidence\<close>

record criterion_materialization =
  cm_criterion_id :: string
  cm_verifier_type :: string
  cm_authoritative_source_ref :: string
  cm_node_names :: "string list"
  cm_mandatory :: bool

record frozen_authority =
  fa_task_ref :: string
  fa_snapshot_sha256 :: string
  fa_node_set_digest :: string
  fa_criteria :: "criterion_materialization list"

record criterion_evidence =
  ce_criterion_id :: string
  ce_state :: string
  ce_reason_taxonomy :: string
  ce_authoritative_source_ref :: string
  ce_snapshot_sha256 :: string
  ce_node_set_digest :: string
  ce_pytest_exit_code :: "int option"
  ce_stdout_sha256 :: string
  ce_stderr_sha256 :: string
  ce_command_digest :: string
  ce_evidence_digest :: string

definition evidence_canonical_projection :: "criterion_evidence \<Rightarrow> (string \<times> pyval) list" where
  "evidence_canonical_projection e =
     [(''criterion_id'', PyStr (ce_criterion_id e)), (''state'', PyStr (ce_state e)),
      (''reason_taxonomy'', PyStr (ce_reason_taxonomy e)),
      (''authoritative_source_ref'', PyStr (ce_authoritative_source_ref e)),
      (''snapshot_sha256'', PyStr (ce_snapshot_sha256 e)), (''node_set_digest'', PyStr (ce_node_set_digest e)),
      (''pytest_exit_code'', case ce_pytest_exit_code e of None \<Rightarrow> PyNone | Some i \<Rightarrow> PyInt i),
      (''stdout_sha256'', PyStr (ce_stdout_sha256 e)), (''stderr_sha256'', PyStr (ce_stderr_sha256 e)),
      (''command_digest'', PyStr (ce_command_digest e))]"

definition VERIFIER_TYPE :: string where "VERIFIER_TYPE = ''FROZEN_PYTEST_NODESET_V1''"

section \<open>The bridge\<close>

definition materialized_criterion :: "frozen_authority \<Rightarrow> criterion_materialization \<Rightarrow> completion_criterion" where
  "materialized_criterion authority item =
     \<lparr>cn_criterion_id = cm_criterion_id item, cn_verifier_type = cm_verifier_type item,
      cn_authoritative_source_ref = cm_authoritative_source_ref item,
      cn_verifier_config =
        [(''task_ref'', PyStr (fa_task_ref authority)), (''snapshot_sha256'', PyStr (fa_snapshot_sha256 authority)),
         (''node_set_digest'', PyStr (fa_node_set_digest authority)), (''node_names'', strs (cm_node_names item))],
      cn_mandatory = cm_mandatory item\<rparr>"

definition build_completion_criteria :: "frozen_authority \<Rightarrow> completion_criterion list result" where
  "build_completion_criteria authority =
     (if fa_criteria authority = []
      then Inl (CompletionContractBridgeError ''Frozen Completion Authority contains no criteria'' ''COMPLETION_BRIDGE_CRITERIA_MISSING'')
      else rmap (\<lambda>item. criterion_init (materialized_criterion authority item)) (fa_criteria authority))"

definition evidence_projection :: "criterion_evidence \<Rightarrow> (string \<times> pyval) list" where
  "evidence_projection e = py_setitem ''evidence_digest'' (PyStr (ce_evidence_digest e)) (evidence_canonical_projection e)"

text \<open>\<open>CompletionState(raw_state)\<close>.\<close>

definition completion_state_of :: "pyval \<Rightarrow> completion_state option" where
  "completion_state_of v =
     (if v = PyStr ''SATISFIED'' then Some SATISFIED else if v = PyStr ''UNSATISFIED'' then Some UNSATISFIED
      else if v = PyStr ''UNKNOWN'' then Some UNKNOWN else None)"

definition frozen_pytest_verifier :: "completion_criterion \<Rightarrow> pyval \<Rightarrow> verifier_result" where
  "frozen_pytest_verifier criterion authoritative_value =
     (case authoritative_value of
        PyDict value \<Rightarrow>
          let get = (\<lambda>k. py_get_or PyNone value k); config = (\<lambda>k. py_get_or PyNone (cn_verifier_config criterion) k);
              source_ref = cn_authoritative_source_ref criterion in
          if \<not> py_equal (get ''criterion_id'') (PyStr (cn_criterion_id criterion)) \<or>
             \<not> py_equal (get ''authoritative_source_ref'') (PyStr source_ref) \<or>
             \<not> py_equal (get ''snapshot_sha256'') (config ''snapshot_sha256'') \<or>
             \<not> py_equal (get ''node_set_digest'') (config ''node_set_digest'')
          then unknown_result ''AUTHORITATIVE_COMPLETION_EVIDENCE_BINDING_DRIFT''
          else (case get ''evidence_digest'' of
              PyStr supplied \<Rightarrow>
                if supplied = [] then unknown_result ''AUTHORITATIVE_COMPLETION_EVIDENCE_DIGEST_MISSING''
                else if digest (PyDict (filter (\<lambda>(k, v). k \<noteq> ''evidence_digest'') value)) \<noteq> supplied
                then unknown_result ''AUTHORITATIVE_COMPLETION_EVIDENCE_DIGEST_DRIFT''
                else (case completion_state_of (get ''state'') of
                    None \<Rightarrow> unknown_result ''AUTHORITATIVE_COMPLETION_EVIDENCE_STATE_INVALID''
                  | Some state \<Rightarrow>
                      (case get ''reason_taxonomy'' of
                         PyStr reason \<Rightarrow>
                           \<lparr>vr_state = state, vr_evidence_refs = PyTuple [PyStr (source_ref @ ''#evidence='' @ supplied)],
                            vr_reason_taxonomy = reason\<rparr>
                       | _ \<Rightarrow> unknown_result ''AUTHORITATIVE_COMPLETION_EVIDENCE_REASON_INVALID''))
            | _ \<Rightarrow> unknown_result ''AUTHORITATIVE_COMPLETION_EVIDENCE_DIGEST_MISSING'')
      | _ \<Rightarrow> unknown_result ''AUTHORITATIVE_COMPLETION_EVIDENCE_INVALID'')"

text \<open>The verifier as a callback: it returns without touching anything outside.\<close>

definition frozen_verifier :: "'w verifier" where
  "frozen_verifier criterion authoritative_value w = (Verified (frozen_pytest_verifier criterion authoritative_value), w)"

definition source_step :: "(string \<times> pyval) list \<Rightarrow> criterion_evidence \<Rightarrow> (string \<times> pyval) list result" where
  "source_step sources item =
     (if ce_authoritative_source_ref item \<in> set (map fst sources)
      then Inl (CompletionContractBridgeError ''Duplicate authoritative Completion source ref'' ''COMPLETION_BRIDGE_DUPLICATE_SOURCE'')
      else Inr (py_setitem (ce_authoritative_source_ref item) (PyDict (evidence_projection item)) sources))"

definition authoritative_sources :: "criterion_evidence list \<Rightarrow> (string \<times> pyval) list result" where
  "authoritative_sources evidence = rfold source_step [] evidence"

definition assess_frozen_completion :: "frozen_authority \<Rightarrow> criterion_evidence list \<Rightarrow> completion_assessment result" where
  "assess_frozen_completion authority evidence =
     rbind (build_completion_criteria authority) (\<lambda>criteria.
     if length evidence \<noteq> length criteria
     then Inl (CompletionContractBridgeError ''Frozen Completion evidence count does not match criterion count''
       ''COMPLETION_BRIDGE_EVIDENCE_COUNT_DRIFT'')
     else
     rbind (evaluator_init [(VERIFIER_TYPE, frozen_verifier)]) (\<lambda>registry.
     rbind (authoritative_sources evidence) (\<lambda>sources.
     rbind (fst (completion_evaluate registry criteria sources ())) (\<lambda>assessment.
     if sort (map rs_criterion_id (ca_criterion_results assessment)) \<noteq> sort (map cn_criterion_id criteria)
     then Inl (CompletionContractBridgeError ''CompletionAssessment criterion identity drift'' ''COMPLETION_BRIDGE_CRITERION_ID_DRIFT'')
     else Inr assessment))))"

record bridge_assessment =
  ba_assessment :: completion_assessment
  ba_execution_obligation :: execution_obligation
  ba_evidence :: "criterion_evidence list"

text \<open>Of the active contract only the identifiers of its criteria and its effect policy are used. \<open>evidence\<close> is what
  \<open>verify_all_frozen_completion_criteria\<close> returned.\<close>

definition evaluate_contract_completion ::
  "string list \<Rightarrow> task_effect_policy \<Rightarrow> frozen_authority \<Rightarrow> criterion_evidence list \<Rightarrow> bridge_assessment result" where
  "evaluate_contract_completion completion_criteria_ids policy authority evidence =
     (if sort completion_criteria_ids \<noteq> sort (map cm_criterion_id (fa_criteria authority))
      then Inl (CompletionContractBridgeError ''ACTIVE Contract completion criteria do not match Frozen Completion Authority''
        ''COMPLETION_BRIDGE_CONTRACT_CRITERIA_DRIFT'')
      else rbind (assess_frozen_completion authority evidence) (\<lambda>assessment.
        Inr \<lparr>ba_assessment = assessment, ba_execution_obligation = derive_execution_obligation policy assessment,
             ba_evidence = evidence\<rparr>))"

section \<open>The verifier interface\<close>

text \<open>What the evaluator relies on when a verifier is reproducible: it answers by a result with references that are texts and
  leaves the world as it is.\<close>

locale pure_verifier =
  fixes verify :: "'w verifier"
    and answer :: "completion_criterion \<Rightarrow> pyval \<Rightarrow> verifier_result"
  assumes verify_answer: "verify c v w = (Verified (answer c v), w)"
    and answer_refs: "\<exists>refs. vr_evidence_refs (answer c v) = PyTuple (map PyStr refs)"
begin

lemma safe_answer: "safe_verify verify c v w = (Inr (answer c v), w)"
proof -
  obtain refs where "vr_evidence_refs (answer c v) = PyTuple (map PyStr refs)" using answer_refs by blast
  moreover have "list_all is_str (map PyStr refs)" by (simp add: list_all_iff is_str_def)
  ultimately show ?thesis by (simp add: safe_verify_def verify_answer checked_result_def)
qed

text \<open>The result of a criterion in a registry with this verifier only.\<close>

definition verdict :: "string \<Rightarrow> (string \<times> pyval) list \<Rightarrow> completion_criterion \<Rightarrow> verifier_result" where
  "verdict name sources c =
     (if cn_verifier_type c \<noteq> name then unknown_result ''UNKNOWN_VERIFIER_TYPE''
      else case py_get sources (cn_authoritative_source_ref c) of
          None \<Rightarrow> unknown_result ''AUTHORITATIVE_SOURCE_UNRESOLVED''
        | Some v \<Rightarrow> answer c v)"

lemma evaluate_criterion_pure:
  "evaluate_criterion [(name, verify)] sources c w = (Inr (criterion_result_of c (verdict name sources c)), w)"
  by (auto simp: evaluate_criterion_def verdict_def py_get_def safe_answer results_equal_def split: option.splits)

lemma evaluate_criteria_pure:
  "evaluate_criteria [(name, verify)] sources cs w = (Inr (map (\<lambda>c. criterion_result_of c (verdict name sources c)) cs), w)"
  by (induction cs arbitrary: w) (simp_all add: evaluate_criterion_pure)

text \<open>Evaluation returns, and its state is that of the verdicts.\<close>

lemma completion_evaluate_pure:
  assumes "validated_criteria cs = Inr ns"
  shows "\<exists>a. completion_evaluate [(name, verify)] cs sources w = (Inr a, w) \<and>
    ca_criterion_results a = map (\<lambda>c. criterion_result_of c (verdict name sources c)) ns \<and>
    (ca_overall_state a = SATISFIED \<longleftrightarrow> (\<forall>c \<in> set cs. cn_mandatory c \<longrightarrow> vr_state (verdict name sources c) = SATISFIED)) \<and>
    (ca_overall_state a = UNKNOWN \<longleftrightarrow> (\<exists>c \<in> set cs. cn_mandatory c \<and> vr_state (verdict name sources c) = UNKNOWN))"
proof -
  have "criterion_set_digest ns = Inr (digest (PyList (map canonical_projection ns)))"
    by (simp add: criterion_set_digest_def validated_again [OF assms])
  moreover have "set ns = set cs" using assms by (auto simp: validated_Inr)
  ultimately show ?thesis
    using assms by (auto simp: completion_evaluate_def evaluate_criteria_pure overall_SATISFIED overall_UNKNOWN criterion_result_of_def)
qed

end

interpretation frozen: pure_verifier frozen_verifier frozen_pytest_verifier
proof (unfold_locales)
  fix c v
  have "\<exists>refs. vr_evidence_refs (unknown_result r) = PyTuple (map PyStr refs)" for r
    by (rule exI [of _ "[]"]) (simp add: unknown_result_def)
  then show "\<exists>refs. vr_evidence_refs (frozen_pytest_verifier c v) = PyTuple (map PyStr refs)"
    by (auto simp: frozen_pytest_verifier_def Let_def split: pyval.splits option.splits intro: exI [of _ "[x]" for x])
qed (simp add: frozen_verifier_def)

section \<open>What releases a task from work\<close>

text \<open>A piece of evidence speaks about a criterion of the authority and is intact.\<close>

definition evidence_proves :: "frozen_authority \<Rightarrow> criterion_materialization \<Rightarrow> criterion_evidence \<Rightarrow> bool" where
  "evidence_proves authority item e \<longleftrightarrow>
     py_strip (cm_verifier_type item) = VERIFIER_TYPE \<and> ce_criterion_id e = py_strip (cm_criterion_id item) \<and>
     ce_authoritative_source_ref e = py_strip (cm_authoritative_source_ref item) \<and>
     ce_snapshot_sha256 e = fa_snapshot_sha256 authority \<and> ce_node_set_digest e = fa_node_set_digest authority \<and>
     ce_evidence_digest e = digest (PyDict (evidence_canonical_projection e))"

lemma evidence_projection_snoc:
  "evidence_projection e = evidence_canonical_projection e @ [(''evidence_digest'', PyStr (ce_evidence_digest e))]"
  by (simp add: evidence_projection_def evidence_canonical_projection_def)

lemma projection_facts:
  "py_get_or PyNone (evidence_projection e) ''criterion_id'' = PyStr (ce_criterion_id e)"
  "py_get_or PyNone (evidence_projection e) ''authoritative_source_ref'' = PyStr (ce_authoritative_source_ref e)"
  "py_get_or PyNone (evidence_projection e) ''snapshot_sha256'' = PyStr (ce_snapshot_sha256 e)"
  "py_get_or PyNone (evidence_projection e) ''node_set_digest'' = PyStr (ce_node_set_digest e)"
  "py_get_or PyNone (evidence_projection e) ''evidence_digest'' = PyStr (ce_evidence_digest e)"
  "py_get_or PyNone (evidence_projection e) ''state'' = PyStr (ce_state e)"
  "py_get_or PyNone (evidence_projection e) ''reason_taxonomy'' = PyStr (ce_reason_taxonomy e)"
  "filter (\<lambda>(k, v). k \<noteq> ''evidence_digest'') (evidence_projection e) = evidence_canonical_projection e"
  by (simp_all add: evidence_projection_snoc evidence_canonical_projection_def py_get_or_def)

lemma criterion_facts:
  assumes "criterion_init (materialized_criterion authority item) = Inr c"
  shows "cn_criterion_id c = py_strip (cm_criterion_id item)" "cn_verifier_type c = py_strip (cm_verifier_type item)"
    "cn_authoritative_source_ref c = py_strip (cm_authoritative_source_ref item)" "cn_mandatory c = cm_mandatory item"
    "py_get_or PyNone (cn_verifier_config c) ''snapshot_sha256'' = PyStr (fa_snapshot_sha256 authority)"
    "py_get_or PyNone (cn_verifier_config c) ''node_set_digest'' = PyStr (fa_node_set_digest authority)"
  using assms by (auto simp: criterion_init_def materialized_criterion_def Let_def py_get_or_def split: if_splits)

lemma verifier_state:
  assumes c: "criterion_init (materialized_criterion authority item) = Inr c"
    and t: "py_strip (cm_verifier_type item) = VERIFIER_TYPE" "ce_authoritative_source_ref e = py_strip (cm_authoritative_source_ref item)"
    and s: "s = SATISFIED \<and> n = ''SATISFIED'' \<or> s = UNSATISFIED \<and> n = ''UNSATISFIED''"
  shows "vr_state (frozen_pytest_verifier c (PyDict (evidence_projection e))) = s \<longleftrightarrow> evidence_proves authority item e \<and> ce_state e = n"
proof -
  have u: "vr_state (unknown_result r) \<noteq> s" for r using s by (auto simp: unknown_result_def)
  show ?thesis
    unfolding frozen_pytest_verifier_def pyval.case Let_def projection_facts criterion_facts [OF c] py_equal_PyStr pyval.inject
    using u s t by (auto simp: evidence_proves_def completion_state_of_def split: if_splits)
qed

lemma sources_list:
  "rfold source_step acc evidence = Inr sources \<Longrightarrow>
     sources = acc @ map (\<lambda>e. (ce_authoritative_source_ref e, PyDict (evidence_projection e))) evidence \<and>
     (distinct (map fst acc) \<longrightarrow> distinct (map fst sources))"
proof (induction evidence arbitrary: acc)
  case (Cons e es)
  have new: "ce_authoritative_source_ref e \<notin> set (map fst acc)" using Cons.prems by (auto simp: source_step_def)
  then have "py_setitem (ce_authoritative_source_ref e) (PyDict (evidence_projection e)) acc =
      acc @ [(ce_authoritative_source_ref e, PyDict (evidence_projection e))]"
    by (induction acc) auto
  with new have "source_step acc e = Inr (acc @ [(ce_authoritative_source_ref e, PyDict (evidence_projection e))])"
    by (simp add: source_step_def)
  then have "rfold source_step (acc @ [(ce_authoritative_source_ref e, PyDict (evidence_projection e))]) es = Inr sources"
    using Cons.prems by simp
  from Cons.IH [OF this] have IH: "sources = (acc @ [(ce_authoritative_source_ref e, PyDict (evidence_projection e))]) @
      map (\<lambda>e. (ce_authoritative_source_ref e, PyDict (evidence_projection e))) es"
    "distinct (map fst (acc @ [(ce_authoritative_source_ref e, PyDict (evidence_projection e))])) \<longrightarrow> distinct (map fst sources)" by blast+
  show ?case
  proof (intro conjI impI)
    assume "distinct (map fst acc)"
    then show "distinct (map fst sources)" using IH(2) new by simp
  qed (simp add: IH(1))
qed auto

lemma source_lookup:
  assumes "authoritative_sources evidence = Inr sources"
  shows "py_get sources ref = Some v \<longleftrightarrow> (\<exists>e \<in> set evidence. ce_authoritative_source_ref e = ref \<and> v = PyDict (evidence_projection e))"
proof -
  have s: "sources = map (\<lambda>e. (ce_authoritative_source_ref e, PyDict (evidence_projection e))) evidence" "distinct (map fst sources)"
    using sources_list [of "[]" evidence sources] assms by (auto simp: authoritative_sources_def)
  from map_of_eq_Some_iff [OF s(2)] show ?thesis by (auto simp: py_get_def s(1))
qed


lemma verdict_state:
  assumes c: "criterion_init (materialized_criterion authority item) = Inr c" and src: "authoritative_sources evidence = Inr sources"
    and s: "s = SATISFIED \<and> n = ''SATISFIED'' \<or> s = UNSATISFIED \<and> n = ''UNSATISFIED''"
  shows "vr_state (frozen.verdict VERIFIER_TYPE sources c) = s \<longleftrightarrow> (\<exists>e \<in> set evidence. evidence_proves authority item e \<and> ce_state e = n)"
proof (cases "py_strip (cm_verifier_type item) = VERIFIER_TYPE")
  case False
  then show ?thesis using s by (auto simp: frozen.verdict_def criterion_facts [OF c] unknown_result_def evidence_proves_def)
next
  case True
  show ?thesis
  proof (cases "py_get sources (py_strip (cm_authoritative_source_ref item))")
    case None
    have "\<not> evidence_proves authority item e" if "e \<in> set evidence" for e
      using source_lookup [OF src, of "py_strip (cm_authoritative_source_ref item)" "PyDict (evidence_projection e)"] None that
      by (auto simp: evidence_proves_def)
    with None True s show ?thesis by (auto simp: frozen.verdict_def criterion_facts [OF c] unknown_result_def)
  next
    case (Some v)
    then obtain e where e: "e \<in> set evidence" "ce_authoritative_source_ref e = py_strip (cm_authoritative_source_ref item)"
      "v = PyDict (evidence_projection e)" using source_lookup [OF src] by blast
    have only: "evidence_projection e' = evidence_projection e" if "e' \<in> set evidence" "evidence_proves authority item e'" for e'
      using source_lookup [OF src, of "py_strip (cm_authoritative_source_ref item)" "PyDict (evidence_projection e')"] Some e(3) that
      by (auto simp: evidence_proves_def)
    have "vr_state (frozen.verdict VERIFIER_TYPE sources c) = s \<longleftrightarrow> evidence_proves authority item e \<and> ce_state e = n"
      using Some True verifier_state [OF c True e(2) s] by (simp add: frozen.verdict_def criterion_facts [OF c] e(3))
    moreover have "ce_state e' = n \<and> evidence_proves authority item e' \<Longrightarrow> evidence_proves authority item e \<and> ce_state e = n"
      if "e' \<in> set evidence" for e'
      using only [OF that] verifier_state [OF c True _ s, of e'] verifier_state [OF c True e(2) s]
      by (auto simp: evidence_proves_def)
    ultimately show ?thesis using e(1) by blast
  qed
qed

lemma assess_Inr:
  assumes "assess_frozen_completion authority evidence = Inr a"
  obtains criteria sources where "list_all2 (\<lambda>item c. criterion_init (materialized_criterion authority item) = Inr c) (fa_criteria authority) criteria"
    "authoritative_sources evidence = Inr sources"
    "ca_overall_state a = SATISFIED \<longleftrightarrow> (\<forall>c \<in> set criteria. cn_mandatory c \<longrightarrow> vr_state (frozen.verdict VERIFIER_TYPE sources c) = SATISFIED)"
    "ca_overall_state a = UNKNOWN \<longleftrightarrow> (\<exists>c \<in> set criteria. cn_mandatory c \<and> vr_state (frozen.verdict VERIFIER_TYPE sources c) = UNKNOWN)"
proof -
  obtain criteria sources where c: "build_completion_criteria authority = Inr criteria" "authoritative_sources evidence = Inr sources"
    "fst (completion_evaluate [(VERIFIER_TYPE, frozen_verifier)] criteria sources ()) = Inr a"
    using assms by (auto simp: assess_frozen_completion_def evaluator_init_def)
  have "\<exists>ns. validated_criteria criteria = Inr ns"
    using c(3) by (cases "validated_criteria criteria") (auto simp: completion_evaluate_def)
  then obtain ns where ns: "validated_criteria criteria = Inr ns" by blast
  from frozen.completion_evaluate_pure [OF ns, of VERIFIER_TYPE sources "()"] c show ?thesis
    by (intro that) (auto simp: build_completion_criteria_def rmap_eq_Inr)
qed

text \<open>C16. From frozen evidence to the obligation of a task: a mutating task is released from work exactly when every mandatory
  criterion of the frozen authority has a piece of intact evidence that binds it to the snapshot and node set and says
  SATISFIED, and the task is blocked exactly when some mandatory criterion has no such evidence for SATISFIED or UNSATISFIED.\<close>

theorem frozen_completion_iff:
  assumes "evaluate_contract_completion ids policy authority evidence = Inr b"
  shows "(ba_execution_obligation b = NONE_SATISFIED \<longleftrightarrow> policy = MUTATING \<and>
       (\<forall>item \<in> set (fa_criteria authority). cm_mandatory item \<longrightarrow>
          (\<exists>e \<in> set evidence. evidence_proves authority item e \<and> ce_state e = ''SATISFIED''))) \<and>
     (ba_execution_obligation b = BLOCKED \<longleftrightarrow>
       (\<exists>item \<in> set (fa_criteria authority). cm_mandatory item \<and>
          \<not> (\<exists>e \<in> set evidence. evidence_proves authority item e \<and> ce_state e \<in> {''SATISFIED'', ''UNSATISFIED''})))"
proof -
  obtain a where a: "assess_frozen_completion authority evidence = Inr a" "ba_execution_obligation b = derive_execution_obligation policy a"
    using assms by (auto simp: evaluate_contract_completion_def)
  obtain criteria sources where all: "list_all2 (\<lambda>item c. criterion_init (materialized_criterion authority item) = Inr c) (fa_criteria authority) criteria"
    and src: "authoritative_sources evidence = Inr sources"
    and o: "ca_overall_state a = SATISFIED \<longleftrightarrow> (\<forall>c \<in> set criteria. cn_mandatory c \<longrightarrow> vr_state (frozen.verdict VERIFIER_TYPE sources c) = SATISFIED)"
    "ca_overall_state a = UNKNOWN \<longleftrightarrow> (\<exists>c \<in> set criteria. cn_mandatory c \<and> vr_state (frozen.verdict VERIFIER_TYPE sources c) = UNKNOWN)"
    using assess_Inr [OF a(1)] .
  have unknown: "s = UNKNOWN \<longleftrightarrow> s \<noteq> SATISFIED \<and> s \<noteq> UNSATISFIED" for s by (cases s) simp_all
  have sat: "vr_state (frozen.verdict VERIFIER_TYPE sources c) = SATISFIED \<longleftrightarrow>
        (\<exists>e \<in> set evidence. evidence_proves authority item e \<and> ce_state e = ''SATISFIED'')"
    and unk: "vr_state (frozen.verdict VERIFIER_TYPE sources c) = UNKNOWN \<longleftrightarrow>
        \<not> (\<exists>e \<in> set evidence. evidence_proves authority item e \<and> ce_state e \<in> {''SATISFIED'', ''UNSATISFIED''})"
    if "criterion_init (materialized_criterion authority item) = Inr c" for item c
  proof -
    have v: "vr_state (frozen.verdict VERIFIER_TYPE sources c) = SATISFIED \<longleftrightarrow>
        (\<exists>e \<in> set evidence. evidence_proves authority item e \<and> ce_state e = ''SATISFIED'')"
      "vr_state (frozen.verdict VERIFIER_TYPE sources c) = UNSATISFIED \<longleftrightarrow>
        (\<exists>e \<in> set evidence. evidence_proves authority item e \<and> ce_state e = ''UNSATISFIED'')"
      by (rule verdict_state [OF that src], simp)+
    then show "vr_state (frozen.verdict VERIFIER_TYPE sources c) = SATISFIED \<longleftrightarrow>
        (\<exists>e \<in> set evidence. evidence_proves authority item e \<and> ce_state e = ''SATISFIED'')" by blast
    show "vr_state (frozen.verdict VERIFIER_TYPE sources c) = UNKNOWN \<longleftrightarrow>
        \<not> (\<exists>e \<in> set evidence. evidence_proves authority item e \<and> ce_state e \<in> {''SATISFIED'', ''UNSATISFIED''})"
      unfolding unknown [of "vr_state _"] v insert_iff empty_iff by blast
  qed
  have "ca_overall_state a = SATISFIED \<longleftrightarrow> (\<forall>item \<in> set (fa_criteria authority). cm_mandatory item \<longrightarrow>
      (\<exists>e \<in> set evidence. evidence_proves authority item e \<and> ce_state e = ''SATISFIED''))"
    unfolding o(1) by (rule list_all2_ball [OF all]) (simp only: sat criterion_facts(4))
  moreover have "ca_overall_state a = UNKNOWN \<longleftrightarrow> (\<exists>item \<in> set (fa_criteria authority). cm_mandatory item \<and>
      \<not> (\<exists>e \<in> set evidence. evidence_proves authority item e \<and> ce_state e \<in> {''SATISFIED'', ''UNSATISFIED''}))"
    unfolding o(2) by (rule list_all2_bex [OF all]) (simp only: unk criterion_facts(4))
  moreover have "derive_execution_obligation policy a = NONE_SATISFIED \<longleftrightarrow> policy = MUTATING \<and> ca_overall_state a = SATISFIED"
    by (cases policy) (simp_all add: obligation_cases derive_execution_obligation_def)
  ultimately show ?thesis unfolding a(2) obligation_cases(3) by simp
qed

section \<open>A released task\<close>

definition ex_authority :: frozen_authority where
  "ex_authority = \<lparr>fa_task_ref = ''t'', fa_snapshot_sha256 = ''s1'', fa_node_set_digest = ''n1'',
     fa_criteria = [\<lparr>cm_criterion_id = ''c1'', cm_verifier_type = VERIFIER_TYPE, cm_authoritative_source_ref = ''src'',
       cm_node_names = [''test_a''], cm_mandatory = True\<rparr>]\<rparr>"

definition ex_unsealed :: criterion_evidence where
  "ex_unsealed = \<lparr>ce_criterion_id = ''c1'', ce_state = ''SATISFIED'', ce_reason_taxonomy = [], ce_authoritative_source_ref = ''src'',
     ce_snapshot_sha256 = ''s1'', ce_node_set_digest = ''n1'', ce_pytest_exit_code = Some 0, ce_stdout_sha256 = [], ce_stderr_sha256 = [],
     ce_command_digest = [], ce_evidence_digest = []\<rparr>"

definition ex_evidence :: criterion_evidence where
  "ex_evidence = ex_unsealed\<lparr>ce_evidence_digest := digest (PyDict (evidence_canonical_projection ex_unsealed))\<rparr>"

lemma ex_evaluates: "\<exists>b. evaluate_contract_completion [''c1''] MUTATING ex_authority [ex_evidence] = Inr b"
proof -
  have strip: "py_strip ''c1'' = ''c1''" "py_strip ''src'' = ''src''" "py_strip VERIFIER_TYPE = VERIFIER_TYPE" "VERIFIER_TYPE \<noteq> []"
    by (simp_all add: py_strip_def py_isspace_def VERIFIER_TYPE_def)
  obtain c where c: "build_completion_criteria ex_authority = Inr [c]" "cn_criterion_id c = ''c1''" "cn_mandatory c"
    by (simp add: build_completion_criteria_def ex_authority_def materialized_criterion_def criterion_init_def strip)
  then have v: "validated_criteria [c] = Inr [c]" by (simp add: validated_criteria_def)
  have src: "authoritative_sources [ex_evidence] = Inr [(''src'', PyDict (evidence_projection ex_evidence))]"
    by (simp add: authoritative_sources_def source_step_def ex_evidence_def ex_unsealed_def)
  have reg: "evaluator_init [(VERIFIER_TYPE, frozen_verifier :: unit verifier)] = Inr [(VERIFIER_TYPE, frozen_verifier)]"
    by (simp add: evaluator_init_def strip)
  obtain a where a: "completion_evaluate [(VERIFIER_TYPE, frozen_verifier)] [c] [(''src'', PyDict (evidence_projection ex_evidence))] () = (Inr a, ())"
    "map rs_criterion_id (ca_criterion_results a) = [''c1'']"
    using frozen.completion_evaluate_pure [OF v, of VERIFIER_TYPE "[(''src'', PyDict (evidence_projection ex_evidence))]" "()"] c(2)
    by (auto simp: criterion_result_of_def)
  show ?thesis
    by (simp add: evaluate_contract_completion_def assess_frozen_completion_def c src reg a) (simp add: ex_authority_def)
qed

theorem frozen_completion_iff_witness:
  "\<exists>b. evaluate_contract_completion [''c1''] MUTATING ex_authority [ex_evidence] = Inr b \<and> ba_execution_obligation b = NONE_SATISFIED"
proof -
  obtain b where b: "evaluate_contract_completion [''c1''] MUTATING ex_authority [ex_evidence] = Inr b" using ex_evaluates by blast
  have same: "evidence_canonical_projection ex_evidence = evidence_canonical_projection ex_unsealed"
    by (simp add: evidence_canonical_projection_def ex_evidence_def)
  have strip: "py_strip ''c1'' = ''c1''" "py_strip ''src'' = ''src''" "py_strip VERIFIER_TYPE = VERIFIER_TYPE"
    by (simp_all add: py_strip_def py_isspace_def VERIFIER_TYPE_def)
  have "evidence_proves ex_authority item ex_evidence \<and> ce_state ex_evidence = ''SATISFIED''" if "item \<in> set (fa_criteria ex_authority)" for item
    unfolding evidence_proves_def same using that by (simp add: ex_authority_def ex_evidence_def ex_unsealed_def strip)
  with frozen_completion_iff [OF b] b show ?thesis by auto
qed

end
