(* ===== verification/Spec2Isabelle.thy ===== *)
theory Spec2Isabelle
  imports Router_Correct Execution_Modes Recovery_Correct Mprf_Runtime Capability_Store Gate_Terminal Turn_Checkpoint
    Task_Queue Exit_Guard Lifecycle_V2 Office_Workflow Office_Governance Completion_Bridge
begin

text \<open>
  A verification library of the Global GPT Harness runtime, the Python code under \<open>src/runtime/\<close>.

  \<^bold>\<open>The program.\<close> The harness runs approved plans by handing tasks to AI providers. Around the processes it starts sits a layer of
  contracts and state machines that decides what may happen: which provider and model gets a request, whether work may be
  resumed on another one after a failure, in which order a Gate's work items are closed, when a capability may be used, when an
  Operator turn may end, which approval covers an action. That layer is deterministic code over dicts, dataclasses and JSON
  files, bound together by SHA-256 digests. It is what this library models.

  \<^bold>\<open>Conventions.\<close> A dataclass is a \<open>record\<close>, its \<open>__post_init__\<close> a function \<open>..._init\<close> that returns the normalised object or the
  exception; a result is \<open>py_exc + 'a\<close> with \<open>Inl\<close> for a raise. Untyped values are \<open>pyval\<close>, dicts association lists in insertion
  order, ints unbounded, strings lists of the characters with code point below 256, which is also the range over which
  \<open>str.strip\<close>, \<open>lower\<close>, \<open>isalnum\<close> and \<open>splitlines\<close> are modelled (of the separators of \<open>splitlines\<close> that JSON leaves unescaped it
  holds U+0085; U+2028 and U+2029 are beyond it). Floats are not values of the model, so the branches of the code that accept a
  float (facts of an event) are left out. Reading the clock,
  \<open>datetime\<close> and callbacks are arguments of the definitions. File locks make an operation one atomic step; where an operation
  writes more than one file, or a process may stop between two writes, the intermediate states are part of the model.

  \<^bold>\<open>The theories, in the order they build on each other.\<close>

  \<^item> \<open>Prelude\<close>: values, exceptions, results, the string and container operations of Python, and the automation for results.
  \<^item> \<open>Sha256\<close>, \<open>Canonical_Json\<close>: the digest of the sources, \<open>lifecycle_binding.canonical_bytes\<close> and \<open>digest\<close>. \<open>dumps_eq_iff\<close>: the
    canonical text determines a value up to tuples and key order, so equal digests mean equal content or a collision.
  \<^item> \<open>Sealing\<close>: the locales \<open>sealed\<close> and \<open>sealed_injective\<close>, the contract of an artifact that carries its own digest, and
    \<open>digest_chain\<close>, the contract of a journal whose lines name the digest of their predecessor. They are interpreted on capability
    records, recovery checkpoints, turn checkpoints and the AI Office journal.
  \<^item> \<open>Provider_Router\<close>, \<open>Router_Correct\<close>, \<open>Execution_Modes\<close> (\<open>orchestrator/provider_router.py\<close>, \<open>execution_modes.py\<close>): snapshots,
    requests, decisions and \<open>route_request\<close>. An eligible decision is backed by the snapshot, routing always returns a decision,
    a reroute never returns to the failed model, the order of the snapshot has no influence.
  \<^item> \<open>Mprf_Contracts\<close>, \<open>Mprf_Lifecycle\<close>, \<open>Mprf_Registry\<close>, \<open>Mprf_Failure\<close>, \<open>Mprf_Checkpoint\<close>, \<open>Mprf_Router_Client\<close>, \<open>Mprf_Recovery\<close>,
    \<open>Mprf_Observability\<close>, \<open>Mprf_Runtime\<close>, with \<open>Versioned_Store\<close> and \<open>Recovery_Correct\<close> (\<open>mprf/\<close>): the multi-provider runtime. Lifecycle
    histories are monotone (locale \<open>versioned_store\<close>), the registry answers by the admissions in force, the event log is
    append-only, can be read as long as no fact contains U+0085, and carries no secrets, a routed provider is admitted and healthy, and a resumed recovery has passed all of
    its stages; the locale \<open>recovery_router\<close> states what recovery relies on when it calls a router and is interpreted on the
    governed router.
  \<^item> \<open>Lifecycle_Binding\<close>, \<open>Gate_Terminal\<close> (\<open>orchestrator/lifecycle_binding.py\<close>, \<open>gate_terminal.py\<close>): bindings, sealed envelopes, and the
    controller that closes a Gate's work items. Every state file it can leave, interrupted calls included, has an initial part
    of the plan completed; one that an interrupted call left never changes again.
  \<^item> \<open>Capability_Lifecycle\<close>, \<open>Capability_Store\<close> (\<open>orchestrator/capability_lifecycle.py\<close>, \<open>capability_lifecycle_store.py\<close>): the state
    machine of a capability and its durable store, which refines it (locale \<open>record_store\<close>).
  \<^item> \<open>Turn_Checkpoint\<close>, \<open>Interaction_Policy\<close>, \<open>Task_Queue\<close>, \<open>Exit_Guard\<close> (\<open>operator_turn_checkpoint.py\<close>, \<open>user_interaction_policy.py\<close>,
    \<open>task_queue.py\<close>, \<open>worker_pool.py\<close>, \<open>retry_policy.py\<close>, \<open>failure_recovery.py\<close>, \<open>operator_turn_budget.py\<close>, \<open>operator_exit_guard.py\<close>): the
    decisions of an Operator turn. Dispatch, retries and the turn budget stay within their limits, checkpoints survive storage,
    approved work is never asked for again, and a turn ends only on one of the named grounds.
  \<^item> \<open>Lifecycle_V2\<close> (\<open>execution_lifecycle_v2.py\<close>): activation-bound lifecycle bindings and authority bundles. A bound job validates,
    and a validated bundle is what the job's own facts give.
  \<^item> \<open>Completion_Contract\<close>, \<open>Completion_Bridge\<close> (\<open>completion_contract.py\<close>, \<open>completion_contract_bridge.py\<close>): when a task counts as done.
    Verifiers are callbacks with state; the locale \<open>pure_verifier\<close> states what the evaluator relies on when a verifier is reproducible and
    is interpreted on the verifier of frozen test evidence. Completion fails closed and is decided by intact evidence alone.
  \<^item> \<open>Office_Contracts\<close>, \<open>Office_Store\<close>, \<open>Office_Run\<close>, \<open>Office_Workflow\<close>, \<open>Office_Governance\<close> (\<open>ai_office/contracts.py\<close>, \<open>state_store.py\<close>,
    \<open>workflow.py\<close>, \<open>governance.py\<close>): the AI Office. Over every run of complete calls without U+0085 in a text, snapshot and journal
    agree and transitions are all or nothing; the journal is tamper evident, a run is complete only after every stage, an action is activated exactly under a fresh approval.

  \<^bold>\<open>Termination and bounds.\<close> No definition needs fuel: every loop of the modelled code runs over a finite list or a value and is a
  structural recursion or a fold. Theorems that something is returned are stated as such.

  \<^bold>\<open>What the model shows to be wrong.\<close> Five theorems state defects: \<open>interrupted_review_is_stuck\<close>, \<open>contract_filename_collision_loses_record\<close>,
  \<open>store_put_rejects_long_ids\<close>, \<open>interrupted_transition_is_final\<close> and \<open>next_line_reference_breaks_run\<close>; \<open>waiting_approval_is_stuck\<close>
  states that the workflow table has no way out of a waiting state. The second case of \<open>event_log_append_only\<close> is the defect of
  \<open>next_line_reference_breaks_run\<close> in the event log, and the lemma \<open>attention_overflow_leaves_guard\<close> states that one attention event with a
  timestamp out of range makes the exit guard raise.

  \<^bold>\<open>Not modelled.\<close> The readers of untyped mappings in \<open>provider_router.py\<close>, the public execution client, the Markdown adapter of
  \<open>execution_lifecycle_v2.py\<close>, the phrase classifier of \<open>user_interaction_policy.py\<close> and the command lines. The supervising code that
  starts processes, works on Git and files, or talks to a network (\<open>production_*\<close>, \<open>gate_orchestrator.py\<close>, \<open>gate_controller.py\<close>,
  \<open>lv_*\<close>, \<open>worker_authority.py\<close>, \<open>execution_contract.py\<close>, \<open>engine.py\<close>, \<open>cli.py\<close>, provider adapters, remote operator and OCP services,
  dashboards, the MCP server), the reporting side of the AI Office, and one-off migrations. Next in line are the approval, continuation
  and recovery contracts (\<open>gate_approval.py\<close>, \<open>canonical_transition.py\<close>, \<open>wait_recovery.py\<close>, \<open>run_supersession.py\<close>, \<open>operator_control.py\<close>).
\<close>

end
